(* ===== verification/Prelude.thy ===== *)
theory Prelude
  imports Main "HOL-Library.Char_ord" "HOL-Library.List_Lexorder" "HOL-Library.Sublist"
begin

text \<open>
  Shared vocabulary of the development: the named theorem collections, the pieces of the
  Python standard library the program uses on strings and dictionaries, and the small
  relational layer (rows, guarded updates, unique keys) over which the SQLite repositories
  are modelled. Timestamps written by the program all come from
  \<open>datetime.now(timezone.utc).isoformat()\<close>, whose text order is the time order; they are
  modelled as integers (microseconds).
\<close>

section \<open>Collections\<close>

named_theorems store_simps \<open>what the operations of the repositories compute\<close>
named_theorems table_laws \<open>lookup laws of the relational layer\<close>
named_theorems py_simps \<open>evaluation rules for the Python primitives\<close>

type_synonym timestamp = int

section \<open>Strings\<close>

text \<open>\<open>str.startswith\<close> and the operator \<open>needle in hay\<close>.\<close>

fun starts_with :: "string \<Rightarrow> string \<Rightarrow> bool" where
  "starts_with s [] = True"
| "starts_with [] (p # ps) = False"
| "starts_with (c # s) (p # ps) = (c = p \<and> starts_with s ps)"

fun str_in :: "string \<Rightarrow> string \<Rightarrow> bool" where
  "str_in needle [] = (needle = [])"
| "str_in needle (c # hay) = (starts_with (c # hay) needle \<or> str_in needle hay)"

text \<open>\<open>str.lower\<close> on the ASCII letters; every other character is kept.\<close>

definition lower_char :: "char \<Rightarrow> char" where
  "lower_char c =
     (if 65 \<le> (of_char c :: nat) \<and> (of_char c :: nat) \<le> 90
      then char_of ((of_char c :: nat) + 32) else c)"

definition lower :: "string \<Rightarrow> string" where
  "lower s = map lower_char s"

text \<open>White space among the ASCII characters, for \<open>str.strip\<close> and \<open>str.split\<close>.\<close>

definition is_space :: "char \<Rightarrow> bool" where
  "is_space c = (c \<in> {CHR '' '', CHR 0x09, CHR 0x0A, CHR 0x0B, CHR 0x0C, CHR 0x0D,
     CHR 0x1C, CHR 0x1D, CHR 0x1E, CHR 0x1F})"

definition strip :: "string \<Rightarrow> string" where
  "strip s = rev (dropWhile is_space (rev (dropWhile is_space s)))"

text \<open>\<open>str.split()\<close>: the maximal runs of non-space characters.\<close>

fun split_acc :: "string \<Rightarrow> string \<Rightarrow> string list" where
  "split_acc acc [] = (if acc = [] then [] else [rev acc])"
| "split_acc acc (c # s) =
     (if is_space c
      then (if acc = [] then split_acc [] s else rev acc # split_acc [] s)
      else split_acc (c # acc) s)"

definition split_ws :: "string \<Rightarrow> string list" where
  "split_ws s = split_acc [] s"

text \<open>\<open>sep.join(xs)\<close>.\<close>

fun join :: "string \<Rightarrow> string list \<Rightarrow> string" where
  "join sep [] = []"
| "join sep [x] = x"
| "join sep (x # y # xs) = x @ sep @ join sep (y # xs)"

text \<open>\<open>s or default\<close> on strings and optional strings.\<close>

definition str_or :: "string \<Rightarrow> string \<Rightarrow> string" where
  "str_or s d = (if s = [] then d else s)"

definition opt_str :: "string option \<Rightarrow> string" where
  "opt_str x = (case x of None \<Rightarrow> [] | Some s \<Rightarrow> s)"

lemma starts_with_iff: "starts_with s p \<longleftrightarrow> (\<exists>r. s = p @ r)"
  by (induction s p rule: starts_with.induct) auto

lemma str_in_iff: "str_in n h \<longleftrightarrow> (\<exists>a b. h = a @ n @ b)"
proof (induction h)
  case Nil
  then show ?case by auto
next
  case (Cons c h)
  have "(\<exists>a b. c # h = a @ n @ b) \<longleftrightarrow> (\<exists>b. c # h = n @ b) \<or> (\<exists>a b. h = a @ n @ b)"
    by (metis append_Cons append_Nil list.sel(3) neq_Nil_conv)
  with Cons show ?case by (simp add: starts_with_iff)
qed

lemma str_in_set: "str_in n h \<Longrightarrow> set n \<subseteq> set h"
  by (auto simp: str_in_iff)

definition is_upper :: "char \<Rightarrow> bool" where
  "is_upper c = (65 \<le> (of_char c :: nat) \<and> (of_char c :: nat) \<le> 90)"

lemma lower_char_not_upper: "\<not> is_upper (lower_char c)"
proof (cases "65 \<le> (of_char c :: nat) \<and> (of_char c :: nat) \<le> 90")
  case True
  then have "(of_char (char_of ((of_char c :: nat) + 32) :: char) :: nat) = (of_char c + 32) mod 256"
    by simp
  with True show ?thesis by (simp add: lower_char_def is_upper_def)
next
  case False
  then show ?thesis by (auto simp: lower_char_def is_upper_def)
qed

lemma lower_no_upper: "c \<in> set (lower s) \<Longrightarrow> \<not> is_upper c"
  by (auto simp: lower_def lower_char_not_upper)

lemma set_strip: "set (strip s) \<subseteq> set s"
proof
  fix c assume "c \<in> set (strip s)"
  then have "c \<in> set (dropWhile is_space s)"
    by (auto simp: strip_def dest: set_dropWhileD)
  then show "c \<in> set s" by (auto dest: set_dropWhileD)
qed

lemma strip_lower_no_upper: "c \<in> set (strip (lower s)) \<Longrightarrow> \<not> is_upper c"
  using set_strip lower_no_upper by blast

text \<open>The line break of the texts the program builds.\<close>

definition nl :: string where
  "nl = [CHR 0x0A]"

section \<open>Dictionaries\<close>

text \<open>
  A \<open>dict\<close> that is iterated is an association list in insertion order: storing to a
  present key keeps its position, storing to a new key appends.
\<close>

fun dict_set :: "'k \<Rightarrow> 'v \<Rightarrow> ('k \<times> 'v) list \<Rightarrow> ('k \<times> 'v) list" where
  "dict_set k v [] = [(k, v)]"
| "dict_set k v ((k', v') # d) = (if k' = k then (k, v) # d else (k', v') # dict_set k v d)"

abbreviation dict_get :: "('k \<times> 'v) list \<Rightarrow> 'k \<Rightarrow> 'v option" where
  "dict_get d k \<equiv> map_of d k"

definition dict_get_or :: "('k \<times> 'v) list \<Rightarrow> 'k \<Rightarrow> 'v \<Rightarrow> 'v" where
  "dict_get_or d k v = (case map_of d k of None \<Rightarrow> v | Some x \<Rightarrow> x)"

definition dict_has :: "('k \<times> 'v) list \<Rightarrow> 'k \<Rightarrow> bool" where
  "dict_has d k = (map_of d k \<noteq> None)"

definition dict_ok :: "('k \<times> 'v) list \<Rightarrow> bool" where
  "dict_ok d = distinct (map fst d)"

text \<open>What a client may rely on: a lookup after a store, and unique keys.\<close>

locale dictionary =
  fixes get :: "'d \<Rightarrow> 'k \<Rightarrow> 'v option"
    and put :: "'k \<Rightarrow> 'v \<Rightarrow> 'd \<Rightarrow> 'd"
    and ok :: "'d \<Rightarrow> bool"
  assumes get_put: "get (put k v d) = (get d)(k := Some v)"
    and ok_put: "ok d \<Longrightarrow> ok (put k v d)"
begin

lemma get_put_same: "get (put k v d) k = Some v"
  by (simp add: get_put)

lemma get_put_other: "k' \<noteq> k \<Longrightarrow> get (put k v d) k' = get d k'"
  by (simp add: get_put)

lemma put_put: "get (put k v (put k w d)) = get (put k v d)"
  by (simp add: get_put)

lemma put_commute: "k \<noteq> j \<Longrightarrow> get (put k v (put j w d)) = get (put j w (put k v d))"
  by (simp add: get_put fun_upd_twist)

end

lemma map_of_dict_set [simp]: "map_of (dict_set k v d) = (map_of d)(k \<mapsto> v)"
  by (induction d) (auto simp: fun_eq_iff)

lemma keys_dict_set: "fst ` set (dict_set k v d) = insert k (fst ` set d)"
proof (induction d)
  case (Cons kv d)
  then show ?case by (cases kv) (auto simp: insert_commute)
qed simp

lemma dict_ok_set: "dict_ok d \<Longrightarrow> dict_ok (dict_set k v d)"
  unfolding dict_ok_def
proof (induction d)
  case (Cons kv d)
  then show ?case
    by (cases kv) (use keys_dict_set [of k v d] in auto)
qed simp

interpretation pydict: dictionary "map_of :: ('k \<times> 'v) list \<Rightarrow> 'k \<Rightarrow> 'v option" dict_set dict_ok
  by unfold_locales (simp_all add: dict_ok_set)

lemma dict_set_entries: "list_all P d \<Longrightarrow> P (k, v) \<Longrightarrow> list_all P (dict_set k v d)"
  by (induction d) auto

text \<open>Removing a key.\<close>

lemma map_of_filter_key:
  "map_of (filter (\<lambda>(k, v). k \<noteq> k0) d) k = (if k = k0 then None else map_of d k)"
  by (induction d) auto

lemma dict_set_length: "length (dict_set k v d) = (if dict_has d k then length d else Suc (length d))"
  by (induction d) (auto simp: dict_has_def)

lemma dict_set_vals: "snd ` set (dict_set k v d) \<subseteq> insert v (snd ` set d)"
proof (induction d)
  case (Cons kv d)
  then show ?case by (cases kv) auto
qed simp

section \<open>Rows and guarded updates\<close>

text \<open>
  A table is the list of its rows. \<open>sql_update p f t\<close> is
  \<open>UPDATE t SET f WHERE p\<close>: the new table and the row count the cursor reports.
  \<open>sql_insert\<close> fails (\<open>None\<close>, SQLite's IntegrityError) when a uniqueness constraint
  relates the new row to a stored one.
\<close>

definition sql_update :: "('r \<Rightarrow> bool) \<Rightarrow> ('r \<Rightarrow> 'r) \<Rightarrow> 'r list \<Rightarrow> 'r list \<times> nat" where
  "sql_update p f t = (map (\<lambda>r. if p r then f r else r) t, length (filter p t))"

definition sql_insert :: "('r \<Rightarrow> 'r \<Rightarrow> bool) \<Rightarrow> 'r \<Rightarrow> 'r list \<Rightarrow> 'r list option" where
  "sql_insert conflict r t = (if list_ex (conflict r) t then None else Some (t @ [r]))"

definition find_row :: "('r \<Rightarrow> 'k) \<Rightarrow> 'k \<Rightarrow> 'r list \<Rightarrow> 'r option" where
  "find_row key k t = List.find (\<lambda>r. key r = k) t"

lemma find_row_Nil [table_laws]: "find_row key k [] = None"
  by (simp add: find_row_def)

lemma find_row_Cons [table_laws]:
  "find_row key k (r # t) = (if key r = k then Some r else find_row key k t)"
  by (simp add: find_row_def)

lemma find_row_Some: "find_row key k t = Some r \<Longrightarrow> r \<in> set t \<and> key r = k"
  by (induction t) (auto simp: find_row_def split: if_splits)

lemma find_row_None: "find_row key k t = None \<longleftrightarrow> k \<notin> key ` set t"
  by (induction t) (auto simp: find_row_def)

lemma find_row_append:
  "find_row key k (t @ u) = (case find_row key k t of None \<Rightarrow> find_row key k u | Some r \<Rightarrow> Some r)"
  by (induction t) (auto simp: find_row_def)

lemma find_row_unique:
  "distinct (map key t) \<Longrightarrow> r \<in> set t \<Longrightarrow> find_row key (key r) t = Some r"
  by (induction t) (auto simp: find_row_def)

lemma find_row_map:
  "(\<And>r. key (f r) = key r) \<Longrightarrow> find_row key k (map f t) = map_option f (find_row key k t)"
  by (induction t) (auto simp: find_row_def)

lemma filter_key_count:
  assumes "distinct (map key t)" and "\<And>r. p r \<Longrightarrow> key r = k"
  shows "length (filter p t) = (case find_row key k t of None \<Rightarrow> 0 | Some r \<Rightarrow> if p r then 1 else 0)"
  using assms
proof (induction t)
  case (Cons a t)
  show ?case
  proof (cases "key a = k")
    case True
    from Cons.prems(1) have "key a \<notin> key ` set t" by simp
    with True have "\<forall>r \<in> set t. key r \<noteq> k" by (metis imageI)
    with Cons.prems(2) have "filter p t = []" by (auto simp: filter_empty_conv)
    with True show ?thesis by (simp add: find_row_def)
  next
    case False
    with Cons.prems(2) have "\<not> p a" by auto
    with False Cons show ?thesis by (simp add: find_row_def)
  qed
qed (simp add: find_row_def)

text \<open>
  The interface behind every conditional \<open>UPDATE\<close> of the repositories. The statement
  selects rows of one key, keeps that key, and leaves a row it changed outside its own
  \<open>WHERE\<close> clause: a compare-and-set, which only one of several callers wins.
\<close>

locale guarded_update =
  fixes key :: "'r \<Rightarrow> 'k" and k :: 'k and guard :: "'r \<Rightarrow> bool" and upd :: "'r \<Rightarrow> 'r"
  assumes key_upd: "key (upd r) = key r"
    and guard_key: "guard r \<Longrightarrow> key r = k"
begin

lemma find_same:
  "find_row key k (fst (sql_update guard upd t)) =
     map_option (\<lambda>r. if guard r then upd r else r) (find_row key k t)"
  by (simp add: sql_update_def find_row_map key_upd)

lemma find_other:
  assumes "j \<noteq> k"
  shows "find_row key j (fst (sql_update guard upd t)) = find_row key j t"
proof -
  have "find_row key j (fst (sql_update guard upd t)) =
      map_option (\<lambda>r. if guard r then upd r else r) (find_row key j t)"
    by (simp add: sql_update_def find_row_map key_upd)
  also have "\<dots> = find_row key j t"
    using assms guard_key by (cases "find_row key j t") (auto dest!: find_row_Some)
  finally show ?thesis .
qed

lemma keys_kept: "map key (fst (sql_update guard upd t)) = map key t"
  by (simp add: sql_update_def key_upd)

lemma rowcount:
  "distinct (map key t) \<Longrightarrow>
     snd (sql_update guard upd t) =
       (case find_row key k t of None \<Rightarrow> 0 | Some r \<Rightarrow> if guard r then 1 else 0)"
  by (simp add: sql_update_def filter_key_count guard_key)

lemma rowcount_one:
  "distinct (map key t) \<Longrightarrow>
     (snd (sql_update guard upd t) = 1) = (\<exists>r. find_row key k t = Some r \<and> guard r)"
  by (auto simp: rowcount split: option.splits)

lemma missed:
  assumes "distinct (map key t)" and "snd (sql_update guard upd t) \<noteq> 1"
  shows "fst (sql_update guard upd t) = t"
proof -
  have "\<not> guard r" if "r \<in> set t" for r
    using that assms rowcount_one [OF assms(1)] find_row_unique [OF assms(1) that] guard_key by force
  then show ?thesis by (simp add: sql_update_def map_idI)
qed

end

locale compare_and_set = guarded_update +
  assumes disarms: "\<And>r. guard r \<Longrightarrow> \<not> guard (upd r)"
begin

lemma second_misses: "snd (sql_update guard upd (fst (sql_update guard upd t))) = 0"
  by (auto simp: sql_update_def filter_empty_conv disarms)

end

section \<open>Histories with one winner\<close>

text \<open>
  A store serves a sequence of calls, from any clients in any interleaving, each reporting
  success or not. When a rank of the stored object never decreases, and the calls of one
  kind succeed only at one level, which they leave, then at most one such call succeeds in
  the whole history.
\<close>

fun run_steps :: "('op \<Rightarrow> 's \<Rightarrow> 'r \<times> 's) \<Rightarrow> 'op list \<Rightarrow> 's \<Rightarrow> ('op \<times> 'r) list \<times> 's" where
  "run_steps step [] s = ([], s)"
| "run_steps step (c # cs) s =
     (let (ok, s1) = step c s; (rs, s2) = run_steps step cs s1 in ((c, ok) # rs, s2))"

definition wins :: "('op \<Rightarrow> bool) \<Rightarrow> ('op \<times> bool) list \<Rightarrow> nat" where
  "wins claim rs = length (filter (\<lambda>(c, ok). claim c \<and> ok) rs)"

text \<open>A workflow acts on a store through some sequence of its calls.\<close>

definition reaches :: "('op \<Rightarrow> 's \<Rightarrow> 'r \<times> 's) \<Rightarrow> 's \<Rightarrow> 's \<Rightarrow> bool" where
  "reaches step s t = (\<exists>cs. t = snd (run_steps step cs s))"

lemma run_steps_append:
  "snd (run_steps step (cs @ ds) s) = snd (run_steps step ds (snd (run_steps step cs s)))"
  by (induction cs arbitrary: s) (simp_all add: case_prod_beta Let_def)

lemma reaches_refl [simp, intro]: "reaches step s s"
  unfolding reaches_def by (rule exI [of _ "[]"]) simp

lemma reaches_trans: "reaches step s t \<Longrightarrow> reaches step t u \<Longrightarrow> reaches step s u"
  unfolding reaches_def by (metis run_steps_append)

lemma reaches_step: "reaches step s t \<Longrightarrow> reaches step s (snd (step c t))"
proof (erule reaches_trans)
  show "reaches step t (snd (step c t))"
    unfolding reaches_def by (rule exI [of _ "[c]"]) (simp add: case_prod_beta Let_def)
qed

locale monotone_store =
  fixes step :: "'op \<Rightarrow> 's \<Rightarrow> bool \<times> 's" and inv :: "'s \<Rightarrow> bool" and rank :: "'s \<Rightarrow> int"
  assumes inv_step: "inv s \<Longrightarrow> inv (snd (step c s))"
    and rank_step: "inv s \<Longrightarrow> rank s \<le> rank (snd (step c s))"
begin

lemma inv_run: "inv s \<Longrightarrow> inv (snd (run_steps step cs s))"
  by (induction cs arbitrary: s) (auto simp: case_prod_beta Let_def inv_step)

lemma rank_run: "inv s \<Longrightarrow> rank s \<le> rank (snd (run_steps step cs s))"
proof (induction cs arbitrary: s)
  case (Cons c cs)
  then show ?case using Cons.IH [of "snd (step c s)"] rank_step [of s c]
    by (auto simp: case_prod_beta Let_def inv_step intro: order_trans)
qed simp

lemma inv_reaches: "reaches step s t \<Longrightarrow> inv s \<Longrightarrow> inv t"
  using inv_run by (auto simp: reaches_def)

lemma rank_reaches: "reaches step s t \<Longrightarrow> inv s \<Longrightarrow> rank s \<le> rank t"
  using rank_run by (auto simp: reaches_def)

end

locale one_winner = monotone_store +
  fixes claim :: "'op \<Rightarrow> bool" and level :: int
  assumes claim_level: "inv s \<Longrightarrow> claim c \<Longrightarrow> fst (step c s) \<Longrightarrow> rank s = level \<and> level < rank (snd (step c s))"
begin

lemma past_level: "inv s \<Longrightarrow> level < rank s \<Longrightarrow> wins claim (fst (run_steps step cs s)) = 0"
proof (induction cs arbitrary: s)
  case (Cons c cs)
  then show ?case using Cons.IH [of "snd (step c s)"] rank_step [of s c] claim_level [of s c]
    by (auto simp: case_prod_beta Let_def inv_step wins_def)
qed (simp add: wins_def)

lemma at_most_one_win: "inv s \<Longrightarrow> wins claim (fst (run_steps step cs s)) \<le> 1"
proof (induction cs arbitrary: s)
  case (Cons c cs)
  show ?case
  proof (cases "claim c \<and> fst (step c s)")
    case True
    then have "wins claim (fst (run_steps step cs (snd (step c s)))) = 0"
      using claim_level [of s c] Cons.prems by (intro past_level) (auto simp: inv_step)
    with True show ?thesis by (auto simp: case_prod_beta Let_def wins_def)
  next
    case False
    then show ?thesis using Cons.IH [of "snd (step c s)"] Cons.prems
      by (auto simp: case_prod_beta Let_def wins_def inv_step)
  qed
qed (simp add: wins_def)

end

text \<open>
  Refinement of a specification by a component whose operations are functions: the
  abstraction of every state the component reaches answers every call as the component
  does and moves to the abstraction of the component's next state. Then both give the same
  answers to every sequence of calls.
\<close>

locale simulates =
  fixes cstep :: "'op \<Rightarrow> 's \<Rightarrow> 'r \<times> 's" and astep :: "'op \<Rightarrow> 'a \<Rightarrow> 'r \<times> 'a"
    and inv :: "'s \<Rightarrow> bool" and abs_of :: "'s \<Rightarrow> 'a"
  assumes sim_inv: "inv s \<Longrightarrow> inv (snd (cstep c s))"
    and sim_step: "inv s \<Longrightarrow> astep c (abs_of s) = (fst (cstep c s), abs_of (snd (cstep c s)))"
begin

lemma inv_kept: "inv s \<Longrightarrow> inv (snd (run_steps cstep cs s))"
  by (induction cs arbitrary: s) (simp_all add: case_prod_beta Let_def sim_inv)

lemma sim_run:
  "inv s \<Longrightarrow> run_steps astep cs (abs_of s) =
     (fst (run_steps cstep cs s), abs_of (snd (run_steps cstep cs s)))"
  by (induction cs arbitrary: s) (simp_all add: case_prod_beta Let_def sim_inv sim_step)

lemma same_answers:
  "inv s \<Longrightarrow> fst (run_steps cstep cs s) = fst (run_steps astep cs (abs_of s))"
  by (simp add: sim_run)

end

lemma dict_set_new: "map_of d k = None \<Longrightarrow> dict_set k v d = d @ [(k, v)]"
  by (induction d) auto

lemma dict_set_get_or: "dict_get_or (dict_set k v d) k' x = (if k' = k then v else dict_get_or d k' x)"
  by (simp add: dict_get_or_def map_of_dict_set)

end
