(* ===== verification/Pyfloat.thy ===== *)
theory Pyfloat
  imports Complex_Main "HOL-Library.Log_Nat" Prelude
begin

text \<open>
  Python's \<open>float\<close>: IEEE 754 binary64 with round-to-nearest-even. A finite value is the
  rational it denotes; infinities carry their sign; the sign of zero, which no operation
  of the program observes, is not represented. Comparisons with NaN are all false.
\<close>

datatype pyfloat = Fin rat | PInf bool | NaN

text \<open>\<open>dbl_exp q\<close> is the binary exponent of \<open>q\<close>, \<open>half_even\<close> rounds to the nearest
  integer, ties to even.\<close>

definition dbl_exp :: "rat \<Rightarrow> int" where
  "dbl_exp q = (let (a, b) = quotient_of \<bar>q\<bar>; e = bitlen a - bitlen b
     in if 2 powi e \<le> \<bar>q\<bar> then e else e - 1)"

definition half_even :: "rat \<Rightarrow> int" where
  "half_even x = (let f = \<lfloor>x\<rfloor>; d = x - of_int f in
     if d < 1 / 2 then f else if 1 / 2 < d then f + 1 else if even f then f else f + 1)"

definition round_double :: "rat \<Rightarrow> pyfloat" where
  "round_double q =
     (if q = 0 then Fin 0
      else let s = max (dbl_exp q - 52) (-1074);
               v = of_int (half_even (q / 2 powi s)) * 2 powi s
           in if 2 ^ 1024 \<le> \<bar>v\<bar> then PInf (v < 0) else Fin v)"

fun fsub :: "pyfloat \<Rightarrow> pyfloat \<Rightarrow> pyfloat" where
  "fsub (Fin a) (Fin b) = round_double (a - b)"
| "fsub NaN y = NaN"
| "fsub x NaN = NaN"
| "fsub (PInf s) (PInf t) = (if s = t then NaN else PInf s)"
| "fsub (PInf s) (Fin b) = PInf s"
| "fsub (Fin a) (PInf t) = PInf (\<not> t)"

fun fneg :: "pyfloat \<Rightarrow> pyfloat" where
  "fneg (Fin a) = Fin (- a)"
| "fneg (PInf s) = PInf (\<not> s)"
| "fneg NaN = NaN"

fun fadd :: "pyfloat \<Rightarrow> pyfloat \<Rightarrow> pyfloat" where
  "fadd x y = fsub x (fneg y)"

fun fmul :: "pyfloat \<Rightarrow> pyfloat \<Rightarrow> pyfloat" where
  "fmul (Fin a) (Fin b) = round_double (a * b)"
| "fmul NaN y = NaN"
| "fmul x NaN = NaN"
| "fmul (PInf s) (PInf t) = PInf (s \<noteq> t)"
| "fmul (PInf s) (Fin b) = (if b = 0 then NaN else PInf (s \<noteq> (b < 0)))"
| "fmul (Fin a) (PInf t) = (if a = 0 then NaN else PInf (t \<noteq> (a < 0)))"

fun fless :: "pyfloat \<Rightarrow> pyfloat \<Rightarrow> bool" where
  "fless (Fin a) (Fin b) = (a < b)"
| "fless NaN y = False"
| "fless x NaN = False"
| "fless (PInf s) (PInf t) = (s \<and> \<not> t)"
| "fless (PInf s) (Fin b) = s"
| "fless (Fin a) (PInf t) = (\<not> t)"

fun fle :: "pyfloat \<Rightarrow> pyfloat \<Rightarrow> bool" where
  "fle (Fin a) (Fin b) = (a \<le> b)"
| "fle NaN y = False"
| "fle x NaN = False"
| "fle (PInf s) (PInf t) = (s \<or> \<not> t)"
| "fle (PInf s) (Fin b) = s"
| "fle (Fin a) (PInf t) = (\<not> t)"

lemma half_even_int [simp]: "half_even (of_int n) = n"
  by (simp add: half_even_def)

lemma half_even_nonneg: "0 \<le> x \<Longrightarrow> 0 \<le> half_even x"
  by (simp add: half_even_def Let_def)

lemma half_even_mono_bound: "x \<le> of_int n \<Longrightarrow> half_even x \<le> n"
proof -
  assume "x \<le> of_int n"
  then consider "x = of_int n" | "\<lfloor>x\<rfloor> + 1 \<le> n" by linarith
  then show ?thesis by cases (auto simp: half_even_def Let_def)
qed

lemma round_double_nonneg:
  assumes "0 \<le> q" and "round_double q = Fin r"
  shows "0 \<le> r"
proof (cases "q = 0")
  case False
  have "0 \<le> half_even (q / 2 powi max (dbl_exp q - 52) (-1074))"
    using assms(1) by (intro half_even_nonneg) simp
  with False assms(2) show ?thesis
    by (auto simp: round_double_def Let_def split: if_splits)
qed (use assms in \<open>simp add: round_double_def\<close>)

lemma round_double_not_nan [simp]: "round_double q \<noteq> NaN"
  by (simp add: round_double_def Let_def)

lemma round_double_not_neg_inf: "0 \<le> q \<Longrightarrow> round_double q \<noteq> PInf True"
proof (cases "q = 0")
  case False
  assume "0 \<le> q"
  then have "0 \<le> half_even (q / 2 powi max (dbl_exp q - 52) (-1074))"
    by (intro half_even_nonneg) simp
  then have "0 \<le> rat_of_int (half_even (q / 2 powi max (dbl_exp q - 52) (-1074))) *
      2 powi max (dbl_exp q - 52) (-1074)"
    by simp
  then show ?thesis by (auto simp: round_double_def Let_def not_less)
qed (simp add: round_double_def)

lemma dbl_exp_int_le: "\<bar>n\<bar> < 2 ^ 53 \<Longrightarrow> dbl_exp (of_int n) \<le> 52"
proof -
  assume n: "\<bar>n\<bar> < 2 ^ 53"
  have q: "quotient_of \<bar>rat_of_int n\<bar> = (\<bar>n\<bar>, 1)"
    using quotient_of_int [of "\<bar>n\<bar>"] by (simp only: Rat.of_int_def of_int_abs)
  have b: "bitlen \<bar>n\<bar> \<le> 53"
    using n bitlen_le_iff_power [of "\<bar>n\<bar>" 53] by (simp only: nat_numeral) simp
  have one: "bitlen 1 = (1 :: int)" by (simp add: bitlen_alt_def)
  show ?thesis
  proof (cases "2 powi (bitlen \<bar>n\<bar> - bitlen 1) \<le> \<bar>rat_of_int n\<bar>")
    case True
    then show ?thesis using b unfolding dbl_exp_def q Let_def prod.case one by simp
  next
    case False
    then show ?thesis using b unfolding dbl_exp_def q Let_def prod.case one by simp
  qed
qed

text \<open>Integers below \<open>2 ^ 53\<close> are exact, so whole amounts are computed exactly.\<close>

lemma round_double_int:
  assumes "\<bar>n\<bar> < 2 ^ 53"
  shows "round_double (of_int n) = Fin (of_int n)"
proof (cases "n = 0")
  case False
  define s where "s = max (dbl_exp (of_int n) - 52) (-1074 :: int)"
  from dbl_exp_int_le [OF assms] have "s \<le> 0" by (simp add: s_def)
  then have p: "(2 :: rat) powi s = 1 / 2 ^ nat (- s)"
    by (simp add: power_int_def field_simps)
  have "rat_of_int n / 2 powi s = of_int (n * 2 ^ nat (- s))"
    by (simp add: p)
  then have "of_int (half_even (rat_of_int n / 2 powi s)) * 2 powi s = rat_of_int n"
    by (simp only: half_even_int) (simp add: p)
  moreover have "\<bar>rat_of_int n\<bar> < 2 ^ 1024"
  proof -
    have "\<bar>n\<bar> < 2 ^ 1024"
      using assms power_strict_increasing [of 53 1024 "2 :: int"] by linarith
    then have "rat_of_int \<bar>n\<bar> < rat_of_int (2 ^ 1024)" by (simp only: of_int_less_iff)
    then show ?thesis by simp
  qed
  ultimately show ?thesis using False
    by (simp add: round_double_def Let_def flip: s_def)
qed (simp add: round_double_def)

lemma round_double_numeral:
  "numeral k < (2 :: int) ^ 53 \<Longrightarrow> round_double (numeral k) = Fin (numeral k)"
  using round_double_int [of "numeral k"] by simp

text \<open>Rounding is monotone on the non-negative numbers, so differences of clock readings compare as
  the readings do.\<close>

lemma half_even_mono: "x \<le> y \<Longrightarrow> half_even x \<le> half_even y"
proof -
  assume xy: "x \<le> y"
  then have f: "\<lfloor>x\<rfloor> \<le> \<lfloor>y\<rfloor>" by (rule floor_mono)
  have b: "\<lfloor>z\<rfloor> \<le> half_even z" "half_even z \<le> \<lfloor>z\<rfloor> + 1" for z
    by (simp_all add: half_even_def Let_def)
  show ?thesis
  proof (cases "\<lfloor>x\<rfloor> = \<lfloor>y\<rfloor>")
    case True
    with xy show ?thesis by (auto simp: half_even_def Let_def)
  next
    case False
    with f b(2) [of x] b(1) [of y] show ?thesis by linarith
  qed
qed

lemma powi_of_int: "0 \<le> n \<Longrightarrow> (2 :: rat) powi n = of_int (2 ^ nat n)"
  by (simp add: power_int_def)

lemma dbl_exp_bounds:
  assumes "0 < q"
  shows "2 powi dbl_exp q \<le> q" "q < 2 powi (dbl_exp q + 1)"
proof -
  obtain a b where ab: "quotient_of q = (a, b)" by fastforce
  have b: "0 < b" using ab by (rule quotient_of_denom_pos)
  have q: "q = of_int a / of_int b" using ab by (rule quotient_of_div)
  with assms b have a: "0 < a" by (simp add: zero_less_divide_iff)
  let ?ka = "bitlen a" and ?kb = "bitlen b"
  have pos: "1 \<le> ?ka" "1 \<le> ?kb" using a b by (simp_all add: bitlen_alt_def)
  have A: "2 powi (?ka - 1) \<le> rat_of_int a" "rat_of_int a < 2 powi ?ka"
    using bitlen_bounds [OF a] pos(1) by (simp_all only: powi_of_int of_int_le_iff of_int_less_iff)
  have B: "2 powi (?kb - 1) \<le> rat_of_int b" "rat_of_int b < 2 powi ?kb"
    using bitlen_bounds [OF b] pos(2) by (simp_all only: powi_of_int of_int_le_iff of_int_less_iff)
  have lo: "2 powi (?ka - ?kb - 1) \<le> q"
  proof -
    have "2 powi (?ka - ?kb - 1) = 2 powi (?ka - 1) / (2 powi ?kb :: rat)" by (simp add: power_int_diff)
    also have "\<dots> \<le> of_int a / of_int b" using A B a b by (intro frac_le) auto
    finally show ?thesis by (simp add: q)
  qed
  have hi: "q < 2 powi (?ka - ?kb + 1)"
  proof -
    have "of_int a / of_int b < 2 powi ?ka / (2 powi (?kb - 1) :: rat)"
      using A B b a by (intro frac_less) auto
    also have "\<dots> = 2 powi (?ka - ?kb + 1)" by (simp add: power_int_diff power_int_add)
    finally show ?thesis by (simp add: q)
  qed
  have "\<bar>q\<bar> = q" using assms by simp
  then have e: "dbl_exp q = (if 2 powi (?ka - ?kb) \<le> q then ?ka - ?kb else ?ka - ?kb - 1)"
    by (simp add: dbl_exp_def ab Let_def)
  show "2 powi dbl_exp q \<le> q" "q < 2 powi (dbl_exp q + 1)"
    using lo hi by (auto simp: e)
qed

lemma dbl_exp_mono: "0 < x \<Longrightarrow> x \<le> y \<Longrightarrow> dbl_exp x \<le> dbl_exp y"
proof (rule ccontr)
  assume x: "0 < x" "x \<le> y" and "\<not> dbl_exp x \<le> dbl_exp y"
  then have "(2 :: rat) powi (dbl_exp y + 1) \<le> 2 powi dbl_exp x" by (intro power_int_increasing) auto
  with dbl_exp_bounds(1) [of x] dbl_exp_bounds(2) [of y] x show False by auto
qed

definition dbl_value :: "rat \<Rightarrow> rat" where
  "dbl_value q = (let s = max (dbl_exp q - 52) (-1074) in of_int (half_even (q / 2 powi s)) * 2 powi s)"

lemma dbl_value_mono:
  assumes "0 < x" "x \<le> y"
  shows "dbl_value x \<le> dbl_value y"
proof -
  define s where "s q = max (dbl_exp q - 52) (-1074 :: int)" for q
  have v: "dbl_value q = of_int (half_even (q / 2 powi s q)) * 2 powi s q" for q
    by (simp add: dbl_value_def s_def Let_def)
  have e: "dbl_exp x \<le> dbl_exp y" by (rule dbl_exp_mono [OF assms])
  show ?thesis
  proof (cases "s x = s y")
    case True
    have "half_even (x / 2 powi s y) \<le> half_even (y / 2 powi s y)"
      using assms by (intro half_even_mono divide_right_mono) auto
    then show ?thesis by (simp add: v True)
  next
    case False
    with e have sy: "s y = dbl_exp y - 52" "dbl_exp x < dbl_exp y" "s x < s y" by (auto simp: s_def)
    have split: "(2 :: rat) powi dbl_exp y = of_int (2 ^ nat (dbl_exp y - t)) * 2 powi t" if "t \<le> dbl_exp y" for t
      using that power_int_add [of "2 :: rat" "dbl_exp y - t" t] powi_of_int [of "dbl_exp y - t"] by simp
    have px: "(2 :: rat) powi dbl_exp y = of_int (2 ^ nat (dbl_exp y - s x)) * 2 powi s x" and
      py: "(2 :: rat) powi dbl_exp y = of_int (2 ^ nat (dbl_exp y - s y)) * 2 powi s y"
      using sy by (intro split; linarith)+
    have "x \<le> 2 powi dbl_exp y"
      using dbl_exp_bounds(2) [OF assms(1)] sy(2) power_int_increasing [of "dbl_exp x + 1" "dbl_exp y" "2 :: rat"] by auto
    then have "x / 2 powi s x \<le> of_int (2 ^ nat (dbl_exp y - s x))" unfolding px by (simp add: divide_le_eq)
    then have "half_even (x / 2 powi s x) \<le> 2 ^ nat (dbl_exp y - s x)" by (rule half_even_mono_bound)
    then have "dbl_value x \<le> 2 powi dbl_exp y" unfolding v px by (intro mult_right_mono) (simp_all only: of_int_le_iff, simp)
    moreover have "of_int (2 ^ nat (dbl_exp y - s y)) \<le> y / 2 powi s y"
      using dbl_exp_bounds(1) [of y] assms unfolding py by (simp add: le_divide_eq)
    then have "2 ^ nat (dbl_exp y - s y) \<le> half_even (y / 2 powi s y)"
      using half_even_mono [of "of_int (2 ^ nat (dbl_exp y - s y))" "y / 2 powi s y"] by (simp only: half_even_int)
    then have "2 powi dbl_exp y \<le> dbl_value y" unfolding v py by (intro mult_right_mono) (simp_all only: of_int_le_iff, simp)
    ultimately show ?thesis by linarith
  qed
qed

lemma round_double_value:
  "q \<noteq> 0 \<Longrightarrow> round_double q = (if 2 ^ 1024 \<le> \<bar>dbl_value q\<bar> then PInf (dbl_value q < 0) else Fin (dbl_value q))"
  by (simp add: round_double_def dbl_value_def Let_def)

lemma dbl_value_nonneg: "0 \<le> q \<Longrightarrow> 0 \<le> dbl_value q"
  using half_even_nonneg by (simp add: dbl_value_def Let_def)

lemma round_double_mono:
  assumes "0 \<le> x" "x \<le> y"
  shows "fle (round_double x) (round_double y)"
proof (cases "x = 0")
  case True
  then show ?thesis using round_double_nonneg [of y] round_double_not_neg_inf [of y] assms
    by (cases "round_double y") (auto simp: round_double_def [of 0])
next
  case False
  with assms have "0 < x" "0 < y" by auto
  then have "0 \<le> dbl_value x" "dbl_value x \<le> dbl_value y" "0 \<le> dbl_value y"
    using assms dbl_value_mono dbl_value_nonneg by auto
  with \<open>0 < x\<close> \<open>0 < y\<close> show ?thesis by (auto simp: round_double_value)
qed

lemma fsub_nan [simp]: "fsub x NaN = NaN"
  by (cases x) auto

lemma fless_nan [simp]: "\<not> fless x NaN"
  by (cases x) auto

lemma fle_nan [simp]: "\<not> fle x NaN"
  by (cases x) auto

lemma fsub_nonneg:
  assumes "fle (Fin 0) b" and "\<not> fless b a" and "fless (Fin 0) a"
    and "a \<noteq> NaN" and "b = Fin x"
  shows "fle (Fin 0) (fsub b a)"
proof -
  obtain y where y: "a = Fin y" using assms by (cases a) auto
  with assms have "0 \<le> x - y" by simp
  then show ?thesis
    using round_double_nonneg [of "x - y"] round_double_not_neg_inf [of "x - y"] y assms(5)
    by (cases "round_double (x - y)") auto
qed

lemma fle_not_less: "fle a b \<Longrightarrow> \<not> fless a w \<Longrightarrow> \<not> fless b w"
  by (cases a; cases b; cases w) auto

lemma elapsed_mono:
  "t \<le> s \<Longrightarrow> s \<le> now \<Longrightarrow> fless (fsub (Fin now) (Fin t)) w \<Longrightarrow> fless (fsub (Fin s) (Fin t)) w"
  using fle_not_less [OF round_double_mono [of "s - t" "now - t"]] by auto

end
