(* ===== verification/Json.thy ===== *)
theory Json
  imports Pyfloat
begin

text \<open>
  The JSON values that travel between the language model, the graph, the tools and the
  repositories, with Python's operations on them: truthiness, dictionary keys, subscripts,
  \<open>float(x)\<close>. Raised exceptions are the values of \<open>pyexn\<close>; a fallible operation
  returns \<open>pyexn + 'a\<close>. \<open>pylib\<close> collects the text conversions of the standard library
  whose exact output no branch of the program depends on: they are a parameter.
\<close>

datatype json =
    JNull
  | JBool bool
  | JInt int
  | JFloat pyfloat
  | JStr string
  | JArr "json list"
  | JObj "(string \<times> json) list"

type_synonym kwargs = "(string \<times> json) list"

datatype pyexn =
    KeyError string
  | TypeError string
  | ValueError string
  | OverflowError string
  | RuntimeError string
  | PermissionError string
  | OtherError string

definition quoted :: "string \<Rightarrow> string" where
  "quoted s = CHR 0x27 # s @ [CHR 0x27]"

text \<open>\<open>str(exc)\<close>: a \<open>KeyError\<close> shows its key quoted.\<close>

fun exn_text :: "pyexn \<Rightarrow> string" where
  "exn_text (KeyError k) = quoted k"
| "exn_text (TypeError s) = s"
| "exn_text (ValueError s) = s"
| "exn_text (OverflowError s) = s"
| "exn_text (RuntimeError s) = s"
| "exn_text (PermissionError s) = s"
| "exn_text (OtherError s) = s"

record pylib =
  pl_iso :: "timestamp \<Rightarrow> string"
  pl_str :: "json \<Rightarrow> string"
  pl_parse_float :: "string \<Rightarrow> pyfloat option"
  pl_dumps :: "json \<Rightarrow> string"

definition bindE :: "'e + 'a \<Rightarrow> ('a \<Rightarrow> 'e + 'b) \<Rightarrow> 'e + 'b" where
  "bindE m f = (case m of Inl e \<Rightarrow> Inl e | Inr x \<Rightarrow> f x)"

lemma bindE_simps [simp]: "bindE (Inl e) f = Inl e" "bindE (Inr x) f = f x"
  by (simp_all add: bindE_def)

lemma bindE_Inr: "bindE m f = Inr y \<longleftrightarrow> (\<exists>x. m = Inr x \<and> f x = Inr y)"
  by (cases m) auto

section \<open>Truthiness, keys and subscripts\<close>

fun truthy :: "json \<Rightarrow> bool" where
  "truthy JNull = False"
| "truthy (JBool b) = b"
| "truthy (JInt n) = (n \<noteq> 0)"
| "truthy (JFloat f) = (f \<noteq> Fin 0)"
| "truthy (JStr s) = (s \<noteq> [])"
| "truthy (JArr xs) = (xs \<noteq> [])"
| "truthy (JObj kvs) = (kvs \<noteq> [])"

definition json_or :: "json \<Rightarrow> json \<Rightarrow> json" where
  "json_or x d = (if truthy x then x else d)"

text \<open>
  The key under which a value is hashed: lists and dictionaries are unhashable, and
  \<open>True\<close>, \<open>1\<close> and \<open>1.0\<close> are one key.
\<close>

fun hash_key :: "json \<Rightarrow> pyexn + json" where
  "hash_key (JArr xs) = Inl (TypeError (''unhashable type: '' @ quoted ''list''))"
| "hash_key (JObj kvs) = Inl (TypeError (''unhashable type: '' @ quoted ''dict''))"
| "hash_key (JBool b) = Inr (JInt (if b then 1 else 0))"
| "hash_key (JFloat (Fin q)) = Inr (if of_int \<lfloor>q\<rfloor> = q then JInt \<lfloor>q\<rfloor> else JFloat (Fin q))"
| "hash_key x = Inr x"

text \<open>\<open>d.get(k)\<close> on a dictionary with string keys, for any JSON value \<open>k\<close>.\<close>

definition get_by :: "json \<Rightarrow> (string \<times> 'v) list \<Rightarrow> pyexn + 'v option" where
  "get_by k d = bindE (hash_key k) (\<lambda>h. Inr (case h of JStr s \<Rightarrow> map_of d s | _ \<Rightarrow> None))"

lemma get_by_str [simp]: "get_by (JStr s) d = Inr (map_of d s)"
  by (simp add: get_by_def)

lemma get_by_found: "get_by k d = Inr (Some v) \<Longrightarrow> \<exists>s. k = JStr s \<and> map_of d s = Some v"
  by (cases k rule: hash_key.cases) (auto simp: get_by_def split: if_splits)

text \<open>\<open>args[k]\<close> and \<open>args.get(k, d)\<close> on a dictionary of arguments.\<close>

definition subscript :: "kwargs \<Rightarrow> string \<Rightarrow> pyexn + json" where
  "subscript args k = (case map_of args k of None \<Rightarrow> Inl (KeyError k) | Some v \<Rightarrow> Inr v)"

text \<open>
  The same operations on a value that need not be a dictionary, as they meet the values a
  remote service sends: \<open>x.get(k, d)\<close>, \<open>k in x\<close>, \<open>x[i]\<close>, \<open>x[k]\<close> and iteration.
\<close>

definition no_attribute :: "string \<Rightarrow> pyexn" where
  "no_attribute a = OtherError (''object has no attribute '' @ quoted a)"

fun py_get :: "json \<Rightarrow> string \<Rightarrow> json \<Rightarrow> pyexn + json" where
  "py_get (JObj kvs) k d = Inr (dict_get_or kvs k d)"
| "py_get x k d = Inl (no_attribute ''get'')"

fun py_contains :: "string \<Rightarrow> json \<Rightarrow> pyexn + bool" where
  "py_contains k (JObj kvs) = Inr (dict_has kvs k)"
| "py_contains k (JArr xs) = Inr (JStr k \<in> set xs)"
| "py_contains k (JStr s) = Inr (str_in k s)"
| "py_contains k x = Inl (TypeError ''argument is not iterable'')"

definition py_nth :: "nat \<Rightarrow> json \<Rightarrow> pyexn + json" where
  "py_nth i x = (case x of
     JArr xs \<Rightarrow> if i < length xs then Inr (xs ! i) else Inl (OtherError ''list index out of range'')
   | JStr s \<Rightarrow> if i < length s then Inr (JStr [s ! i]) else Inl (OtherError ''string index out of range'')
   | JObj kvs \<Rightarrow> Inl (KeyError (if i = 0 then ''0'' else ''1''))
   | _ \<Rightarrow> Inl (TypeError ''object is not subscriptable''))"

fun py_subscript :: "json \<Rightarrow> string \<Rightarrow> pyexn + json" where
  "py_subscript (JObj kvs) k = subscript kvs k"
| "py_subscript x k = Inl (TypeError ''indices must be integers or object is not subscriptable'')"

fun py_iter :: "json \<Rightarrow> pyexn + json list" where
  "py_iter (JArr xs) = Inr xs"
| "py_iter (JStr s) = Inr (map (\<lambda>c. JStr [c]) s)"
| "py_iter (JObj kvs) = Inr (map (JStr \<circ> fst) kvs)"
| "py_iter x = Inl (TypeError ''object is not iterable'')"

text \<open>A loop whose body may raise: the first exception ends it.\<close>

fun all_of :: "('a \<Rightarrow> pyexn + 'b) \<Rightarrow> 'a list \<Rightarrow> pyexn + 'b list" where
  "all_of f [] = Inr []"
| "all_of f (x # xs) = bindE (f x) (\<lambda>y. bindE (all_of f xs) (\<lambda>ys. Inr (y # ys)))"

lemma all_of_Inr: "all_of f xs = Inr ys \<Longrightarrow> (\<And>x y. f x = Inr y \<Longrightarrow> P y) \<Longrightarrow> list_all P ys"
  by (induction xs arbitrary: ys) (auto simp: bindE_Inr)

text \<open>\<open>float(x)\<close>.\<close>

fun to_float :: "pylib \<Rightarrow> json \<Rightarrow> pyexn + pyfloat" where
  "to_float L (JBool b) = Inr (Fin (if b then 1 else 0))"
| "to_float L (JInt n) =
     (case round_double (of_int n) of
        PInf s \<Rightarrow> Inl (OverflowError ''int too large to convert to float'')
      | f \<Rightarrow> Inr f)"
| "to_float L (JFloat f) = Inr f"
| "to_float L (JStr s) =
     (case pl_parse_float L s of
        None \<Rightarrow> Inl (ValueError (''could not convert string to float: '' @ pl_str L (JStr s)))
      | Some f \<Rightarrow> Inr f)"
| "to_float L x = Inl (TypeError ''float() argument must be a string or a real number'')"

text \<open>\<open>xs[-n:]\<close> for an integer \<open>n\<close>: \<open>n = 0\<close> gives the slice \<open>xs[0:]\<close>.\<close>

definition last_slice :: "int \<Rightarrow> 'a list \<Rightarrow> 'a list" where
  "last_slice n xs =
     (if 0 < n then drop (length xs - nat n) xs
      else drop (nat (- n)) xs)"

lemma last_slice_zero [simp]: "last_slice 0 xs = xs"
  by (simp add: last_slice_def)

lemma last_slice_length: "0 < n \<Longrightarrow> length (last_slice n xs) = min (nat n) (length xs)"
  by (simp add: last_slice_def)

lemma last_slice_suffix: "suffix (last_slice n xs) xs"
  by (simp add: last_slice_def suffix_drop)

section \<open>Canonical form\<close>

text \<open>
  \<open>json.dumps(x, sort_keys=True)\<close> depends on \<open>x\<close> only up to the order of its keys;
  \<open>canon\<close> sorts the keys of every object, so that two values have the same text exactly
  when their canonical forms are equal.
\<close>

fun canon :: "json \<Rightarrow> json" where
  "canon (JArr xs) = JArr (map canon xs)"
| "canon (JObj kvs) = JObj (sort_key fst (map (\<lambda>(k, v). (k, canon v)) kvs))"
| "canon x = x"

lemma canon_idem: "canon (canon x) = canon x"
proof (induction x rule: canon.induct)
  case (2 kvs)
  let ?c = "\<lambda>(k, v). (k, canon v)"
  have fx: "?c kv = kv" if "kv \<in> set (map ?c kvs)" for kv
    using that 2 by fastforce
  have "map ?c (sort_key fst (map ?c kvs)) = sort_key fst (map ?c kvs)"
  proof (rule map_idI)
    fix kv assume "kv \<in> set (sort_key fst (map ?c kvs))"
    then show "?c kv = kv" by (intro fx) simp
  qed
  moreover have "sort_key fst (sort_key fst (map ?c kvs)) = sort_key fst (map ?c kvs)"
    by (rule sort_key_id_if_sorted) simp
  ultimately show ?case by simp
qed simp_all

section \<open>Times as text\<close>

text \<open>What \<open>datetime.fromisoformat\<close> makes of a text: an error, or a time without or with a zone.\<close>

datatype iso_time = BadTime | NaiveTime int | AwareTime int

end
