(* ===== verification/Banking.thy ===== *)
theory Banking
  imports Json
begin

text \<open>
  The synthetic bank: \<open>banking/models.py\<close>, \<open>banking/policy.py\<close>,
  \<open>banking/repository.py\<close> and \<open>banking/fixtures.py\<close>. The repository's dictionaries are
  association lists, the set of completed idempotency keys is a list of hash keys. Clock
  readings and UUIDs are arguments, one per call the source makes. A method that returns
  \<open>(value, error)\<close> returns \<open>bank_error + value\<close>, under \<open>pyexn\<close> for what it raises.
\<close>

section \<open>Data model\<close>

datatype risk_classification = READ_ONLY | REVERSIBLE_WRITE | SIDE_EFFECTING | HIGH_RISK

datatype transfer_status = T_DRAFT | T_PENDING | T_COMPLETED | T_CANCELLED | T_FAILED

fun transfer_status_value :: "transfer_status \<Rightarrow> string" where
  "transfer_status_value T_DRAFT = ''DRAFT''"
| "transfer_status_value T_PENDING = ''PENDING''"
| "transfer_status_value T_COMPLETED = ''COMPLETED''"
| "transfer_status_value T_CANCELLED = ''CANCELLED''"
| "transfer_status_value T_FAILED = ''FAILED''"

record account =
  ac_id :: string
  ac_owner :: string
  ac_type :: string
  ac_balance :: pyfloat
  ac_currency :: string
  ac_active :: bool

record beneficiary =
  bn_id :: string
  bn_name :: string
  bn_holder :: string
  bn_bank_code :: string
  bn_account_number :: string
  bn_active :: bool

record bank_transaction =
  tx_id :: string
  tx_account :: string
  tx_amount :: pyfloat
  tx_currency :: string
  tx_description :: json
  tx_timestamp :: string

text \<open>\<open>td_expires = None\<close> is the empty default of \<open>expires_at\<close>.\<close>

record transfer_draft =
  td_id :: string
  td_source :: string
  td_beneficiary :: string
  td_amount :: pyfloat
  td_currency :: string
  td_description :: json
  td_status :: transfer_status
  td_key :: json
  td_created :: "timestamp option"
  td_expires :: "timestamp option"

record account_summary =
  as_account :: account
  as_recent :: "bank_transaction list"
  as_beneficiary_count :: nat

record bank =
  accounts :: "(string \<times> account) list"
  beneficiaries :: "(string \<times> beneficiary) list"
  transactions :: "(string \<times> bank_transaction list) list"
  transfer_drafts :: "(string \<times> transfer_draft) list"
  completed_transfers :: "json list"

text \<open>The error messages of the repository, with what they quote.\<close>

datatype bank_error =
    AccountNotFound json
  | AccountInactive json
  | NotOwner json json
  | BeneficiaryNotFound json
  | BeneficiaryInactive json
  | AmountNotPositive
  | AmountOverLimit
  | UnsupportedCurrency json
  | InsufficientFundsDraft pyfloat pyfloat
  | AlreadyCompletedKey
  | DraftNotFound json
  | DraftAlready transfer_status
  | OwnershipViolation
  | DraftExpired
  | AlreadyCompleted
  | InsufficientFunds
  | CannotCancel transfer_status

definition bank_error_text :: "pylib \<Rightarrow> bank_error \<Rightarrow> string" where
  "bank_error_text L e = (case e of
     AccountNotFound a \<Rightarrow> ''Account not found: '' @ pl_str L a
   | AccountInactive a \<Rightarrow> ''Account inactive: '' @ pl_str L a
   | NotOwner u a \<Rightarrow> ''User '' @ pl_str L u @ '' does not own account '' @ pl_str L a
   | BeneficiaryNotFound n \<Rightarrow> ''Beneficiary not found: '' @ pl_str L n
   | BeneficiaryInactive n \<Rightarrow> ''Beneficiary inactive: '' @ pl_str L n
   | AmountNotPositive \<Rightarrow> ''Amount must be positive''
   | AmountOverLimit \<Rightarrow> ''Amount exceeds limit of '' @ pl_str L (JFloat (Fin 100000))
   | UnsupportedCurrency c \<Rightarrow> ''Unsupported currency: '' @ pl_str L c
   | InsufficientFundsDraft bal am \<Rightarrow>
       ''Insufficient funds: balance '' @ pl_str L (JFloat bal) @ '' < '' @ pl_str L (JFloat am)
   | AlreadyCompletedKey \<Rightarrow> ''Transfer already completed (idempotency key)''
   | DraftNotFound d \<Rightarrow> ''Draft not found: '' @ pl_str L d
   | DraftAlready s \<Rightarrow> ''Draft already '' @ transfer_status_value s
   | OwnershipViolation \<Rightarrow> ''Ownership violation''
   | DraftExpired \<Rightarrow> ''Draft expired''
   | AlreadyCompleted \<Rightarrow> ''Transfer already completed''
   | InsufficientFunds \<Rightarrow> ''Insufficient funds''
   | CannotCancel s \<Rightarrow> ''Cannot cancel: draft is '' @ transfer_status_value s)"

section \<open>Policy\<close>

definition TOOL_RISK :: "(string \<times> risk_classification) list" where
  "TOOL_RISK =
     [(''get_account_summary'', READ_ONLY),
      (''get_balance'', READ_ONLY),
      (''list_transactions'', READ_ONLY),
      (''find_beneficiary'', READ_ONLY),
      (''create_transfer_draft'', REVERSIBLE_WRITE),
      (''get_transfer_status'', READ_ONLY),
      (''cancel_transfer'', SIDE_EFFECTING),
      (''report_suspicious_transaction'', SIDE_EFFECTING),
      (''submit_transfer'', HIGH_RISK)]"

definition SUPPORTED_CURRENCIES :: "string list" where
  "SUPPORTED_CURRENCIES = [''USD'', ''EUR'', ''GBP'', ''JPY'', ''CHF'']"

definition DEFAULT_TRANSACTION_LIMIT :: pyfloat where
  "DEFAULT_TRANSACTION_LIMIT = Fin 100000"

definition TRANSFER_DRAFT_EXPIRY_MINUTES :: int where
  "TRANSFER_DRAFT_EXPIRY_MINUTES = 30"

definition requires_hitl :: "string \<Rightarrow> bool" where
  "requires_hitl tool_name = (dict_get_or TOOL_RISK tool_name READ_ONLY = HIGH_RISK)"

definition is_read_only :: "string \<Rightarrow> bool" where
  "is_read_only tool_name = (dict_get_or TOOL_RISK tool_name READ_ONLY = READ_ONLY)"

section \<open>The repository\<close>

definition empty_bank :: bank where
  "empty_bank = \<lparr>accounts = [], beneficiaries = [], transactions = [], transfer_drafts = [],
     completed_transfers = []\<rparr>"

definition setdefault :: "'k \<Rightarrow> 'v \<Rightarrow> ('k \<times> 'v) list \<Rightarrow> ('k \<times> 'v) list" where
  "setdefault k v d = (if dict_has d k then d else dict_set k v d)"

definition load_fixtures :: "account list \<Rightarrow> beneficiary list \<Rightarrow> bank \<Rightarrow> bank" where
  "load_fixtures accs bens b =
     (let b1 = fold (\<lambda>a b. b\<lparr>accounts := dict_set (ac_id a) a (accounts b),
                            transactions := setdefault (ac_id a) [] (transactions b)\<rparr>) accs b
      in fold (\<lambda>n b. b\<lparr>beneficiaries := dict_set (bn_id n) n (beneficiaries b)\<rparr>) bens b1)"

definition get_account :: "json \<Rightarrow> bank \<Rightarrow> pyexn + account option" where
  "get_account account_id b = get_by account_id (accounts b)"

definition owner_of :: "json \<Rightarrow> json \<Rightarrow> bank \<Rightarrow> pyexn + bool" where
  "owner_of account_id user_id b = bindE (get_by account_id (accounts b)) (\<lambda>acc.
     Inr (case acc of None \<Rightarrow> False | Some a \<Rightarrow> JStr (ac_owner a) = user_id))"

definition get_balance :: "json \<Rightarrow> json \<Rightarrow> bank \<Rightarrow> pyexn + pyfloat option" where
  "get_balance account_id user_id b = bindE (get_by account_id (accounts b)) (\<lambda>acc.
     Inr (case acc of None \<Rightarrow> None
          | Some a \<Rightarrow> if JStr (ac_owner a) \<noteq> user_id then None else Some (ac_balance a)))"

definition get_summary :: "json \<Rightarrow> json \<Rightarrow> bank \<Rightarrow> pyexn + account_summary option" where
  "get_summary account_id user_id b = bindE (get_by account_id (accounts b)) (\<lambda>acc.
     case acc of None \<Rightarrow> Inr None
     | Some a \<Rightarrow>
         if JStr (ac_owner a) \<noteq> user_id then Inr None
         else bindE (get_by account_id (transactions b)) (\<lambda>txs.
           Inr (Some \<lparr>as_account = a,
             as_recent = last_slice 10 (case txs of None \<Rightarrow> [] | Some ts \<Rightarrow> ts),
             as_beneficiary_count = length (beneficiaries b)\<rparr>)))"

text \<open>The index \<open>-limit\<close> of a slice must be an integer (\<open>bool\<close> is one).\<close>

fun slice_limit :: "json \<Rightarrow> pyexn + int" where
  "slice_limit (JInt n) = Inr n"
| "slice_limit (JBool v) = Inr (if v then 1 else 0)"
| "slice_limit (JFloat f) = Inl (TypeError ''slice indices must be integers or None'')"
| "slice_limit x = Inl (TypeError ''bad operand type for unary -'')"

definition list_transactions ::
    "json \<Rightarrow> json \<Rightarrow> json \<Rightarrow> bank \<Rightarrow> pyexn + bank_transaction list option" where
  "list_transactions account_id user_id limit b = bindE (owner_of account_id user_id b) (\<lambda>own.
     if \<not> own then Inr None
     else bindE (get_by account_id (transactions b)) (\<lambda>txs.
       bindE (slice_limit limit) (\<lambda>n.
         Inr (Some (last_slice n (case txs of None \<Rightarrow> [] | Some ts \<Rightarrow> ts))))))"

definition get_beneficiary :: "json \<Rightarrow> bank \<Rightarrow> pyexn + beneficiary option" where
  "get_beneficiary beneficiary_id b = get_by beneficiary_id (beneficiaries b)"

type_synonym 'a bank_out = "(pyexn + (bank_error + 'a)) \<times> bank"

text \<open>Validation of a draft, in the order of the source; the last step builds it.\<close>

definition validate_draft ::
    "json \<Rightarrow> json \<Rightarrow> pyfloat \<Rightarrow> json \<Rightarrow> json \<Rightarrow> json \<Rightarrow> json \<Rightarrow> timestamp \<Rightarrow> string \<Rightarrow> bank \<Rightarrow>
     pyexn + (bank_error + transfer_draft)" where
  "validate_draft source_account_id beneficiary_id amount currency user_id idempotency_key
      description now new_id b =
     bindE (get_by source_account_id (accounts b)) (\<lambda>acc. case acc of
       None \<Rightarrow> Inr (Inl (AccountNotFound source_account_id))
     | Some a \<Rightarrow>
       if \<not> ac_active a then Inr (Inl (AccountInactive source_account_id))
       else if JStr (ac_owner a) \<noteq> user_id then Inr (Inl (NotOwner user_id source_account_id))
       else bindE (get_by beneficiary_id (beneficiaries b)) (\<lambda>ben. case ben of
         None \<Rightarrow> Inr (Inl (BeneficiaryNotFound beneficiary_id))
       | Some n \<Rightarrow>
         if \<not> bn_active n then Inr (Inl (BeneficiaryInactive beneficiary_id))
         else if fle amount (Fin 0) then Inr (Inl AmountNotPositive)
         else if fless DEFAULT_TRANSACTION_LIMIT amount then Inr (Inl AmountOverLimit)
         else if currency \<notin> JStr ` set SUPPORTED_CURRENCIES
           then Inr (Inl (UnsupportedCurrency currency))
         else if fless (ac_balance a) amount
           then Inr (Inl (InsufficientFundsDraft (ac_balance a) amount))
         else bindE (hash_key idempotency_key) (\<lambda>h.
           if h \<in> set (completed_transfers b) then Inr (Inl AlreadyCompletedKey)
           else Inr (Inr \<lparr>td_id = new_id,
             td_source = (case source_account_id of JStr s \<Rightarrow> s | _ \<Rightarrow> []),
             td_beneficiary = (case beneficiary_id of JStr s \<Rightarrow> s | _ \<Rightarrow> []),
             td_amount = amount,
             td_currency = (case currency of JStr s \<Rightarrow> s | _ \<Rightarrow> []),
             td_description = description,
             td_status = T_DRAFT,
             td_key = idempotency_key,
             td_created = Some now,
             td_expires = Some (now + TRANSFER_DRAFT_EXPIRY_MINUTES * 60 * 1000000)\<rparr>))))"

definition create_transfer_draft ::
    "json \<Rightarrow> json \<Rightarrow> pyfloat \<Rightarrow> json \<Rightarrow> json \<Rightarrow> json \<Rightarrow> json \<Rightarrow> timestamp \<Rightarrow> string \<Rightarrow> bank \<Rightarrow>
     transfer_draft bank_out" where
  "create_transfer_draft src ben amount cur user key descr now new_id b =
     (case validate_draft src ben amount cur user key descr now new_id b of
        Inr (Inr d) \<Rightarrow> (Inr (Inr d), b\<lparr>transfer_drafts := dict_set (td_id d) d (transfer_drafts b)\<rparr>)
      | r \<Rightarrow> (r, b))"

text \<open>A draft object is mutated in place: the entry under its key is replaced.\<close>

definition store_draft :: "json \<Rightarrow> transfer_draft \<Rightarrow> bank \<Rightarrow> bank" where
  "store_draft draft_id d b = (case draft_id of
     JStr s \<Rightarrow> b\<lparr>transfer_drafts := dict_set s d (transfer_drafts b)\<rparr>
   | _ \<Rightarrow> b)"

text \<open>The execution part of \<open>submit_transfer\<close>, after its checks.\<close>

definition execute_draft ::
    "pylib \<Rightarrow> json \<Rightarrow> transfer_draft \<Rightarrow> account \<Rightarrow> timestamp \<Rightarrow> string \<Rightarrow> bank \<Rightarrow> transfer_draft \<times> bank" where
  "execute_draft L draft_id d a now txn_id b =
     (let d' = d\<lparr>td_status := T_COMPLETED\<rparr>;
          a' = a\<lparr>ac_balance := fsub (ac_balance a) (td_amount d)\<rparr>;
          txn = \<lparr>tx_id = txn_id, tx_account = td_source d, tx_amount = fneg (td_amount d),
                 tx_currency = td_currency d,
                 tx_description = json_or (td_description d)
                   (JStr (''Transfer to '' @ td_beneficiary d)),
                 tx_timestamp = pl_iso L now\<rparr>;
          b1 = b\<lparr>accounts := dict_set (td_source d) a' (accounts b)\<rparr>;
          b2 = store_draft draft_id d' b1;
          b3 = b2\<lparr>transactions := dict_set (td_source d)
                  (dict_get_or (transactions b2) (td_source d) [] @ [txn]) (transactions b2)\<rparr>
      in (d', if truthy (td_key d)
              then (case hash_key (td_key d) of
                      Inl e \<Rightarrow> b3
                    | Inr h \<Rightarrow> b3\<lparr>completed_transfers := List.insert h (completed_transfers b3)\<rparr>)
              else b3))"

definition key_completed :: "json \<Rightarrow> bank \<Rightarrow> pyexn + bool" where
  "key_completed k b =
     (if truthy k then bindE (hash_key k) (\<lambda>h. Inr (h \<in> set (completed_transfers b))) else Inr False)"

definition submit_transfer ::
    "pylib \<Rightarrow> json \<Rightarrow> json \<Rightarrow> timestamp \<Rightarrow> timestamp \<Rightarrow> string \<Rightarrow> bank \<Rightarrow> transfer_draft bank_out" where
  "submit_transfer L draft_id user_id now1 now2 txn_id b =
     (case get_by draft_id (transfer_drafts b) of
        Inl e \<Rightarrow> (Inl e, b)
      | Inr None \<Rightarrow> (Inr (Inl (DraftNotFound draft_id)), b)
      | Inr (Some d) \<Rightarrow>
          if td_status d \<noteq> T_DRAFT then (Inr (Inl (DraftAlready (td_status d))), b)
          else (case owner_of (JStr (td_source d)) user_id b of
            Inl e \<Rightarrow> (Inl e, b)
          | Inr False \<Rightarrow> (Inr (Inl OwnershipViolation), b)
          | Inr True \<Rightarrow>
              if (case td_expires d of None \<Rightarrow> False | Some x \<Rightarrow> x < now1)
              then (Inr (Inl DraftExpired), store_draft draft_id (d\<lparr>td_status := T_FAILED\<rparr>) b)
              else (case key_completed (td_key d) b of
                Inl e \<Rightarrow> (Inl e, b)
              | Inr True \<Rightarrow> (Inr (Inl AlreadyCompleted), b)
              | Inr False \<Rightarrow>
                  (case map_of (accounts b) (td_source d) of
                     None \<Rightarrow> (Inl (KeyError (td_source d)), b)
                   | Some a \<Rightarrow>
                       if fless (ac_balance a) (td_amount d) then (Inr (Inl InsufficientFunds), b)
                       else (let (d', b') = execute_draft L draft_id d a now2 txn_id b
                             in (Inr (Inr d'), b'))))))"

definition cancel_transfer :: "json \<Rightarrow> json \<Rightarrow> bank \<Rightarrow> bool bank_out" where
  "cancel_transfer draft_id user_id b =
     (case get_by draft_id (transfer_drafts b) of
        Inl e \<Rightarrow> (Inl e, b)
      | Inr None \<Rightarrow> (Inr (Inl (DraftNotFound draft_id)), b)
      | Inr (Some d) \<Rightarrow>
          if td_status d \<notin> {T_DRAFT, T_PENDING} then (Inr (Inl (CannotCancel (td_status d))), b)
          else (case owner_of (JStr (td_source d)) user_id b of
            Inl e \<Rightarrow> (Inl e, b)
          | Inr False \<Rightarrow> (Inr (Inl OwnershipViolation), b)
          | Inr True \<Rightarrow> (Inr (Inr True), store_draft draft_id (d\<lparr>td_status := T_CANCELLED\<rparr>) b)))"

definition get_transfer_status :: "json \<Rightarrow> bank \<Rightarrow> pyexn + transfer_draft option" where
  "get_transfer_status draft_id b = get_by draft_id (transfer_drafts b)"

definition is_idempotency_key_used :: "json \<Rightarrow> bank \<Rightarrow> pyexn + bool" where
  "is_idempotency_key_used key b = bindE (hash_key key) (\<lambda>h. Inr (h \<in> set (completed_transfers b)))"

section \<open>Fixtures\<close>

definition mk_account :: "string \<Rightarrow> string \<Rightarrow> string \<Rightarrow> rat \<Rightarrow> bool \<Rightarrow> account" where
  "mk_account i u t q act = \<lparr>ac_id = i, ac_owner = u, ac_type = t, ac_balance = Fin q,
     ac_currency = ''USD'', ac_active = act\<rparr>"

definition mk_beneficiary :: "string \<Rightarrow> string \<Rightarrow> string \<Rightarrow> string \<Rightarrow> string \<Rightarrow> bool \<Rightarrow> beneficiary" where
  "mk_beneficiary i n h c num act = \<lparr>bn_id = i, bn_name = n, bn_holder = h, bn_bank_code = c,
     bn_account_number = num, bn_active = act\<rparr>"

definition mk_transaction :: "string \<Rightarrow> rat \<Rightarrow> string \<Rightarrow> string \<Rightarrow> bank_transaction" where
  "mk_transaction i q descr ts = \<lparr>tx_id = i, tx_account = ''ACC-1001'', tx_amount = Fin q,
     tx_currency = ''USD'', tx_description = JStr descr, tx_timestamp = ts\<rparr>"

definition create_test_repository :: bank where
  "create_test_repository =
     (let b = load_fixtures
        [mk_account ''ACC-1001'' ''user-alice'' ''checking'' 15000 True,
         mk_account ''ACC-1002'' ''user-alice'' ''savings'' 50000 True,
         mk_account ''ACC-2001'' ''user-bob'' ''checking'' 3500 True,
         mk_account ''ACC-3001'' ''user-carol'' ''checking'' 250 True,
         mk_account ''ACC-9001'' ''user-alice'' ''checking'' 0 False]
        [mk_beneficiary ''BEN-001'' (''Alice'' @ CHR 0x27 # ''s Savings'') ''Alice'' ''ABC'' ''ACC-1002'' True,
         mk_beneficiary ''BEN-002'' (''Bob'' @ CHR 0x27 # ''s Checking'') ''Bob'' ''ABC'' ''ACC-2001'' True,
         mk_beneficiary ''BEN-003'' ''Electric Company'' ''UtilityCorp'' ''XYZ'' ''UTIL-001'' True,
         mk_beneficiary ''BEN-999'' ''Inactive Payee'' ''Unknown'' ''ZZZ'' ''CLOSED'' False]
        empty_bank
      in b\<lparr>transactions := dict_set ''ACC-1001''
        [mk_transaction ''TXN-001'' 5000 ''Salary deposit'' ''2026-06-15T09:00:00Z'',
         mk_transaction ''TXN-002'' (-200) ''ATM withdrawal'' ''2026-06-16T14:30:00Z'',
         mk_transaction ''TXN-003'' (-1500) ''Rent payment'' ''2026-06-18T08:00:00Z'']
        (transactions b)\<rparr>)"

section \<open>Runs of the repository\<close>

text \<open>
  The state-changing operations as a datatype, so that a history of the bank is a list.
  A run collects the debits it makes: the idempotency key, account and amount of every
  submitted draft.
\<close>

datatype bank_op =
    OpCreate json json pyfloat json json json json timestamp string
  | OpSubmit json json timestamp timestamp string
  | OpCancel json json

record debit =
  db_key :: json
  db_account :: string
  db_amount :: pyfloat

fun op_user :: "bank_op \<Rightarrow> json" where
  "op_user (OpCreate src ben amount cur user key descr now new_id) = user"
| "op_user (OpSubmit draft_id user now1 now2 txn_id) = user"
| "op_user (OpCancel draft_id user) = user"

text \<open>The UUID a creation draws is not yet the key of a draft.\<close>

fun op_fresh :: "bank_op \<Rightarrow> bank \<Rightarrow> bool" where
  "op_fresh (OpCreate src ben amount cur user key descr now new_id) b =
     (map_of (transfer_drafts b) new_id = None)"
| "op_fresh op b = True"

fun op_number :: "bank_op \<Rightarrow> bool" where
  "op_number (OpCreate src ben amount cur user key descr now new_id) = (amount \<noteq> NaN)"
| "op_number op = True"

fun bank_step :: "pylib \<Rightarrow> bank_op \<Rightarrow> bank \<Rightarrow> debit list \<times> bank" where
  "bank_step L (OpCreate src ben amount cur user key descr now new_id) b =
     ([], snd (create_transfer_draft src ben amount cur user key descr now new_id b))"
| "bank_step L (OpSubmit draft_id user now1 now2 txn_id) b =
     (case submit_transfer L draft_id user now1 now2 txn_id b of
        (Inr (Inr d), b') \<Rightarrow>
          ([\<lparr>db_key = td_key d, db_account = td_source d, db_amount = td_amount d\<rparr>], b')
      | (r, b') \<Rightarrow> ([], b'))"
| "bank_step L (OpCancel draft_id user) b = ([], snd (cancel_transfer draft_id user b))"

fun bank_run :: "pylib \<Rightarrow> bank_op list \<Rightarrow> bank \<Rightarrow> debit list \<times> bank" where
  "bank_run L [] b = ([], b)"
| "bank_run L (op # ops) b =
     (let (ds, b1) = bank_step L op b; (es, b2) = bank_run L ops b1 in (ds @ es, b2))"

text \<open>Every creation of a run draws an unused UUID.\<close>

fun run_fresh :: "pylib \<Rightarrow> bank_op list \<Rightarrow> bank \<Rightarrow> bool" where
  "run_fresh L [] b = True"
| "run_fresh L (op # ops) b = (op_fresh op b \<and> run_fresh L ops (snd (bank_step L op b)))"

text \<open>Balances are not negative, and a stored amount is a positive number within the limit.\<close>

definition good_balance :: "account \<Rightarrow> bool" where
  "good_balance a = fle (Fin 0) (ac_balance a)"

definition good_amount :: "transfer_draft \<Rightarrow> bool" where
  "good_amount d = (fless (Fin 0) (td_amount d) \<and> fle (td_amount d) DEFAULT_TRANSACTION_LIMIT)"

definition solvent :: "bank \<Rightarrow> bool" where
  "solvent b = (list_all (\<lambda>(k, a). good_balance a) (accounts b) \<and>
     list_all (\<lambda>(k, d). good_amount d) (transfer_drafts b))"

definition is_terminal_status :: "transfer_status \<Rightarrow> bool" where
  "is_terminal_status s = (s \<in> {T_COMPLETED, T_CANCELLED, T_FAILED})"

subsection \<open>What each operation does\<close>

lemma owner_of_str:
  "owner_of (JStr s) u b =
     Inr (case map_of (accounts b) s of None \<Rightarrow> False | Some a \<Rightarrow> JStr (ac_owner a) = u)"
  by (simp add: owner_of_def)

lemma store_draft_simps [simp]:
  "accounts (store_draft k d b) = accounts b"
  "beneficiaries (store_draft k d b) = beneficiaries b"
  "transactions (store_draft k d b) = transactions b"
  "completed_transfers (store_draft k d b) = completed_transfers b"
  "transfer_drafts (store_draft (JStr s) d b) = dict_set s d (transfer_drafts b)"
  by (simp_all add: store_draft_def split: json.splits)

lemma store_draft_accounts_upd:
  "store_draft (JStr s) d (b\<lparr>accounts := as\<rparr>) = (store_draft (JStr s) d b)\<lparr>accounts := as\<rparr>"
  by (simp add: store_draft_def)

lemma execute_draft_simps [simp]:
  "fst (execute_draft L k d a now i b) = d\<lparr>td_status := T_COMPLETED\<rparr>"
  "accounts (snd (execute_draft L k d a now i b)) =
     dict_set (td_source d) (a\<lparr>ac_balance := fsub (ac_balance a) (td_amount d)\<rparr>) (accounts b)"
  "beneficiaries (snd (execute_draft L k d a now i b)) = beneficiaries b"
  "transfer_drafts (snd (execute_draft L (JStr s) d a now i b)) =
     dict_set s (d\<lparr>td_status := T_COMPLETED\<rparr>) (transfer_drafts b)"
  by (auto simp: execute_draft_def Let_def split: sum.splits)

lemma execute_draft_completed:
  "set (completed_transfers (snd (execute_draft L k d a now i b))) =
     set (completed_transfers b) \<union>
       (if truthy (td_key d) then (case hash_key (td_key d) of Inl e \<Rightarrow> {} | Inr h \<Rightarrow> {h}) else {})"
  by (auto simp: execute_draft_def Let_def split: sum.splits)

lemma submit_transfer_cases:
  assumes "submit_transfer L di u n1 n2 i b = (r, b')"
  obtains (refused) "b' = b" "\<And>d. r \<noteq> Inr (Inr d)"
  | (expired) s d where "di = JStr s" "map_of (transfer_drafts b) s = Some d" "td_status d = T_DRAFT"
      "owner_of (JStr (td_source d)) u b = Inr True" "r = Inr (Inl DraftExpired)"
      "b' = store_draft di (d\<lparr>td_status := T_FAILED\<rparr>) b"
  | (completed) s d a where "di = JStr s" "map_of (transfer_drafts b) s = Some d" "td_status d = T_DRAFT"
      "map_of (accounts b) (td_source d) = Some a" "JStr (ac_owner a) = u"
      "key_completed (td_key d) b = Inr False" "\<not> fless (ac_balance a) (td_amount d)"
      "\<not> (\<exists>x. td_expires d = Some x \<and> x < n1)"
      "r = Inr (Inr (d\<lparr>td_status := T_COMPLETED\<rparr>))" "b' = snd (execute_draft L di d a n2 i b)"
proof (cases "get_by di (transfer_drafts b)")
  case (Inl e)
  with assms show ?thesis by (intro refused) (auto simp: submit_transfer_def)
next
  case (Inr od)
  show ?thesis
  proof (cases od)
    case None
    with Inr assms show ?thesis by (intro refused) (auto simp: submit_transfer_def)
  next
    case (Some d)
    with Inr obtain s where s: "di = JStr s" "map_of (transfer_drafts b) s = Some d"
      by (auto dest: get_by_found)
    show ?thesis
    proof (cases "td_status d = T_DRAFT \<and> owner_of (JStr (td_source d)) u b = Inr True")
      case False
      with s assms show ?thesis
        by (intro refused)
          (auto simp: submit_transfer_def owner_of_str split: if_splits option.splits bool.splits)
    next
      case True
      then obtain a where a: "map_of (accounts b) (td_source d) = Some a" "JStr (ac_owner a) = u"
        by (auto simp: owner_of_str split: option.splits)
      show ?thesis
      proof (cases "\<exists>x. td_expires d = Some x \<and> x < n1")
        case ex: True
        with s True assms show ?thesis
          by (intro expired [OF s]) (auto simp: submit_transfer_def)
      next
        case nex: False
        then have nx: "(case td_expires d of None \<Rightarrow> False | Some x \<Rightarrow> x < n1) = False"
          by (auto split: option.splits)
        consider e where "key_completed (td_key d) b = Inl e" | "key_completed (td_key d) b = Inr True"
          | "key_completed (td_key d) b = Inr False"
          by (metis (full_types) sum.exhaust)
        then show ?thesis
        proof cases
          case 3
          with s True a assms nx show ?thesis
            by (cases "fless (ac_balance a) (td_amount d)")
              (auto simp: submit_transfer_def case_prod_beta nex intro: refused completed [OF s _ a])
        qed (use s True a assms nx in \<open>auto simp: submit_transfer_def intro: refused\<close>)
      qed
    qed
  qed
qed

lemma validate_draft_ok:
  assumes "validate_draft src ben amount cur user key descr now i b = Inr (Inr d)"
  obtains s a n h where "src = JStr s" "map_of (accounts b) s = Some a" "ac_active a"
    "JStr (ac_owner a) = user" "ben = JStr n" "cur \<in> JStr ` set SUPPORTED_CURRENCIES"
    "\<not> fle amount (Fin 0)" "\<not> fless DEFAULT_TRANSACTION_LIMIT amount"
    "\<not> fless (ac_balance a) amount" "hash_key key = Inr h" "h \<notin> set (completed_transfers b)"
    "td_id d = i" "td_source d = s" "td_beneficiary d = n" "td_amount d = amount"
    "td_status d = T_DRAFT" "td_key d = key"
    "td_expires d = Some (now + 30 * 60 * 1000000)"
proof -
  from assms obtain a where a: "get_by src (accounts b) = Inr (Some a)"
    by (auto simp: validate_draft_def bindE_Inr split: option.splits)
  with assms obtain n where n: "get_by ben (beneficiaries b) = Inr (Some n)"
    by (auto simp: validate_draft_def bindE_Inr split: option.splits if_splits)
  from get_by_found [OF a] get_by_found [OF n] obtain s m where sm: "src = JStr s" "ben = JStr m"
    and sa: "map_of (accounts b) s = Some a" by auto
  from assms obtain h where h: "hash_key key = Inr h"
    by (simp add: validate_draft_def a n bindE_Inr split: if_splits) blast
  show ?thesis
    using assms unfolding validate_draft_def a n h bindE_simps
    by (intro that [OF sm(1) sa _ _ sm(2) _ _ _ _ h])
      (auto simp: sm TRANSFER_DRAFT_EXPIRY_MINUTES_def split: if_splits)
qed

lemma create_transfer_draft_cases:
  assumes "create_transfer_draft src ben amount cur user key descr now i b = (r, b')"
  obtains (refused) "b' = b" "\<And>d. r \<noteq> Inr (Inr d)"
  | (created) d where "validate_draft src ben amount cur user key descr now i b = Inr (Inr d)"
      "r = Inr (Inr d)" "b' = b\<lparr>transfer_drafts := dict_set i d (transfer_drafts b)\<rparr>"
proof (cases "\<exists>d. validate_draft src ben amount cur user key descr now i b = Inr (Inr d)")
  case True
  then obtain d where d: "validate_draft src ben amount cur user key descr now i b = Inr (Inr d)" ..
  then have "td_id d = i" by (rule validate_draft_ok)
  with d assms show ?thesis by (intro created [OF d]) (auto simp: create_transfer_draft_def)
next
  case False
  with assms show ?thesis
    by (intro refused) (auto simp: create_transfer_draft_def split: sum.splits)
qed

lemma cancel_transfer_cases:
  assumes "cancel_transfer di u b = (r, b')"
  obtains (refused) "b' = b" "\<And>v. r \<noteq> Inr (Inr v)"
  | (cancelled) s d where "di = JStr s" "map_of (transfer_drafts b) s = Some d"
      "td_status d \<in> {T_DRAFT, T_PENDING}" "owner_of (JStr (td_source d)) u b = Inr True"
      "r = Inr (Inr True)" "b' = store_draft di (d\<lparr>td_status := T_CANCELLED\<rparr>) b"
proof (cases "\<exists>d. get_by di (transfer_drafts b) = Inr (Some d) \<and> td_status d \<in> {T_DRAFT, T_PENDING} \<and>
    owner_of (JStr (td_source d)) u b = Inr True")
  case True
  then obtain d where d: "get_by di (transfer_drafts b) = Inr (Some d)" "td_status d \<in> {T_DRAFT, T_PENDING}"
    "owner_of (JStr (td_source d)) u b = Inr True" by blast
  from get_by_found [OF d(1)] obtain s where s: "di = JStr s" "map_of (transfer_drafts b) s = Some d" by auto
  from d s assms show ?thesis by (intro cancelled [OF s]) (auto simp: cancel_transfer_def)
next
  case False
  with assms show ?thesis
    by (intro refused)
      (auto simp: cancel_transfer_def owner_of_str split: sum.splits option.splits if_splits bool.splits)
qed

subsection \<open>At most one debit per idempotency key\<close>

lemma bank_step_submit:
  assumes "bank_step L (OpSubmit di u n1 n2 i) b = (ds, b')"
  obtains (none) "ds = []" "completed_transfers b' = completed_transfers b"
  | (one) d :: transfer_draft and h where "ds = [\<lparr>db_key = td_key d, db_account = td_source d, db_amount = td_amount d\<rparr>]"
      "truthy (td_key d) \<Longrightarrow> hash_key (td_key d) = Inr h \<and> h \<notin> set (completed_transfers b)"
      "set (completed_transfers b') = set (completed_transfers b) \<union> (if truthy (td_key d) then {h} else {})"
proof -
  obtain r b1 where sub: "submit_transfer L di u n1 n2 i b = (r, b1)" by fastforce
  then show ?thesis
  proof (cases rule: submit_transfer_cases)
    case refused
    then show ?thesis using assms sub
      by (intro none) (auto split: sum.splits)
  next
    case (expired s d)
    then show ?thesis using assms sub by (intro none) auto
  next
    case (completed s d a)
    obtain h where h: "truthy (td_key d) \<Longrightarrow> hash_key (td_key d) = Inr h \<and> h \<notin> set (completed_transfers b)"
      using completed(6) by (auto simp: key_completed_def bindE_Inr split: if_splits)
    show ?thesis
      by (rule one [of d h]) (use assms sub completed h in \<open>auto simp: execute_draft_completed\<close>)
  qed
qed

lemma bank_step_create:
  "bank_step L (OpCreate src ben amount cur user key descr now i) b = (ds, b') \<Longrightarrow>
     ds = [] \<and> accounts b' = accounts b \<and> completed_transfers b' = completed_transfers b"
  by (cases "create_transfer_draft src ben amount cur user key descr now i b")
    (auto elim!: create_transfer_draft_cases)

lemma bank_step_cancel:
  "bank_step L (OpCancel di u) b = (ds, b') \<Longrightarrow>
     ds = [] \<and> accounts b' = accounts b \<and> completed_transfers b' = completed_transfers b"
  by (cases "cancel_transfer di u b") (auto elim!: cancel_transfer_cases)

lemma bank_step_keys:
  assumes "bank_step L op b = (ds, b')"
  shows "set (completed_transfers b) \<subseteq> set (completed_transfers b')"
    and "distinct (map hash_key (filter truthy (map db_key ds)))"
    and "\<forall>d \<in> set ds. truthy (db_key d) \<longrightarrow>
      (\<exists>h. hash_key (db_key d) = Inr h \<and> h \<in> set (completed_transfers b') - set (completed_transfers b))"
proof -
  have "set (completed_transfers b) \<subseteq> set (completed_transfers b') \<and>
    distinct (map hash_key (filter truthy (map db_key ds))) \<and>
    (\<forall>d \<in> set ds. truthy (db_key d) \<longrightarrow>
      (\<exists>h. hash_key (db_key d) = Inr h \<and> h \<in> set (completed_transfers b') - set (completed_transfers b)))"
  proof (cases op)
    case (OpSubmit di u n1 n2 i)
    from assms [unfolded OpSubmit] show ?thesis
    proof (cases rule: bank_step_submit)
      case (one d h)
      then show ?thesis by (cases "truthy (td_key d)") auto
    qed simp
  qed (use assms in \<open>auto dest!: bank_step_create bank_step_cancel simp del: bank_step.simps\<close>)
  then show "set (completed_transfers b) \<subseteq> set (completed_transfers b')"
    and "distinct (map hash_key (filter truthy (map db_key ds)))"
    and "\<forall>d \<in> set ds. truthy (db_key d) \<longrightarrow>
      (\<exists>h. hash_key (db_key d) = Inr h \<and> h \<in> set (completed_transfers b') - set (completed_transfers b))"
    by blast+
qed

lemma bank_run_keys:
  "bank_run L ops b = (ds, b') \<Longrightarrow>
     set (completed_transfers b) \<subseteq> set (completed_transfers b') \<and>
     distinct (map hash_key (filter truthy (map db_key ds))) \<and>
     (\<forall>d \<in> set ds. truthy (db_key d) \<longrightarrow>
        (\<exists>h. hash_key (db_key d) = Inr h \<and> h \<notin> set (completed_transfers b)))"
proof (induction ops arbitrary: b ds b')
  case (Cons op ops)
  obtain ds1 b1 where st: "bank_step L op b = (ds1, b1)" by fastforce
  obtain ds2 b2 where rn: "bank_run L ops b1 = (ds2, b2)" by fastforce
  note k1 = bank_step_keys [OF st] and k2 = Cons.IH [OF rn]
  from Cons.prems st rn have e: "ds = ds1 @ ds2" "b' = b2" by auto
  have "hash_key ` set (filter truthy (map db_key ds1)) \<inter> hash_key ` set (filter truthy (map db_key ds2)) = {}"
    using k1(3) k2 by fastforce
  with k1 k2 e show ?case by fastforce
qed auto

subsection \<open>Solvency\<close>

lemma dict_set_values:
  "list_all (\<lambda>(k, v). P v) d \<Longrightarrow> P v \<Longrightarrow> list_all (\<lambda>(k, v). P v) (dict_set k v d)"
  by (rule dict_set_entries) simp_all

lemma map_of_all: "list_all (\<lambda>(k, v). P v) d \<Longrightarrow> map_of d k = Some v \<Longrightarrow> P v"
  by (induction d) (auto split: if_splits)

lemma debit_nonneg:
  assumes "fle (Fin 0) x" "\<not> fless x y" "fless (Fin 0) y" "fle y DEFAULT_TRANSACTION_LIMIT"
  shows "fle (Fin 0) (fsub x y)"
proof -
  from assms(3,4) obtain q where y: "y = Fin q" by (cases y) (auto simp: DEFAULT_TRANSACTION_LIMIT_def)
  show ?thesis
  proof (cases x)
    case (Fin p)
    with assms y show ?thesis by (intro fsub_nonneg) auto
  qed (use assms y in auto)
qed

lemma solvent_draft: "solvent b \<Longrightarrow> map_of (transfer_drafts b) s = Some d \<Longrightarrow> good_amount d"
  using map_of_all [of good_amount "transfer_drafts b" s d] by (simp add: solvent_def)

lemma solvent_account: "solvent b \<Longrightarrow> map_of (accounts b) s = Some a \<Longrightarrow> good_balance a"
  using map_of_all [of good_balance "accounts b" s a] by (simp add: solvent_def)

lemma solvent_store:
  "solvent b \<Longrightarrow> good_amount d \<Longrightarrow> solvent (b\<lparr>transfer_drafts := dict_set s d (transfer_drafts b)\<rparr>)"
  by (simp add: solvent_def dict_set_values [of good_amount])

lemma good_amount_status [simp]: "good_amount (d\<lparr>td_status := x\<rparr>) = good_amount d"
  by (simp add: good_amount_def)

lemma solvent_create:
  assumes "solvent b" "amount \<noteq> NaN"
  shows "solvent (snd (create_transfer_draft src ben amount cur user key descr now i b))"
proof -
  obtain r b' where c: "create_transfer_draft src ben amount cur user key descr now i b = (r, b')" by fastforce
  then show ?thesis
  proof (cases rule: create_transfer_draft_cases)
    case (created d)
    from created(1) have "good_amount d"
    proof (rule validate_draft_ok)
      assume "\<not> fle amount (Fin 0)" "\<not> fless DEFAULT_TRANSACTION_LIMIT amount" "td_amount d = amount"
      with assms(2) show ?thesis
        by (cases amount) (auto simp: DEFAULT_TRANSACTION_LIMIT_def good_amount_def)
    qed
    with assms(1) created c show ?thesis by (simp add: solvent_store)
  qed (use assms c in simp)
qed

lemma solvent_submit:
  assumes "solvent b"
  shows "solvent (snd (submit_transfer L di u n1 n2 i b))"
proof -
  obtain r b' where c: "submit_transfer L di u n1 n2 i b = (r, b')" by fastforce
  then show ?thesis
  proof (cases rule: submit_transfer_cases)
    case (expired s d)
    then show ?thesis using assms c solvent_draft [OF assms]
      by (simp add: store_draft_def solvent_store)
  next
    case (completed s d a)
    note dr = solvent_draft [OF assms completed(2)] and ac = solvent_account [OF assms completed(4)]
    have "good_balance (a\<lparr>ac_balance := fsub (ac_balance a) (td_amount d)\<rparr>)"
      using debit_nonneg [OF _ completed(7)] dr ac by (simp add: good_amount_def good_balance_def)
    with assms dr completed c show ?thesis
      by (simp add: solvent_def dict_set_values [of good_balance] dict_set_values [of good_amount])
  qed (use assms c in simp)
qed

lemma solvent_cancel: "solvent b \<Longrightarrow> solvent (snd (cancel_transfer di u b))"
proof -
  assume s: "solvent b"
  obtain r b' where c: "cancel_transfer di u b = (r, b')" by fastforce
  then show ?thesis
    by (cases rule: cancel_transfer_cases)
      (use c s solvent_draft [OF s] in \<open>auto simp: store_draft_def solvent_store\<close>)
qed

lemma bank_step_submit_snd:
  "snd (bank_step L (OpSubmit di u n1 n2 i) b) = snd (submit_transfer L di u n1 n2 i b)"
  by (auto simp: case_prod_beta split: prod.splits sum.splits)

lemma solvent_step: "solvent b \<Longrightarrow> op_number op \<Longrightarrow> solvent (snd (bank_step L op b))"
  by (cases op) (auto simp: solvent_create solvent_cancel bank_step_submit_snd solvent_submit
      simp del: bank_step.simps(2))

lemma solvent_run: "solvent b \<Longrightarrow> list_all op_number ops \<Longrightarrow> solvent (snd (bank_run L ops b))"
proof (induction ops arbitrary: b)
  case (Cons op ops)
  then have "solvent (snd (bank_step L op b))" by (intro solvent_step) simp_all
  with Cons show ?case by (simp add: case_prod_beta Let_def)
qed simp

subsection \<open>Isolation and terminal drafts\<close>

lemma owned: "owner_of (JStr s) u b = Inr True \<Longrightarrow> \<exists>a. map_of (accounts b) s = Some a \<and> JStr (ac_owner a) = u"
  by (auto simp: owner_of_str split: option.splits)

text \<open>
  One step touches a single draft, in status DRAFT or PENDING and on an account of the
  acting user, and at most the account of that draft.
\<close>

lemma bank_step_frame:
  assumes "op_fresh op b"
  obtains (new) i d where "accounts (snd (bank_step L op b)) = accounts b"
      "transfer_drafts (snd (bank_step L op b)) = dict_set i d (transfer_drafts b)"
      "map_of (transfer_drafts b) i = None"
  | (draft) s d d' a where "map_of (transfer_drafts b) s = Some d"
      "td_status d \<in> {T_DRAFT, T_PENDING}" "map_of (accounts b) (td_source d) = Some a"
      "JStr (ac_owner a) = op_user op" "td_source d' = td_source d"
      "transfer_drafts (snd (bank_step L op b)) = dict_set s d' (transfer_drafts b)"
      "accounts (snd (bank_step L op b)) = accounts b \<or>
       accounts (snd (bank_step L op b)) =
         dict_set (td_source d) (a\<lparr>ac_balance := fsub (ac_balance a) (td_amount d)\<rparr>) (accounts b)"
  | (same) "snd (bank_step L op b) = b"
proof (cases op)
  case (OpCreate src ben amount cur user key descr now i)
  obtain r b' where c: "create_transfer_draft src ben amount cur user key descr now i b = (r, b')" by fastforce
  then show ?thesis
  proof (cases rule: create_transfer_draft_cases)
    case (created d)
    show ?thesis by (rule new [of i d]) (use OpCreate c created assms in simp_all)
  qed (rule same, use OpCreate c in simp)
next
  case (OpSubmit di u n1 n2 i)
  obtain r b' where c: "submit_transfer L di u n1 n2 i b = (r, b')" by fastforce
  note st = bank_step_submit_snd [of L di u n1 n2 i b, unfolded c snd_conv]
  from c show ?thesis
  proof (cases rule: submit_transfer_cases)
    case refused
    show ?thesis by (rule same) (use OpSubmit st refused in simp)
  next
    case (expired s d)
    from owned [OF expired(4)] obtain a where a: "map_of (accounts b) (td_source d) = Some a" "JStr (ac_owner a) = u"
      by blast
    show ?thesis
      by (rule draft [OF expired(2) _ a(1), of "d\<lparr>td_status := T_FAILED\<rparr>"])
        (use OpSubmit st expired a in \<open>simp_all del: bank_step.simps\<close>)
  next
    case (completed s d a)
    show ?thesis
      by (rule draft [OF completed(2) _ completed(4), of "d\<lparr>td_status := T_COMPLETED\<rparr>"])
        (use OpSubmit st completed in \<open>simp_all del: bank_step.simps\<close>)
  qed
next
  case (OpCancel di u)
  obtain r b' where c: "cancel_transfer di u b = (r, b')" by fastforce
  then show ?thesis
  proof (cases rule: cancel_transfer_cases)
    case (cancelled s d)
    from owned [OF cancelled(4)] obtain a where a: "map_of (accounts b) (td_source d) = Some a" "JStr (ac_owner a) = u"
      by blast
    show ?thesis
      by (rule draft [OF cancelled(2,3) a(1), of "d\<lparr>td_status := T_CANCELLED\<rparr>"])
        (use OpCancel c cancelled a in simp_all)
  qed (rule same, use OpCancel c in simp)
qed

lemma bank_step_others:
  assumes "op_fresh op b" "map_of (accounts b) k = Some a" "JStr (ac_owner a) \<noteq> op_user op"
  shows "map_of (accounts (snd (bank_step L op b))) k = Some a"
    and "map_of (transfer_drafts b) s = Some d \<Longrightarrow> td_source d = k \<Longrightarrow>
      map_of (transfer_drafts (snd (bank_step L op b))) s = Some d"
  by (rule bank_step_frame [OF assms(1), of L]; use assms in auto)+

lemma bank_step_terminal:
  assumes "op_fresh op b" "map_of (transfer_drafts b) s = Some d" "is_terminal_status (td_status d)"
  shows "map_of (transfer_drafts (snd (bank_step L op b))) s = Some d"
  by (rule bank_step_frame [OF assms(1), of L]) (use assms in \<open>auto simp: is_terminal_status_def\<close>)

lemma bank_run_snd: "snd (bank_run L (op # ops) b) = snd (bank_run L ops (snd (bank_step L op b)))"
  by (simp add: case_prod_beta Let_def)

lemma bank_run_others:
  assumes "run_fresh L ops b" "map_of (accounts b) k = Some a" "\<forall>op \<in> set ops. op_user op \<noteq> JStr (ac_owner a)"
  shows "map_of (accounts (snd (bank_run L ops b))) k = Some a \<and>
    (map_of (transfer_drafts b) s = Some d \<and> td_source d = k \<longrightarrow>
      map_of (transfer_drafts (snd (bank_run L ops b))) s = Some d)"
  using assms
proof (induction ops arbitrary: b)
  case (Cons op ops)
  then have fr: "op_fresh op b" and ne: "JStr (ac_owner a) \<noteq> op_user op" by auto
  note st = bank_step_others [where L = L, OF fr Cons.prems(2) ne]
  from Cons.IH [of "snd (bank_step L op b)"] Cons.prems st show ?case
    unfolding bank_run_snd by auto
qed simp

lemma bank_run_terminal:
  "run_fresh L ops b \<Longrightarrow> map_of (transfer_drafts b) s = Some d \<Longrightarrow> is_terminal_status (td_status d) \<Longrightarrow>
     map_of (transfer_drafts (snd (bank_run L ops b))) s = Some d"
proof (induction ops arbitrary: b)
  case (Cons op ops)
  then show ?case unfolding bank_run_snd by (simp add: bank_step_terminal)
qed simp

section \<open>Properties\<close>

text \<open>Standard library functions for the concrete inputs below.\<close>

definition demo_lib :: pylib where
  "demo_lib = \<lparr>pl_iso = (\<lambda>t. ''2026-01-01T00:00:00+00:00''), pl_str = (\<lambda>x. ''x''),
     pl_parse_float = (\<lambda>s. None), pl_dumps = (\<lambda>x. ''{}'')\<rparr>"

definition demo_ops :: "bank_op list" where
  "demo_ops =
     [OpCreate (JStr ''ACC-1001'') (JStr ''BEN-002'') (Fin 100) (JStr ''USD'') (JStr ''user-alice'')
        (JStr ''k1'') (JStr []) 0 ''D1'',
      OpSubmit (JStr ''D1'') (JStr ''user-alice'') 1 2 ''T1'']"



text \<open>
  C8. Starting from non-negative balances, no run of operations whose requested amounts are
  numbers makes a balance negative, whatever the rounding of the subtractions.
\<close>

theorem balances_never_negative:
  assumes "solvent b" "list_all op_number ops" "map_of (accounts (snd (bank_run L ops b))) k = Some a"
  shows "fle (Fin 0) (ac_balance a)"
  using solvent_account [OF solvent_run [OF assms(1,2)] assms(3)] by (simp add: good_balance_def)

lemma demo_run:
  "bank_run demo_lib demo_ops create_test_repository =
     (let b = create_test_repository; (ds, b1) = bank_step demo_lib (demo_ops ! 0) b;
          (es, b2) = bank_step demo_lib (demo_ops ! 1) b1 in (ds @ es, b2))"
  by (simp add: demo_ops_def case_prod_beta Let_def)

lemmas fixture_defs = create_test_repository_def load_fixtures_def mk_account_def mk_beneficiary_def
  mk_transaction_def empty_bank_def setdefault_def dict_has_def Let_def

lemma demo_final_account:
  "map_of (accounts (snd (bank_run demo_lib demo_ops create_test_repository))) ''ACC-1001'' =
     Some (mk_account ''ACC-1001'' ''user-alice'' ''checking'' 14900 True)"
  by (simp add: demo_ops_def fixture_defs create_transfer_draft_def validate_draft_def
      DEFAULT_TRANSACTION_LIMIT_def SUPPORTED_CURRENCIES_def submit_transfer_def owner_of_str
      key_completed_def execute_draft_def store_draft_def TRANSFER_DRAFT_EXPIRY_MINUTES_def
      round_double_numeral)

lemma fixture_solvent: "solvent create_test_repository"
  by (simp add: solvent_def fixture_defs good_balance_def)

theorem balances_never_negative_witness:
  "fle (Fin 0) (ac_balance (mk_account ''ACC-1001'' ''user-alice'' ''checking'' 14900 True))"
  by (rule balances_never_negative [OF fixture_solvent _ demo_final_account])
    (simp add: demo_ops_def)

text \<open>
  C15. Isolation: operations of other users, in any number and order, leave an account and
  every draft on it exactly as they were.
\<close>

theorem other_users_cannot_touch:
  assumes "run_fresh L ops b" "map_of (accounts b) k = Some a"
    "\<forall>op \<in> set ops. op_user op \<noteq> JStr (ac_owner a)"
  shows "map_of (accounts (snd (bank_run L ops b))) k = Some a \<and>
    (\<forall>s d. map_of (transfer_drafts b) s = Some d \<and> td_source d = k \<longrightarrow>
       map_of (transfer_drafts (snd (bank_run L ops b))) s = Some d)"
  using bank_run_others [OF assms] by blast

lemma demo_fresh: "run_fresh demo_lib demo_ops create_test_repository"
  by (simp add: demo_ops_def fixture_defs)

theorem other_users_cannot_touch_witness:
  "map_of (accounts (snd (bank_run demo_lib demo_ops create_test_repository))) ''ACC-2001'' =
     Some (mk_account ''ACC-2001'' ''user-bob'' ''checking'' 3500 True)"
  by (rule other_users_cannot_touch [OF demo_fresh, THEN conjunct1])
    (simp_all add: fixture_defs demo_ops_def)

text \<open>
  A draft that is COMPLETED, CANCELLED or FAILED is never changed again: neither
  submitted twice, nor cancelled after completion, nor revived.
\<close>

theorem terminal_draft_is_final:
  assumes "run_fresh L ops b" "map_of (transfer_drafts b) s = Some d" "is_terminal_status (td_status d)"
  shows "map_of (transfer_drafts (snd (bank_run L ops b))) s = Some d"
  by (rule bank_run_terminal [OF assms])

text \<open>
  An amount that is NaN passes every check of the draft validation and of the
  submission, on any active account of the caller: the limit, the sign and the balance do
  not stop it, and the balance becomes NaN.
\<close>

theorem nan_amount_poisons_balance:
  assumes "map_of (accounts b) s = Some a" "ac_active a" "map_of (beneficiaries b) n = Some ben"
    "bn_active ben" "map_of (transfer_drafts b) i = None" "k \<noteq> []" "JStr k \<notin> set (completed_transfers b)"
    "now1 \<le> now"
  shows "map_of (accounts (snd (bank_run L
      [OpCreate (JStr s) (JStr n) NaN (JStr ''USD'') (JStr (ac_owner a)) (JStr k) descr now i,
       OpSubmit (JStr i) (JStr (ac_owner a)) now1 now2 t] b))) s = Some (a\<lparr>ac_balance := NaN\<rparr>)"
  using assms
  by (simp add: create_transfer_draft_def validate_draft_def SUPPORTED_CURRENCIES_def
      submit_transfer_def owner_of_str key_completed_def execute_draft_def store_draft_def
      TRANSFER_DRAFT_EXPIRY_MINUTES_def Let_def)

text \<open>What the repository tells a caller about a key is what a submission itself checks, except that
  an empty key never counts as used there.\<close>

lemma key_completed_used:
  "key_completed k b = (if truthy k then is_idempotency_key_used k b else Inr False)"
  by (simp add: key_completed_def is_idempotency_key_used_def)

end
