(* ===== verification/Banking_Tools.thy ===== *)
theory Banking_Tools
  imports Banking
begin

text \<open>
  The tools the agent can call: \<open>banking/tools.py\<close>, the in-process server of
  \<open>banking/mcp_server.py\<close>, the client adapter of \<open>mcp/client.py\<close> (over any transport) and
  the programmed stub of \<open>mcp_client.py\<close>. The state is the bank; one call reads the clock
  at most twice and draws at most one UUID, which \<open>call_env\<close> supplies.
\<close>

section \<open>Tool implementations\<close>

record call_env =
  ce_now1 :: timestamp
  ce_now2 :: timestamp
  ce_uuid :: string

type_synonym tool_out = "(pyexn + (string \<times> string option)) \<times> bank"

definition tool_ok :: "pylib \<Rightarrow> json \<Rightarrow> pyexn + (string \<times> string option)" where
  "tool_ok L j = Inr (pl_dumps L j, None)"

definition tool_err :: "string \<Rightarrow> pyexn + (string \<times> string option)" where
  "tool_err e = Inr ([], Some e)"

text \<open>\<open>if error: return "", error\<close> after a repository call.\<close>

definition tool_of_bank ::
    "pylib \<Rightarrow> ('a \<Rightarrow> json) \<Rightarrow> 'a bank_out \<Rightarrow> tool_out" where
  "tool_of_bank L show_ok r = (case fst r of
     Inl e \<Rightarrow> Inl e
   | Inr (Inl err) \<Rightarrow> tool_err (bank_error_text L err)
   | Inr (Inr v) \<Rightarrow> tool_ok L (show_ok v), snd r)"

definition tool_get_account_summary :: "pylib \<Rightarrow> kwargs \<Rightarrow> bank \<Rightarrow> tool_out" where
  "tool_get_account_summary L args b =
     (bindE (subscript args ''account_id'') (\<lambda>acc. bindE (subscript args ''user_id'') (\<lambda>user.
      bindE (get_summary acc user b) (\<lambda>s. case s of
        None \<Rightarrow> tool_err ''Account not found or access denied''
      | Some s \<Rightarrow> tool_ok L (JObj
          [(''account_id'', JStr (ac_id (as_account s))),
           (''owner_id'', JStr (ac_owner (as_account s))),
           (''balance'', JFloat (ac_balance (as_account s))),
           (''currency'', JStr (ac_currency (as_account s))),
           (''type'', JStr (ac_type (as_account s))),
           (''active'', JBool (ac_active (as_account s))),
           (''recent_transaction_count'', JInt (int (length (as_recent s)))),
           (''beneficiary_count'', JInt (int (as_beneficiary_count s)))])))), b)"

definition tool_get_balance :: "pylib \<Rightarrow> kwargs \<Rightarrow> bank \<Rightarrow> tool_out" where
  "tool_get_balance L args b =
     (bindE (subscript args ''account_id'') (\<lambda>acc. bindE (subscript args ''user_id'') (\<lambda>user.
      bindE (get_balance acc user b) (\<lambda>bal. case bal of
        None \<Rightarrow> tool_err ''Account not found or access denied''
      | Some v \<Rightarrow> tool_ok L (JObj
          [(''account_id'', acc), (''balance'', JFloat v), (''currency'', JStr ''USD'')])))), b)"

definition tool_list_transactions :: "pylib \<Rightarrow> kwargs \<Rightarrow> bank \<Rightarrow> tool_out" where
  "tool_list_transactions L args b =
     (let limit = dict_get_or args ''limit'' (JInt 20) in
      (bindE (subscript args ''account_id'') (\<lambda>acc. bindE (subscript args ''user_id'') (\<lambda>user.
       bindE (list_transactions acc user limit b) (\<lambda>txs. case txs of
         None \<Rightarrow> tool_err ''Account not found or access denied''
       | Some ts \<Rightarrow> tool_ok L (JArr (map (\<lambda>t. JObj
           [(''id'', JStr (tx_id t)), (''amount'', JFloat (tx_amount t)),
            (''currency'', JStr (tx_currency t)), (''description'', tx_description t),
            (''timestamp'', JStr (tx_timestamp t))]) ts))))), b))"

definition tool_find_beneficiary :: "pylib \<Rightarrow> kwargs \<Rightarrow> bank \<Rightarrow> tool_out" where
  "tool_find_beneficiary L args b =
     (bindE (subscript args ''beneficiary_id'') (\<lambda>i. bindE (get_beneficiary i b) (\<lambda>n. case n of
        None \<Rightarrow> tool_err ''Beneficiary not found''
      | Some n \<Rightarrow> tool_ok L (JObj [(''id'', JStr (bn_id n)), (''name'', JStr (bn_name n)),
          (''active'', JBool (bn_active n))]))), b)"

definition tool_create_transfer_draft :: "pylib \<Rightarrow> call_env \<Rightarrow> kwargs \<Rightarrow> bank \<Rightarrow> tool_out" where
  "tool_create_transfer_draft L e args b =
     (case bindE (subscript args ''source_account_id'') (\<lambda>src.
           bindE (subscript args ''beneficiary_id'') (\<lambda>ben.
           bindE (bindE (subscript args ''amount'') (to_float L)) (\<lambda>amount.
           bindE (subscript args ''currency'') (\<lambda>cur.
           bindE (subscript args ''user_id'') (\<lambda>user.
           bindE (subscript args ''idempotency_key'') (\<lambda>key.
             Inr (src, ben, amount, cur, user, key))))))) of
        Inl x \<Rightarrow> (Inl x, b)
      | Inr (src, ben, amount, cur, user, key) \<Rightarrow>
          tool_of_bank L
            (\<lambda>d. JObj [(''draft_id'', JStr (td_id d)),
              (''status'', JStr (transfer_status_value (td_status d))),
              (''amount'', JFloat (td_amount d)),
              (''expires_at'', JStr (case td_expires d of None \<Rightarrow> [] | Some x \<Rightarrow> pl_iso L x))])
            (create_transfer_draft src ben amount cur user key
               (dict_get_or args ''description'' (JStr [])) (ce_now1 e) (ce_uuid e) b))"

definition tool_submit_transfer :: "pylib \<Rightarrow> call_env \<Rightarrow> kwargs \<Rightarrow> bank \<Rightarrow> tool_out" where
  "tool_submit_transfer L e args b =
     (case bindE (subscript args ''draft_id'') (\<lambda>d. bindE (subscript args ''user_id'') (\<lambda>u. Inr (d, u))) of
        Inl x \<Rightarrow> (Inl x, b)
      | Inr (draft_id, user) \<Rightarrow>
          tool_of_bank L
            (\<lambda>d. JObj [(''draft_id'', JStr (td_id d)),
              (''status'', JStr (transfer_status_value (td_status d)))])
            (submit_transfer L draft_id user (ce_now1 e) (ce_now2 e) (ce_uuid e) b))"

definition tool_cancel_transfer :: "pylib \<Rightarrow> kwargs \<Rightarrow> bank \<Rightarrow> tool_out" where
  "tool_cancel_transfer L args b =
     (case bindE (subscript args ''draft_id'') (\<lambda>d. bindE (subscript args ''user_id'') (\<lambda>u. Inr (d, u))) of
        Inl x \<Rightarrow> (Inl x, b)
      | Inr (draft_id, user) \<Rightarrow>
          tool_of_bank L (\<lambda>ok. JObj [(''success'', JBool ok)]) (cancel_transfer draft_id user b))"

definition tool_get_transfer_status :: "pylib \<Rightarrow> kwargs \<Rightarrow> bank \<Rightarrow> tool_out" where
  "tool_get_transfer_status L args b =
     (bindE (subscript args ''draft_id'') (\<lambda>i. bindE (get_transfer_status i b) (\<lambda>d. case d of
        None \<Rightarrow> tool_err ''Transfer draft not found''
      | Some d \<Rightarrow> tool_ok L (JObj [(''draft_id'', JStr (td_id d)),
          (''status'', JStr (transfer_status_value (td_status d))),
          (''amount'', JFloat (td_amount d))]))), b)"

text \<open>\<open>x[:8]\<close> rendered into the reference: strings and lists can be sliced.\<close>

fun slice8 :: "pylib \<Rightarrow> json \<Rightarrow> pyexn + string" where
  "slice8 L (JStr s) = Inr (take 8 s)"
| "slice8 L (JArr xs) = Inr (pl_str L (JArr (take 8 xs)))"
| "slice8 L x = Inl (TypeError ''object is not subscriptable'')"

definition tool_report_suspicious_transaction :: "pylib \<Rightarrow> kwargs \<Rightarrow> bank \<Rightarrow> tool_out" where
  "tool_report_suspicious_transaction L args b =
     (bindE (subscript args ''account_id'') (\<lambda>a. bindE (subscript args ''transaction_id'') (\<lambda>t.
      bindE (subscript args ''reason'') (\<lambda>r. bindE (subscript args ''user_id'') (\<lambda>u.
      bindE (slice8 L t) (\<lambda>ref.
        tool_ok L (JObj [(''reported'', JBool True), (''reference'', JStr (''SAR-'' @ ref))])))))), b)"

text \<open>\<open>getattr(self, f"_tool_{tool_name}", None)\<close>.\<close>

definition tool_method :: "pylib \<Rightarrow> call_env \<Rightarrow> string \<Rightarrow> (kwargs \<Rightarrow> bank \<Rightarrow> tool_out) option" where
  "tool_method L e = map_of
     [(''get_account_summary'', tool_get_account_summary L),
      (''get_balance'', tool_get_balance L),
      (''list_transactions'', tool_list_transactions L),
      (''find_beneficiary'', tool_find_beneficiary L),
      (''create_transfer_draft'', tool_create_transfer_draft L e),
      (''submit_transfer'', tool_submit_transfer L e),
      (''cancel_transfer'', tool_cancel_transfer L),
      (''get_transfer_status'', tool_get_transfer_status L),
      (''report_suspicious_transaction'', tool_report_suspicious_transaction L)]"

definition tools_execute ::
    "pylib \<Rightarrow> call_env \<Rightarrow> string \<Rightarrow> kwargs \<Rightarrow> bank \<Rightarrow> (string \<times> string option) \<times> bank" where
  "tools_execute L e tool_name args b = (case tool_method L e tool_name of
     None \<Rightarrow> (([], Some (''Unknown tool: '' @ tool_name)), b)
   | Some fn \<Rightarrow> (case fn args b of
       (Inl exc, b') \<Rightarrow> (([], Some (exn_text exc)), b')
     | (Inr r, b') \<Rightarrow> (r, b')))"

section \<open>Schemas\<close>

record tool_schema =
  sc_name :: string
  sc_description :: string
  sc_parameters :: json

definition typed :: "string \<Rightarrow> json" where
  "typed t = JObj [(''type'', JStr t)]"

definition mk_parameters :: "(string \<times> string) list \<Rightarrow> string list \<Rightarrow> json" where
  "mk_parameters props req = JObj [(''type'', JStr ''object''),
     (''properties'', JObj (map (\<lambda>(k, t). (k, typed t)) props)),
     (''required'', JArr (map JStr req))]"

definition mk_schema :: "string \<Rightarrow> string \<Rightarrow> (string \<times> string) list \<Rightarrow> string list \<Rightarrow> tool_schema" where
  "mk_schema n d props req =
     \<lparr>sc_name = n, sc_description = d, sc_parameters = mk_parameters props req\<rparr>"

definition tool_schemas :: "tool_schema list" where
  "tool_schemas =
     [mk_schema ''get_account_summary'' ''Get account summary''
        [(''account_id'', ''string''), (''user_id'', ''string'')] [''account_id'', ''user_id''],
      mk_schema ''get_balance'' ''Get account balance''
        [(''account_id'', ''string''), (''user_id'', ''string'')] [''account_id'', ''user_id''],
      mk_schema ''list_transactions'' ''List recent transactions''
        [(''account_id'', ''string''), (''user_id'', ''string''), (''limit'', ''integer'')]
        [''account_id'', ''user_id''],
      mk_schema ''find_beneficiary'' ''Find a beneficiary by ID''
        [(''beneficiary_id'', ''string'')] [''beneficiary_id''],
      mk_schema ''create_transfer_draft'' ''Create a transfer draft''
        [(''source_account_id'', ''string''), (''beneficiary_id'', ''string''), (''amount'', ''number''),
         (''currency'', ''string''), (''user_id'', ''string''), (''idempotency_key'', ''string''),
         (''description'', ''string'')]
        [''source_account_id'', ''beneficiary_id'', ''amount'', ''currency'', ''user_id'', ''idempotency_key''],
      mk_schema ''submit_transfer'' ''Submit a transfer draft for execution''
        [(''draft_id'', ''string''), (''user_id'', ''string'')] [''draft_id'', ''user_id''],
      mk_schema ''cancel_transfer'' ''Cancel a pending transfer draft''
        [(''draft_id'', ''string''), (''user_id'', ''string'')] [''draft_id'', ''user_id''],
      mk_schema ''get_transfer_status'' ''Get the status of a transfer''
        [(''draft_id'', ''string'')] [''draft_id''],
      mk_schema ''report_suspicious_transaction'' ''Report a suspicious transaction''
        [(''account_id'', ''string''), (''transaction_id'', ''string''), (''reason'', ''string''),
         (''user_id'', ''string'')]
        [''account_id'', ''transaction_id'', ''reason'', ''user_id'']]"

text \<open>The \<open>required\<close> list of a schema.\<close>

definition schema_required :: "json \<Rightarrow> string list" where
  "schema_required p = (case p of
     JObj kvs \<Rightarrow> (case map_of kvs ''required'' of
         Some (JArr xs) \<Rightarrow> concat (map (\<lambda>x. case x of JStr s \<Rightarrow> [s] | _ \<Rightarrow> []) xs)
       | _ \<Rightarrow> [])
   | _ \<Rightarrow> [])"

section \<open>The in-process server and the client adapter\<close>

record mcp_tool_result =
  mr_tool_name :: string
  mr_success :: bool
  mr_content :: string
  mr_error :: "string option"
  mr_request_id :: string

definition invoke_tool ::
    "pylib \<Rightarrow> call_env \<Rightarrow> string \<Rightarrow> kwargs \<Rightarrow> bank \<Rightarrow> mcp_tool_result \<times> bank" where
  "invoke_tool L e name args b =
     (let ((result, error), b') = tools_execute L e name args b in
      (if opt_str error \<noteq> []
       then \<lparr>mr_tool_name = name, mr_success = False, mr_content = [], mr_error = error, mr_request_id = []\<rparr>
       else \<lparr>mr_tool_name = name, mr_success = True, mr_content = result, mr_error = None, mr_request_id = []\<rparr>,
       b'))"

definition list_tools :: "tool_schema list" where
  "list_tools = map (\<lambda>s. \<lparr>sc_name = sc_name s, sc_description = sc_description s,
     sc_parameters = sc_parameters s\<rparr>) tool_schemas"

record tool_call =
  tc_name :: string
  tc_arguments :: kwargs

record tool_result =
  tr_name :: string
  tr_success :: bool
  tr_content :: string
  tr_error :: "string option"

text \<open>
  \<open>MCPClientAdapter\<close> over a transport given by its \<open>connect\<close>, \<open>list_tools\<close>,
  \<open>invoke_tool\<close> and \<open>disconnect\<close>, each of which may raise.
\<close>

record mcp_adapter =
  mc_connected :: bool
  mc_tools :: "(string \<times> tool_schema) list"

record 's transport =
  tp_connect :: "'s \<Rightarrow> (pyexn + unit) \<times> 's"
  tp_list_tools :: "'s \<Rightarrow> (pyexn + tool_schema list) \<times> 's"
  tp_invoke :: "string \<Rightarrow> kwargs \<Rightarrow> 's \<Rightarrow> (pyexn + mcp_tool_result) \<times> 's"
  tp_disconnect :: "'s \<Rightarrow> (pyexn + unit) \<times> 's"

definition new_adapter :: mcp_adapter where
  "new_adapter = \<lparr>mc_connected = False, mc_tools = []\<rparr>"

definition mcp_connect :: "'s transport \<Rightarrow> mcp_adapter \<times> 's \<Rightarrow> (pyexn + unit) \<times> (mcp_adapter \<times> 's)" where
  "mcp_connect T st = (case st of (c, s) \<Rightarrow>
     (case tp_connect T s of
        (Inl x, s1) \<Rightarrow> (Inl x, (c, s1))
      | (Inr _, s1) \<Rightarrow>
          (let c1 = c\<lparr>mc_connected := True\<rparr> in
           case tp_list_tools T s1 of
             (Inl x, s2) \<Rightarrow> (Inl x, (c1, s2))
           | (Inr ts, s2) \<Rightarrow>
               (Inr (), (c1\<lparr>mc_tools := fold (\<lambda>t d. dict_set (sc_name t) t d) ts []\<rparr>, s2)))))"

definition mcp_disconnect :: "'s transport \<Rightarrow> mcp_adapter \<times> 's \<Rightarrow> (pyexn + unit) \<times> (mcp_adapter \<times> 's)" where
  "mcp_disconnect T st = (case st of (c, s) \<Rightarrow>
     (case tp_disconnect T s of
        (Inl x, s1) \<Rightarrow> (Inl x, (c, s1))
      | (Inr _, s1) \<Rightarrow> (Inr (), (c\<lparr>mc_connected := False, mc_tools := []\<rparr>, s1))))"

definition mcp_call_tool ::
    "'s transport \<Rightarrow> tool_call \<Rightarrow> mcp_adapter \<times> 's \<Rightarrow> (pyexn + tool_result) \<times> (mcp_adapter \<times> 's)" where
  "mcp_call_tool T call st = (case st of (c, s) \<Rightarrow>
     if \<not> mc_connected c then (Inl (RuntimeError ''MCP client not connected''), (c, s))
     else (case tp_invoke T (tc_name call) (tc_arguments call) s of
        (Inl x, s1) \<Rightarrow> (Inr \<lparr>tr_name = tc_name call, tr_success = False, tr_content = [],
                             tr_error = Some (exn_text x)\<rparr>, (c, s1))
      | (Inr r, s1) \<Rightarrow> (Inr \<lparr>tr_name = tc_name call, tr_success = mr_success r,
                             tr_content = mr_content r, tr_error = mr_error r\<rparr>, (c, s1))))"

definition banking_transport :: "pylib \<Rightarrow> call_env \<Rightarrow> bank transport" where
  "banking_transport L e = \<lparr>
     tp_connect = (\<lambda>b. (Inr (), b)),
     tp_list_tools = (\<lambda>b. (Inr list_tools, b)),
     tp_invoke = (\<lambda>n args b. let (r, b') = invoke_tool L e n args b in (Inr r, b')),
     tp_disconnect = (\<lambda>b. (Inr (), b))\<rparr>"

section \<open>The programmed stub\<close>

record stub_client =
  st_tools :: "(string \<times> tool_result list) list"
  st_counters :: "(string \<times> nat) list"
  st_calls :: "tool_call list"

definition stub_register :: "string \<Rightarrow> tool_result list \<Rightarrow> stub_client \<Rightarrow> stub_client" where
  "stub_register name results c = c\<lparr>st_tools := dict_set name results (st_tools c),
     st_counters := dict_set name 0 (st_counters c)\<rparr>"

definition new_stub :: "(string \<times> tool_result list) list \<Rightarrow> stub_client" where
  "new_stub tools = fold (\<lambda>(n, rs) c. stub_register n rs c) tools
     \<lparr>st_tools = [], st_counters = [], st_calls = []\<rparr>"

definition stub_call_tool :: "tool_call \<Rightarrow> stub_client \<Rightarrow> (pyexn + tool_result) \<times> stub_client" where
  "stub_call_tool call c0 =
     (let c = c0\<lparr>st_calls := st_calls c0 @ [call]\<rparr>; n = tc_name call in
      case map_of (st_tools c) n of
        None \<Rightarrow> (Inr \<lparr>tr_name = n, tr_success = False, tr_content = [],
                       tr_error = Some (''Unknown tool: '' @ quoted n)\<rparr>, c)
      | Some rs \<Rightarrow>
          (case map_of (st_counters c) n of
             None \<Rightarrow> (Inl (KeyError n), c)
           | Some idx \<Rightarrow>
               if length rs \<le> idx
               then (Inl (RuntimeError (''StubMCPClient exhausted for tool '' @ quoted n)), c)
               else (Inr (rs ! idx), c\<lparr>st_counters := dict_set n (Suc idx) (st_counters c)\<rparr>)))"

section \<open>What a tool call can change\<close>

lemma map_of_ConsE:
  "map_of ((k, v) # d) n = Some f \<Longrightarrow> (n = k \<Longrightarrow> f = v \<Longrightarrow> P) \<Longrightarrow> (map_of d n = Some f \<Longrightarrow> P) \<Longrightarrow> P"
  by (cases "n = k") simp_all

lemma tool_method_cases:
  assumes "tool_method L e n = Some f"
  obtains "n = ''get_account_summary''" "f = tool_get_account_summary L"
  | "n = ''get_balance''" "f = tool_get_balance L"
  | "n = ''list_transactions''" "f = tool_list_transactions L"
  | "n = ''find_beneficiary''" "f = tool_find_beneficiary L"
  | "n = ''create_transfer_draft''" "f = tool_create_transfer_draft L e"
  | "n = ''submit_transfer''" "f = tool_submit_transfer L e"
  | "n = ''cancel_transfer''" "f = tool_cancel_transfer L"
  | "n = ''get_transfer_status''" "f = tool_get_transfer_status L"
  | "n = ''report_suspicious_transaction''" "f = tool_report_suspicious_transaction L"
proof -
  show thesis
    by (insert assms [unfolded tool_method_def], erule map_of_ConsE, rule that(1), assumption, assumption,
    erule map_of_ConsE, rule that(2), assumption, assumption,
    erule map_of_ConsE, rule that(3), assumption, assumption,
    erule map_of_ConsE, rule that(4), assumption, assumption,
    erule map_of_ConsE, rule that(5), assumption, assumption,
    erule map_of_ConsE, rule that(6), assumption, assumption,
    erule map_of_ConsE, rule that(7), assumption, assumption,
    erule map_of_ConsE, rule that(8), assumption, assumption,
    erule map_of_ConsE, rule that(9), assumption, assumption, simp)
qed

lemmas query_tool_defs = tool_get_account_summary_def tool_get_balance_def tool_list_transactions_def
  tool_find_beneficiary_def tool_get_transfer_status_def tool_report_suspicious_transaction_def

lemma query_tools_pure [store_simps]:
  "snd (tool_get_account_summary L args b) = b"
  "snd (tool_get_balance L args b) = b"
  "snd (tool_list_transactions L args b) = b"
  "snd (tool_find_beneficiary L args b) = b"
  "snd (tool_get_transfer_status L args b) = b"
  "snd (tool_report_suspicious_transaction L args b) = b"
  by (simp_all add: query_tool_defs Let_def)

lemma tools_execute_snd:
  "snd (tools_execute L e n args b) = (case tool_method L e n of None \<Rightarrow> b | Some f \<Rightarrow> snd (f args b))"
  by (auto simp: tools_execute_def split: option.splits prod.splits sum.splits)

text \<open>The operation of the repository a writing tool performs.\<close>

lemma create_tool_step:
  "snd (tool_create_transfer_draft L e args b) = b \<or>
   (\<exists>src ben amount cur user key descr. map_of args ''user_id'' = Some user \<and>
      snd (tool_create_transfer_draft L e args b) =
      snd (bank_step L (OpCreate src ben amount cur user key descr (ce_now1 e) (ce_uuid e)) b))"
  by (simp add: tool_create_transfer_draft_def tool_of_bank_def subscript_def bindE_def
      split: sum.split option.split) metis

lemma submit_tool_step:
  "snd (tool_submit_transfer L e args b) = b \<or>
   (\<exists>d user. map_of args ''user_id'' = Some user \<and> snd (tool_submit_transfer L e args b) =
      snd (bank_step L (OpSubmit d user (ce_now1 e) (ce_now2 e) (ce_uuid e)) b))"
  by (auto simp: tool_submit_transfer_def tool_of_bank_def subscript_def bindE_def
      bank_step_submit_snd simp del: bank_step.simps split: sum.splits option.splits)

lemma cancel_tool_step:
  "snd (tool_cancel_transfer L args b) = b \<or>
   (\<exists>d user. map_of args ''user_id'' = Some user \<and>
      snd (tool_cancel_transfer L args b) = snd (bank_step L (OpCancel d user) b))"
  by (auto simp: tool_cancel_transfer_def tool_of_bank_def subscript_def bindE_def
      split: sum.splits option.splits)

text \<open>Refinement: every tool call is a read or one operation of its \<open>user_id\<close> on the bank.\<close>

lemma tools_execute_step:
  "snd (tools_execute L e n args b) = b \<or>
   (\<exists>op. map_of args ''user_id'' = Some (op_user op) \<and>
      (op_fresh op b \<or> n = ''create_transfer_draft'' \<and> map_of (transfer_drafts b) (ce_uuid e) \<noteq> None) \<and>
      ((\<exists>d u n1 n2 i. op = OpSubmit d u n1 n2 i) \<longrightarrow> n = ''submit_transfer'') \<and>
      snd (tools_execute L e n args b) = snd (bank_step L op b))"
proof (cases "tool_method L e n")
  case (Some f)
  note snd_f = tools_execute_snd [of L e n args b, unfolded Some option.case]
  from Some show ?thesis
  proof (cases rule: tool_method_cases)
    case 5
    with snd_f create_tool_step [of L e args b] show ?thesis
      by (metis bank_op.distinct(1) op_fresh.simps(1) op_user.simps(1))
  next
    case 6
    with snd_f submit_tool_step [of L e args b] show ?thesis
      by (metis op_fresh.simps(2) op_user.simps(2))
  next
    case 7
    with snd_f cancel_tool_step [of L args b] show ?thesis
      by (metis bank_op.distinct(5) op_fresh.simps(3) op_user.simps(3))
  qed (use snd_f in \<open>simp_all only: query_tools_pure simp_thms\<close>)
qed (simp add: tools_execute_snd)

lemma bank_step_accounts:
  assumes "\<And>d u n1 n2 i. op \<noteq> OpSubmit d u n1 n2 i"
  shows "accounts (snd (bank_step L op b)) = accounts b"
proof (cases op)
  case (OpCreate src ben amount cur user key descr now i)
  then show ?thesis
    using bank_step_create [of L src ben amount cur user key descr now i b] by (metis surjective_pairing)
next
  case (OpCancel d u)
  then show ?thesis using bank_step_cancel [of L d u b] by (metis surjective_pairing)
qed (use assms in blast)

lemma read_only_pure:
  assumes "is_read_only n"
  shows "snd (tools_execute L e n args b) = b"
proof (cases "tool_method L e n")
  case (Some f)
  from Some have "snd (f args b) = b"
    by (cases rule: tool_method_cases)
      (use assms in \<open>simp_all add: query_tools_pure is_read_only_def TOOL_RISK_def dict_get_or_def\<close>)
  with Some show ?thesis by (simp add: tools_execute_snd)
qed (simp add: tools_execute_snd)

section \<open>Errors\<close>

lemma bank_error_text_ne: "bank_error_text L e \<noteq> []"
  by (cases e) (simp_all add: bank_error_text_def)

lemma exn_text_quoted: "exn_text (KeyError k) \<noteq> []"
  by (simp add: quoted_def)

text \<open>
  The exceptions a tool raises: a \<open>KeyError\<close> for an absent argument, or one of the
  others, which carry a message.
\<close>

definition plain_exn :: "pyexn \<Rightarrow> bool" where
  "plain_exn x = ((\<forall>k. x \<noteq> KeyError k) \<and> exn_text x \<noteq> [])"

definition raises_only :: "(pyexn \<Rightarrow> bool) \<Rightarrow> pyexn + 'a \<Rightarrow> bool" where
  "raises_only P r = (case r of Inl x \<Rightarrow> P x | Inr _ \<Rightarrow> True)"

definition absent_or_plain :: "string list \<Rightarrow> kwargs \<Rightarrow> pyexn \<Rightarrow> bool" where
  "absent_or_plain req args x = (plain_exn x \<or> (\<exists>k \<in> set req. x = KeyError k \<and> map_of args k = None))"

lemma raises_only_bind:
  "raises_only P m \<Longrightarrow> (\<And>x. m = Inr x \<Longrightarrow> raises_only P (f x)) \<Longrightarrow> raises_only P (bindE m f)"
  by (cases m) (auto simp: raises_only_def)

lemma raises_only_Inr [simp]: "raises_only P (Inr x)"
  by (simp add: raises_only_def)

lemma raises_only_mono: "raises_only P r \<Longrightarrow> (\<And>x. P x \<Longrightarrow> Q x) \<Longrightarrow> raises_only Q r"
  by (auto simp: raises_only_def split: sum.splits)

lemma subscript_raises: "k \<in> set req \<Longrightarrow> raises_only (absent_or_plain req args) (subscript args k)"
  by (auto simp: subscript_def raises_only_def absent_or_plain_def split: option.splits)

lemma hash_raises: "raises_only plain_exn (hash_key k)"
  by (cases k rule: hash_key.cases) (simp_all add: raises_only_def plain_exn_def)

lemma get_by_raises: "raises_only plain_exn (get_by k d)"
  unfolding get_by_def by (intro raises_only_bind hash_raises raises_only_Inr)

lemma to_float_raises: "raises_only plain_exn (to_float L x)"
  by (cases "(L, x)" rule: to_float.cases)
    (auto simp: raises_only_def plain_exn_def split: pyfloat.splits option.splits)

lemma slice_limit_raises: "raises_only plain_exn (slice_limit x)"
  by (cases x rule: slice_limit.cases) (simp_all add: raises_only_def plain_exn_def)

lemma slice8_raises: "raises_only plain_exn (slice8 L x)"
  by (cases "(L, x)" rule: slice8.cases) (simp_all add: raises_only_def plain_exn_def)

lemma owner_of_raises: "raises_only plain_exn (owner_of a u b)"
  unfolding owner_of_def by (intro raises_only_bind get_by_raises raises_only_Inr)

lemma get_balance_raises: "raises_only plain_exn (get_balance a u b)"
  unfolding get_balance_def by (intro raises_only_bind get_by_raises raises_only_Inr)

lemma get_summary_raises: "raises_only plain_exn (get_summary a u b)"
  unfolding get_summary_def
  by (intro raises_only_bind get_by_raises)
    (auto intro!: raises_only_bind get_by_raises split: option.splits)

lemma list_transactions_raises: "raises_only plain_exn (list_transactions a u n b)"
  unfolding list_transactions_def
  by (intro raises_only_bind owner_of_raises)
    (auto intro!: raises_only_bind get_by_raises slice_limit_raises)

lemma key_completed_raises: "raises_only plain_exn (key_completed k b)"
  by (auto simp: key_completed_def intro!: raises_only_bind hash_raises)

lemma validate_draft_raises: "raises_only plain_exn (validate_draft src ben am cur u key descr now i b)"
  unfolding validate_draft_def
  by (rule raises_only_bind [OF get_by_raises])
    (auto intro!: raises_only_bind get_by_raises hash_raises split: option.splits)

lemma create_raises: "raises_only plain_exn (fst (create_transfer_draft src ben am cur u key descr now i b))"
  using validate_draft_raises [of src ben am cur u key descr now i b]
  by (auto simp: create_transfer_draft_def split: sum.splits)

lemma submit_raises: "raises_only plain_exn (fst (submit_transfer L di u n1 n2 i b))"
proof -
  have g: "raises_only plain_exn (Inl x :: pyexn + (bank_error + transfer_draft))"
    if "get_by di (transfer_drafts b) = Inl x" for x
    using get_by_raises [of di "transfer_drafts b"] that by (simp add: raises_only_def)
  have k: "raises_only plain_exn (Inl x :: pyexn + (bank_error + transfer_draft))"
    if "key_completed (td_key d) b = Inl x" for x and d :: transfer_draft
    using key_completed_raises [of "td_key d" b] that by (simp add: raises_only_def)
  show ?thesis
    using g k by (auto simp: submit_transfer_def owner_of_str case_prod_beta
        split: sum.splits option.splits bool.splits)
qed

lemma cancel_raises: "raises_only plain_exn (fst (cancel_transfer di u b))"
  using get_by_raises [of di "transfer_drafts b"]
  by (auto simp: cancel_transfer_def owner_of_str raises_only_def
      split: sum.splits option.splits bool.splits)

lemma tool_of_bank_raises: "raises_only P (fst r) \<Longrightarrow> raises_only P (fst (tool_of_bank L g r))"
  by (auto simp: tool_of_bank_def tool_ok_def tool_err_def raises_only_def split: sum.splits)

lemma plain_absent: "raises_only plain_exn r \<Longrightarrow> raises_only (absent_or_plain req args) r"
  by (erule raises_only_mono) (simp add: absent_or_plain_def)

lemmas call_raises =
  get_summary_raises [THEN plain_absent] get_balance_raises [THEN plain_absent]
  list_transactions_raises [THEN plain_absent] slice8_raises [THEN plain_absent]
  get_by_raises [THEN plain_absent] to_float_raises [THEN plain_absent]
  create_raises [THEN plain_absent] submit_raises [THEN plain_absent]
  cancel_raises [THEN plain_absent]

lemma tool_msg_raises [simp]: "raises_only P (tool_ok L j)" "raises_only P (tool_err e)"
  by (simp_all add: tool_ok_def tool_err_def)

text \<open>The arguments a tool needs, as its schema declares them.\<close>

definition required_of :: "string \<Rightarrow> string list" where
  "required_of n = (case List.find (\<lambda>s. sc_name s = n) tool_schemas of
     None \<Rightarrow> [] | Some s \<Rightarrow> schema_required (sc_parameters s))"

lemma required_of_simps:
  "required_of ''get_account_summary'' = [''account_id'', ''user_id'']"
  "required_of ''get_balance'' = [''account_id'', ''user_id'']"
  "required_of ''list_transactions'' = [''account_id'', ''user_id'']"
  "required_of ''find_beneficiary'' = [''beneficiary_id'']"
  "required_of ''create_transfer_draft'' =
     [''source_account_id'', ''beneficiary_id'', ''amount'', ''currency'', ''user_id'', ''idempotency_key'']"
  "required_of ''submit_transfer'' = [''draft_id'', ''user_id'']"
  "required_of ''cancel_transfer'' = [''draft_id'', ''user_id'']"
  "required_of ''get_transfer_status'' = [''draft_id'']"
  "required_of ''report_suspicious_transaction'' = [''account_id'', ''transaction_id'', ''reason'', ''user_id'']"
  by (simp_all add: required_of_def tool_schemas_def mk_schema_def mk_parameters_def schema_required_def)

lemma raises_only_pair_case:
  "(\<And>x. m = Inl x \<Longrightarrow> P x) \<Longrightarrow> (\<And>v. m = Inr v \<Longrightarrow> raises_only P (fst (f v))) \<Longrightarrow>
     raises_only P (fst (case m of Inl x \<Rightarrow> (Inl x, b) | Inr v \<Rightarrow> f v))"
  by (cases m) (auto simp: raises_only_def)

lemma raises_Inl: "raises_only P m \<Longrightarrow> m = Inl x \<Longrightarrow> P x"
  by (simp add: raises_only_def)

text \<open>The error a tool returns is a non-empty message.\<close>

definition spoken :: "pyexn + (string \<times> string option) \<Rightarrow> bool" where
  "spoken r = (case r of Inl x \<Rightarrow> True | Inr v \<Rightarrow> opt_str (snd v) \<noteq> [] \<longleftrightarrow> snd v \<noteq> None)"

lemma spoken_simps [simp]: "spoken (Inl x)" "spoken (tool_ok L j)" "e \<noteq> [] \<Longrightarrow> spoken (tool_err e)"
  by (simp_all add: spoken_def tool_ok_def tool_err_def opt_str_def)

lemma spoken_bind: "(\<And>x. m = Inr x \<Longrightarrow> spoken (f x)) \<Longrightarrow> spoken (bindE m f)"
  by (cases m) auto

lemma spoken_of_bank: "spoken (fst (tool_of_bank L g r))"
  by (auto simp: tool_of_bank_def bank_error_text_ne split: sum.splits)

lemma spoken_case: "(\<And>v. spoken (fst (f v))) \<Longrightarrow> spoken (fst (case m of Inl x \<Rightarrow> (Inl x, b) | Inr v \<Rightarrow> f v))"
  by (cases m) auto

lemma tool_message:
  assumes "tool_method L e n = Some f" "f args b = (Inr v, b')"
  shows "opt_str (snd v) \<noteq> [] \<longleftrightarrow> snd v \<noteq> None"
proof -
  note wr = tool_create_transfer_draft_def tool_submit_transfer_def tool_cancel_transfer_def
  from assms(1) have "spoken (fst (f args b))"
    by (cases rule: tool_method_cases)
      (auto simp: query_tool_defs wr Let_def intro!: spoken_bind spoken_case spoken_of_bank split: option.splits)
  with assms(2) show ?thesis by (simp add: spoken_def)
qed

lemma tool_raises:
  assumes "tool_method L e n = Some f"
  shows "raises_only (absent_or_plain (required_of n) args) (fst (f args b))"
  using assms
proof (cases rule: tool_method_cases)
  case 1
  show ?thesis unfolding 1 required_of_simps tool_get_account_summary_def
    by (auto intro!: raises_only_bind subscript_raises call_raises split: option.splits)
next
  case 2
  show ?thesis unfolding 2 required_of_simps tool_get_balance_def
    by (auto intro!: raises_only_bind subscript_raises call_raises split: option.splits)
next
  case 3
  show ?thesis unfolding 3 required_of_simps tool_list_transactions_def Let_def
    by (auto intro!: raises_only_bind subscript_raises call_raises split: option.splits)
next
  case 4
  show ?thesis unfolding 4 required_of_simps tool_find_beneficiary_def get_beneficiary_def
    by (auto intro!: raises_only_bind subscript_raises call_raises split: option.splits)
next
  case 5
  show ?thesis unfolding 5 required_of_simps tool_create_transfer_draft_def
    by (rule raises_only_pair_case, erule raises_Inl [rotated])
      (auto intro!: raises_only_bind subscript_raises tool_of_bank_raises call_raises)
next
  case 6
  show ?thesis unfolding 6 required_of_simps tool_submit_transfer_def
    by (rule raises_only_pair_case, erule raises_Inl [rotated])
      (auto intro!: raises_only_bind subscript_raises tool_of_bank_raises call_raises)
next
  case 7
  show ?thesis unfolding 7 required_of_simps tool_cancel_transfer_def
    by (rule raises_only_pair_case, erule raises_Inl [rotated])
      (auto intro!: raises_only_bind subscript_raises tool_of_bank_raises call_raises)
next
  case 8
  show ?thesis unfolding 8 required_of_simps tool_get_transfer_status_def get_transfer_status_def
    by (auto intro!: raises_only_bind subscript_raises call_raises split: option.splits)
next
  case 9
  show ?thesis unfolding 9 required_of_simps tool_report_suspicious_transaction_def
    by (auto intro!: raises_only_bind subscript_raises call_raises split: option.splits)
qed

section \<open>Properties\<close>

text \<open>
  C9. The risk classification is sound for the implementation: a tool classified READ_ONLY
  (or unknown) changes nothing, and only a tool that requires human approval can change an
  account.
\<close>

theorem tool_risk_sound:
  "(is_read_only n \<longrightarrow> snd (tools_execute L e n args b) = b) \<and>
   (\<not> requires_hitl n \<longrightarrow> accounts (snd (tools_execute L e n args b)) = accounts b)"
proof (intro conjI impI)
  assume "is_read_only n"
  then show "snd (tools_execute L e n args b) = b" by (rule read_only_pure)
next
  assume "\<not> requires_hitl n"
  then have "n \<noteq> ''submit_transfer''" by (auto simp: requires_hitl_def TOOL_RISK_def dict_get_or_def)
  with tools_execute_step [of L e n args b]
  show "accounts (snd (tools_execute L e n args b)) = accounts b"
    by (metis bank_step_accounts)
qed

definition demo_env :: call_env where
  "demo_env = \<lparr>ce_now1 = 0, ce_now2 = 1, ce_uuid = ''U1''\<rparr>"

definition demo_args :: kwargs where
  "demo_args = [(''account_id'', JStr ''ACC-1001''), (''user_id'', JStr ''user-alice'')]"

theorem tool_risk_sound_witness:
  "snd (tools_execute demo_lib demo_env ''get_balance'' demo_args create_test_repository) =
     create_test_repository"
  using tool_risk_sound [of "''get_balance''" demo_lib demo_env demo_args create_test_repository]
  by (simp add: is_read_only_def TOOL_RISK_def dict_get_or_def)



text \<open>
  A tool call acts for its \<open>user_id\<close> argument only: an account of another owner, and
  every draft on it, is the same after any call (given that a drawn UUID is new).
\<close>

theorem tool_call_isolated:
  assumes "map_of (accounts b) k = Some a" "map_of args ''user_id'' \<noteq> Some (JStr (ac_owner a))"
    "map_of (transfer_drafts b) (ce_uuid e) = None"
  shows "map_of (accounts (snd (tools_execute L e n args b))) k = Some a \<and>
    (\<forall>s d. map_of (transfer_drafts b) s = Some d \<and> td_source d = k \<longrightarrow>
       map_of (transfer_drafts (snd (tools_execute L e n args b))) s = Some d)"
proof (cases "snd (tools_execute L e n args b) = b")
  case False
  with tools_execute_step [of L e n args b] assms(3) obtain op where
    op: "map_of args ''user_id'' = Some (op_user op)" "op_fresh op b"
      "snd (tools_execute L e n args b) = snd (bank_step L op b)" by auto
  with assms(2) have ne: "JStr (ac_owner a) \<noteq> op_user op" by auto
  show ?thesis unfolding op(3)
    using bank_step_others [where L = L, OF op(2) assms(1) ne] by blast
qed (use assms in simp)

section \<open>The life of a client\<close>

text \<open>Connected to the banking server, an adapter knows exactly the nine tools; before that and after
  \<open>disconnect\<close> it knows none and every call raises.\<close>

lemma adapter_connects:
  "mcp_connect (banking_transport L e) (new_adapter, b) =
     (Inr (), (\<lparr>mc_connected = True, mc_tools = fold (\<lambda>t d. dict_set (sc_name t) t d) list_tools []\<rparr>, b))"
  by (simp add: mcp_connect_def banking_transport_def new_adapter_def)

lemma adapter_disconnects:
  "mcp_disconnect (banking_transport L e) (snd (mcp_connect (banking_transport L e) (new_adapter, b))) = (Inr (), (new_adapter, b))"
  unfolding adapter_connects by (simp add: mcp_disconnect_def banking_transport_def new_adapter_def)

lemma disconnected_raises:
  "mcp_call_tool T c (new_adapter, s) = (Inl (RuntimeError ''MCP client not connected''), (new_adapter, s))"
  by (simp add: mcp_call_tool_def new_adapter_def)

text \<open>The stub plays back the results a tool was programmed with, in order, and then refuses.\<close>

fun stub_calls :: "tool_call list \<Rightarrow> stub_client \<Rightarrow> (pyexn + tool_result) list \<times> stub_client" where
  "stub_calls [] c = ([], c)"
| "stub_calls (x # xs) c = (let (r, c1) = stub_call_tool x c; (rs, c2) = stub_calls xs c1 in (r # rs, c2))"

lemma stub_call:
  assumes "map_of (st_tools c) (tc_name x) = Some rs" "map_of (st_counters c) (tc_name x) = Some k" "k < length rs"
  obtains c1 where "stub_call_tool x c = (Inr (rs ! k), c1)" "map_of (st_tools c1) (tc_name x) = Some rs"
    "map_of (st_counters c1) (tc_name x) = Some (Suc k)"
  using assms by (simp add: stub_call_tool_def Let_def map_of_dict_set)

lemma stub_replays:
  assumes "map_of (st_tools c) n = Some rs" "map_of (st_counters c) n = Some k"
    "list_all (\<lambda>x. tc_name x = n) xs" "k + length xs \<le> length rs"
  shows "fst (stub_calls xs c) = map Inr (take (length xs) (drop k rs))"
  using assms
proof (induction xs arbitrary: c k)
  case (Cons x xs)
  have x: "tc_name x = n" "k < length rs" using Cons.prems(3,4) by simp_all
  obtain c1 where c1: "stub_call_tool x c = (Inr (rs ! k), c1)" "map_of (st_tools c1) n = Some rs"
    "map_of (st_counters c1) n = Some (Suc k)"
    using stub_call [of c x rs k] Cons.prems(1,2) x by auto
  have "fst (stub_calls xs c1) = map Inr (take (length xs) (drop (Suc k) rs))"
    using Cons.IH [OF c1(2,3)] Cons.prems(3,4) by simp
  with c1(1) x(2) show ?case by (simp add: case_prod_beta Let_def Cons_nth_drop_Suc [symmetric])
qed simp

lemma stub_exhausted:
  assumes "map_of (st_tools c) (tc_name x) = Some rs" "map_of (st_counters c) (tc_name x) = Some k" "length rs \<le> k"
  shows "fst (stub_call_tool x c) = Inl (RuntimeError (''StubMCPClient exhausted for tool '' @ quoted (tc_name x)))"
  using assms by (simp add: stub_call_tool_def Let_def)

lemma new_stub_programmed:
  "map_of (st_tools (new_stub [(n, rs)])) n = Some rs" "map_of (st_counters (new_stub [(n, rs)])) n = Some 0"
  by (simp_all add: new_stub_def stub_register_def)

end
