(* ===== verification/Auth.thy ===== *)
theory Auth
  imports Json
begin

text \<open>
  The authorization gate, \<open>auth.py\<close>: operations, the four policies, the exact-match
  single-use grant, and the gateway with its audit trail. A policy is a value of the
  datatype \<open>policy\<close>, because the grant policy carries the mutable flag \<open>_consumed\<close>. (The
  dash in two of the reason texts is written as a comma.)
\<close>

section \<open>Data types\<close>

datatype approval_decision = APPROVED | DENIED | PENDING

datatype operation_kind = K_READ | K_WRITE | K_TRANSFER | K_DELETE | K_CONFIG

fun kind_value :: "operation_kind \<Rightarrow> string" where
  "kind_value K_READ = ''read''"
| "kind_value K_WRITE = ''write''"
| "kind_value K_TRANSFER = ''transfer''"
| "kind_value K_DELETE = ''delete''"
| "kind_value K_CONFIG = ''config''"

record operation =
  op_kind :: operation_kind
  op_name :: string
  op_target :: string
  op_details :: kwargs

record authorization_decision =
  ad_operation :: operation
  ad_decision :: approval_decision
  ad_reason :: string
  ad_timestamp :: timestamp
  ad_approver :: "string option"

record approved_operation_grant =
  gr_session_id :: string
  gr_approving_user :: string
  gr_requesting_user :: string
  gr_thread_id :: string
  gr_tool_name :: string
  gr_tool_args :: kwargs
  gr_idempotency_key :: string
  gr_decision :: string
  gr_created_at :: timestamp
  gr_expires_at :: "timestamp option"
  gr_consumed :: bool
  gr_version :: int

section \<open>The grant\<close>

definition grant_is_expired :: "timestamp \<Rightarrow> approved_operation_grant \<Rightarrow> bool" where
  "grant_is_expired now g = (case gr_expires_at g of None \<Rightarrow> False | Some x \<Rightarrow> x < now)"

definition can_authorize ::
    "timestamp \<Rightarrow> approved_operation_grant \<Rightarrow> string \<Rightarrow> string \<Rightarrow> string \<Rightarrow> string \<Rightarrow> kwargs \<Rightarrow> string \<Rightarrow> bool" where
  "can_authorize now g session_id user_id thread_id tool_name tool_args idempotency_key =
     (if gr_decision g \<noteq> ''approved'' then False
      else if gr_consumed g then False
      else if grant_is_expired now g then False
      else if gr_session_id g \<noteq> session_id then False
      else if gr_requesting_user g \<noteq> user_id then False
      else if gr_thread_id g \<noteq> thread_id then False
      else if gr_tool_name g \<noteq> tool_name then False
      else if gr_idempotency_key g \<noteq> idempotency_key then False
      else if canon (JObj (gr_tool_args g)) \<noteq> canon (JObj tool_args) then False
      else True)"

section \<open>Policies\<close>

datatype policy =
    AutoApprovePolicy
  | ReadOnlyPolicy
  | RequireApprovalPolicy
  | ApprovedOperationGrantPolicy approved_operation_grant bool

definition decide :: "operation \<Rightarrow> approval_decision \<Rightarrow> string \<Rightarrow> timestamp \<Rightarrow> authorization_decision" where
  "decide operation d reason t = \<lparr>ad_operation = operation, ad_decision = d, ad_reason = reason,
     ad_timestamp = t, ad_approver = None\<rparr>"

definition auto_approve :: "timestamp \<Rightarrow> operation \<Rightarrow> authorization_decision" where
  "auto_approve t operation = decide operation APPROVED ''auto-approved (development mode)'' t"

definition read_only :: "timestamp \<Rightarrow> operation \<Rightarrow> authorization_decision" where
  "read_only t operation =
     (if op_kind operation = K_READ
      then decide operation APPROVED ''read operations are always permitted'' t
      else decide operation DENIED
        (kind_value (op_kind operation) @ '' operations are not permitted in read-only mode'') t)"

definition require_approval :: "timestamp \<Rightarrow> operation \<Rightarrow> authorization_decision" where
  "require_approval t operation =
     (if op_kind operation = K_READ
      then decide operation APPROVED ''read operations are always permitted'' t
      else decide operation PENDING ''human approval required for non-read operations'' t)"

text \<open>\<open>str(x)\<close>, and \<open>details.get("args", {})\<close> when it is a dictionary.\<close>

definition py_str :: "pylib \<Rightarrow> json \<Rightarrow> string" where
  "py_str L j = (case j of JStr s \<Rightarrow> s | _ \<Rightarrow> pl_str L j)"

definition args_of :: "operation \<Rightarrow> kwargs" where
  "args_of operation = (case map_of (op_details operation) ''args'' of
     Some (JObj kvs) \<Rightarrow> kvs | _ \<Rightarrow> [])"

definition detail :: "pylib \<Rightarrow> operation \<Rightarrow> string \<Rightarrow> string" where
  "detail L operation k = py_str L (dict_get_or (op_details operation) k (JStr []))"

definition grant_matches :: "pylib \<Rightarrow> timestamp \<Rightarrow> approved_operation_grant \<Rightarrow> operation \<Rightarrow> bool" where
  "grant_matches L now g operation = can_authorize now g
     (detail L operation ''session_id'') (detail L operation ''user_id'')
     (detail L operation ''thread_id'') (op_name operation) (args_of operation)
     (detail L operation ''idempotency_key'')"

text \<open>The first clock reading decides expiry, the second stamps the decision.\<close>

definition grant_authorize ::
    "pylib \<Rightarrow> timestamp \<Rightarrow> timestamp \<Rightarrow> operation \<Rightarrow> approved_operation_grant \<Rightarrow> bool \<Rightarrow>
     authorization_decision \<times> bool" where
  "grant_authorize L now t operation g consumed =
     (if consumed then
        (decide operation DENIED
          ''Approved operation grant already consumed, requires new authorization'' t, consumed)
      else if grant_matches L now g operation then
        ((decide operation APPROVED (''Approved by '' @ gr_approving_user g @ '' via HITL grant'') t)
           \<lparr>ad_approver := Some (gr_approving_user g)\<rparr>, True)
      else
        (decide operation DENIED
          ''Operation does not match approved grant, exact match required'' t, consumed))"

fun policy_authorize ::
    "pylib \<Rightarrow> timestamp \<Rightarrow> timestamp \<Rightarrow> operation \<Rightarrow> policy \<Rightarrow> authorization_decision \<times> policy" where
  "policy_authorize L now t operation AutoApprovePolicy = (auto_approve t operation, AutoApprovePolicy)"
| "policy_authorize L now t operation ReadOnlyPolicy = (read_only t operation, ReadOnlyPolicy)"
| "policy_authorize L now t operation RequireApprovalPolicy =
     (require_approval t operation, RequireApprovalPolicy)"
| "policy_authorize L now t operation (ApprovedOperationGrantPolicy g consumed) =
     (let (d, consumed') = grant_authorize L now t operation g consumed
      in (d, ApprovedOperationGrantPolicy g consumed'))"

section \<open>The gateway\<close>

record gateway =
  gw_policy :: policy
  gw_decisions :: "authorization_decision list"

definition new_gateway :: "policy option \<Rightarrow> pyexn + gateway" where
  "new_gateway p = (case p of
     None \<Rightarrow> Inl (RuntimeError
       ''AuthorizationGateway requires an explicit AuthorizationPolicy, refusing to fail open'')
   | Some p \<Rightarrow> Inr \<lparr>gw_policy = p, gw_decisions = []\<rparr>)"

definition gateway_authorize ::
    "pylib \<Rightarrow> timestamp \<Rightarrow> timestamp \<Rightarrow> operation \<Rightarrow> gateway \<Rightarrow> authorization_decision \<times> gateway" where
  "gateway_authorize L now t operation gw =
     (let (d, p) = policy_authorize L now t operation (gw_policy gw)
      in (d, gw\<lparr>gw_policy := p, gw_decisions := gw_decisions gw @ [d]\<rparr>))"

definition clear_audit_trail :: "gateway \<Rightarrow> gateway" where
  "clear_audit_trail gw = gw\<lparr>gw_decisions := []\<rparr>"

section \<open>The contract of a policy\<close>

text \<open>
  What the gateway relies on: a decision is about the operation that was asked. Any policy
  with that law gives an audit trail that records exactly the requests, in order.
\<close>

fun decide_all :: "('op \<Rightarrow> 'p \<Rightarrow> 'd \<times> 'p) \<Rightarrow> 'op list \<Rightarrow> 'p \<Rightarrow> 'd list \<times> 'p" where
  "decide_all f [] p = ([], p)"
| "decide_all f (x # xs) p = (let (d, p1) = f x p; (ds, p2) = decide_all f xs p1 in (d # ds, p2))"

locale authorization_policy =
  fixes ask :: "'op \<Rightarrow> 'p \<Rightarrow> 'd \<times> 'p" and about :: "'d \<Rightarrow> 'op"
  assumes about_ask: "about (fst (ask x p)) = x"
begin

lemma about_all: "map about (fst (decide_all ask xs p)) = xs"
  by (induction xs arbitrary: p) (auto simp: case_prod_beta Let_def about_ask)

end

text \<open>A policy whose permission, once given, is spent.\<close>

locale single_use_policy = authorization_policy +
  fixes permits :: "'d \<Rightarrow> bool" and spent :: "'p \<Rightarrow> bool" and accepts :: "'op \<Rightarrow> bool"
  assumes permit_spends: "permits (fst (ask x p)) \<Longrightarrow> spent (snd (ask x p)) \<and> accepts x"
    and spent_stays: "spent p \<Longrightarrow> spent (snd (ask x p)) \<and> \<not> permits (fst (ask x p))"
begin

lemma spent_none: "spent p \<Longrightarrow> filter permits (fst (decide_all ask xs p)) = []"
  by (induction xs arbitrary: p) (auto simp: case_prod_beta Let_def dest: spent_stays)

lemma at_most_one: "length (filter permits (fst (decide_all ask xs p))) \<le> 1"
proof (induction xs arbitrary: p)
  case (Cons x xs)
  then show ?case
    using spent_none [of "snd (ask x p)" xs] permit_spends [of x p]
    by (auto simp: case_prod_beta Let_def)
qed simp

lemma only_accepted: "d \<in> set (fst (decide_all ask xs p)) \<Longrightarrow> permits d \<Longrightarrow> accepts (about d)"
  by (induction xs arbitrary: p) (auto simp: case_prod_beta Let_def about_ask dest: permit_spends)

end

text \<open>A clocked request is the operation with its two clock readings.\<close>

type_synonym request = "operation \<times> timestamp \<times> timestamp"

definition ask_gateway :: "pylib \<Rightarrow> request \<Rightarrow> gateway \<Rightarrow> authorization_decision \<times> gateway" where
  "ask_gateway L r gw = gateway_authorize L (fst (snd r)) (snd (snd r)) (fst r) gw"

definition ask_grant ::
    "pylib \<Rightarrow> approved_operation_grant \<Rightarrow> request \<Rightarrow> bool \<Rightarrow> (authorization_decision \<times> request) \<times> bool" where
  "ask_grant L g r consumed =
     (let (d, c) = grant_authorize L (fst (snd r)) (snd (snd r)) (fst r) g consumed in ((d, r), c))"

lemma policy_about: "ad_operation (fst (policy_authorize L now t x p)) = x"
  by (cases p) (auto simp: auto_approve_def read_only_def require_approval_def grant_authorize_def decide_def)

interpretation one_shot: single_use_policy "ask_grant L g" snd "\<lambda>d. ad_decision (fst d) = APPROVED"
    "\<lambda>consumed. consumed" "\<lambda>r. grant_matches L (fst (snd r)) g (fst r)" for L g
  by unfold_locales
    (auto simp: ask_grant_def grant_authorize_def decide_def case_prod_beta Let_def split: if_splits)

lemma gateway_trail:
  "gw_decisions (snd (decide_all (ask_gateway L) rs gw)) =
     gw_decisions gw @ fst (decide_all (ask_gateway L) rs gw)"
  by (induction rs arbitrary: gw)
    (auto simp: ask_gateway_def gateway_authorize_def case_prod_beta Let_def)

lemma gateway_about: "map ad_operation (fst (decide_all (ask_gateway L) rs gw)) = map fst rs"
  by (induction rs arbitrary: gw)
    (auto simp: ask_gateway_def gateway_authorize_def policy_about case_prod_beta Let_def)

text \<open>The gateway over a grant policy asks the grant.\<close>

lemma gateway_grant:
  "gw_policy gw = ApprovedOperationGrantPolicy g c \<Longrightarrow>
     fst (decide_all (ask_gateway L) rs gw) = map fst (fst (decide_all (ask_grant L g) rs c))"
proof (induction rs arbitrary: gw c)
  case (Cons r rs)
  then show ?case
    by (simp add: ask_gateway_def gateway_authorize_def ask_grant_def case_prod_beta Let_def)
qed simp

lemma grant_stamps:
  "(d, r) \<in> set (fst (decide_all (ask_grant L g) rs c)) \<Longrightarrow>
     ad_operation d = fst r \<and> ad_timestamp d = snd (snd r)"
  by (induction rs arbitrary: c)
    (auto simp: ask_grant_def grant_authorize_def decide_def case_prod_beta Let_def split: if_splits)

lemma gateway_writes:
  assumes "gw_policy gw \<in> {ReadOnlyPolicy, RequireApprovalPolicy}"
    and "d \<in> set (fst (decide_all (ask_gateway L) rs gw))" "op_kind (ad_operation d) \<noteq> K_READ"
  shows "ad_decision d = (if gw_policy gw = ReadOnlyPolicy then DENIED else PENDING)"
  using assms
proof (induction rs arbitrary: gw)
  case (Cons r rs)
  have pol: "gw_policy (snd (ask_gateway L r gw)) = gw_policy gw"
    using Cons.prems(1) by (auto simp: ask_gateway_def gateway_authorize_def)
  have hd: "ad_decision d = (if gw_policy gw = ReadOnlyPolicy then DENIED else PENDING)"
    if "d = fst (ask_gateway L r gw)"
    using Cons.prems that
    by (auto simp: ask_gateway_def gateway_authorize_def read_only_def require_approval_def decide_def split: if_splits)
  from Cons.prems(2) hd Cons.IH [of "snd (ask_gateway L r gw)"] Cons.prems(1,3) pol show ?case
    by (auto simp: case_prod_beta Let_def)
qed simp

section \<open>Properties\<close>

text \<open>
  The audit trail is complete and ordered: after any sequence of requests, under any
  policy, it has grown by one decision per request, about that request's operation.
\<close>

theorem audit_trail_complete:
  "map ad_operation (gw_decisions (snd (decide_all (ask_gateway L) rs gw))) =
     map ad_operation (gw_decisions gw) @ map fst rs"
  by (simp add: gateway_trail gateway_about)

text \<open>
  C4. A grant approves at most one operation in the lifetime of its gateway, however many
  are requested, and the one it approves matches the grant exactly: tool, arguments up to
  key order, session, user, thread and idempotency key, while approved and not expired.
\<close>

theorem grant_single_use_exact:
  assumes "gw_policy gw = ApprovedOperationGrantPolicy g c"
  shows "length (filter (\<lambda>d. ad_decision d = APPROVED) (fst (decide_all (ask_gateway L) rs gw))) \<le> 1 \<and>
    (\<forall>d \<in> set (fst (decide_all (ask_gateway L) rs gw)). ad_decision d = APPROVED \<longrightarrow>
      gr_decision g = ''approved'' \<and> \<not> gr_consumed g \<and>
      op_name (ad_operation d) = gr_tool_name g \<and>
      canon (JObj (args_of (ad_operation d))) = canon (JObj (gr_tool_args g)) \<and>
      detail L (ad_operation d) ''session_id'' = gr_session_id g \<and>
      detail L (ad_operation d) ''user_id'' = gr_requesting_user g \<and>
      detail L (ad_operation d) ''thread_id'' = gr_thread_id g \<and>
      detail L (ad_operation d) ''idempotency_key'' = gr_idempotency_key g \<and>
      (\<forall>x. gr_expires_at g = Some x \<longrightarrow> (\<exists>now. now \<le> x \<and> (ad_operation d, now, ad_timestamp d) \<in> set rs)))"
proof (intro conjI ballI impI)
  show "length (filter (\<lambda>d. ad_decision d = APPROVED) (fst (decide_all (ask_gateway L) rs gw))) \<le> 1"
    using one_shot.at_most_one [of L g rs c] by (simp add: gateway_grant [OF assms] filter_map comp_def)
next
  fix d assume "d \<in> set (fst (decide_all (ask_gateway L) rs gw))" and ap: "ad_decision d = APPROVED"
  then obtain r where r: "(d, r) \<in> set (fst (decide_all (ask_grant L g) rs c))"
    by (auto simp: gateway_grant [OF assms])
  have m: "grant_matches L (fst (snd r)) g (fst r)"
    using one_shot.only_accepted [OF r] ap by simp
  have "r \<in> set rs" using r one_shot.about_all [of L g rs c] by (metis image_eqI set_map snd_conv)
  moreover have "ad_operation d = fst r \<and> ad_timestamp d = snd (snd r)"
    using r by (rule grant_stamps)
  ultimately show "gr_decision g = ''approved''" "\<not> gr_consumed g"
    "op_name (ad_operation d) = gr_tool_name g"
    "canon (JObj (args_of (ad_operation d))) = canon (JObj (gr_tool_args g))"
    "detail L (ad_operation d) ''session_id'' = gr_session_id g"
    "detail L (ad_operation d) ''user_id'' = gr_requesting_user g"
    "detail L (ad_operation d) ''thread_id'' = gr_thread_id g"
    "detail L (ad_operation d) ''idempotency_key'' = gr_idempotency_key g"
    "\<forall>x. gr_expires_at g = Some x \<longrightarrow> (\<exists>now. now \<le> x \<and> (ad_operation d, now, ad_timestamp d) \<in> set rs)"
    using m by (auto simp: grant_matches_def can_authorize_def grant_is_expired_def not_less
        split: if_splits intro: exI [of _ "fst (snd r)"])
qed

definition demo_grant :: approved_operation_grant where
  "demo_grant = \<lparr>gr_session_id = ''s1'', gr_approving_user = ''mgr'', gr_requesting_user = ''user-alice'',
     gr_thread_id = ''t1'', gr_tool_name = ''submit_transfer'', gr_tool_args = [(''draft_id'', JStr ''D1'')],
     gr_idempotency_key = ''k1'', gr_decision = ''approved'', gr_created_at = 0, gr_expires_at = Some 100,
     gr_consumed = False, gr_version = 1\<rparr>"

definition demo_operation :: operation where
  "demo_operation = \<lparr>op_kind = K_TRANSFER, op_name = ''submit_transfer'', op_target = ''t'',
     op_details = [(''args'', JObj [(''draft_id'', JStr ''D1'')]), (''session_id'', JStr ''s1''),
       (''user_id'', JStr ''user-alice''), (''thread_id'', JStr ''t1''), (''idempotency_key'', JStr ''k1'')]\<rparr>"

definition demo_text :: pylib where
  "demo_text = \<lparr>pl_iso = (\<lambda>t. []), pl_str = (\<lambda>x. ''x''), pl_parse_float = (\<lambda>s. None), pl_dumps = (\<lambda>x. ''{}'')\<rparr>"

lemma demo_grant_run:
  "map ad_decision (fst (decide_all (ask_gateway demo_text) [(demo_operation, 5, 6), (demo_operation, 7, 8)]
     \<lparr>gw_policy = ApprovedOperationGrantPolicy demo_grant False, gw_decisions = []\<rparr>)) = [APPROVED, DENIED]"
  by (simp add: ask_gateway_def gateway_authorize_def grant_authorize_def grant_matches_def can_authorize_def
      demo_grant_def demo_operation_def args_of_def detail_def py_str_def dict_get_or_def grant_is_expired_def decide_def)

theorem grant_single_use_exact_witness:
  "length (filter (\<lambda>d. ad_decision d = APPROVED) (fst (decide_all (ask_gateway demo_text)
     [(demo_operation, 5, 6), (demo_operation, 7, 8)]
     \<lparr>gw_policy = ApprovedOperationGrantPolicy demo_grant False, gw_decisions = []\<rparr>))) \<le> 1"
  using grant_single_use_exact [of "\<lparr>gw_policy = ApprovedOperationGrantPolicy demo_grant False, gw_decisions = []\<rparr>"
      demo_grant False demo_text "[(demo_operation, 5, 6), (demo_operation, 7, 8)]"]
  by simp

text \<open>A gateway needs a policy; clearing its trail forgets the decisions and nothing else.\<close>

lemma gateway_needs_policy: "(\<exists>gw. new_gateway p = Inr gw) \<longleftrightarrow> p \<noteq> None"
  by (cases p) (simp_all add: new_gateway_def)

lemma clear_keeps_decisions:
  "fst (gateway_authorize L now t x (clear_audit_trail gw)) = fst (gateway_authorize L now t x gw)"
  "gw_policy (snd (gateway_authorize L now t x (clear_audit_trail gw))) = gw_policy (snd (gateway_authorize L now t x gw))"
  "gw_decisions (snd (gateway_authorize L now t x (clear_audit_trail gw))) = [fst (gateway_authorize L now t x gw)]"
  by (simp_all add: gateway_authorize_def clear_audit_trail_def case_prod_beta Let_def)

end
