(* ===== verification/Tool_Registry.thy ===== *)
theory Tool_Registry
  imports Banking_Tools Auth
begin

text \<open>
  The tool metadata and the checks before a call: \<open>tools/models.py\<close>, \<open>tools/registry.py\<close>,
  \<open>tools/validation.py\<close>, \<open>tools/provider_adapters.py\<close>, the registry \<open>bootstrap.py\<close> builds from
  the banking schemas, and the two classifications of \<open>graph.py\<close>. \<open>json.loads\<close> is the
  argument \<open>loads\<close> (\<open>None\<close> for a decoding error).
\<close>

section \<open>Definitions of tools\<close>

datatype risk_level = R_low | R_medium | R_high | R_critical

datatype approval_policy = AP_never | AP_high_risk | AP_always

datatype retry_policy = RP_allow | RP_never_on_unknown | RP_never

record tool_definition =
  tl_name :: string
  tl_description :: string
  tl_input_schema :: kwargs
  tl_side_effect :: bool
  tl_risk_level :: risk_level
  tl_required_permissions :: "string list"
  tl_approval_policy :: approval_policy
  tl_idempotency_required :: bool
  tl_retry_policy :: retry_policy
  tl_data_classification :: string
  tl_timeout_seconds :: pyfloat
  tl_tags :: "string list"

definition tl_is_read_only :: "tool_definition \<Rightarrow> bool" where
  "tl_is_read_only t = (\<not> tl_side_effect t \<and> tl_risk_level t = R_low)"

definition tl_requires_approval :: "tool_definition \<Rightarrow> bool" where
  "tl_requires_approval t = (case tl_approval_policy t of
     AP_never \<Rightarrow> False
   | AP_always \<Rightarrow> True
   | AP_high_risk \<Rightarrow> tl_risk_level t \<in> {R_high, R_critical})"

text \<open>\<open>schema.get("properties", {})\<close> and \<open>schema.get("required", [])\<close> of a JSON schema.\<close>

definition get_properties :: "kwargs \<Rightarrow> kwargs" where
  "get_properties schema = (case map_of schema ''properties'' of Some (JObj ps) \<Rightarrow> ps | _ \<Rightarrow> [])"

definition get_required :: "kwargs \<Rightarrow> string list" where
  "get_required schema = schema_required (JObj schema)"

definition server_fields :: "string list" where
  "server_fields = [''user_id'', ''tenant_id'', ''approver_id'']"

definition visible_properties :: "bool \<Rightarrow> kwargs \<Rightarrow> kwargs" where
  "visible_properties include_server_fields schema =
     (if include_server_fields then get_properties schema
      else filter (\<lambda>(k, v). k \<notin> set server_fields) (get_properties schema))"

definition visible_required :: "bool \<Rightarrow> kwargs \<Rightarrow> string list" where
  "visible_required include_server_fields schema =
     (if include_server_fields then get_required schema
      else filter (\<lambda>r. r \<notin> set server_fields) (get_required schema))"

definition visible_parameters :: "bool \<Rightarrow> tool_definition \<Rightarrow> json" where
  "visible_parameters inc t = JObj
     [(''type'', JStr ''object''),
      (''properties'', JObj (visible_properties inc (tl_input_schema t))),
      (''required'', JArr (map JStr (visible_required inc (tl_input_schema t))))]"

definition provider_schema :: "bool \<Rightarrow> tool_definition \<Rightarrow> json" where
  "provider_schema inc t = JObj
     [(''type'', JStr ''function''),
      (''function'', JObj
         [(''name'', JStr (tl_name t)), (''description'', JStr (tl_description t)),
          (''parameters'', visible_parameters inc t)])]"

definition to_openai_tools :: "bool \<Rightarrow> tool_definition list \<Rightarrow> json list" where
  "to_openai_tools inc tools = map (provider_schema inc) tools"

definition to_anthropic_tools :: "bool \<Rightarrow> tool_definition list \<Rightarrow> json list" where
  "to_anthropic_tools inc tools = map (\<lambda>t. JObj
     [(''name'', JStr (tl_name t)), (''description'', JStr (tl_description t)),
      (''input_schema'', visible_parameters inc t)]) tools"

section \<open>The registry\<close>

type_synonym tool_registry = "(string \<times> tool_definition) list"

definition registry_register :: "tool_definition \<Rightarrow> tool_registry \<Rightarrow> pyexn + tool_registry" where
  "registry_register t reg =
     (if dict_has reg (tl_name t) then Inl (ValueError (''Duplicate tool name: '' @ quoted (tl_name t)))
      else Inr (dict_set (tl_name t) t reg))"

fun registry_add_all :: "tool_definition list \<Rightarrow> tool_registry \<Rightarrow> pyexn + tool_registry" where
  "registry_add_all [] reg = Inr reg"
| "registry_add_all (t # ts) reg = bindE (registry_register t reg) (registry_add_all ts)"

definition new_registry :: "tool_definition list \<Rightarrow> pyexn + tool_registry" where
  "new_registry tools = registry_add_all tools []"

definition registry_get :: "string \<Rightarrow> tool_registry \<Rightarrow> tool_definition option" where
  "registry_get name reg = map_of reg name"

definition registry_has :: "string \<Rightarrow> tool_registry \<Rightarrow> bool" where
  "registry_has name reg = dict_has reg name"

definition registry_names :: "tool_registry \<Rightarrow> string set" where
  "registry_names reg = fst ` set reg"

definition registry_count :: "tool_registry \<Rightarrow> nat" where
  "registry_count reg = length reg"

definition provider_definitions :: "bool \<Rightarrow> tool_registry \<Rightarrow> json list" where
  "provider_definitions inc reg = map (\<lambda>(n, t). provider_schema inc t) reg"

definition side_effecting_tools :: "tool_registry \<Rightarrow> tool_definition list" where
  "side_effecting_tools reg = filter tl_side_effect (map snd reg)"

fun risk_rank :: "risk_level \<Rightarrow> nat" where
  "risk_rank R_low = 0" | "risk_rank R_medium = 1" | "risk_rank R_high = 2" | "risk_rank R_critical = 3"

definition risk_threshold :: "string \<Rightarrow> nat" where
  "risk_threshold s = dict_get_or [(''low'', 0), (''medium'', 1), (''high'', 2), (''critical'', 3)] s 0"

definition tools_by_risk :: "string \<Rightarrow> tool_registry \<Rightarrow> tool_definition list" where
  "tools_by_risk minimum_risk reg =
     filter (\<lambda>t. risk_threshold minimum_risk \<le> risk_rank (tl_risk_level t)) (map snd reg)"

section \<open>Validation of a tool call\<close>

record tool_call_validation =
  tv_valid :: bool
  tv_tool_name :: string
  tv_args :: kwargs
  tv_error :: string
  tv_error_code :: string

definition reject :: "string \<Rightarrow> string \<Rightarrow> string \<Rightarrow> tool_call_validation" where
  "reject tool_name err err_code = \<lparr>tv_valid = False, tv_tool_name = tool_name, tv_args = [],
     tv_error = err, tv_error_code = err_code\<rparr>"

definition accept :: "string \<Rightarrow> kwargs \<Rightarrow> tool_call_validation" where
  "accept tool_name args = \<lparr>tv_valid = True, tv_tool_name = tool_name, tv_args = args,
     tv_error = [], tv_error_code = []\<rparr>"

fun type_name :: "json \<Rightarrow> string" where
  "type_name JNull = ''NoneType''"
| "type_name (JBool b) = ''bool''"
| "type_name (JInt n) = ''int''"
| "type_name (JFloat f) = ''float''"
| "type_name (JStr s) = ''str''"
| "type_name (JArr xs) = ''list''"
| "type_name (JObj kvs) = ''dict''"

text \<open>\<open>bool\<close> is a subclass of \<open>int\<close>, which the source excludes where a number is expected.\<close>

definition check_type :: "json \<Rightarrow> string \<Rightarrow> bool" where
  "check_type v expected =
     (if expected = ''string'' then (case v of JStr _ \<Rightarrow> True | _ \<Rightarrow> False)
      else if expected = ''number'' then (case v of JInt _ \<Rightarrow> True | JFloat _ \<Rightarrow> True | _ \<Rightarrow> False)
      else if expected = ''integer'' then (case v of JInt _ \<Rightarrow> True | _ \<Rightarrow> False)
      else if expected = ''boolean'' then (case v of JBool _ \<Rightarrow> True | _ \<Rightarrow> False)
      else if expected = ''object'' then (case v of JObj _ \<Rightarrow> True | _ \<Rightarrow> False)
      else if expected = ''array'' then (case v of JArr _ \<Rightarrow> True | _ \<Rightarrow> False)
      else True)"

text \<open>\<open>prop.get("type", "string")\<close>; a type that is not a string is not checked.\<close>

definition expected_type :: "json \<Rightarrow> string option" where
  "expected_type prop = (case prop of
     JObj kvs \<Rightarrow> (case map_of kvs ''type'' of None \<Rightarrow> Some ''string'' | Some (JStr t) \<Rightarrow> Some t | _ \<Rightarrow> None)
   | _ \<Rightarrow> None)"

definition field_ok :: "kwargs \<Rightarrow> string \<times> json \<Rightarrow> bool" where
  "field_ok properties fv = (case map_of properties (fst fv) of
     None \<Rightarrow> True
   | Some prop \<Rightarrow> (case expected_type prop of None \<Rightarrow> True | Some t \<Rightarrow> check_type (snd fv) t))"

definition field_present :: "kwargs \<Rightarrow> string \<Rightarrow> bool" where
  "field_present args k = (case map_of args k of None \<Rightarrow> False | Some v \<Rightarrow> v \<noteq> JNull)"

definition validate_against_schema ::
    "string \<Rightarrow> kwargs \<Rightarrow> kwargs \<Rightarrow> tool_call_validation option" where
  "validate_against_schema tool_name args schema =
     (case List.find (\<lambda>k. \<not> field_present args k) (get_required schema) of
        Some k \<Rightarrow> Some (reject tool_name
          (''Missing required parameter: '' @ quoted k @ '' for tool '' @ quoted tool_name)
          ''MISSING_REQUIRED_PARAMETER'')
      | None \<Rightarrow>
          (case List.find (\<lambda>fv. \<not> field_ok (get_properties schema) fv) args of
             Some fv \<Rightarrow> Some (reject tool_name
               (''Type mismatch for '' @ quoted (fst fv) @ '' in '' @ quoted tool_name @ '': expected '' @
                opt_str (Option.bind (map_of (get_properties schema) (fst fv)) expected_type) @
                '', got '' @ type_name (snd fv)) ''TYPE_MISMATCH'')
           | None \<Rightarrow> None))"

text \<open>Normalizing the raw arguments to a dictionary.\<close>

definition normalize_args ::
    "(string \<Rightarrow> json option) \<Rightarrow> string \<Rightarrow> json \<Rightarrow> tool_call_validation + kwargs" where
  "normalize_args loads tool_name arguments = (case arguments of
     JNull \<Rightarrow> Inr []
   | JStr s \<Rightarrow> (case loads s of
       None \<Rightarrow> Inl (reject tool_name (''Tool arguments must be valid JSON for '' @ quoted tool_name)
         ''INVALID_JSON_ARGS'')
     | Some (JObj kvs) \<Rightarrow> Inr kvs
     | Some _ \<Rightarrow> Inl (reject tool_name (''Tool arguments must be a JSON object for '' @ quoted tool_name)
         ''ARGS_NOT_OBJECT''))
   | JObj kvs \<Rightarrow> Inr kvs
   | v \<Rightarrow> Inl (reject tool_name (''Tool arguments must be a dict for '' @ quoted tool_name @ '', got '' @ type_name v)
       ''ARGS_NOT_DICT''))"

definition validate_tool_call ::
    "(string \<Rightarrow> json option) \<Rightarrow> string \<Rightarrow> json \<Rightarrow> tool_registry \<Rightarrow> tool_call_validation" where
  "validate_tool_call loads tool_name arguments reg = (case registry_get tool_name reg of
     None \<Rightarrow> reject tool_name (''Unknown tool: '' @ quoted tool_name) ''UNKNOWN_TOOL''
   | Some d \<Rightarrow> (case normalize_args loads tool_name arguments of
       Inl r \<Rightarrow> r
     | Inr args \<Rightarrow>
         if tl_input_schema d = [] then accept tool_name args
         else (case validate_against_schema tool_name args (tl_input_schema d) of
           Some r \<Rightarrow> r
         | None \<Rightarrow> accept tool_name args)))"

section \<open>Classification\<close>

definition classify_tool_kind :: "string \<Rightarrow> operation_kind" where
  "classify_tool_kind name = (let n = lower name in
     if list_ex (\<lambda>w. str_in w n) [''transfer'', ''wire'', ''send'', ''pay''] then K_TRANSFER
     else if list_ex (\<lambda>w. str_in w n) [''delete'', ''remove'', ''purge'', ''close''] then K_DELETE
     else if list_ex (\<lambda>w. str_in w n) [''update'', ''modify'', ''change'', ''set'', ''write'', ''create'', ''add'']
       then K_WRITE
     else K_READ)"

definition kind_from_metadata :: "tool_definition \<Rightarrow> operation_kind" where
  "kind_from_metadata t =
     (if tl_side_effect t then (if tl_risk_level t = R_critical then K_TRANSFER else K_WRITE) else K_READ)"

text \<open>The registry built at start-up from the banking schemas.\<close>

definition bootstrap_tool_def :: "tool_schema \<Rightarrow> tool_definition" where
  "bootstrap_tool_def s =
     (let n = sc_name s;
          side_effect = (\<not> (starts_with n ''get_'' \<or> starts_with n ''list_'' \<or> starts_with n ''find_''));
          risk = (if n = ''submit_transfer'' then R_critical
                  else if n \<in> {''create_transfer_draft'', ''cancel_transfer'', ''report_suspicious_transaction''}
                    then R_high
                  else if side_effect then R_medium else R_low)
      in \<lparr>tl_name = n, tl_description = sc_description s,
          tl_input_schema = (case sc_parameters s of JObj kvs \<Rightarrow> kvs | _ \<Rightarrow> []),
          tl_side_effect = side_effect, tl_risk_level = risk, tl_required_permissions = [n],
          tl_approval_policy = AP_never, tl_idempotency_required = False, tl_retry_policy = RP_allow,
          tl_data_classification = ''internal'', tl_timeout_seconds = Fin 30, tl_tags = []\<rparr>)"

definition bootstrap_registry :: "pyexn + tool_registry" where
  "bootstrap_registry = new_registry (map bootstrap_tool_def tool_schemas)"

section \<open>Lemmas\<close>

lemma register_ok: "dict_ok reg \<Longrightarrow> registry_register t reg = Inr reg' \<Longrightarrow> dict_ok reg'"
  by (auto simp: registry_register_def dict_ok_set split: if_splits)

lemma register_get:
  "registry_register t reg = Inr reg' \<Longrightarrow>
     registry_get n reg' = (if n = tl_name t then Some t else registry_get n reg)"
  by (auto simp: registry_register_def registry_get_def split: if_splits)

lemma add_all_ok:
  "dict_ok reg \<Longrightarrow> registry_add_all ts reg = Inr reg' \<Longrightarrow> dict_ok reg'"
  by (induction ts arbitrary: reg) (auto simp: bindE_Inr dest: register_ok)

lemma add_all_get:
  "registry_add_all ts reg = Inr reg' \<Longrightarrow>
     distinct (map tl_name ts) \<and> (\<forall>t \<in> set ts. registry_get (tl_name t) reg = None) \<and>
     (\<forall>n. registry_get n reg' =
        (case List.find (\<lambda>t. tl_name t = n) ts of Some t \<Rightarrow> Some t | None \<Rightarrow> registry_get n reg))"
proof (induction ts arbitrary: reg)
  case (Cons t ts)
  then obtain r1 where r1: "registry_register t reg = Inr r1" "registry_add_all ts r1 = Inr reg'"
    by (auto simp: bindE_Inr)
  have new: "registry_get (tl_name t) reg = None"
    using r1(1) by (auto simp: registry_register_def registry_get_def dict_has_def split: if_splits)
  note ih = Cons.IH [OF r1(2)] and g = register_get [OF r1(1)]
  have ts: "tl_name t \<notin> tl_name ` set ts" using ih by (fastforce simp: g)
  then have f: "List.find (\<lambda>u. tl_name u = tl_name t) ts = None"
    unfolding find_None_iff by (metis imageI)
  show ?case
  proof (intro conjI allI ballI)
    show "distinct (map tl_name (t # ts))" using ts ih by simp
    show "registry_get (tl_name u) reg = None" if "u \<in> set (t # ts)" for u
      using that new ih by (auto simp: g split: if_splits)
    show "registry_get n reg' = (case List.find (\<lambda>t. tl_name t = n) (t # ts) of
        Some t \<Rightarrow> Some t | None \<Rightarrow> registry_get n reg)" for n
      using ih f by (cases "tl_name t = n") (auto simp: g split: option.split)
  qed
qed simp

lemma validate_schema_ok:
  "validate_against_schema n args schema = None \<longleftrightarrow>
     (\<forall>k \<in> set (get_required schema). field_present args k) \<and>
     (\<forall>fv \<in> set args. field_ok (get_properties schema) fv)"
proof -
  have find_all: "List.find (\<lambda>x. \<not> P x) xs = None \<longleftrightarrow> (\<forall>x \<in> set xs. P x)" for P and xs :: "'x list"
    by (auto simp: find_None_iff)
  show ?thesis
    unfolding validate_against_schema_def find_all [symmetric] by (simp split: option.split)
qed

lemma validate_schema_rejects: "validate_against_schema n args schema = Some r \<Longrightarrow> \<not> tv_valid r"
  by (auto simp: validate_against_schema_def reject_def split: option.splits)

lemma normalize_rejects: "normalize_args loads n j = Inl r \<Longrightarrow> \<not> tv_valid r"
  by (auto simp: normalize_args_def reject_def split: json.splits option.splits)

lemma validate_iff:
  "tv_valid (validate_tool_call loads n j reg) \<longleftrightarrow>
     (\<exists>d args. registry_get n reg = Some d \<and> normalize_args loads n j = Inr args \<and>
        (tl_input_schema d = [] \<or>
           (\<forall>k \<in> set (get_required (tl_input_schema d)). field_present args k) \<and>
           (\<forall>fv \<in> set args. field_ok (get_properties (tl_input_schema d)) fv)))"
proof (cases "registry_get n reg")
  case None
  then show ?thesis by (simp add: validate_tool_call_def reject_def)
next
  case (Some d)
  show ?thesis
  proof (cases "normalize_args loads n j")
    case (Inl r)
    with Some show ?thesis by (simp add: validate_tool_call_def normalize_rejects)
  next
    case (Inr args)
    show ?thesis
    proof (cases "tl_input_schema d = [] \<or> validate_against_schema n args (tl_input_schema d) = None")
      case True
      with Some Inr have "tv_valid (validate_tool_call loads n j reg)"
        by (auto simp: validate_tool_call_def accept_def)
      with True Some Inr show ?thesis by (auto simp: validate_schema_ok)
    next
      case False
      then obtain r where r: "validate_against_schema n args (tl_input_schema d) = Some r" by auto
      with False Some Inr have "\<not> tv_valid (validate_tool_call loads n j reg)"
        using validate_schema_rejects [OF r] by (simp add: validate_tool_call_def)
      with False Some Inr show ?thesis by (simp add: validate_schema_ok)
    qed
  qed
qed

lemma add_all_succeeds:
  "distinct (map tl_name ts) \<Longrightarrow> \<forall>t \<in> set ts. registry_get (tl_name t) reg = None \<Longrightarrow>
     \<exists>reg'. registry_add_all ts reg = Inr reg'"
proof (induction ts arbitrary: reg)
  case (Cons t ts)
  then obtain r1 where r1: "registry_register t reg = Inr r1"
    by (auto simp: registry_register_def registry_get_def dict_has_def)
  moreover have "\<forall>u \<in> set ts. registry_get (tl_name u) r1 = None"
  proof
    fix u assume u: "u \<in> set ts"
    then have "tl_name u \<noteq> tl_name t" using Cons.prems(1) by (metis distinct.simps(2) imageI list.simps(9) set_map)
    with u Cons.prems(2) show "registry_get (tl_name u) r1 = None" by (simp add: register_get [OF r1])
  qed
  ultimately show ?case using Cons by simp
qed simp

lemma bootstrap_names:
  "map (tl_name \<circ> bootstrap_tool_def) tool_schemas = map sc_name tool_schemas"
  by (simp add: bootstrap_tool_def_def Let_def)

lemma schema_names:
  "map sc_name tool_schemas =
     [''get_account_summary'', ''get_balance'', ''list_transactions'', ''find_beneficiary'',
      ''create_transfer_draft'', ''submit_transfer'', ''cancel_transfer'', ''get_transfer_status'',
      ''report_suspicious_transaction'']"
  by (simp add: tool_schemas_def mk_schema_def)

lemma bootstrap_registry_get:
  obtains reg where "bootstrap_registry = Inr reg" "dict_ok reg"
    "\<And>n. registry_get n reg = map_option bootstrap_tool_def (List.find (\<lambda>s. sc_name s = n) tool_schemas)"
proof -
  have nm: "map tl_name (map bootstrap_tool_def tool_schemas) = map sc_name tool_schemas"
    using bootstrap_names by simp
  have "distinct (map tl_name (map bootstrap_tool_def tool_schemas))"
    unfolding nm schema_names by simp
  then obtain reg where reg: "bootstrap_registry = Inr reg"
    using add_all_succeeds [of "map bootstrap_tool_def tool_schemas" "[]"]
    by (auto simp: bootstrap_registry_def new_registry_def registry_get_def)
  have find_map: "List.find (\<lambda>t. tl_name t = n) (map bootstrap_tool_def ss) =
      map_option bootstrap_tool_def (List.find (\<lambda>s. sc_name s = n) ss)" for n ss
    by (induction ss) (auto simp: bootstrap_tool_def_def Let_def)
  have "registry_get n reg = map_option bootstrap_tool_def (List.find (\<lambda>s. sc_name s = n) tool_schemas)" for n
    using add_all_get [of "map bootstrap_tool_def tool_schemas" "[]" reg] reg
    by (auto simp: bootstrap_registry_def new_registry_def find_map registry_get_def split: option.splits)
  moreover have "dict_ok reg"
    using add_all_ok [of "[]" "map bootstrap_tool_def tool_schemas" reg] reg
    by (simp add: bootstrap_registry_def new_registry_def dict_ok_def)
  ultimately show ?thesis using that reg by blast
qed

lemma schema_cases:
  assumes "s \<in> set tool_schemas" "\<And>s. s \<in> set tool_schemas \<Longrightarrow> Q (sc_name s) \<Longrightarrow> P s"
    "list_all Q (map sc_name tool_schemas)"
  shows "P s"
  using assms by (auto simp: list_all_iff)

lemma bootstrap_kind:
  "kind_from_metadata (bootstrap_tool_def s) =
     (if starts_with (sc_name s) ''get_'' \<or> starts_with (sc_name s) ''list_'' \<or> starts_with (sc_name s) ''find_''
      then K_READ else if sc_name s = ''submit_transfer'' then K_TRANSFER else K_WRITE)"
  by (simp add: kind_from_metadata_def bootstrap_tool_def_def Let_def)

definition kind_agrees :: "string \<Rightarrow> bool" where
  "kind_agrees n = ((starts_with n ''get_'' \<or> starts_with n ''list_'' \<or> starts_with n ''find_'') = is_read_only n \<and>
     (n = ''submit_transfer'') = requires_hitl n \<and> dict_has TOOL_RISK n)"

lemma kinds_agree: "list_all kind_agrees (map sc_name tool_schemas)"
  unfolding schema_names
  by (simp add: kind_agrees_def is_read_only_def requires_hitl_def TOOL_RISK_def dict_get_or_def dict_has_def)

lemma bootstrap_required:
  "get_required (tl_input_schema (bootstrap_tool_def (mk_schema n d ps req))) = req"
proof -
  have "concat (map (\<lambda>x. case x of JStr s \<Rightarrow> [s] | _ \<Rightarrow> []) (map JStr req)) = req" by (induction req) auto
  then show ?thesis
    by (simp add: bootstrap_tool_def_def Let_def mk_schema_def mk_parameters_def get_required_def schema_required_def)
qed

lemma bootstrap_agrees:
  "\<exists>reg. bootstrap_registry = Inr reg \<and>
     (\<forall>n. (registry_get n reg \<noteq> None) = (n \<in> fst ` set TOOL_RISK)) \<and>
     (\<forall>n d. registry_get n reg = Some d \<longrightarrow>
        (kind_from_metadata d = K_READ) = is_read_only n \<and>
        (kind_from_metadata d = K_TRANSFER) = requires_hitl n)"
proof -
  obtain reg where reg: "bootstrap_registry = Inr reg"
    and g: "\<And>n. registry_get n reg = map_option bootstrap_tool_def (List.find (\<lambda>s. sc_name s = n) tool_schemas)"
    by (rule bootstrap_registry_get) blast
  have "(registry_get n reg \<noteq> None) = (n \<in> fst ` set TOOL_RISK)" for n
  proof -
    have "(registry_get n reg \<noteq> None) = (n \<in> set (map sc_name tool_schemas))"
      by (auto simp: g find_None_iff)
    also have "set (map sc_name tool_schemas) = fst ` set TOOL_RISK"
      unfolding schema_names by (simp add: TOOL_RISK_def insert_commute)
    finally show ?thesis .
  qed
  moreover have "(kind_from_metadata d = K_READ) = is_read_only n \<and> (kind_from_metadata d = K_TRANSFER) = requires_hitl n"
    if "registry_get n reg = Some d" for n d
  proof -
    from that obtain s where s: "s \<in> set tool_schemas" "sc_name s = n" "d = bootstrap_tool_def s"
      by (auto simp: g find_Some_iff intro: nth_mem)
    with kinds_agree have "kind_agrees n" by (auto simp: list_all_iff)
    with s show ?thesis by (auto simp: bootstrap_kind kind_agrees_def)
  qed
  ultimately show ?thesis using reg by blast
qed

section \<open>Properties\<close>


text \<open>
  The registry built at start-up holds exactly the nine banking tools, and the kind it
  derives from its metadata agrees with the risk policy: a tool is a READ exactly when it is
  classified READ_ONLY, and a TRANSFER exactly when it requires human approval.
\<close>

theorem bootstrap_registry_agrees_with_policy:
  "\<exists>reg. bootstrap_registry = Inr reg \<and>
     (\<forall>n. (registry_get n reg \<noteq> None) = (n \<in> fst ` set TOOL_RISK)) \<and>
     (\<forall>n d. registry_get n reg = Some d \<longrightarrow>
        (kind_from_metadata d = K_READ) = is_read_only n \<and>
        (kind_from_metadata d = K_TRANSFER) = requires_hitl n)"
  by (rule bootstrap_agrees)

text \<open>
  What the model is shown and what the validator demands differ: the schema given to the
  model never mentions \<open>user_id\<close>, and a call without \<open>user_id\<close> to a tool whose schema
  requires it is rejected, so that a call following the visible schema never executes.
\<close>

theorem visible_schema_calls_rejected:
  assumes "registry_get n reg = Some d" "''user_id'' \<in> set (get_required (tl_input_schema d))"
    "map_of args ''user_id'' = None"
  shows "''user_id'' \<notin> set (visible_required False (tl_input_schema d)) \<and>
    map_of (visible_properties False (tl_input_schema d)) ''user_id'' = None \<and>
    \<not> tv_valid (validate_tool_call loads n (JObj args) reg) \<and>
    tv_error_code (validate_tool_call loads n (JObj args) reg) = ''MISSING_REQUIRED_PARAMETER''"
proof -
  have "\<not> field_present args ''user_id''" using assms(3) by (simp add: field_present_def)
  with assms(2) obtain k where "List.find (\<lambda>k. \<not> field_present args k) (get_required (tl_input_schema d)) = Some k"
    by (cases "List.find (\<lambda>k. \<not> field_present args k) (get_required (tl_input_schema d))")
      (auto simp: find_None_iff)
  moreover have "tl_input_schema d \<noteq> []"
    using assms(2) by (auto simp: get_required_def schema_required_def)
  ultimately have "validate_tool_call loads n (JObj args) reg = reject n
      (''Missing required parameter: '' @ quoted k @ '' for tool '' @ quoted n) ''MISSING_REQUIRED_PARAMETER''"
    using assms(1) by (simp add: validate_tool_call_def normalize_args_def validate_against_schema_def)
  moreover have "''user_id'' \<notin> fst ` set (visible_properties False (tl_input_schema d))"
    by (auto simp: visible_properties_def server_fields_def)
  then have "map_of (visible_properties False (tl_input_schema d)) ''user_id'' = None"
    by (simp add: map_of_eq_None_iff)
  ultimately show ?thesis by (simp add: visible_required_def server_fields_def reject_def)
qed

text \<open>The listings of a registry: its side-effecting tools are those the gateway is asked about as
  writes, a higher risk threshold lists fewer tools, and both provider formats show the same
  tools under the same names with the same parameters.\<close>

lemma side_effecting_kind: "set (side_effecting_tools reg) = {t \<in> snd ` set reg. kind_from_metadata t \<noteq> K_READ}"
  by (auto simp: side_effecting_tools_def kind_from_metadata_def)

lemma tools_by_risk_anti:
  "risk_threshold r \<le> risk_threshold r' \<Longrightarrow> set (tools_by_risk r' reg) \<subseteq> set (tools_by_risk r reg)"
  by (auto simp: tools_by_risk_def)

lemma unknown_risk_lists_all: "r \<notin> {''low'', ''medium'', ''high'', ''critical''} \<Longrightarrow> tools_by_risk r reg = map snd reg"
  by (simp add: tools_by_risk_def risk_threshold_def dict_get_or_def)

lemma registered_names: "registry_names reg = {n. registry_get n reg \<noteq> None}"
  by (auto simp: registry_names_def registry_get_def map_of_eq_None_iff)

text \<open>None of the tools registered at start-up says it requires approval, \<open>submit_transfer\<close> included:
  the approval policy of their definitions is left at its default.\<close>

lemma bootstrap_never_requires_approval: "\<not> tl_requires_approval (bootstrap_tool_def s)"
  by (simp add: tl_requires_approval_def bootstrap_tool_def_def Let_def)

lemma bootstrap_read_only:
  "tl_is_read_only (bootstrap_tool_def s) \<longleftrightarrow> kind_from_metadata (bootstrap_tool_def s) = K_READ \<and>
     sc_name s \<notin> {''submit_transfer'', ''create_transfer_draft'', ''cancel_transfer'', ''report_suspicious_transaction''}"
  by (auto simp: tl_is_read_only_def kind_from_metadata_def bootstrap_tool_def_def Let_def)

end
