(* ===== verification/Idempotency.thy ===== *)
theory Idempotency
  imports Json
begin

text \<open>
  The durable idempotency repository, \<open>idempotency_store.py\<close>, over the table
  \<open>idempotency_records\<close> with primary key \<open>idempotency_key\<close>. The JSON text of \<open>tool_args\<close>
  is represented by the value it encodes. Each method is one transaction; it returns what
  the method returns, with the new table.
\<close>

datatype idempotency_status = I_RESERVED | I_EXECUTING | I_SUCCEEDED | I_FAILED | I_UNKNOWN

record idempotency_record =
  ir_key :: string
  ir_status :: idempotency_status
  ir_tool_name :: string
  ir_tool_args :: "kwargs option"
  ir_result :: "string option"
  ir_error :: "string option"
  ir_created_at :: timestamp
  ir_completed_at :: "timestamp option"

type_synonym idem_table = "idempotency_record list"

definition idem_is_terminal :: "idempotency_record \<Rightarrow> bool" where
  "idem_is_terminal r = (ir_status r \<in> {I_SUCCEEDED, I_FAILED})"

definition idem_can_retry :: "idempotency_record \<Rightarrow> bool" where
  "idem_can_retry r = (ir_status r \<in> {I_RESERVED, I_FAILED})"

text \<open>\<open>INSERT OR IGNORE\<close>, then the stored row.\<close>

definition idem_reserve ::
    "timestamp \<Rightarrow> string \<Rightarrow> string \<Rightarrow> kwargs option \<Rightarrow> idem_table \<Rightarrow> idempotency_record option \<times> idem_table" where
  "idem_reserve now key tool_name tool_args t =
     (let row = \<lparr>ir_key = key, ir_status = I_RESERVED, ir_tool_name = tool_name,
                 ir_tool_args = Some (case tool_args of None \<Rightarrow> [] | Some a \<Rightarrow> a),
                 ir_result = None, ir_error = None, ir_created_at = now, ir_completed_at = None\<rparr>;
          t' = (case sql_insert (\<lambda>a b. ir_key a = ir_key b) row t of None \<Rightarrow> t | Some u \<Rightarrow> u)
      in (find_row ir_key key t', t'))"

definition is_executable_row :: "string \<Rightarrow> idempotency_record \<Rightarrow> bool" where
  "is_executable_row key r = (ir_key r = key \<and> ir_status r = I_RESERVED)"

definition idem_mark_executing :: "string \<Rightarrow> idem_table \<Rightarrow> bool \<times> idem_table" where
  "idem_mark_executing key t =
     (let (t', n) = sql_update (is_executable_row key) (\<lambda>r. r\<lparr>ir_status := I_EXECUTING\<rparr>) t
      in (n = 1, t'))"

definition is_running_row :: "string \<Rightarrow> idempotency_record \<Rightarrow> bool" where
  "is_running_row key r = (ir_key r = key \<and> ir_status r = I_EXECUTING)"

definition idem_mark_succeeded :: "timestamp \<Rightarrow> string \<Rightarrow> string \<Rightarrow> idem_table \<Rightarrow> bool \<times> idem_table" where
  "idem_mark_succeeded now key result t =
     (let (t', n) = sql_update (is_running_row key)
        (\<lambda>r. r\<lparr>ir_status := I_SUCCEEDED, ir_result := Some result, ir_completed_at := Some now\<rparr>) t
      in (n = 1, t'))"

definition idem_mark_failed :: "timestamp \<Rightarrow> string \<Rightarrow> string \<Rightarrow> idem_table \<Rightarrow> bool \<times> idem_table" where
  "idem_mark_failed now key error t =
     (let (t', n) = sql_update (\<lambda>r. ir_key r = key)
        (\<lambda>r. r\<lparr>ir_status := I_FAILED, ir_error := Some error, ir_completed_at := Some now\<rparr>) t
      in (n = 1, t'))"

definition is_open_row :: "string \<Rightarrow> idempotency_record \<Rightarrow> bool" where
  "is_open_row key r = (ir_key r = key \<and> ir_status r \<in> {I_RESERVED, I_EXECUTING})"

definition idem_mark_unknown :: "string \<Rightarrow> idem_table \<Rightarrow> bool \<times> idem_table" where
  "idem_mark_unknown key t =
     (let (t', n) = sql_update (is_open_row key)
        (\<lambda>r. r\<lparr>ir_status := I_UNKNOWN\<rparr>) t
      in (n = 1, t'))"

definition idem_get :: "string \<Rightarrow> idem_table \<Rightarrow> idempotency_record option" where
  "idem_get key t = find_row ir_key key t"

section \<open>Laws of the statements\<close>

interpretation executing: compare_and_set ir_key key "is_executable_row key"
    "\<lambda>r. r\<lparr>ir_status := I_EXECUTING\<rparr>" for key
  by unfold_locales (simp_all add: is_executable_row_def)

interpretation succeeded: compare_and_set ir_key key
    "is_running_row key"
    "\<lambda>r. r\<lparr>ir_status := I_SUCCEEDED, ir_result := Some result, ir_completed_at := Some now\<rparr>" for key result now
  by unfold_locales (simp_all add: is_running_row_def)

interpretation unknown: compare_and_set ir_key key
    "is_open_row key"
    "\<lambda>r. r\<lparr>ir_status := I_UNKNOWN\<rparr>" for key
  by unfold_locales (simp_all add: is_open_row_def)

interpretation failed: guarded_update ir_key key "\<lambda>r. ir_key r = key"
    "\<lambda>r. r\<lparr>ir_status := I_FAILED, ir_error := Some error, ir_completed_at := Some now\<rparr>" for key error now
  by unfold_locales simp_all

definition idem_ok :: "idem_table \<Rightarrow> bool" where
  "idem_ok t = distinct (map ir_key t)"

definition idem_status :: "string \<Rightarrow> idem_table \<Rightarrow> idempotency_status option" where
  "idem_status key t = map_option ir_status (idem_get key t)"

lemma idem_reserve_insert:
  "snd (idem_reserve now key tool args t) =
     (if idem_get key t = None
      then t @ [\<lparr>ir_key = key, ir_status = I_RESERVED, ir_tool_name = tool,
                 ir_tool_args = Some (case args of None \<Rightarrow> [] | Some a \<Rightarrow> a),
                 ir_result = None, ir_error = None, ir_created_at = now, ir_completed_at = None\<rparr>]
      else t)"
  by (auto simp: idem_reserve_def sql_insert_def idem_get_def find_row_None list_ex_iff Let_def image_iff)

lemma idem_reserve_result:
  "fst (idem_reserve now key tool args t) = idem_get key (snd (idem_reserve now key tool args t))"
  by (simp add: idem_reserve_def idem_get_def Let_def)

lemma reserve_ok: "idem_ok t \<Longrightarrow> idem_ok (snd (idem_reserve now key tool args t))"
  by (auto simp: idem_reserve_insert idem_ok_def idem_get_def find_row_None)

lemma reserve_get:
  "idem_get k (snd (idem_reserve now key tool args t)) =
     (if k = key \<and> idem_get key t = None
      then Some \<lparr>ir_key = key, ir_status = I_RESERVED, ir_tool_name = tool,
                 ir_tool_args = Some (case args of None \<Rightarrow> [] | Some a \<Rightarrow> a),
                 ir_result = None, ir_error = None, ir_created_at = now, ir_completed_at = None\<rparr>
      else idem_get k t)"
  by (auto simp: idem_reserve_insert idem_get_def find_row_append table_laws split: option.splits)

lemma mark_executing_get:
  "idem_get k (snd (idem_mark_executing key t)) =
     (if k = key then map_option (\<lambda>r. if ir_status r = I_RESERVED then r\<lparr>ir_status := I_EXECUTING\<rparr> else r)
        (idem_get k t) else idem_get k t)"
proof (cases "k = key")
  case True
  then show ?thesis
    using executing.find_same [of key t]
    by (cases "find_row ir_key key t")
      (auto simp: idem_mark_executing_def idem_get_def case_prod_beta is_executable_row_def dest: find_row_Some)
qed (simp add: idem_mark_executing_def idem_get_def case_prod_beta executing.find_other)

lemma mark_executing_ok:
  assumes "idem_ok t"
  shows "fst (idem_mark_executing key t) = (idem_status key t = Some I_RESERVED)"
  using executing.rowcount_one [of t key] assms
  by (auto simp: idem_mark_executing_def idem_ok_def idem_status_def idem_get_def case_prod_beta
      is_executable_row_def dest: find_row_Some)

lemma mark_succeeded_get:
  "idem_get k (snd (idem_mark_succeeded now key result t)) =
     (if k = key then map_option (\<lambda>r. if ir_status r = I_EXECUTING
        then r\<lparr>ir_status := I_SUCCEEDED, ir_result := Some result, ir_completed_at := Some now\<rparr> else r)
        (idem_get k t) else idem_get k t)"
proof (cases "k = key")
  case True
  then show ?thesis
    using succeeded.find_same [where key = key and result = result and now = now and t = t]
    by (cases "find_row ir_key key t")
      (auto simp: idem_mark_succeeded_def idem_get_def case_prod_beta is_running_row_def dest: find_row_Some)
qed (simp add: idem_mark_succeeded_def idem_get_def case_prod_beta succeeded.find_other)

lemma mark_succeeded_ok:
  assumes "idem_ok t"
  shows "fst (idem_mark_succeeded now key result t) = (idem_status key t = Some I_EXECUTING)"
  using succeeded.rowcount_one [where key = key and result = result and now = now and t = t] assms
  by (auto simp: idem_mark_succeeded_def idem_ok_def idem_status_def idem_get_def case_prod_beta
      is_running_row_def dest: find_row_Some)

lemma mark_unknown_get:
  "idem_get k (snd (idem_mark_unknown key t)) =
     (if k = key then map_option (\<lambda>r. if ir_status r \<in> {I_RESERVED, I_EXECUTING}
        then r\<lparr>ir_status := I_UNKNOWN\<rparr> else r) (idem_get k t) else idem_get k t)"
proof (cases "k = key")
  case True
  then show ?thesis
    using unknown.find_same [of key t]
    by (cases "find_row ir_key key t")
      (auto simp: idem_mark_unknown_def idem_get_def case_prod_beta is_open_row_def dest: find_row_Some)
qed (simp add: idem_mark_unknown_def idem_get_def case_prod_beta unknown.find_other)

lemma mark_failed_get:
  "idem_get k (snd (idem_mark_failed now key error t)) =
     (if k = key then map_option (\<lambda>r. r\<lparr>ir_status := I_FAILED, ir_error := Some error, ir_completed_at := Some now\<rparr>)
        (idem_get k t) else idem_get k t)"
proof (cases "k = key")
  case True
  then show ?thesis
    using failed.find_same [where key = key and error = error and now = now and t = t]
    by (cases "find_row ir_key key t")
      (auto simp: idem_mark_failed_def idem_get_def case_prod_beta dest: find_row_Some)
qed (simp add: idem_mark_failed_def idem_get_def case_prod_beta failed.find_other)

lemma marks_ok:
  "idem_ok t \<Longrightarrow> idem_ok (snd (idem_mark_executing key t))"
  "idem_ok t \<Longrightarrow> idem_ok (snd (idem_mark_succeeded now key result t))"
  "idem_ok t \<Longrightarrow> idem_ok (snd (idem_mark_failed now key error t))"
  "idem_ok t \<Longrightarrow> idem_ok (snd (idem_mark_unknown key t))"
  by (simp_all add: idem_ok_def idem_mark_executing_def idem_mark_succeeded_def idem_mark_failed_def
      idem_mark_unknown_def case_prod_beta executing.keys_kept succeeded.keys_kept failed.keys_kept unknown.keys_kept)

lemmas idem_get_laws [store_simps] = reserve_get mark_executing_get mark_succeeded_get mark_unknown_get mark_failed_get

section \<open>Histories of the store\<close>

datatype idem_call =
    Reserve timestamp string string "kwargs option"
  | MarkExecuting string
  | MarkSucceeded timestamp string string
  | MarkFailed timestamp string string
  | MarkUnknown string

fun idem_step :: "idem_call \<Rightarrow> idem_table \<Rightarrow> bool \<times> idem_table" where
  "idem_step (Reserve now key tool args) t = (True, snd (idem_reserve now key tool args t))"
| "idem_step (MarkExecuting key) t = idem_mark_executing key t"
| "idem_step (MarkSucceeded now key result) t = idem_mark_succeeded now key result t"
| "idem_step (MarkFailed now key error) t = idem_mark_failed now key error t"
| "idem_step (MarkUnknown key) t = idem_mark_unknown key t"

text \<open>The order in which a key's status can move.\<close>

definition idem_rank :: "string \<Rightarrow> idem_table \<Rightarrow> int" where
  "idem_rank key t = (case idem_status key t of
     None \<Rightarrow> 0 | Some I_RESERVED \<Rightarrow> 1 | Some I_EXECUTING \<Rightarrow> 2 | Some _ \<Rightarrow> 3)"

fun is_success_of :: "string \<Rightarrow> idem_call \<Rightarrow> bool" where
  "is_success_of key (MarkSucceeded now k result) = (k = key)"
| "is_success_of key c = False"

interpretation idem_store: monotone_store idem_step idem_ok "idem_rank key" for key
proof
  fix t c assume ok: "idem_ok t"
  show "idem_ok (snd (idem_step c t))"
    using ok by (cases c) (simp_all add: reserve_ok marks_ok)
  show "idem_rank key t \<le> idem_rank key (snd (idem_step c t))"
    by (cases c; cases "idem_get key t")
      (auto simp: idem_rank_def idem_status_def store_simps split: idempotency_status.splits)
qed

interpretation idem_claim: one_winner idem_step idem_ok "idem_rank key" "\<lambda>c. c = MarkExecuting key" 1 for key
proof
  fix t c assume "idem_ok t" "c = MarkExecuting key" "fst (idem_step c t)"
  then show "idem_rank key t = 1 \<and> 1 < idem_rank key (snd (idem_step c t))"
    by (auto simp: mark_executing_ok idem_rank_def idem_status_def store_simps)
qed

interpretation idem_success: one_winner idem_step idem_ok "idem_rank key" "is_success_of key" 2 for key
proof
  fix t c assume "idem_ok t" "is_success_of key c" "fst (idem_step c t)"
  then show "idem_rank key t = 2 \<and> 2 < idem_rank key (snd (idem_step c t))"
    by (cases c) (auto simp: mark_succeeded_ok idem_rank_def idem_status_def store_simps)
qed

section \<open>Properties\<close>

text \<open>
  C7. Exclusive execution: in any history of calls on the store, by any number of workers
  in any order, at most one \<open>mark_executing\<close> and at most one \<open>mark_succeeded\<close> of a key
  succeeds.
\<close>

theorem idempotent_claim_once:
  assumes "idem_ok t"
  shows "wins (\<lambda>c. c = MarkExecuting key) (fst (run_steps idem_step cs t)) \<le> 1 \<and>
    wins (is_success_of key) (fst (run_steps idem_step cs t)) \<le> 1"
  using idem_claim.at_most_one_win [OF assms] idem_success.at_most_one_win [OF assms] by blast

theorem idempotent_claim_once_witness:
  "wins (\<lambda>c. c = MarkExecuting ''k'') (fst (run_steps idem_step
     [Reserve 0 ''k'' ''submit_transfer'' None, MarkExecuting ''k'', MarkExecuting ''k''] [])) \<le> 1"
  using idempotent_claim_once [of "[]" "''k''"
      "[Reserve 0 ''k'' ''submit_transfer'' None, MarkExecuting ''k'', MarkExecuting ''k'']"]
  by (simp add: idem_ok_def)

text \<open>
  A reservation never overwrites: the first caller's row stays, a later \<open>reserve\<close> of the
  key returns that row unchanged, and a record that succeeded keeps its result through every
  call but \<open>mark_failed\<close>.
\<close>

theorem reserve_returns_first:
  "fst (idem_reserve now key tool args t) =
     (case idem_get key t of
        Some r \<Rightarrow> Some r
      | None \<Rightarrow> Some \<lparr>ir_key = key, ir_status = I_RESERVED, ir_tool_name = tool,
                 ir_tool_args = Some (case args of None \<Rightarrow> [] | Some a \<Rightarrow> a),
                 ir_result = None, ir_error = None, ir_created_at = now, ir_completed_at = None\<rparr>) \<and>
   (\<forall>r c. idem_get key t = Some r \<and> ir_status r = I_SUCCEEDED \<and> (\<forall>m e. c \<noteq> MarkFailed m key e) \<longrightarrow>
      idem_get key (snd (idem_step c t)) = Some r)"
proof (intro conjI allI impI)
  show "fst (idem_reserve now key tool args t) =
     (case idem_get key t of
        Some r \<Rightarrow> Some r
      | None \<Rightarrow> Some \<lparr>ir_key = key, ir_status = I_RESERVED, ir_tool_name = tool,
                 ir_tool_args = Some (case args of None \<Rightarrow> [] | Some a \<Rightarrow> a),
                 ir_result = None, ir_error = None, ir_created_at = now, ir_completed_at = None\<rparr>)"
    by (simp add: idem_reserve_result reserve_get split: option.splits)
next
  fix r c
  assume "idem_get key t = Some r \<and> ir_status r = I_SUCCEEDED \<and> (\<forall>m e. c \<noteq> MarkFailed m key e)"
  then show "idem_get key (snd (idem_step c t)) = Some r"
    by (cases c) (auto simp: store_simps)
qed

text \<open>A failed record counts as one that can be retried, but it cannot be claimed again.\<close>

lemma retriable_failure_is_not_executable:
  assumes "idem_get key t = Some r" "ir_status r = I_FAILED" "idem_ok t"
  shows "idem_can_retry r" "idem_is_terminal r" "idem_mark_executing key t = (False, t)"
proof -
  show "idem_can_retry r" "idem_is_terminal r" using assms(2) by (simp_all add: idem_can_retry_def idem_is_terminal_def)
  have "\<not> is_executable_row key x" if "x \<in> set t" for x
    using find_row_unique [of ir_key t x] assms that by (auto simp: idem_get_def is_executable_row_def idem_ok_def)
  then show "idem_mark_executing key t = (False, t)"
    by (auto simp: idem_mark_executing_def sql_update_def map_idI filter_empty_conv)
qed

end
