(* ===== verification/Graph.thy ===== *)
theory Graph
  imports Tool_Registry Idempotency
begin

text \<open>
  The agent graph, \<open>graph.py\<close> over \<open>state.py\<close>: the reasoning node, the tool node with its
  pipeline (validation, in-memory idempotency, authorization, human approval, durable
  idempotency, dispatch), and the loop between them.

  The language model, the MCP backend, the clock and \<open>json.loads\<close> are parameters (\<open>deps\<close>); the
  mutable collaborators are a \<open>world\<close> that every node returns updated. \<open>w_dispatched\<close> is a
  ghost trace of the calls handed to the backend. LangGraph suspends a node at \<open>interrupt\<close>
  and, when it is resumed, runs the node again from its start, the interrupts already
  answered returning their recorded values: a tool node takes the list of those values. A
  step of the loop is one superstep of LangGraph; its recursion limit is the \<open>nat\<close> argument.
\<close>

section \<open>State\<close>

record llm_tool_call =
  lc_id :: string
  lc_name :: string
  lc_args :: kwargs

datatype message =
    SystemMsg string
  | HumanMsg string
  | AIMsg string "llm_tool_call list"
  | ToolMsg string string string

fun msg_content :: "message \<Rightarrow> string" where
  "msg_content (SystemMsg c) = c"
| "msg_content (HumanMsg c) = c"
| "msg_content (AIMsg c tcs) = c"
| "msg_content (ToolMsg c i n) = c"

fun msg_tool_calls :: "message \<Rightarrow> llm_tool_call list" where
  "msg_tool_calls (AIMsg c tcs) = tcs"
| "msg_tool_calls m = []"

record agent_state =
  gs_messages :: "message list"
  gs_final_answer :: "string option"
  gs_step_count :: int
  gs_session_id :: "string option"
  gs_executed :: "string list"

record ('b, 'l) world =
  w_gateway :: gateway
  w_idem :: "idem_table option"
  w_backend :: 'b
  w_llm :: 'l
  w_tick :: nat
  w_dispatched :: "tool_call list"

record ('b, 'l) deps =
  dp_lib :: pylib
  dp_loads :: "string \<Rightarrow> json option"
  dp_clock :: "nat \<Rightarrow> timestamp"
  dp_call :: "tool_call \<Rightarrow> 'b \<Rightarrow> (pyexn + tool_result) \<times> 'b"
  dp_invoke :: "message list \<Rightarrow> json list option \<Rightarrow> 'l \<Rightarrow> (pyexn + message) \<times> 'l"
  dp_registry :: "tool_registry option"
  dp_max_steps :: int

section \<open>The tool node\<close>

text \<open>Step 1: validation against the registry, when there is one.\<close>

definition call_rejection :: "('b, 'l) deps \<Rightarrow> llm_tool_call \<Rightarrow> message option" where
  "call_rejection D tc = (case dp_registry D of
     None \<Rightarrow> None
   | Some reg \<Rightarrow>
       (let v = validate_tool_call (dp_loads D) (lc_name tc) (JObj (lc_args tc)) reg in
        if tv_valid v then None
        else Some (ToolMsg (''Tool call rejected: '' @ tv_error v) (lc_id tc) (lc_name tc))))"

text \<open>Steps 3 and 4: the operation put to the gateway.\<close>

definition call_kind :: "('b, 'l) deps \<Rightarrow> string \<Rightarrow> operation_kind" where
  "call_kind D name = (case Option.bind (dp_registry D) (registry_get name) of
     None \<Rightarrow> classify_tool_kind name
   | Some td \<Rightarrow> kind_from_metadata td)"

definition call_operation :: "('b, 'l) deps \<Rightarrow> llm_tool_call \<Rightarrow> operation" where
  "call_operation D tc = \<lparr>op_kind = call_kind D (lc_name tc), op_name = lc_name tc,
     op_target = ''tool:'' @ lc_name tc, op_details = [(''args'', JObj (lc_args tc))]\<rparr>"

definition ask_auth ::
    "('b, 'l) deps \<Rightarrow> operation \<Rightarrow> ('b, 'l) world \<Rightarrow> authorization_decision \<times> ('b, 'l) world" where
  "ask_auth D x w =
     (let (d, gw) = gateway_authorize (dp_lib D) (dp_clock D (w_tick w)) (dp_clock D (w_tick w + 1)) x (w_gateway w)
      in (d, w\<lparr>w_gateway := gw, w_tick := w_tick w + 2\<rparr>))"

text \<open>What the decision leads to: execution with these arguments, a message, or suspension.\<close>

datatype gate =
    Proceed kwargs "json list"
  | Skip message bool "json list"
  | Suspend kwargs

definition sid_or_unknown :: "agent_state \<Rightarrow> string" where
  "sid_or_unknown st = str_or (opt_str (gs_session_id st)) ''unknown''"

definition interrupt_payload :: "agent_state \<Rightarrow> llm_tool_call \<Rightarrow> kwargs" where
  "interrupt_payload st tc =
     [(''tool_name'', JStr (lc_name tc)), (''tool_args'', JObj (lc_args tc)),
      (''tool_call_id'', JStr (lc_id tc)), (''session_id'', JStr (sid_or_unknown st)),
      (''thread_id'', JStr (sid_or_unknown st)),
      (''idempotency_key'', JStr (sid_or_unknown st @ '':'' @ lc_id tc))]"

definition approval_gate :: "pylib \<Rightarrow> llm_tool_call \<Rightarrow> json \<Rightarrow> json list \<Rightarrow> gate" where
  "approval_gate L tc approval rs = (case approval of
     JObj kvs \<Rightarrow>
       (if map_of kvs ''decision'' = Some (JStr ''approved'')
        then Proceed (case map_of kvs ''canonical_args'' of
                        None \<Rightarrow> lc_args tc | Some (JObj a) \<Rightarrow> a | Some _ \<Rightarrow> []) rs
        else if map_of kvs ''decision'' = Some (JStr ''rejected'')
        then Skip (ToolMsg (''Operation rejected: '' @
               py_str L (dict_get_or kvs ''reason'' (JStr ''Human operator declined''))) (lc_id tc) (lc_name tc)) True rs
        else Skip (ToolMsg (''Error: invalid approval response for '' @ quoted (lc_name tc)) (lc_id tc) (lc_name tc)) True rs)
   | _ \<Rightarrow> Skip (ToolMsg (''Error: invalid approval response for '' @ quoted (lc_name tc)) (lc_id tc) (lc_name tc)) True rs)"

definition decision_gate ::
    "pylib \<Rightarrow> agent_state \<Rightarrow> llm_tool_call \<Rightarrow> authorization_decision \<Rightarrow> json list \<Rightarrow> gate" where
  "decision_gate L st tc d rs = (case ad_decision d of
     DENIED \<Rightarrow> Skip (ToolMsg (''Authorization denied: '' @ ad_reason d) (lc_id tc) (lc_name tc)) False rs
   | APPROVED \<Rightarrow> Proceed (lc_args tc) rs
   | PENDING \<Rightarrow> (case rs of [] \<Rightarrow> Suspend (interrupt_payload st tc) | v # rs' \<Rightarrow> approval_gate L tc v rs'))"

text \<open>Step 5: the durable record of the key, before execution.\<close>

definition idem_key_of :: "agent_state \<Rightarrow> llm_tool_call \<Rightarrow> string option" where
  "idem_key_of st tc =
     (if lc_id tc = [] then None
      else Some ((case gs_session_id st of None \<Rightarrow> ''unknown'' | Some s \<Rightarrow> s) @ '':'' @ lc_id tc))"

definition idem_gate ::
    "string \<Rightarrow> operation_kind \<Rightarrow> llm_tool_call \<Rightarrow> idem_table \<Rightarrow> message option \<times> idem_table" where
  "idem_gate key kind tc t = (case idem_get key t of
     None \<Rightarrow> (None, t)
   | Some r \<Rightarrow> (case ir_status r of
       I_SUCCEEDED \<Rightarrow>
         (Some (ToolMsg (''[idempotent] '' @ str_or (opt_str (ir_result r)) ''done'') (lc_id tc) (lc_name tc)), t)
     | I_FAILED \<Rightarrow> (None, snd (idem_mark_executing key t))
     | I_RESERVED \<Rightarrow> (None, snd (idem_mark_executing key t))
     | _ \<Rightarrow>
         if kind \<noteq> K_READ
         then (Some (ToolMsg (''Error: prior outcome unknown for '' @ quoted (lc_name tc) @
                 ''. Manual review required.'') (lc_id tc) (lc_name tc)), t)
         else (None, t)))"

definition idem_reserve_new :: "timestamp \<Rightarrow> string \<Rightarrow> string \<Rightarrow> kwargs \<Rightarrow> idem_table \<Rightarrow> idem_table" where
  "idem_reserve_new now key name args t =
     (if idem_get key t = None then snd (idem_reserve now key name (Some args) t) else t)"

definition idem_settle :: "timestamp \<Rightarrow> string \<Rightarrow> tool_result \<Rightarrow> idem_table \<Rightarrow> idem_table" where
  "idem_settle now key r t =
     (if tr_success r then snd (idem_mark_succeeded now key (tr_content r) t)
      else snd (idem_mark_failed now key (str_or (opt_str (tr_error r)) ''unknown error'') t))"

definition result_message :: "llm_tool_call \<Rightarrow> tool_result \<Rightarrow> message" where
  "result_message tc r = ToolMsg
     (if tr_success r then tr_content r
      else ''Error: '' @ (case tr_error r of None \<Rightarrow> ''None'' | Some e \<Rightarrow> e)) (lc_id tc) (lc_name tc)"

definition with_key :: "string option \<Rightarrow> (string \<Rightarrow> idem_table \<Rightarrow> idem_table) \<Rightarrow> ('b, 'l) world \<Rightarrow> ('b, 'l) world" where
  "with_key key f w = (case (key, w_idem w) of
     (Some k, Some t) \<Rightarrow> w\<lparr>w_idem := Some (f k t)\<rparr>
   | _ \<Rightarrow> w)"

text \<open>Reserve, dispatch to the backend, settle.\<close>

definition dispatch ::
    "('b, 'l) deps \<Rightarrow> string option \<Rightarrow> llm_tool_call \<Rightarrow> kwargs \<Rightarrow> ('b, 'l) world \<Rightarrow> (pyexn + message) \<times> ('b, 'l) world" where
  "dispatch D key tc args w =
     (let w1 = with_key key (\<lambda>k. idem_reserve_new (dp_clock D (w_tick w)) k (lc_name tc) args) w;
          call = \<lparr>tc_name = lc_name tc, tc_arguments = args\<rparr>;
          (r, b) = dp_call D call (w_backend w1);
          w2 = w1\<lparr>w_backend := b, w_tick := w_tick w + 1, w_dispatched := w_dispatched w1 @ [call]\<rparr>
      in case r of
           Inl e \<Rightarrow> (Inl e, w2)
         | Inr res \<Rightarrow>
             (Inr (result_message tc res),
              (with_key key (\<lambda>k. idem_settle (dp_clock D (w_tick w2)) k res) w2)\<lparr>w_tick := w_tick w2 + 1\<rparr>))"

definition execute_call ::
    "('b, 'l) deps \<Rightarrow> agent_state \<Rightarrow> llm_tool_call \<Rightarrow> kwargs \<Rightarrow> ('b, 'l) world \<Rightarrow> (pyexn + message) \<times> ('b, 'l) world" where
  "execute_call D st tc args w =
     (let key = idem_key_of st tc in
      case (key, w_idem w) of
        (Some k, Some t) \<Rightarrow>
          (let (m, t') = idem_gate k (call_kind D (lc_name tc)) tc t; w1 = w\<lparr>w_idem := Some t'\<rparr> in
           case m of Some msg \<Rightarrow> (Inr msg, w1) | None \<Rightarrow> dispatch D key tc args w1)
      | _ \<Rightarrow> dispatch D key tc args w)"

definition mark_id :: "llm_tool_call \<Rightarrow> string list \<Rightarrow> string list" where
  "mark_id tc ids = (if lc_id tc = [] then ids else List.insert (lc_id tc) ids)"

datatype node_out =
    NodeOk "message list" "string list"
  | NodeInterrupt kwargs
  | NodeRaised pyexn

text \<open>The loop over the tool calls of the last message.\<close>

fun tool_loop ::
    "('b, 'l) deps \<Rightarrow> agent_state \<Rightarrow> llm_tool_call list \<Rightarrow> json list \<Rightarrow> message list \<Rightarrow> string list \<Rightarrow>
     ('b, 'l) world \<Rightarrow> node_out \<times> ('b, 'l) world" where
  "tool_loop D st [] rs acc ids w = (NodeOk acc ids, w)"
| "tool_loop D st (tc # tcs) rs acc ids w =
     (case call_rejection D tc of
        Some m \<Rightarrow> tool_loop D st tcs rs (acc @ [m]) ids w
      | None \<Rightarrow>
          if lc_id tc \<noteq> [] \<and> lc_id tc \<in> set ids
          then tool_loop D st tcs rs
                 (acc @ [ToolMsg (''[idempotent skip] Tool '' @ quoted (lc_name tc) @ '' already executed'')
                    (lc_id tc) (lc_name tc)]) ids w
          else (let (d, w1) = ask_auth D (call_operation D tc) w in
            case decision_gate (dp_lib D) st tc d rs of
              Skip m mark rs' \<Rightarrow> tool_loop D st tcs rs' (acc @ [m]) (if mark then mark_id tc ids else ids) w1
            | Suspend payload \<Rightarrow> (NodeInterrupt payload, w1)
            | Proceed args rs' \<Rightarrow>
                (case execute_call D st tc args w1 of
                   (Inl e, w2) \<Rightarrow> (NodeRaised e, w2)
                 | (Inr m, w2) \<Rightarrow> tool_loop D st tcs rs' (acc @ [m]) (mark_id tc ids) w2)))"

definition last_tool_calls :: "agent_state \<Rightarrow> llm_tool_call list" where
  "last_tool_calls st = (if gs_messages st = [] then [] else msg_tool_calls (last (gs_messages st)))"

definition has_tool_calls :: "agent_state \<Rightarrow> bool" where
  "has_tool_calls st = (last_tool_calls st \<noteq> [])"

definition tool_node ::
    "('b, 'l) deps \<Rightarrow> json list \<Rightarrow> agent_state \<Rightarrow> ('b, 'l) world \<Rightarrow> node_out \<times> ('b, 'l) world" where
  "tool_node D rs st w =
     (if last_tool_calls st = [] then (NodeOk [] (gs_executed st), w)
      else tool_loop D st (last_tool_calls st) rs [] (gs_executed st) w)"

section \<open>The reasoning node and the loop\<close>

definition visible_tools :: "('b, 'l) deps \<Rightarrow> json list option" where
  "visible_tools D = (case dp_registry D of
     None \<Rightarrow> None
   | Some reg \<Rightarrow> if 0 < registry_count reg then Some (provider_definitions False reg) else None)"

definition agent_node ::
    "('b, 'l) deps \<Rightarrow> agent_state \<Rightarrow> ('b, 'l) world \<Rightarrow> (pyexn + agent_state) \<times> ('b, 'l) world" where
  "agent_node D st w =
     (if dp_max_steps D \<le> gs_step_count st
      then (Inl (RuntimeError ''Agent exceeded max_agent_steps''), w)
      else (let (r, l) = dp_invoke D (gs_messages st) (visible_tools D) (w_llm w); w1 = w\<lparr>w_llm := l\<rparr> in
        case r of
          Inl e \<Rightarrow> (Inl e, w1)
        | Inr m \<Rightarrow>
            (Inr (st\<lparr>gs_messages := gs_messages st @ [m], gs_step_count := gs_step_count st + 1,
                    gs_final_answer := (if msg_tool_calls m = [] then Some (msg_content m) else gs_final_answer st)\<rparr>),
             w1)))"

datatype graph_node = AgentNode | ToolNode

datatype graph_out =
    GraphDone agent_state
  | GraphInterrupted kwargs agent_state
  | GraphRaised pyexn
  | GraphRecursionError

fun graph_loop ::
    "('b, 'l) deps \<Rightarrow> nat \<Rightarrow> graph_node \<Rightarrow> json list \<Rightarrow> agent_state \<Rightarrow> ('b, 'l) world \<Rightarrow>
     graph_out \<times> ('b, 'l) world" where
  "graph_loop D 0 nd rs st w = (GraphRecursionError, w)"
| "graph_loop D (Suc n) AgentNode rs st w =
     (case agent_node D st w of
        (Inl e, w1) \<Rightarrow> (GraphRaised e, w1)
      | (Inr st1, w1) \<Rightarrow> if has_tool_calls st1 then graph_loop D n ToolNode rs st1 w1 else (GraphDone st1, w1))"
| "graph_loop D (Suc n) ToolNode rs st w =
     (case tool_node D rs st w of
        (NodeRaised e, w1) \<Rightarrow> (GraphRaised e, w1)
      | (NodeInterrupt p, w1) \<Rightarrow> (GraphInterrupted p st, w1)
      | (NodeOk ms ids, w1) \<Rightarrow>
          graph_loop D n AgentNode [] (st\<lparr>gs_messages := gs_messages st @ ms, gs_executed := ids\<rparr>) w1)"

text \<open>\<open>graph.ainvoke(state)\<close> and \<open>graph.ainvoke(Command(resume=v))\<close> on a suspended tool node.\<close>

definition graph_invoke ::
    "('b, 'l) deps \<Rightarrow> nat \<Rightarrow> agent_state \<Rightarrow> ('b, 'l) world \<Rightarrow> graph_out \<times> ('b, 'l) world" where
  "graph_invoke D limit st w = graph_loop D limit AgentNode [] st w"

definition graph_resume ::
    "('b, 'l) deps \<Rightarrow> nat \<Rightarrow> json list \<Rightarrow> agent_state \<Rightarrow> ('b, 'l) world \<Rightarrow> graph_out \<times> ('b, 'l) world" where
  "graph_resume D limit answers st w = graph_loop D limit ToolNode answers st w"

section \<open>What a tool call can do\<close>

lemma with_key_frame [simp]:
  "w_gateway (with_key k f w) = w_gateway w" "w_backend (with_key k f w) = w_backend w"
  "w_llm (with_key k f w) = w_llm w" "w_tick (with_key k f w) = w_tick w"
  "w_dispatched (with_key k f w) = w_dispatched w"
  by (simp_all add: with_key_def split: option.splits)

lemma ask_auth_frame [simp]:
  "w_backend (snd (ask_auth D x w)) = w_backend w" "w_idem (snd (ask_auth D x w)) = w_idem w"
  "w_llm (snd (ask_auth D x w)) = w_llm w" "w_dispatched (snd (ask_auth D x w)) = w_dispatched w"
  by (simp_all add: ask_auth_def case_prod_beta Let_def)

lemma ask_auth_about: "ad_operation (fst (ask_auth D x w)) = x"
  by (simp add: ask_auth_def gateway_authorize_def policy_about case_prod_beta Let_def)

lemma ask_auth_trail:
  "gw_decisions (w_gateway (snd (ask_auth D x w))) = gw_decisions (w_gateway w) @ [fst (ask_auth D x w)]"
  by (simp add: ask_auth_def gateway_authorize_def case_prod_beta Let_def)

lemma ask_auth_policy:
  assumes "gw_policy (w_gateway w) \<in> {ReadOnlyPolicy, RequireApprovalPolicy}"
  shows "gw_policy (w_gateway (snd (ask_auth D x w))) = gw_policy (w_gateway w)"
    and "ad_decision (fst (ask_auth D x w)) =
      (if op_kind x = K_READ then APPROVED
       else if gw_policy (w_gateway w) = ReadOnlyPolicy then DENIED else PENDING)"
  using assms by (auto simp: ask_auth_def gateway_authorize_def read_only_def require_approval_def decide_def
      case_prod_beta Let_def)

text \<open>A call is dispatched at most once, under its own name.\<close>

lemma dispatch_world:
  "w_dispatched (snd (dispatch D key tc args w)) =
     w_dispatched w @ [\<lparr>tc_name = lc_name tc, tc_arguments = args\<rparr>]"
  "w_backend (snd (dispatch D key tc args w)) =
     snd (dp_call D \<lparr>tc_name = lc_name tc, tc_arguments = args\<rparr> (w_backend w))"
  "w_gateway (snd (dispatch D key tc args w)) = w_gateway w"
  "w_llm (snd (dispatch D key tc args w)) = w_llm w"
  by (auto simp: dispatch_def Let_def case_prod_beta split: sum.splits)

lemma execute_call_cases:
  obtains (skipped) "w_dispatched (snd (execute_call D st tc args w)) = w_dispatched w"
      "w_backend (snd (execute_call D st tc args w)) = w_backend w"
      "w_gateway (snd (execute_call D st tc args w)) = w_gateway w"
  | (dispatched)
      "w_dispatched (snd (execute_call D st tc args w)) =
         w_dispatched w @ [\<lparr>tc_name = lc_name tc, tc_arguments = args\<rparr>]"
      "w_backend (snd (execute_call D st tc args w)) =
         snd (dp_call D \<lparr>tc_name = lc_name tc, tc_arguments = args\<rparr> (w_backend w))"
      "w_gateway (snd (execute_call D st tc args w)) = w_gateway w"
proof (cases "\<exists>k t msg t'. idem_key_of st tc = Some k \<and> w_idem w = Some t \<and>
    idem_gate k (call_kind D (lc_name tc)) tc t = (Some msg, t')")
  case True
  then show ?thesis by (intro skipped) (auto simp: execute_call_def)
next
  case False
  show ?thesis
  proof (rule dispatched)
    show "w_dispatched (snd (execute_call D st tc args w)) =
         w_dispatched w @ [\<lparr>tc_name = lc_name tc, tc_arguments = args\<rparr>]"
      using False by (auto simp: execute_call_def dispatch_world Let_def split: option.splits prod.splits)
    show "w_backend (snd (execute_call D st tc args w)) =
         snd (dp_call D \<lparr>tc_name = lc_name tc, tc_arguments = args\<rparr> (w_backend w))"
      using False by (auto simp: execute_call_def dispatch_world Let_def split: option.splits prod.splits)
    show "w_gateway (snd (execute_call D st tc args w)) = w_gateway w"
      using False by (auto simp: execute_call_def dispatch_world Let_def split: option.splits prod.splits)
  qed
qed

lemma execute_call_gateway: "w_gateway (snd (execute_call D st tc args w)) = w_gateway w"
  by (cases rule: execute_call_cases [of D st tc args w]) simp_all

text \<open>
  One round of the loop, as an invariant rule: whatever the calls, a property of the world
  that the authorization step and permitted executions keep holds at the end.
\<close>

lemma tool_loop_induct [consumes 1, case_names ask exec]:
  assumes "P w rs"
    and "\<And>x w rs. P w rs \<Longrightarrow> P (snd (ask_auth D x w)) rs"
    and "\<And>tc args w rs d w1 rs'. P w rs \<Longrightarrow> call_rejection D tc = None \<Longrightarrow> ask_auth D (call_operation D tc) w = (d, w1) \<Longrightarrow>
      decision_gate (dp_lib D) st tc d rs = Proceed args rs' \<Longrightarrow> P (snd (execute_call D st tc args w1)) rs'"
    and "\<And>w r rs. P w (r # rs) \<Longrightarrow> P w rs"
  shows "\<exists>rs'. P (snd (tool_loop D st tcs rs acc ids w)) rs'"
  using assms(1)
proof (induction tcs arbitrary: rs acc ids w)
  case (Cons tc tcs)
  show ?case
  proof (cases "call_rejection D tc")
    case (Some m)
    with Cons show ?thesis by simp
  next
    case None
    obtain d w1 where a: "ask_auth D (call_operation D tc) w = (d, w1)" by fastforce
    have p1: "P w1 rs" using assms(2) [OF Cons.prems, of "call_operation D tc"] a by simp
    show ?thesis
    proof (cases "lc_id tc \<noteq> [] \<and> lc_id tc \<in> set ids")
      case True
      with Cons None show ?thesis by simp
    next
      case False
      show ?thesis
      proof (cases "decision_gate (dp_lib D) st tc d rs")
        case (Proceed args rs')
        obtain r w2 where e: "execute_call D st tc args w1 = (r, w2)" by fastforce
        from assms(3) [OF Cons.prems None a Proceed] e have "P w2 rs'" by simp
        with Cons.IH None False a Proceed e show ?thesis by (cases r) (auto split: if_splits)
      next
        case (Skip m mark rs')
        then have "rs' = rs \<or> (\<exists>v. rs = v # rs')"
          by (auto simp: decision_gate_def approval_gate_def split: approval_decision.splits list.splits json.splits if_splits)
        with p1 assms(4) have "P w1 rs'" by auto
        with Cons.IH None False a Skip show ?thesis by (auto split: if_splits)
      next
        case (Suspend payload)
        with None False a p1 show ?thesis by (auto split: if_splits)
      qed
    qed
  qed
qed auto

section \<open>A backend whose reads are safe\<close>

text \<open>
  The contract of a backend towards the graph: \<open>safe\<close> is kept by every call of a tool the
  graph classifies as a READ. Under it, the graph with the read-only policy keeps \<open>safe\<close>,
  whatever the model answers; with the approval policy it does so until a human answers.
\<close>

locale read_safe_backend =
  fixes D :: "('b, 'l) deps" and safe :: "'b \<Rightarrow> tool_call list \<Rightarrow> bool"
  assumes read_safe: "call_kind D (tc_name c) = K_READ \<Longrightarrow> safe b cs \<Longrightarrow> safe (snd (dp_call D c b)) (cs @ [c])"
begin

definition guarded :: "('b, 'l) world \<Rightarrow> json list \<Rightarrow> bool" where
  "guarded w rs = (safe (w_backend w) (w_dispatched w) \<and>
     (gw_policy (w_gateway w) = ReadOnlyPolicy \<or> gw_policy (w_gateway w) = RequireApprovalPolicy \<and> rs = []))"

lemma guarded_exec:
  assumes "guarded w rs" "ask_auth D (call_operation D tc) w = (d, w1)"
    "decision_gate (dp_lib D) st tc d rs = Proceed args rs'"
  shows "guarded (snd (execute_call D st tc args w1)) rs'"
proof -
  have pol: "gw_policy (w_gateway w) \<in> {ReadOnlyPolicy, RequireApprovalPolicy}"
    using assms(1) by (auto simp: guarded_def)
  note dec = ask_auth_policy [OF pol, of D "call_operation D tc", unfolded assms(2) fst_conv snd_conv]
  have kind: "call_kind D (lc_name tc) = K_READ \<and> rs' = rs"
    using assms(1,3) dec(2)
    by (auto simp: decision_gate_def guarded_def call_operation_def split: if_splits approval_decision.splits list.splits)
  have w1: "w_backend w1 = w_backend w" "w_dispatched w1 = w_dispatched w"
    using ask_auth_frame(1,4) [of D "call_operation D tc" w] assms(2) by simp_all
  show ?thesis
    by (rule execute_call_cases [of D st tc args w1])
      (use assms(1) kind w1 dec(1) in \<open>auto simp: guarded_def intro: read_safe\<close>)
qed

lemma tool_loop_guarded:
  assumes "guarded w rs"
  shows "\<exists>rs'. guarded (snd (tool_loop D st tcs rs acc ids w)) rs'"
  using assms
proof (induct rule: tool_loop_induct)
  case (ask x w rs)
  then show ?case by (auto simp: guarded_def ask_auth_policy)
next
  case (exec tc args w rs d w1 rs')
  then show ?case by (blast intro: guarded_exec)
qed (auto simp: guarded_def)

lemma guarded_nil: "guarded w rs \<Longrightarrow> guarded w []"
  by (auto simp: guarded_def)

lemma tool_node_guarded: "guarded w rs \<Longrightarrow> guarded (snd (tool_node D rs st w)) []"
proof (cases "last_tool_calls st = []")
  case False
  assume "guarded w rs"
  then obtain rs' where "guarded (snd (tool_loop D st (last_tool_calls st) rs [] (gs_executed st) w)) rs'"
    using tool_loop_guarded by blast
  with False show ?thesis by (simp add: tool_node_def guarded_nil)
qed (simp add: tool_node_def guarded_nil)

lemma agent_node_guarded: "guarded w rs \<Longrightarrow> guarded (snd (agent_node D st w)) rs"
  by (auto simp: agent_node_def guarded_def case_prod_beta Let_def split: sum.splits)

lemma graph_loop_guarded: "guarded w rs \<Longrightarrow> guarded (snd (graph_loop D n nd rs st w)) []"
proof (induction n arbitrary: nd rs st w)
  case 0
  then show ?case by (auto intro: guarded_nil)
next
  case (Suc n)
  show ?case
  proof (cases nd)
    case AgentNode
    obtain r w1 where a: "agent_node D st w = (r, w1)" by fastforce
    with agent_node_guarded [OF Suc.prems, of st] have g: "guarded w1 rs" by simp
    show ?thesis
      using AgentNode a g guarded_nil Suc.IH by (cases r) simp_all
  next
    case ToolNode
    obtain r w1 where a: "tool_node D rs st w = (r, w1)" by fastforce
    with tool_node_guarded [OF Suc.prems, of st] have g: "guarded w1 []" by simp
    show ?thesis
      using ToolNode a g Suc.IH by (cases r) simp_all
  qed
qed

end

section \<open>Bounded work\<close>

text \<open>
  The step limit bounds the loop: with enough supersteps allowed, LangGraph's own limit is
  never what ends a run.
\<close>

definition steps_left :: "('b, 'l) deps \<Rightarrow> agent_state \<Rightarrow> nat" where
  "steps_left D st = nat (dp_max_steps D - gs_step_count st)"

lemma agent_node_steps:
  "agent_node D st w = (Inr st1, w1) \<Longrightarrow>
     gs_step_count st < dp_max_steps D \<and> gs_step_count st1 = gs_step_count st + 1"
  by (auto simp: agent_node_def case_prod_beta Let_def split: if_splits sum.splits)

lemma graph_loop_limit:
  "2 * steps_left D st + (if nd = AgentNode then 1 else 2) \<le> n \<Longrightarrow>
     fst (graph_loop D n nd rs st w) \<noteq> GraphRecursionError"
proof (induction n arbitrary: nd rs st w)
  case (Suc n)
  show ?case
  proof (cases nd)
    case AgentNode
    obtain r w1 where a: "agent_node D st w = (r, w1)" by fastforce
    show ?thesis
    proof (cases r)
      case (Inr st1)
      with a have "gs_step_count st < dp_max_steps D" "gs_step_count st1 = gs_step_count st + 1"
        using agent_node_steps by blast+
      then have "Suc (steps_left D st1) = steps_left D st" by (simp add: steps_left_def)
      with Suc.prems AgentNode have "2 * steps_left D st1 + 2 \<le> n" by simp
      with Suc.IH [of st1 ToolNode] AgentNode a Inr show ?thesis by simp
    qed (use AgentNode a in simp)
  next
    case ToolNode
    obtain r w1 where a: "tool_node D rs st w = (r, w1)" by fastforce
    show ?thesis
    proof (cases r)
      case (NodeOk ms ids)
      have "steps_left D (st\<lparr>gs_messages := gs_messages st @ ms, gs_executed := ids\<rparr>) = steps_left D st"
        by (simp add: steps_left_def)
      with Suc.prems ToolNode Suc.IH NodeOk a show ?thesis by simp
    qed (use ToolNode a in simp_all)
  qed
qed (simp split: if_splits)

section \<open>Durable idempotency\<close>

lemma idem_gate_none:
  assumes "idem_gate key kind tc t = (None, t')"
  shows "t' = (if idem_status key t \<in> {Some I_RESERVED, Some I_FAILED} then snd (idem_mark_executing key t) else t) \<and>
    idem_status key t \<noteq> Some I_SUCCEEDED \<and>
    (kind \<noteq> K_READ \<longrightarrow> idem_status key t \<notin> {Some I_EXECUTING, Some I_UNKNOWN})"
  using assms by (auto simp: idem_gate_def idem_status_def split: option.splits idempotency_status.splits if_splits)

lemma settle_fresh:
  assumes "idem_status key t = None" "tr_success r"
  shows "idem_status key (idem_settle now' key r (idem_reserve_new now key n args t)) = Some I_RESERVED"
  using assms by (simp add: idem_settle_def idem_reserve_new_def idem_status_def store_simps)

lemma execute_fresh_reserved:
  assumes "idem_key_of st tc = Some key" "w_idem w = Some t" "idem_status key t = None"
    "dp_call D \<lparr>tc_name = lc_name tc, tc_arguments = args\<rparr> (w_backend w) = (Inr r, b)" "tr_success r"
  obtains w' t' where "execute_call D st tc args w = (Inr (result_message tc r), w')" "w_idem w' = Some t'"
    "idem_status key t' = Some I_RESERVED" "w_backend w' = b" "w_gateway w' = w_gateway w" "w_llm w' = w_llm w"
    "w_dispatched w' = w_dispatched w @ [\<lparr>tc_name = lc_name tc, tc_arguments = args\<rparr>]"
proof -
  have g: "idem_gate key (call_kind D (lc_name tc)) tc t = (None, t)"
    using assms(3) by (simp add: idem_gate_def idem_status_def)
  have wd: "w\<lparr>w_idem := Some t\<rparr> = w" using assms(2) by simp
  have e: "execute_call D st tc args w = dispatch D (Some key) tc args w"
    using assms(1,2) g by (simp add: execute_call_def Let_def wd)
  let ?t = "idem_settle (dp_clock D (Suc (w_tick w))) key r
    (idem_reserve_new (dp_clock D (w_tick w)) key (lc_name tc) args t)"
  show ?thesis
    by (rule that [of "snd (dispatch D (Some key) tc args w)" ?t])
      (use assms in \<open>simp_all add: e dispatch_world settle_fresh\<close>,
       simp_all add: dispatch_def with_key_def Let_def)
qed

lemma execute_reserved_dispatches:
  assumes "idem_key_of st tc = Some key" "w_idem w = Some t" "idem_status key t = Some I_RESERVED"
  shows "w_dispatched (snd (execute_call D st tc args w)) =
    w_dispatched w @ [\<lparr>tc_name = lc_name tc, tc_arguments = args\<rparr>]"
  using assms
  by (auto simp: execute_call_def idem_gate_def idem_status_def dispatch_world Let_def)

lemma dispatched_grows:
  assumes "prefix l (w_dispatched w)"
  shows "prefix l (w_dispatched (snd (tool_loop D st tcs rs acc ids w)))"
proof -
  have "\<exists>rs' :: json list. prefix l (w_dispatched (snd (tool_loop D st tcs rs acc ids w)))"
    using assms
  proof (induct rule: tool_loop_induct)
    case (exec tc args w rs d w1 rs')
    then have "prefix l (w_dispatched w1)" using ask_auth_frame(4) [of D "call_operation D tc" w] by simp
    then show ?case
      by (cases rule: execute_call_cases [of D st tc args w1]) (auto simp: prefix_def)
  qed simp_all
  then show ?thesis by simp
qed

lemma graph_dispatched_grows: "prefix l (w_dispatched w) \<Longrightarrow> prefix l (w_dispatched (snd (graph_loop D n nd rs st w)))"
proof (induction n arbitrary: nd rs st w)
  case (Suc n)
  have "prefix l (w_dispatched (snd (tool_node D rs st w)))"
    using Suc.prems by (simp add: tool_node_def dispatched_grows)
  moreover have "w_dispatched (snd (agent_node D st w)) = w_dispatched w"
    by (auto simp: agent_node_def case_prod_beta Let_def split: sum.splits)
  ultimately show ?case
    using Suc by (cases nd) (auto split: prod.splits sum.splits node_out.splits)
qed simp

section \<open>The deployed backend\<close>

text \<open>
  The backend \<open>bootstrap.py\<close> wires: the client adapter over the in-process banking server, with
  the registry derived from its schemas. The \<open>n\<close>-th call reads clock and UUID from \<open>envs n\<close>.
\<close>

type_synonym bank_backend = "mcp_adapter \<times> bank \<times> nat"

definition banking_call ::
    "pylib \<Rightarrow> (nat \<Rightarrow> call_env) \<Rightarrow> tool_call \<Rightarrow> bank_backend \<Rightarrow> (pyexn + tool_result) \<times> bank_backend" where
  "banking_call L envs c s = (case s of (ad, b, n) \<Rightarrow>
     (let (r, ad', b') = mcp_call_tool (banking_transport L (envs n)) c (ad, b) in (r, ad', b', Suc n)))"

definition deployed_registry :: tool_registry where
  "deployed_registry = (case bootstrap_registry of Inl e \<Rightarrow> [] | Inr reg \<Rightarrow> reg)"

definition deployed ::
    "pylib \<Rightarrow> (string \<Rightarrow> json option) \<Rightarrow> (nat \<Rightarrow> timestamp) \<Rightarrow> (nat \<Rightarrow> call_env) \<Rightarrow>
     (message list \<Rightarrow> json list option \<Rightarrow> 'l \<Rightarrow> (pyexn + message) \<times> 'l) \<Rightarrow> int \<Rightarrow> (bank_backend, 'l) deps" where
  "deployed L loads clk envs invoke max_steps = \<lparr>dp_lib = L, dp_loads = loads, dp_clock = clk,
     dp_call = banking_call L envs, dp_invoke = invoke, dp_registry = Some deployed_registry,
     dp_max_steps = max_steps\<rparr>"

definition bank_of :: "bank_backend \<Rightarrow> bank" where
  "bank_of s = fst (snd s)"

lemma deployed_registered_read:
  assumes "case registry_get n deployed_registry of None \<Rightarrow> True | Some td \<Rightarrow> kind_from_metadata td = K_READ"
  shows "is_read_only n"
proof -
  obtain reg where reg: "bootstrap_registry = Inr reg"
    and mem: "\<forall>n. (registry_get n reg \<noteq> None) = (n \<in> fst ` set TOOL_RISK)"
    and kind: "\<forall>n d. registry_get n reg = Some d \<longrightarrow>
        (kind_from_metadata d = K_READ) = is_read_only n \<and> (kind_from_metadata d = K_TRANSFER) = requires_hitl n"
    using bootstrap_agrees by blast
  have r: "deployed_registry = reg" by (simp add: deployed_registry_def reg)
  show ?thesis
  proof (cases "registry_get n reg")
    case None
    with mem have "n \<notin> fst ` set TOOL_RISK" by metis
    then have "map_of TOOL_RISK n = None" by (simp add: map_of_eq_None_iff)
    then show ?thesis by (simp add: is_read_only_def dict_get_or_def)
  next
    case (Some d)
    with r assms have "kind_from_metadata d = K_READ" by simp
    with kind Some show ?thesis by blast
  qed
qed

lemma deployed_kind_read:
  "call_kind (deployed L loads clk envs invoke m) n = K_READ \<Longrightarrow> is_read_only n"
  by (rule deployed_registered_read) (simp add: call_kind_def deployed_def split: option.splits)

lemma banking_call_bank:
  "bank_of (snd (banking_call L envs c s)) =
     (if mc_connected (fst s) then snd (tools_execute L (envs (snd (snd s))) (tc_name c) (tc_arguments c) (bank_of s))
      else bank_of s)"
  by (cases s) (auto simp: banking_call_def bank_of_def mcp_call_tool_def banking_transport_def
      invoke_tool_def case_prod_beta Let_def split: sum.splits)

text \<open>Since the calls \<open>cs0\<close> only read-only tools were called, and the bank is still \<open>b0\<close>.\<close>

definition only_reads :: "tool_call list \<Rightarrow> tool_call list \<Rightarrow> bool" where
  "only_reads cs0 cs = (prefix cs0 cs \<and> list_all (\<lambda>c. is_read_only (tc_name c)) (drop (length cs0) cs))"

lemma only_reads_refl [simp]: "only_reads cs cs"
  by (simp add: only_reads_def)

lemma only_reads_snoc: "only_reads cs0 cs \<Longrightarrow> is_read_only (tc_name c) \<Longrightarrow> only_reads cs0 (cs @ [c])"
  by (auto simp: only_reads_def prefix_def)

definition only_read :: "bank \<Rightarrow> tool_call list \<Rightarrow> bank_backend \<Rightarrow> tool_call list \<Rightarrow> bool" where
  "only_read b0 cs0 s cs = (bank_of s = b0 \<and> only_reads cs0 cs)"

lemma only_read_call:
  "only_read b0 cs0 s cs \<Longrightarrow> is_read_only (tc_name c) \<Longrightarrow> only_read b0 cs0 (snd (banking_call L envs c s)) (cs @ [c])"
  by (simp add: only_read_def only_reads_snoc banking_call_bank read_only_pure)

interpretation bank_graph: read_safe_backend "deployed L loads clk envs invoke m" "only_read b0 cs0"
  for L loads clk envs invoke m b0 cs0
  by unfold_locales (auto simp: deployed_def dest: deployed_kind_read [unfolded deployed_def] intro: only_read_call)

section \<open>Properties\<close>

definition demo_world :: "policy \<Rightarrow> (bank_backend, message list) world" where
  "demo_world p = \<lparr>w_gateway = \<lparr>gw_policy = p, gw_decisions = []\<rparr>, w_idem = Some [],
     w_backend = (\<lparr>mc_connected = True, mc_tools = []\<rparr>, create_test_repository, 0),
     w_llm = [], w_tick = 0, w_dispatched = []\<rparr>"

text \<open>A model that asks for a transfer to be submitted.\<close>

definition demo_invoke :: "message list \<Rightarrow> json list option \<Rightarrow> message list \<Rightarrow> (pyexn + message) \<times> message list" where
  "demo_invoke ms tools l = (Inr (AIMsg [] [\<lparr>lc_id = ''c1'', lc_name = ''submit_transfer'',
     lc_args = [(''draft_id'', JStr ''D1''), (''user_id'', JStr ''user-alice'')]\<rparr>]), l)"

definition demo_state :: agent_state where
  "demo_state = \<lparr>gs_messages = [HumanMsg ''pay''], gs_final_answer = None, gs_step_count = 0,
     gs_session_id = Some ''run1'', gs_executed = []\<rparr>"

text \<open>
  C5. No write without a human: under the approval policy, a run of the deployed graph up to
  its first suspension leaves the bank unchanged, whatever the model proposes; a tool that is
  not a read can only execute after an answer to its interrupt.
\<close>

theorem approval_graph_waits_for_human:
  assumes "gw_policy (w_gateway w) = RequireApprovalPolicy"
  shows "bank_of (w_backend (snd (graph_invoke (deployed L loads clk envs invoke m) limit st w))) =
    bank_of (w_backend w)"
  using bank_graph.graph_loop_guarded [of "bank_of (w_backend w)" "w_dispatched w" w "[]" L loads clk envs invoke m limit
      AgentNode st] assms by (simp add: bank_graph.guarded_def graph_invoke_def only_read_def)

theorem approval_graph_waits_for_human_witness:
  "bank_of (w_backend (snd (graph_invoke (deployed demo_lib (\<lambda>s. None) int (\<lambda>n. demo_env) demo_invoke 3)
      20 demo_state (demo_world RequireApprovalPolicy)))) = create_test_repository"
  using approval_graph_waits_for_human [of "demo_world RequireApprovalPolicy" demo_lib "\<lambda>s. None" int "\<lambda>n. demo_env"
      demo_invoke 3 20 demo_state]
  by (simp add: demo_world_def bank_of_def)

text \<open>
  C11. The agent loop is bounded by \<open>max_agent_steps\<close>: with a superstep limit of at least twice
  the remaining steps plus one, every run ends by itself, in an answer, a suspension or a
  raised error, for every model and backend.
\<close>

theorem graph_run_ends:
  assumes "2 * nat (dp_max_steps D - gs_step_count st) + 1 \<le> limit"
  shows "fst (graph_invoke D limit st w) \<noteq> GraphRecursionError"
  using assms graph_loop_limit [of D st AgentNode limit "[]" w] by (simp add: graph_invoke_def steps_left_def)

theorem graph_run_ends_witness:
  "fst (graph_invoke (deployed demo_lib (\<lambda>s. None) int (\<lambda>n. demo_env) demo_invoke 3) 7 demo_state
     (demo_world ReadOnlyPolicy)) \<noteq> GraphRecursionError"
  by (rule graph_run_ends) (simp add: deployed_def demo_state_def)

text \<open>
  C12. Durable idempotency, where it holds: a call whose key has SUCCEEDED is answered from
  the record, and one whose earlier outcome is unknown (EXECUTING or UNKNOWN) is refused
  unless it is a read; neither reaches the backend.
\<close>

theorem settled_key_not_dispatched:
  assumes "idem_key_of st tc = Some key" "w_idem w = Some t"
    "idem_status key t = Some I_SUCCEEDED \<or>
     call_kind D (lc_name tc) \<noteq> K_READ \<and> (idem_status key t = Some I_EXECUTING \<or> idem_status key t = Some I_UNKNOWN)"
  shows "w_dispatched (snd (execute_call D st tc args w)) = w_dispatched w \<and>
    w_backend (snd (execute_call D st tc args w)) = w_backend w \<and> w_idem (snd (execute_call D st tc args w)) = Some t"
  using assms by (auto simp: execute_call_def idem_gate_def idem_status_def Let_def)

definition demo_tc :: "string \<Rightarrow> llm_tool_call" where
  "demo_tc i = \<lparr>lc_id = i, lc_name = ''submit_transfer'',
     lc_args = [(''draft_id'', JStr ''D1''), (''user_id'', JStr ''user-alice'')]\<rparr>"

definition demo_row :: "idempotency_status \<Rightarrow> idempotency_record" where
  "demo_row s = \<lparr>ir_key = ''run1:c1'', ir_status = s, ir_tool_name = ''submit_transfer'', ir_tool_args = None,
     ir_result = Some ''ok'', ir_error = None, ir_created_at = 0, ir_completed_at = None\<rparr>"

theorem settled_key_not_dispatched_witness:
  "w_dispatched (snd (execute_call (deployed demo_lib (\<lambda>s. None) int (\<lambda>n. demo_env) demo_invoke 3)
     demo_state (demo_tc ''c1'') [] (demo_world ReadOnlyPolicy\<lparr>w_idem := Some [demo_row I_SUCCEEDED]\<rparr>))) = []"
  using settled_key_not_dispatched [of demo_state "demo_tc ''c1''" "''run1:c1''"
      "demo_world ReadOnlyPolicy\<lparr>w_idem := Some [demo_row I_SUCCEEDED]\<rparr>" "[demo_row I_SUCCEEDED]"
      "deployed demo_lib (\<lambda>s. None) int (\<lambda>n. demo_env) demo_invoke 3" "[]"]
  by (simp add: idem_key_of_def demo_state_def demo_tc_def demo_world_def demo_row_def idem_status_def
      idem_get_def find_row_def)

definition approved_answer :: json where
  "approved_answer = JObj [(''decision'', JStr ''approved'')]"

lemma pending_first:
  assumes "gw_policy (w_gateway w) = RequireApprovalPolicy" "call_kind D (lc_name tc) \<noteq> K_READ"
    "ask_auth D (call_operation D tc) w = (d, w1)"
  shows "gw_policy (w_gateway w1) = RequireApprovalPolicy" "w_idem w1 = w_idem w" "w_backend w1 = w_backend w"
    "w_dispatched w1 = w_dispatched w"
    "decision_gate L st tc d (approved_answer # rs) = Proceed (lc_args tc) rs"
    "decision_gate L st tc d [] = Suspend (interrupt_payload st tc)"
proof -
  have pol: "gw_policy (w_gateway w) \<in> {ReadOnlyPolicy, RequireApprovalPolicy}" using assms(1) by simp
  have d: "ad_decision d = PENDING"
    using ask_auth_policy(2) [OF pol, of D "call_operation D tc"] assms by (simp add: call_operation_def)
  show "gw_policy (w_gateway w1) = RequireApprovalPolicy"
    using ask_auth_policy(1) [OF pol, of D "call_operation D tc"] assms by simp
  show "w_idem w1 = w_idem w" "w_backend w1 = w_backend w" "w_dispatched w1 = w_dispatched w"
    using ask_auth_frame [of D "call_operation D tc" w] assms(3) by simp_all
  show "decision_gate L st tc d (approved_answer # rs) = Proceed (lc_args tc) rs"
    "decision_gate L st tc d [] = Suspend (interrupt_payload st tc)"
    using d by (simp_all add: decision_gate_def approval_gate_def approved_answer_def)
qed

lemma first_pass:
  assumes "gw_policy (w_gateway w) = RequireApprovalPolicy"
    "call_rejection D tc1 = None" "call_rejection D tc2 = None"
    "call_kind D (lc_name tc1) \<noteq> K_READ" "call_kind D (lc_name tc2) \<noteq> K_READ"
    "lc_id tc1 \<noteq> lc_id tc2" "lc_id tc1 \<notin> set ids" "lc_id tc2 \<notin> set ids"
    "idem_key_of st tc1 = Some key" "w_idem w = Some t" "idem_status key t = None"
    "dp_call D \<lparr>tc_name = lc_name tc1, tc_arguments = lc_args tc1\<rparr> (w_backend w) = (Inr r, b)" "tr_success r"
  obtains w' t' where
    "tool_loop D st [tc1, tc2] [approved_answer] [] ids w = (NodeInterrupt (interrupt_payload st tc2), w')"
    "gw_policy (w_gateway w') = RequireApprovalPolicy" "w_idem w' = Some t'" "idem_status key t' = Some I_RESERVED"
    "w_dispatched w' = w_dispatched w @ [\<lparr>tc_name = lc_name tc1, tc_arguments = lc_args tc1\<rparr>]"
proof -
  obtain d w1 where a: "ask_auth D (call_operation D tc1) w = (d, w1)" by fastforce
  note p = pending_first [OF assms(1,4) a]
  obtain w2 t2 where e: "execute_call D st tc1 (lc_args tc1) w1 = (Inr (result_message tc1 r), w2)"
    "w_idem w2 = Some t2" "idem_status key t2 = Some I_RESERVED" "w_gateway w2 = w_gateway w1"
    "w_dispatched w2 = w_dispatched w1 @ [\<lparr>tc_name = lc_name tc1, tc_arguments = lc_args tc1\<rparr>]"
    using execute_fresh_reserved [of st tc1 key w1 t D "lc_args tc1" r b] assms(9-13) p by metis
  obtain d' w3 where a': "ask_auth D (call_operation D tc2) w2 = (d', w3)" by fastforce
  have "gw_policy (w_gateway w2) = RequireApprovalPolicy" using p(1) e(4) by simp
  note q = pending_first [OF this assms(5) a']
  have "lc_id tc2 \<notin> set (mark_id tc1 ids)" using assms(6,8) by (simp add: mark_id_def)
  then show ?thesis
    by (intro that [of w3 t2]) (use assms(2,3,7) a p e a' q in \<open>auto\<close>)
qed

text \<open>
  The durable record does not prevent a second execution: a first successful execution
  leaves its key RESERVED (\<open>mark_succeeded\<close> only accepts EXECUTING), and a tool node that is
  suspended by a later call of the same message and then resumed runs from its start again.
  So with two calls awaiting approval, the first one, once approved, is dispatched when the
  node is resumed for it and dispatched again when the node is resumed for the second.
\<close>

theorem resumed_node_executes_twice:
  assumes "gw_policy (w_gateway w) = RequireApprovalPolicy"
    "call_rejection D tc1 = None" "call_rejection D tc2 = None"
    "call_kind D (lc_name tc1) \<noteq> K_READ" "call_kind D (lc_name tc2) \<noteq> K_READ"
    "lc_id tc1 \<noteq> lc_id tc2" "lc_id tc1 \<notin> set ids" "lc_id tc2 \<notin> set ids"
    "idem_key_of st tc1 = Some key" "w_idem w = Some t" "idem_status key t = None"
    "dp_call D \<lparr>tc_name = lc_name tc1, tc_arguments = lc_args tc1\<rparr> (w_backend w) = (Inr r, b)" "tr_success r"
  shows "\<exists>w'. tool_loop D st [tc1, tc2] [approved_answer] [] ids w = (NodeInterrupt (interrupt_payload st tc2), w') \<and>
    prefix (w_dispatched w @ [\<lparr>tc_name = lc_name tc1, tc_arguments = lc_args tc1\<rparr>,
                              \<lparr>tc_name = lc_name tc1, tc_arguments = lc_args tc1\<rparr>])
      (w_dispatched (snd (tool_loop D st [tc1, tc2] [approved_answer, approved_answer] [] ids w')))"
proof -
  obtain w' t' where f:
    "tool_loop D st [tc1, tc2] [approved_answer] [] ids w = (NodeInterrupt (interrupt_payload st tc2), w')"
    "gw_policy (w_gateway w') = RequireApprovalPolicy" "w_idem w' = Some t'" "idem_status key t' = Some I_RESERVED"
    "w_dispatched w' = w_dispatched w @ [\<lparr>tc_name = lc_name tc1, tc_arguments = lc_args tc1\<rparr>]"
    by (rule first_pass [OF assms])
  obtain d w1 where a: "ask_auth D (call_operation D tc1) w' = (d, w1)" by fastforce
  note p = pending_first [OF f(2) assms(4) a]
  obtain m w2 where e: "execute_call D st tc1 (lc_args tc1) w1 = (m, w2)" by fastforce
  have "w_dispatched w2 = w_dispatched w @ [\<lparr>tc_name = lc_name tc1, tc_arguments = lc_args tc1\<rparr>,
      \<lparr>tc_name = lc_name tc1, tc_arguments = lc_args tc1\<rparr>]"
    using execute_reserved_dispatches [OF assms(9), of w1 t' D "lc_args tc1"] e f p by simp
  then have "prefix (w_dispatched w @ [\<lparr>tc_name = lc_name tc1, tc_arguments = lc_args tc1\<rparr>,
      \<lparr>tc_name = lc_name tc1, tc_arguments = lc_args tc1\<rparr>])
      (w_dispatched (snd (tool_loop D st [tc1, tc2] [approved_answer, approved_answer] [] ids w')))"
    using assms(2,7) a p e by (cases m) (auto intro: dispatched_grows simp del: tool_loop.simps simp: tool_loop.simps(2) [of D st tc1])
  with f(1) show ?thesis by blast
qed

text \<open>A backend that accepts every call.\<close>

definition demo_deps :: "(unit, unit) deps" where
  "demo_deps = \<lparr>dp_lib = demo_lib, dp_loads = (\<lambda>s. None), dp_clock = int,
     dp_call = (\<lambda>c b. (Inr \<lparr>tr_name = tc_name c, tr_success = True, tr_content = ''ok'', tr_error = None\<rparr>, b)),
     dp_invoke = (\<lambda>ms ts l. (Inr (AIMsg ''done'' []), l)), dp_registry = None, dp_max_steps = 5\<rparr>"

definition demo_unit_world :: "(unit, unit) world" where
  "demo_unit_world = \<lparr>w_gateway = \<lparr>gw_policy = RequireApprovalPolicy, gw_decisions = []\<rparr>, w_idem = Some [],
     w_backend = (), w_llm = (), w_tick = 0, w_dispatched = []\<rparr>"

lemma submit_is_transfer: "call_kind demo_deps ''submit_transfer'' = K_TRANSFER"
  by (simp add: call_kind_def demo_deps_def classify_tool_kind_def lower_def lower_char_def)

end
