(* ===== verification/Plan.thy ===== *)
theory Plan
  imports Graph
begin

text \<open>
  Planning and execution of multi-step tasks: \<open>orchestration/models.py\<close>, \<open>validator.py\<close>,
  \<open>verifier.py\<close>, \<open>executor.py\<close>, \<open>planner.py\<close>. The order in which Python iterates over a set of
  step ids is a parameter (\<open>pv_order\<close>), of which only \<open>set_order\<close> is known. The depth-first
  search for cycles runs on fuel, one more than the number of steps; \<open>dfs_ok\<close> and
  \<open>detect_cycles_fuel\<close> show it is never exhausted. Wall-clock durations are left out, and the
  arrow in a cycle message is written \<open>->\<close>. A reply of the model whose fields do not have the
  types the prompt asks for counts as a failed generation.
\<close>

section \<open>Plans\<close>

datatype plan_status =
    PS_DRAFT | PS_VALIDATED | PS_REJECTED | PS_EXECUTING | PS_COMPLETED | PS_FAILED | PS_REPLANNING

datatype step_status = SS_pending | SS_running | SS_done | SS_failed | SS_blocked

fun step_status_value :: "step_status \<Rightarrow> string" where
  "step_status_value SS_pending = ''pending''"
| "step_status_value SS_running = ''running''"
| "step_status_value SS_done = ''done''"
| "step_status_value SS_failed = ''failed''"
| "step_status_value SS_blocked = ''blocked''"

record plan_step =
  ps_step_id :: string
  ps_objective :: string
  ps_tool_candidates :: "string list"
  ps_dependencies :: "string list"
  ps_risk_level :: string
  ps_status :: step_status
  ps_expected_output_schema :: "kwargs option"
  ps_max_retries :: int

definition ps_is_ready :: "plan_step \<Rightarrow> bool" where
  "ps_is_ready s = (ps_status s = SS_pending)"

definition ps_is_terminal :: "plan_step \<Rightarrow> bool" where
  "ps_is_terminal s = (ps_status s \<in> {SS_done, SS_failed})"

record execution_plan =
  ep_plan_id :: string
  ep_goal :: string
  ep_assumptions :: "string list"
  ep_required_user_inputs :: "string list"
  ep_steps :: "plan_step list"
  ep_completion_criteria :: "string list"
  ep_max_replans :: int
  ep_status :: plan_status

definition pending_steps :: "execution_plan \<Rightarrow> plan_step list" where
  "pending_steps p = filter ps_is_ready (ep_steps p)"

definition done_steps :: "execution_plan \<Rightarrow> plan_step list" where
  "done_steps p = filter (\<lambda>s. ps_status s = SS_done) (ep_steps p)"

definition failed_steps :: "execution_plan \<Rightarrow> plan_step list" where
  "failed_steps p = filter (\<lambda>s. ps_status s = SS_failed) (ep_steps p)"

definition step_count :: "execution_plan \<Rightarrow> nat" where
  "step_count p = length (ep_steps p)"

definition plan_is_complete :: "execution_plan \<Rightarrow> bool" where
  "plan_is_complete p = list_all (\<lambda>s. ps_status s = SS_done) (ep_steps p)"

record plan_validation =
  pv_valid :: bool
  pv_errors :: "string list"
  pv_warnings :: "string list"
  pv_reason :: string

record step_result =
  sr_step_id :: string
  sr_success :: bool
  sr_tool_name :: string
  sr_output :: string
  sr_error :: string

datatype next_action = Continue | Retry | Ask_user | Replan | Abort

record verification_result =
  vr_passed :: bool
  vr_step_id :: string
  vr_reason :: string
  vr_action :: next_action

section \<open>The validator\<close>

datatype colour = White | Gray | Black

record dfs_state =
  ds_colour :: "string \<Rightarrow> colour option"
  ds_path :: "string list"
  ds_errors :: "string list"

definition index_of :: "'a \<Rightarrow> 'a list \<Rightarrow> nat option" where
  "index_of x xs = (if x \<in> set xs then Some (length (takeWhile (\<lambda>y. y \<noteq> x) xs)) else None)"

definition recursion_error :: pyexn where
  "recursion_error = RuntimeError ''maximum recursion depth exceeded''"

definition paint :: "string \<Rightarrow> colour \<Rightarrow> dfs_state \<Rightarrow> dfs_state" where
  "paint node c s = s\<lparr>ds_colour := (ds_colour s)(node \<mapsto> c)\<rparr>"

text \<open>\<open>_dfs\<close> and the loop over the dependencies of a node.\<close>

fun dfs :: "(string \<Rightarrow> string list) \<Rightarrow> nat \<Rightarrow> string \<Rightarrow> dfs_state \<Rightarrow> pyexn + bool \<times> dfs_state"
  and dfs_deps :: "(string \<Rightarrow> string list) \<Rightarrow> nat \<Rightarrow> string list \<Rightarrow> dfs_state \<Rightarrow> pyexn + bool \<times> dfs_state" where
  "dfs deps 0 node s = Inl recursion_error"
| "dfs deps (Suc n) node s =
     (let s1 = paint node Gray (s\<lparr>ds_path := ds_path s @ [node]\<rparr>) in
      case dfs_deps deps n (deps node) s1 of
        Inl e \<Rightarrow> Inl e
      | Inr (True, s2) \<Rightarrow> Inr (True, s2)
      | Inr (False, s2) \<Rightarrow> Inr (False, paint node Black (s2\<lparr>ds_path := butlast (ds_path s2)\<rparr>)))"
| "dfs_deps deps n [] s = Inr (False, s)"
| "dfs_deps deps n (d # ds) s =
     (case ds_colour s d of
        None \<Rightarrow> dfs_deps deps n ds s
      | Some Gray \<Rightarrow>
          (case index_of d (ds_path s) of
             None \<Rightarrow> Inl (ValueError (quoted d @ '' is not in list''))
           | Some i \<Rightarrow> Inr (True, s\<lparr>ds_errors := ds_errors s @
               [''Circular dependency: '' @ join '' -> '' (drop i (ds_path s) @ [d])]\<rparr>))
      | Some White \<Rightarrow>
          (case dfs deps n d s of
             Inl e \<Rightarrow> Inl e
           | Inr (True, s1) \<Rightarrow> Inr (True, s1)
           | Inr (False, s1) \<Rightarrow> dfs_deps deps n ds s1)
      | Some Black \<Rightarrow> dfs_deps deps n ds s)"

fun dfs_roots :: "(string \<Rightarrow> string list) \<Rightarrow> nat \<Rightarrow> string list \<Rightarrow> dfs_state \<Rightarrow> pyexn + dfs_state" where
  "dfs_roots deps n [] s = Inr s"
| "dfs_roots deps n (r # rs) s =
     (if ds_colour s r = Some White
      then (case dfs deps n r (s\<lparr>ds_path := []\<rparr>) of Inl e \<Rightarrow> Inl e | Inr (f, s1) \<Rightarrow> dfs_roots deps n rs s1)
      else dfs_roots deps n rs s)"

definition deps_of :: "(string list \<Rightarrow> string list) \<Rightarrow> plan_step list \<Rightarrow> string \<Rightarrow> string list" where
  "deps_of ord steps node =
     (case map_of (rev (map (\<lambda>s. (ps_step_id s, ord (ps_dependencies s))) steps)) node of
        None \<Rightarrow> [] | Some ds \<Rightarrow> ds)"

definition all_white :: "plan_step list \<Rightarrow> dfs_state" where
  "all_white steps = \<lparr>ds_colour = (\<lambda>i. if i \<in> ps_step_id ` set steps then Some White else None),
     ds_path = [], ds_errors = []\<rparr>"

definition detect_cycles :: "(string list \<Rightarrow> string list) \<Rightarrow> plan_step list \<Rightarrow> pyexn + string list" where
  "detect_cycles ord steps =
     bindE (dfs_roots (deps_of ord steps) (Suc (length steps)) (ord (map ps_step_id steps)) (all_white steps))
       (\<lambda>s. Inr (ds_errors s))"

record plan_validator =
  pv_registry :: "tool_registry option"
  pv_max_steps :: int
  pv_forbidden :: "string list"
  pv_order :: "string list \<Rightarrow> string list"

definition count_errors :: "pylib \<Rightarrow> plan_validator \<Rightarrow> execution_plan \<Rightarrow> string list" where
  "count_errors L V p =
     (if step_count p = 0 then [''Plan must have at least one step''] else []) @
     (if pv_max_steps V < int (step_count p)
      then [''Plan has '' @ pl_str L (JInt (int (step_count p))) @ '' steps (max '' @ pl_str L (JInt (pv_max_steps V)) @ '')'']
      else [])"

definition tool_error :: "plan_validator \<Rightarrow> plan_step \<Rightarrow> string \<Rightarrow> string list" where
  "tool_error V s t =
     (if t \<in> set (pv_forbidden V)
      then [''Step '' @ quoted (ps_step_id s) @ '' references forbidden tool '' @ quoted t]
      else (case pv_registry V of
          None \<Rightarrow> []
        | Some reg \<Rightarrow>
            if registry_has t reg then []
            else [''Step '' @ quoted (ps_step_id s) @ '' references unknown tool '' @ quoted t]))"

definition tool_errors :: "plan_validator \<Rightarrow> plan_step \<Rightarrow> string list" where
  "tool_errors V s = concat (map (tool_error V s) (ps_tool_candidates s))"

definition dependency_errors :: "string list \<Rightarrow> plan_step \<Rightarrow> string list" where
  "dependency_errors ids s =
     (if ps_step_id s \<in> set (ps_dependencies s)
      then [''Step '' @ quoted (ps_step_id s) @ '' depends on itself''] else []) @
     concat (map (\<lambda>d. if d \<in> set ids then []
       else [''Step '' @ quoted (ps_step_id s) @ '' depends on unknown step '' @ quoted d]) (ps_dependencies s))"

definition plan_warnings :: "execution_plan \<Rightarrow> string list" where
  "plan_warnings p =
     (if ep_completion_criteria p = []
      then [''Plan has no completion criteria - verification may be weak''] else []) @
     concat (map (\<lambda>s. if ps_risk_level s \<in> {''high'', ''critical''} \<and> ep_required_user_inputs p = []
       then [''Step '' @ quoted (ps_step_id s) @ '' is high-risk but plan identifies no required user inputs'']
       else []) (ep_steps p))"

definition validate :: "pylib \<Rightarrow> plan_validator \<Rightarrow> execution_plan \<Rightarrow> pyexn + plan_validation" where
  "validate L V p =
     (let step_ids = map ps_step_id (ep_steps p);
          errors1 = count_errors L V p @
            (if length step_ids \<noteq> card (set step_ids) then [''Plan contains duplicate step IDs''] else []) @
            concat (map (tool_errors V) (ep_steps p)) @
            concat (map (dependency_errors step_ids) (ep_steps p))
      in bindE (detect_cycles (pv_order V) (ep_steps p)) (\<lambda>dep_errors.
         let errors = errors1 @ dep_errors @ (if strip (ep_goal p) = [] then [''Plan has no goal''] else [])
         in Inr \<lparr>pv_valid = (length errors = 0), pv_errors = errors, pv_warnings = plan_warnings p,
                 pv_reason = (if errors = [] then ''Plan is valid'' else join ''; '' errors)\<rparr>))"

section \<open>The verifier\<close>

definition next_action_for_failure :: "plan_step \<Rightarrow> next_action" where
  "next_action_for_failure s =
     (if 1 < ps_max_retries s then Retry else if ps_risk_level s = ''critical'' then Ask_user else Abort)"

definition check_criterion :: "string \<Rightarrow> step_result \<Rightarrow> bool" where
  "check_criterion criterion r =
     (let output_lower = lower (sr_output r) in
      if str_in ''balance'' (lower criterion)
      then str_in ''balance'' output_lower \<or> str_in ''amount'' output_lower
      else if str_in ''status'' (lower criterion) then str_in ''status'' output_lower
      else if str_in ''draft'' (lower criterion) then str_in ''draft_id'' output_lower
      else strip (sr_output r) \<noteq> [])"

definition verdict :: "bool \<Rightarrow> plan_step \<Rightarrow> string \<Rightarrow> next_action \<Rightarrow> verification_result" where
  "verdict ok s reason act = \<lparr>vr_passed = ok, vr_step_id = ps_step_id s, vr_reason = reason, vr_action = act\<rparr>"

definition verify :: "plan_step \<Rightarrow> step_result \<Rightarrow> execution_plan option \<Rightarrow> verification_result" where
  "verify s r plan =
     (if \<not> sr_success r
      then verdict False s (''Tool '' @ quoted (sr_tool_name r) @ '' failed: '' @ sr_error r) (next_action_for_failure s)
      else if strip (sr_output r) = []
      then verdict True s ''Step succeeded but produced empty output'' Continue
      else (case List.find (\<lambda>c. \<not> check_criterion c r)
                   (case plan of None \<Rightarrow> [] | Some p \<Rightarrow> ep_completion_criteria p) of
              Some c \<Rightarrow> verdict False s (''Completion criterion not met: '' @ c) Retry
            | None \<Rightarrow> verdict True s (''Step '' @ quoted (ps_step_id s) @ '' verified successfully'') Continue))"

section \<open>The executor\<close>

definition failed_step :: "plan_step \<Rightarrow> string \<Rightarrow> string \<Rightarrow> step_result" where
  "failed_step s tool err = \<lparr>sr_step_id = ps_step_id s, sr_success = False, sr_tool_name = tool,
     sr_output = [], sr_error = err\<rparr>"

definition step_kind :: "tool_registry option \<Rightarrow> string \<Rightarrow> operation_kind" where
  "step_kind reg tool = (case Option.bind reg (registry_get tool) of
     None \<Rightarrow> K_READ
   | Some td \<Rightarrow>
       if tl_side_effect td then (if tl_risk_level td = R_critical then K_TRANSFER else K_WRITE) else K_READ)"

definition execute_step ::
    "('b, 'l) deps \<Rightarrow> execution_plan \<Rightarrow> plan_step \<Rightarrow> kwargs option \<Rightarrow> ('b, 'l) world \<Rightarrow> step_result \<times> ('b, 'l) world" where
  "execute_step D plan s tool_args w =
     (if ps_status s \<noteq> SS_pending
      then (failed_step s [] (''Step '' @ quoted (ps_step_id s) @ '' is not pending (status: '' @
              step_status_value (ps_status s) @ '')''), w)
      else (case ps_tool_candidates s of
        [] \<Rightarrow> (failed_step s [] (''Step '' @ quoted (ps_step_id s) @ '' has no tool candidates''), w)
      | tool # _ \<Rightarrow>
          (let args = (case tool_args of None \<Rightarrow> [] | Some a \<Rightarrow> a);
               opn = \<lparr>op_kind = step_kind (dp_registry D) tool, op_name = tool,
                      op_target = ''step:'' @ ps_step_id s,
                      op_details = [(''args'', JObj args), (''plan_id'', JStr (ep_plan_id plan))]\<rparr>;
               (d, w1) = ask_auth D opn w
           in if ad_decision d = DENIED
              then (failed_step s tool (''Authorization denied: '' @ ad_reason d), w1)
              else (let call = \<lparr>tc_name = tool, tc_arguments = args\<rparr>;
                        (r, b) = dp_call D call (w_backend w1);
                        w2 = w1\<lparr>w_backend := b, w_dispatched := w_dispatched w1 @ [call]\<rparr>
                    in case r of
                         Inl e \<Rightarrow> (failed_step s tool (exn_text e), w2)
                       | Inr res \<Rightarrow>
                           (if tr_success res
                            then \<lparr>sr_step_id = ps_step_id s, sr_success = True, sr_tool_name = tool,
                                  sr_output = tr_content res, sr_error = []\<rparr>
                            else failed_step s tool (str_or (opt_str (tr_error res)) ''Tool execution failed''), w2)))))"

section \<open>The planner\<close>

text \<open>\<open>re.search\<close> for a fenced block, then for the widest braces: the text after the first fence up
  to the next one, and the text from the first opening brace to the last closing one.\<close>

definition fence :: string where
  "fence = [CHR 0x60, CHR 0x60, CHR 0x60]"

fun cut_at :: "string \<Rightarrow> string \<Rightarrow> (string \<times> string) option" where
  "cut_at pat [] = (if pat = [] then Some ([], []) else None)"
| "cut_at pat (c # s) =
     (if starts_with (c # s) pat then Some ([], drop (length pat) (c # s))
      else map_option (\<lambda>(a, b). (c # a, b)) (cut_at pat s))"

definition extract_fenced :: "string \<Rightarrow> string option" where
  "extract_fenced s = (case cut_at fence s of
     None \<Rightarrow> None
   | Some (before, rest) \<Rightarrow> map_option fst
       (cut_at fence (if starts_with rest ''json'' then drop 4 rest else rest)))"

definition extract_braces :: "string \<Rightarrow> string option" where
  "extract_braces s =
     (let r = dropWhile (\<lambda>c. c \<noteq> CHR ''{'') s in
      if CHR ''}'' \<in> set r then Some (rev (dropWhile (\<lambda>c. c \<noteq> CHR ''}'') (rev r))) else None)"

definition extract_json :: "string \<Rightarrow> string" where
  "extract_json s = strip (case extract_fenced s of
     Some block \<Rightarrow> block
   | None \<Rightarrow> (case extract_braces s of Some block \<Rightarrow> block | None \<Rightarrow> s))"

definition ill_typed :: pyexn where
  "ill_typed = TypeError ''plan field of another type''"

fun as_str :: "json \<Rightarrow> pyexn + string" where
  "as_str (JStr s) = Inr s"
| "as_str x = Inl ill_typed"

fun as_strs :: "json \<Rightarrow> pyexn + string list" where
  "as_strs (JArr xs) = all_of as_str xs"
| "as_strs x = Inl ill_typed"

definition step_of_json :: "pylib \<Rightarrow> nat \<times> json \<Rightarrow> pyexn + plan_step" where
  "step_of_json L ij = (case ij of (i, j) \<Rightarrow> (case j of
     JObj s \<Rightarrow>
       bindE (as_str (dict_get_or s ''step_id'' (JStr (pl_str L (JInt (int i + 1)))))) (\<lambda>sid.
       bindE (as_str (dict_get_or s ''objective'' (JStr []))) (\<lambda>obj.
       bindE (as_strs (dict_get_or s ''tool_candidates'' (JArr []))) (\<lambda>tools.
       bindE (as_strs (dict_get_or s ''dependencies'' (JArr []))) (\<lambda>dps.
       bindE (as_str (dict_get_or s ''risk_level'' (JStr ''low''))) (\<lambda>risk.
         Inr \<lparr>ps_step_id = sid, ps_objective = obj, ps_tool_candidates = tools, ps_dependencies = dps,
              ps_risk_level = risk, ps_status = SS_pending, ps_expected_output_schema = None,
              ps_max_retries = 1\<rparr>)))))
   | _ \<Rightarrow> Inl ill_typed))"

fun steps_of_json :: "pylib \<Rightarrow> json \<Rightarrow> pyexn + plan_step list" where
  "steps_of_json L (JArr xs) = all_of (step_of_json L) (zip [0..<length xs] xs)"
| "steps_of_json L x = Inl ill_typed"

definition plan_of_json :: "pylib \<Rightarrow> string \<Rightarrow> string \<Rightarrow> json \<Rightarrow> pyexn + execution_plan" where
  "plan_of_json L plan_id goal data = (case data of
     JObj d \<Rightarrow>
       bindE (steps_of_json L (dict_get_or d ''steps'' (JArr []))) (\<lambda>steps.
       bindE (as_strs (dict_get_or d ''assumptions'' (JArr []))) (\<lambda>asm.
       bindE (as_strs (dict_get_or d ''required_user_inputs'' (JArr []))) (\<lambda>req.
       bindE (as_strs (dict_get_or d ''completion_criteria'' (JArr []))) (\<lambda>crit.
         Inr \<lparr>ep_plan_id = plan_id, ep_goal = goal, ep_assumptions = asm, ep_required_user_inputs = req,
              ep_steps = steps, ep_completion_criteria = crit, ep_max_replans = 2, ep_status = PS_DRAFT\<rparr>))))
   | _ \<Rightarrow> Inl ill_typed)"

definition PLANNER_SYSTEM :: string where
  "PLANNER_SYSTEM =
     (''You are a banking task planner. Given a user'' @ [CHR 0x27] @ ''s goal and available tools,'' @ nl @
      ''produce a structured execution plan as JSON.'' @ nl @
      nl @
      ''Rules:'' @ nl @
      ''- Each step must reference only tools that exist in the tool list.'' @ nl @
      ''- Steps must be ordered -- a step'' @ [CHR 0x27] @ ''s dependencies must be earlier steps.'' @ nl @
      ''- Identify assumptions you'' @ [CHR 0x27] @ ''re making and information you need from the user.'' @ nl @
      ''- Never propose tools the user is not authorized to use.'' @ nl @
      ''- For high-risk steps, flag them with risk_level \"high\" or \"critical\".'' @ nl @
      ''- Max 10 steps.'' @ nl @
      nl @
      ''Output ONLY valid JSON:'' @ nl @
      ''{'' @ nl @
      ''  \"assumptions\": [\"...\"],'' @ nl @
      ''  \"required_user_inputs\": [\"...\"],'' @ nl @
      ''  \"steps\": ['' @ nl @
      ''    {'' @ nl @
      ''      \"step_id\": \"1\",'' @ nl @
      ''      \"objective\": \"...\",'' @ nl @
      ''      \"tool_candidates\": [\"tool_name\"],'' @ nl @
      ''      \"dependencies\": [],'' @ nl @
      ''      \"risk_level\": \"low\"'' @ nl @
      ''    }'' @ nl @
      ''  ],'' @ nl @
      ''  \"completion_criteria\": [\"...\"]'' @ nl @
      ''}'')"

definition generate_plan ::
    "('b, 'l) deps \<Rightarrow> string \<Rightarrow> string \<Rightarrow> string \<Rightarrow> ('b, 'l) world \<Rightarrow> (pyexn + execution_plan) \<times> ('b, 'l) world" where
  "generate_plan D plan_id goal user_prompt w =
     (let (r, l) = dp_invoke D [SystemMsg PLANNER_SYSTEM, HumanMsg user_prompt] None (w_llm w);
          w1 = w\<lparr>w_llm := l\<rparr>
      in (bindE r (\<lambda>m. case dp_loads D (extract_json (msg_content m)) of
            None \<Rightarrow> Inl (ValueError ''Expecting value'')
          | Some data \<Rightarrow> plan_of_json (dp_lib D) plan_id goal data), w1))"

definition rejected_plan :: "string \<Rightarrow> string \<Rightarrow> execution_plan" where
  "rejected_plan plan_id goal = \<lparr>ep_plan_id = plan_id, ep_goal = goal, ep_assumptions = [],
     ep_required_user_inputs = [], ep_steps = [], ep_completion_criteria = [], ep_max_replans = 2,
     ep_status = PS_REJECTED\<rparr>"

fun plan_attempts ::
    "('b, 'l) deps \<Rightarrow> plan_validator \<Rightarrow> string \<Rightarrow> string \<Rightarrow> string \<Rightarrow> nat \<Rightarrow> ('b, 'l) world \<Rightarrow>
     execution_plan \<times> ('b, 'l) world" where
  "plan_attempts D V plan_id goal prompt 0 w = (rejected_plan plan_id goal, w)"
| "plan_attempts D V plan_id goal prompt (Suc n) w =
     (case generate_plan D plan_id goal prompt w of
        (Inl e, w1) \<Rightarrow> plan_attempts D V plan_id goal prompt n w1
      | (Inr p, w1) \<Rightarrow>
          (case validate (dp_lib D) V p of
             Inl e \<Rightarrow> plan_attempts D V plan_id goal prompt n w1
           | Inr v \<Rightarrow>
               if pv_valid v then (p\<lparr>ep_status := PS_VALIDATED\<rparr>, w1)
               else plan_attempts D V plan_id goal prompt n w1))"

definition user_prompt_of :: "tool_registry option \<Rightarrow> string \<Rightarrow> string \<Rightarrow> string" where
  "user_prompt_of reg goal context =
     (let names = (case reg of None \<Rightarrow> [] | Some r \<Rightarrow> sort (map fst r)) in
      ''Goal: '' @ goal @ nl @
      ''Available tools: '' @ (if names = [] then ''unknown'' else join '', '' names) @ nl @
      ''Context: '' @ context @ nl @ nl @ ''Generate a step-by-step execution plan as JSON.'')"

definition planner_plan ::
    "('b, 'l) deps \<Rightarrow> plan_validator \<Rightarrow> nat \<Rightarrow> string \<Rightarrow> string \<Rightarrow> string \<Rightarrow> ('b, 'l) world \<Rightarrow>
     execution_plan \<times> ('b, 'l) world" where
  "planner_plan D V max_retries plan_id goal context w =
     plan_attempts D V plan_id goal (user_prompt_of (dp_registry D) goal context) max_retries w"

section \<open>The loop over the steps\<close>

text \<open>The second phase of \<open>AgentRuntime._execute_planner\<close>: each step is executed and verified, a
  failed one is retried once or ends the run; the second verdict is not consulted.\<close>

datatype plan_outcome =
    PlanStopped string nat
  | PlanCompleted "step_result list"

fun plan_loop ::
    "('b, 'l) deps \<Rightarrow> execution_plan \<Rightarrow> plan_step list \<Rightarrow> step_result list \<Rightarrow> ('b, 'l) world \<Rightarrow>
     plan_outcome \<times> ('b, 'l) world" where
  "plan_loop D plan [] results w = (PlanCompleted results, w)"
| "plan_loop D plan (s # ss) results w =
     (let (r, w1) = execute_step D plan s None w; v = verify s r (Some plan) in
      if vr_passed v then plan_loop D plan ss (results @ [r]) w1
      else if vr_action v = Retry \<and> 0 < ps_max_retries s
      then (let (r2, w2) = execute_step D plan s None w1 in plan_loop D plan ss (results @ [r2]) w2)
      else if vr_action v = Abort \<or> vr_action v = Ask_user
      then (PlanStopped (''Step '' @ quoted (ps_objective s) @ '' failed: '' @ vr_reason v) (length results + 1), w1)
      else plan_loop D plan ss (results @ [r]) w1)"

definition plan_summary :: "step_result list \<Rightarrow> string" where
  "plan_summary results =
     join nl (map (\<lambda>r. ''- '' @ take 200 (sr_output r)) (filter sr_success results))"

section \<open>The search for cycles is exact\<close>

definition set_order :: "(string list \<Rightarrow> string list) \<Rightarrow> bool" where
  "set_order ord = (\<forall>xs. set (ord xs) = set xs)"

definition whites :: "dfs_state \<Rightarrow> string set" where
  "whites s = {a. ds_colour s a = Some White}"

definition edges :: "(string \<Rightarrow> string list) \<Rightarrow> string set \<Rightarrow> (string \<times> string) set" where
  "edges deps ids = {(a, b). a \<in> ids \<and> b \<in> set (deps a) \<and> b \<in> ids}"

lemma paint_simps [simp]:
  "ds_colour (paint a c s) = (ds_colour s)(a \<mapsto> c)" "ds_path (paint a c s) = ds_path s"
  "ds_errors (paint a c s) = ds_errors s"
  by (simp_all add: paint_def)

lemma whites_simps [simp]:
  "whites (paint a Gray s) = whites s - {a}" "whites (paint a Black s) = whites s - {a}"
  "whites (s\<lparr>ds_path := p\<rparr>) = whites s" "whites (s\<lparr>ds_errors := e\<rparr>) = whites s"
  by (auto simp: whites_def)

text \<open>What holds of every search: the fuel suffices, white nodes only decrease, reported cycles stay reported.\<close>

definition search_ok :: "dfs_state \<Rightarrow> pyexn + bool \<times> dfs_state \<Rightarrow> bool" where
  "search_ok s r = (case r of
     Inl e \<Rightarrow> e \<noteq> recursion_error
   | Inr (f, s') \<Rightarrow> whites s' \<subseteq> whites s \<and> (ds_errors s' = [] \<longrightarrow> ds_errors s = []) \<and>
       dom (ds_colour s') = dom (ds_colour s))"

lemma card_less_white: "finite (whites s) \<Longrightarrow> a \<in> whites s \<Longrightarrow> card (whites s) \<le> Suc n \<Longrightarrow> card (whites s - {a}) \<le> n"
  by simp

lemma dfs_search_ok:
  "finite (whites s) \<Longrightarrow> card (whites s) \<le> n \<Longrightarrow> node \<in> whites s \<Longrightarrow> search_ok s (dfs deps n node s)"
  "finite (whites s) \<Longrightarrow> card (whites s) \<le> n \<Longrightarrow> search_ok s (dfs_deps deps n ds s)"
proof (induction deps n node s and deps n ds s rule: dfs_dfs_deps.induct)
  case (1 deps node s)
  then show ?case by auto
next
  case (2 deps n node s)
  let ?s1 = "paint node Gray (s\<lparr>ds_path := ds_path s @ [node]\<rparr>)"
  have "search_ok ?s1 (dfs_deps deps n (deps node) ?s1)"
    using 2 by (intro "2.IH") auto
  moreover have "node \<in> dom (ds_colour s)" using "2.prems"(3) by (auto simp: whites_def)
  ultimately show ?case
    by (auto simp: search_ok_def Let_def split: sum.splits bool.splits)
next
  case (3 deps n s)
  then show ?case by (simp add: search_ok_def)
next
  case (4 deps n d ds s)
  show ?case
  proof (cases "ds_colour s d")
    case None
    with 4 show ?thesis by simp
  next
    case (Some c)
    show ?thesis
    proof (cases c)
      case White
      then have ok: "search_ok s (dfs deps n d s)" using 4 Some by (simp add: whites_def)
      show ?thesis
      proof (cases "dfs deps n d s")
        case (Inr fs)
        obtain f s1 where fs: "fs = (f, s1)" by (cases fs)
        with ok Inr have s1: "whites s1 \<subseteq> whites s" "ds_errors s1 = [] \<longrightarrow> ds_errors s = []"
          "dom (ds_colour s1) = dom (ds_colour s)" by (simp_all add: search_ok_def)
        show ?thesis
        proof (cases f)
          case False
          have "search_ok s1 (dfs_deps deps n ds s1)"
            using "4.IH"(3) [OF Some White Inr fs [symmetric]] False "4.prems" s1(1)
            by (metis card_mono finite_subset le_trans)
          with Some White Inr fs False s1 show ?thesis
            by (auto simp: search_ok_def split: sum.splits)
        qed (use Some White Inr fs ok in simp)
      qed (use Some White ok in \<open>simp add: search_ok_def\<close>)
    next
      case Gray
      with Some show ?thesis
        by (auto simp: search_ok_def recursion_error_def split: option.splits)
    next
      case Black
      with 4 Some show ?thesis by simp
    qed
  qed
qed

text \<open>
  While no cycle has been met: the gray nodes are the path, which is a chain of dependencies;
  black nodes have only black dependencies and lie on no cycle.
\<close>

definition dfs_inv :: "(string \<times> string) set \<Rightarrow> dfs_state \<Rightarrow> bool" where
  "dfs_inv E s = ((\<forall>a. ds_colour s a = Some Gray \<longleftrightarrow> a \<in> set (ds_path s)) \<and>
     sorted_wrt (\<lambda>x y. (x, y) \<in> E\<^sup>+) (ds_path s) \<and>
     (\<forall>a b. ds_colour s a = Some Black \<longrightarrow> (a, b) \<in> E \<longrightarrow> ds_colour s b = Some Black) \<and>
     (\<forall>a. ds_colour s a = Some Black \<longrightarrow> (a, a) \<notin> E\<^sup>+))"

definition search_exact ::
    "(string \<times> string) set \<Rightarrow> string set \<Rightarrow> dfs_state \<Rightarrow> pyexn + bool \<times> dfs_state \<Rightarrow> bool" where
  "search_exact E goal s r = (\<exists>f s'. r = Inr (f, s') \<and>
     (if f then ds_errors s' \<noteq> [] \<and> \<not> acyclic E
      else dfs_inv E s' \<and> ds_path s' = ds_path s \<and> ds_errors s' = ds_errors s \<and>
        whites s' \<subseteq> whites s \<and> dom (ds_colour s') = dom (ds_colour s) \<and>
        (\<forall>a. ds_colour s a = Some Black \<longrightarrow> ds_colour s' a = Some Black) \<and>
        (\<forall>a \<in> goal. ds_colour s' a = Some Black)))"

lemma search_exact_False:
  "search_exact E goal s (Inr (False, s')) \<longleftrightarrow>
     dfs_inv E s' \<and> ds_path s' = ds_path s \<and> ds_errors s' = ds_errors s \<and>
     whites s' \<subseteq> whites s \<and> dom (ds_colour s') = dom (ds_colour s) \<and>
     (\<forall>a. ds_colour s a = Some Black \<longrightarrow> ds_colour s' a = Some Black) \<and>
     (\<forall>a \<in> goal. ds_colour s' a = Some Black)"
  by (simp add: search_exact_def) blast

lemma search_exact_True:
  "search_exact E goal s (Inr (True, s')) \<longleftrightarrow> ds_errors s' \<noteq> [] \<and> \<not> acyclic E"
  by (simp add: search_exact_def) blast

lemmas search_exact_simps = search_exact_False search_exact_True

lemma search_exact_cases:
  assumes "search_exact E goal s r"
  obtains (found) s' where "r = Inr (True, s')" | (clean) s' where "r = Inr (False, s')"
  using assms by (auto simp: search_exact_def)

text \<open>Searching on after a clean search of one node.\<close>

lemma search_exact_seq:
  assumes "search_exact E {d} s (Inr (False, s1))" and r: "search_exact E goal s1 r"
  shows "search_exact E (insert d goal) s r"
  using r
proof (cases rule: search_exact_cases)
  case (found s')
  with r show ?thesis by (simp add: search_exact_True)
next
  case (clean s')
  with assms show ?thesis by (simp add: search_exact_False) blast
qed

lemma black_closed: "(a, b) \<in> E\<^sup>* \<Longrightarrow> dfs_inv E s \<Longrightarrow> ds_colour s a = Some Black \<Longrightarrow> ds_colour s b = Some Black"
  by (induction rule: rtrancl_induct) (auto simp: dfs_inv_def)

lemma path_reaches_last:
  assumes "sorted_wrt (\<lambda>x y. (x, y) \<in> E\<^sup>+) p" "p \<noteq> []" "x \<in> set p"
  shows "(x, last p) \<in> E\<^sup>*"
proof -
  from assms(2) obtain q z where "p = q @ [z]" using rev_exhaust by blast
  with assms show ?thesis by (auto simp: sorted_wrt_append intro: trancl_into_rtrancl)
qed

lemma dfs_inv_enter:
  assumes "dfs_inv E s" "ds_colour s node = Some White" "ds_path s = [] \<or> (last (ds_path s), node) \<in> E"
  shows "dfs_inv E (paint node Gray (s\<lparr>ds_path := ds_path s @ [node]\<rparr>))"
proof -
  have "(x, node) \<in> E\<^sup>+" if "x \<in> set (ds_path s)" for x
  proof -
    from that have "ds_path s \<noteq> []" by auto
    with assms(1,3) path_reaches_last [of E "ds_path s" x] that
    have "(x, last (ds_path s)) \<in> E\<^sup>*" "(last (ds_path s), node) \<in> E" by (auto simp: dfs_inv_def)
    then show ?thesis by (rule rtrancl_into_trancl1)
  qed
  moreover have "node \<noteq> b" if "(a, b) \<in> E" "ds_colour s a = Some Black" for a b
    using assms(1,2) that by (auto simp: dfs_inv_def)
  ultimately show ?thesis
    using assms(1,2) by (auto simp: dfs_inv_def sorted_wrt_append)
qed

lemma dfs_inv_leave:
  assumes inv: "dfs_inv E s2" and path: "ds_path s2 = p @ [node]" and new: "node \<notin> set p"
    and blk: "\<forall>b. (node, b) \<in> E \<longrightarrow> ds_colour s2 b = Some Black"
  shows "dfs_inv E (paint node Black (s2\<lparr>ds_path := p\<rparr>))"
proof -
  have gray: "ds_colour s2 node = Some Gray" using inv path by (auto simp: dfs_inv_def)
  have "(node, node) \<notin> E\<^sup>+"
  proof
    assume "(node, node) \<in> E\<^sup>+"
    then obtain b where "(node, b) \<in> E" "(b, node) \<in> E\<^sup>*" by (meson tranclD)
    with blk black_closed [OF _ inv] have "ds_colour s2 node = Some Black" by blast
    with gray show False by simp
  qed
  then show ?thesis
    using inv path new blk by (auto simp: dfs_inv_def sorted_wrt_append)
qed

lemma whites_finite: "finite (dom (ds_colour s)) \<Longrightarrow> finite (whites s)"
  by (rule finite_subset [of _ "dom (ds_colour s)"]) (auto simp: whites_def)

lemma dfs_exact:
  assumes "finite ids" and "E = edges deps ids"
  shows "dfs_inv E s \<Longrightarrow> dom (ds_colour s) = ids \<Longrightarrow> card (whites s) \<le> n \<Longrightarrow> ds_colour s node = Some White \<Longrightarrow>
      ds_path s = [] \<or> (last (ds_path s), node) \<in> E \<Longrightarrow> search_exact E {node} s (dfs deps n node s)"
    and "dfs_inv E s \<Longrightarrow> dom (ds_colour s) = ids \<Longrightarrow> card (whites s) \<le> n \<Longrightarrow> ds_path s \<noteq> [] \<Longrightarrow>
      \<forall>d \<in> set ds \<inter> ids. (last (ds_path s), d) \<in> E \<Longrightarrow>
      search_exact E (set ds \<inter> ids) s (dfs_deps deps n ds s)"
  using assms
proof (induction deps n node s and deps n ds s rule: dfs_dfs_deps.induct)
  case (1 deps node s)
  have "finite (whites s)" using "1.prems"(2,6) by (simp add: whites_finite)
  moreover have "node \<in> whites s" using 1 by (simp add: whites_def)
  ultimately show ?case using "1.prems"(3) by auto
next
  case (2 deps n node s)
  let ?s1 = "paint node Gray (s\<lparr>ds_path := ds_path s @ [node]\<rparr>)"
  have node: "node \<in> ids" "node \<in> whites s" "node \<notin> set (ds_path s)"
    using "2.prems"(1,2,4) by (auto simp: whites_def dfs_inv_def dest: spec [of _ node])
  have fin: "finite (whites s)" using "2.prems"(2,6) by (simp add: whites_finite)
  have "search_exact E (set (deps node) \<inter> ids) ?s1 (dfs_deps deps n (deps node) ?s1)"
  proof (rule "2.IH" [OF refl])
    show "dfs_inv E ?s1" using "2.prems"(1,4,5) by (rule dfs_inv_enter)
    show "card (whites ?s1) \<le> n" using card_less_white [OF fin node(2) "2.prems"(3)] by simp
  qed (use "2.prems" node in \<open>auto simp: edges_def split: if_splits\<close>)
  then obtain f s2 where r: "dfs_deps deps n (deps node) ?s1 = Inr (f, s2)"
    and ex: "search_exact E (set (deps node) \<inter> ids) ?s1 (Inr (f, s2))"
    by (auto simp: search_exact_def)
  show ?case
  proof (cases f)
    case False
    from ex False have "search_exact E (set (deps node) \<inter> ids) ?s1 (Inr (False, s2))" by simp
    note ex' = this [unfolded search_exact_False]
    from ex' have inv: "dfs_inv E s2" and path: "ds_path s2 = ds_path s @ [node]"
      and keep: "ds_errors s2 = ds_errors s" "whites s2 \<subseteq> whites s - {node}" by simp_all
    from ex' have dm: "dom (ds_colour s2) = ids"
      using "2.prems"(2) node(1) by (simp add: insert_absorb)
    from ex' have old: "\<forall>a. ds_colour s a = Some Black \<longrightarrow> a \<noteq> node \<longrightarrow> ds_colour s2 a = Some Black"
      and blk: "\<forall>a \<in> set (deps node) \<inter> ids. ds_colour s2 a = Some Black" by simp_all
    have "dfs_inv E (paint node Black (s2\<lparr>ds_path := ds_path s\<rparr>))"
      using blk "2.prems"(7) by (intro dfs_inv_leave [OF inv path node(3)]) (auto simp: edges_def)
    then have "search_exact E {node} s (Inr (False, paint node Black (s2\<lparr>ds_path := ds_path s\<rparr>)))"
      unfolding search_exact_False using keep dm old "2.prems"(2) node(1) by (auto simp: insert_absorb)
    with False r path show ?thesis by simp
  qed (use r ex in \<open>simp add: search_exact_True\<close>)
next
  case (3 deps n s)
  then show ?case by (simp add: search_exact_False)
next
  case (4 deps n d ds s)
  show ?case
  proof (cases "ds_colour s d")
    case None
    with 4 have "d \<notin> ids" by auto
    with None 4 show ?thesis by simp
  next
    case (Some c)
    with 4 have d: "d \<in> ids" "(last (ds_path s), d) \<in> E" by auto
    show ?thesis
    proof (cases c)
      case White
      have "search_exact E {d} s (dfs deps n d s)"
        using 4 Some White d by simp
      then obtain f s1 where r: "dfs deps n d s = Inr (f, s1)"
        and ex: "search_exact E {d} s (Inr (f, s1))" by (auto simp: search_exact_def)
      show ?thesis
      proof (cases f)
        case False
        with ex have s1: "dfs_inv E s1" "ds_path s1 = ds_path s" "ds_errors s1 = ds_errors s"
          "whites s1 \<subseteq> whites s" "dom (ds_colour s1) = dom (ds_colour s)" "ds_colour s1 d = Some Black"
          "\<forall>a. ds_colour s a = Some Black \<longrightarrow> ds_colour s1 a = Some Black"
          by (simp_all add: search_exact_False)
        have "finite (whites s)" using "4.prems"(2,6) by (simp add: whites_finite)
        then have "card (whites s1) \<le> n" using card_mono s1(4) "4.prems"(3) le_trans by metis
        then have "search_exact E (set ds \<inter> ids) s1 (dfs_deps deps n ds s1)"
          using 4 Some White r False s1 by simp
        with ex False have "search_exact E (insert d (set ds \<inter> ids)) s (dfs_deps deps n ds s1)"
          using search_exact_seq by simp
        with r Some White False d(1) show ?thesis by simp
      qed (use r ex Some White in \<open>simp add: search_exact_True\<close>)
    next
      case Gray
      with Some "4.prems"(1) have "d \<in> set (ds_path s)" by (auto simp: dfs_inv_def)
      then have "(d, last (ds_path s)) \<in> E\<^sup>*"
        using "4.prems"(1,4) path_reaches_last by (auto simp: dfs_inv_def)
      with d(2) have "\<not> acyclic E" by (meson acyclic_def rtrancl_into_trancl1)
      with \<open>d \<in> set (ds_path s)\<close> Some Gray show ?thesis
        by (simp add: search_exact_True index_of_def)
    next
      case Black
      have "search_exact E (set ds \<inter> ids) s (dfs_deps deps n ds s)" using 4 Some Black by simp
      moreover have "search_exact E {d} s (Inr (False, s))"
        using Some Black "4.prems"(1) by (simp add: search_exact_False)
      ultimately have "search_exact E (insert d (set ds \<inter> ids)) s (dfs_deps deps n ds s)"
        using search_exact_seq by blast
      with Some Black d(1) show ?thesis by simp
    qed
  qed
qed

text \<open>The roots: an acyclic graph is searched without an error, and only an acyclic one.\<close>

lemma dfs_roots_mono:
  "finite (whites s) \<Longrightarrow> card (whites s) \<le> n \<Longrightarrow>
   (case dfs_roots deps n rs s of Inl e \<Rightarrow> e \<noteq> recursion_error | Inr s' \<Rightarrow> ds_errors s' = [] \<longrightarrow> ds_errors s = [])"
proof (induction rs arbitrary: s)
  case (Cons r rs)
  show ?case
  proof (cases "ds_colour s r = Some White")
    case True
    let ?s = "s\<lparr>ds_path := []\<rparr>"
    have ok: "search_ok ?s (dfs deps n r ?s)"
      using Cons.prems True by (intro dfs_search_ok) (simp_all add: whites_def)
    show ?thesis
    proof (cases "dfs deps n r ?s")
      case (Inr fs)
      obtain f s1 where fs: "fs = (f, s1)" by (cases fs)
      with ok Inr have s1: "whites s1 \<subseteq> whites s" "ds_errors s1 = [] \<longrightarrow> ds_errors s = []"
        by (simp_all add: search_ok_def)
      then have "finite (whites s1)" "card (whites s1) \<le> n"
        using Cons.prems card_mono finite_subset le_trans by metis+
      from Cons.IH [OF this] s1 show ?thesis using True Inr fs by (auto split: sum.splits)
    qed (use True ok in \<open>simp add: search_ok_def\<close>)
  qed (use Cons in simp)
qed simp

lemma dfs_roots_exact:
  assumes "finite ids" and "E = edges deps ids"
  shows "dfs_inv E s \<Longrightarrow> ds_path s = [] \<Longrightarrow> ds_errors s = [] \<Longrightarrow> dom (ds_colour s) = ids \<Longrightarrow> card (whites s) \<le> n \<Longrightarrow>
    (acyclic E \<longrightarrow> (\<exists>s'. dfs_roots deps n rs s = Inr s' \<and> ds_errors s' = [])) \<and>
    (\<forall>s'. dfs_roots deps n rs s = Inr s' \<longrightarrow> ds_errors s' = [] \<longrightarrow>
       (\<forall>a \<in> (set rs \<inter> ids) \<union> {a. ds_colour s a = Some Black}. (a, a) \<notin> E\<^sup>+))"
proof (induction rs arbitrary: s)
  case Nil
  then show ?case by (simp add: dfs_inv_def)
next
  case (Cons r rs)
  show ?case
  proof (cases "ds_colour s r = Some White")
    case True
    let ?s = "s\<lparr>ds_path := []\<rparr>"
    have s: "?s = s" using Cons.prems(2) by simp
    have "search_exact E {r} s (dfs deps n r s)"
      using Cons.prems True by (intro dfs_exact [OF assms]) simp_all
    then obtain f s1 where r: "dfs deps n r s = Inr (f, s1)" and ex: "search_exact E {r} s (Inr (f, s1))"
      by (auto simp: search_exact_def)
    have ok: "search_ok s (Inr (f, s1))"
      unfolding r [symmetric] using Cons.prems True assms(1)
      by (intro dfs_search_ok) (simp_all add: whites_finite, simp add: whites_def)
    have "finite (whites s)" using assms(1) Cons.prems(4) by (simp add: whites_finite)
    then have w1: "finite (whites s1)" "card (whites s1) \<le> n"
      using ok Cons.prems(5) card_mono [of "whites s" "whites s1"] finite_subset
      by (auto simp: search_ok_def)
    show ?thesis
    proof (cases f)
      case False
      with ex have "dfs_inv E s1" "ds_path s1 = []" "ds_errors s1 = []" "dom (ds_colour s1) = ids"
        "ds_colour s1 r = Some Black" "\<forall>a. ds_colour s a = Some Black \<longrightarrow> ds_colour s1 a = Some Black"
        using Cons.prems by (simp_all add: search_exact_False)
      with Cons.IH [of s1] w1 True r s show ?thesis by auto
    next
      case True
      with ex have "\<not> acyclic E" "ds_errors s1 \<noteq> []" by (simp_all add: search_exact_True)
      with dfs_roots_mono [OF w1, of deps rs] show ?thesis
        using \<open>ds_colour s r = Some White\<close> r s by auto
    qed
  next
    case False
    have "ds_colour s r = Some Black" if "r \<in> ids"
    proof -
      from that Cons.prems(4) obtain c where c: "ds_colour s r = Some c" by auto
      moreover from c Cons.prems(1,2) have "c \<noteq> Gray" by (auto simp: dfs_inv_def)
      ultimately show ?thesis using False by (cases c) auto
    qed
    with Cons.IH [OF Cons.prems] False show ?thesis by auto
  qed
qed

definition dependency_graph :: "plan_step list \<Rightarrow> (string \<times> string) set" where
  "dependency_graph steps = {(ps_step_id s, d) | s d. s \<in> set steps \<and> d \<in> set (ps_dependencies s)}"

lemma detect_cycles_exact:
  assumes "set_order ord"
  shows "detect_cycles ord steps = Inr [] \<longleftrightarrow> acyclic (edges (deps_of ord steps) (ps_step_id ` set steps))"
    and "detect_cycles ord steps \<noteq> Inl recursion_error"
proof -
  let ?ids = "ps_step_id ` set steps" and ?deps = "deps_of ord steps"
  let ?E = "edges ?deps ?ids" and ?n = "Suc (length steps)"
  have w: "whites (all_white steps) = ?ids" by (auto simp: whites_def all_white_def split: if_splits)
  have c: "card ?ids \<le> ?n" by (metis card_length le_SucI length_map list.set_map)
  have inv: "dfs_inv ?E (all_white steps)" by (auto simp: dfs_inv_def all_white_def)
  have ids: "dom (ds_colour (all_white steps)) = ?ids" by (auto simp: all_white_def split: if_splits)
  have sub: "?E \<subseteq> ?ids \<times> ?ids" by (auto simp: edges_def)
  have cyc: "a \<in> ?ids" if "(a, a) \<in> ?E\<^sup>+" for a
    using that trancl_mono [of _ ?E "?ids \<times> ?ids"] sub by (meson SigmaD1 subsetD tranclD)
  have roots: "set (ord (map ps_step_id steps)) \<inter> ?ids = ?ids" using assms by (simp add: set_order_def)
  let ?r = "dfs_roots ?deps ?n (ord (map ps_step_id steps)) (all_white steps)"
  have "(acyclic ?E \<longrightarrow> (\<exists>s'. ?r = Inr s' \<and> ds_errors s' = [])) \<and>
    (\<forall>s'. ?r = Inr s' \<longrightarrow> ds_errors s' = [] \<longrightarrow>
      (\<forall>a \<in> (set (ord (map ps_step_id steps)) \<inter> ?ids) \<union> {a. ds_colour (all_white steps) a = Some Black}.
         (a, a) \<notin> ?E\<^sup>+))"
    by (rule dfs_roots_exact [OF _ refl inv _ _ ids]) (use w c in \<open>simp_all add: all_white_def\<close>)
  then have "(\<exists>s'. ?r = Inr s' \<and> ds_errors s' = []) \<longleftrightarrow> acyclic ?E"
    unfolding roots using cyc by (metis UnI1 acyclic_def)
  then show "detect_cycles ord steps = Inr [] \<longleftrightarrow> acyclic ?E"
    by (simp add: detect_cycles_def bindE_Inr)
  show "detect_cycles ord steps \<noteq> Inl recursion_error"
    using dfs_roots_mono [of "all_white steps" ?n ?deps "ord (map ps_step_id steps)"] w c
    by (auto simp: detect_cycles_def bindE_def split: sum.splits)
qed

section \<open>Lemmas\<close>

text \<open>With distinct ids and known dependencies the searched graph is the dependency graph.\<close>

lemma deps_of_step:
  assumes "distinct (map ps_step_id steps)" "s \<in> set steps"
  shows "deps_of ord steps (ps_step_id s) = ord (ps_dependencies s)"
proof -
  have "map_of (rev (map (\<lambda>s. (ps_step_id s, ord (ps_dependencies s))) steps)) (ps_step_id s) =
      Some (ord (ps_dependencies s))"
    using assms by (intro map_of_is_SomeI) (auto simp: rev_map comp_def distinct_map inj_on_def)
  then show ?thesis by (simp add: deps_of_def)
qed

lemma edges_dependency_graph:
  assumes "set_order ord" "distinct (map ps_step_id steps)"
    "list_all (\<lambda>s. set (ps_dependencies s) \<subseteq> ps_step_id ` set steps) steps"
  shows "edges (deps_of ord steps) (ps_step_id ` set steps) = dependency_graph steps"
proof -
  have d: "set (deps_of ord steps (ps_step_id s)) = set (ps_dependencies s)" if "s \<in> set steps" for s
    using deps_of_step [OF assms(2) that, of ord] assms(1) by (simp add: set_order_def)
  have "(a, b) \<in> edges (deps_of ord steps) (ps_step_id ` set steps) \<longleftrightarrow>
      (\<exists>s \<in> set steps. a = ps_step_id s \<and> b \<in> set (ps_dependencies s) \<and> b \<in> ps_step_id ` set steps)" for a b
    unfolding edges_def using d by auto
  moreover have "(a, b) \<in> dependency_graph steps \<longleftrightarrow>
      (\<exists>s \<in> set steps. a = ps_step_id s \<and> b \<in> set (ps_dependencies s))" for a b
    unfolding dependency_graph_def by auto
  moreover have "b \<in> ps_step_id ` set steps" if "s \<in> set steps" "b \<in> set (ps_dependencies s)" for s b
    using assms(3) that by (auto simp: list_all_iff)
  ultimately show ?thesis by (intro set_eqI) (metis surj_pair)
qed

definition tools_known :: "plan_validator \<Rightarrow> plan_step \<Rightarrow> bool" where
  "tools_known V s = list_all (\<lambda>t. t \<notin> set (pv_forbidden V) \<and>
     (case pv_registry V of None \<Rightarrow> True | Some reg \<Rightarrow> registry_has t reg)) (ps_tool_candidates s)"

lemma tool_error_nil:
  "tool_error V s t = [] \<longleftrightarrow> t \<notin> set (pv_forbidden V) \<and>
     (case pv_registry V of None \<Rightarrow> True | Some reg \<Rightarrow> registry_has t reg)"
  by (cases "pv_registry V") (simp_all add: tool_error_def)

lemma tool_errors_nil: "tool_errors V s = [] \<longleftrightarrow> tools_known V s"
  by (simp add: tool_errors_def tools_known_def list_all_iff tool_error_nil)

lemma dependency_errors_nil:
  "dependency_errors ids s = [] \<longleftrightarrow> ps_step_id s \<notin> set (ps_dependencies s) \<and> set (ps_dependencies s) \<subseteq> set ids"
  by (auto simp: dependency_errors_def split: if_splits)

definition plan_ok :: "plan_validator \<Rightarrow> execution_plan \<Rightarrow> bool" where
  "plan_ok V p =
     (ep_steps p \<noteq> [] \<and> int (length (ep_steps p)) \<le> pv_max_steps V \<and> distinct (map ps_step_id (ep_steps p)) \<and>
      list_all (tools_known V) (ep_steps p) \<and>
      list_all (\<lambda>s. set (ps_dependencies s) \<subseteq> ps_step_id ` set (ep_steps p)) (ep_steps p) \<and>
      acyclic (dependency_graph (ep_steps p)) \<and> strip (ep_goal p) \<noteq> [])"

lemma length_card_distinct: "length xs = card (f ` set xs) \<longleftrightarrow> distinct (map f xs)"
  using distinct_card [of "map f xs"] card_distinct [of "map f xs"] by auto

lemma validate_valid:
  "(\<exists>v. validate L V p = Inr v \<and> pv_valid v) \<longleftrightarrow>
     count_errors L V p = [] \<and> distinct (map ps_step_id (ep_steps p)) \<and>
     list_all (\<lambda>s. tool_errors V s = []) (ep_steps p) \<and>
     list_all (\<lambda>s. dependency_errors (map ps_step_id (ep_steps p)) s = []) (ep_steps p) \<and>
     detect_cycles (pv_order V) (ep_steps p) = Inr [] \<and> strip (ep_goal p) \<noteq> []"
  by (auto simp: validate_def Let_def bindE_Inr list_all_iff length_card_distinct split: if_splits)

lemma self_dependency_cyclic: "s \<in> set steps \<Longrightarrow> ps_step_id s \<in> set (ps_dependencies s) \<Longrightarrow> \<not> acyclic (dependency_graph steps)"
  by (auto simp: acyclic_def dependency_graph_def intro!: exI [of _ "ps_step_id s"] r_into_trancl)

lemma validate_iff_plan_ok:
  assumes "set_order (pv_order V)"
  shows "(\<exists>v. validate L V p = Inr v \<and> pv_valid v) \<longleftrightarrow> plan_ok V p"
proof -
  let ?steps = "ep_steps p"
  have c: "count_errors L V p = [] \<longleftrightarrow> ?steps \<noteq> [] \<and> int (length ?steps) \<le> pv_max_steps V"
    by (auto simp: count_errors_def step_count_def)
  have "detect_cycles (pv_order V) ?steps = Inr [] \<longleftrightarrow> acyclic (dependency_graph ?steps)"
    if "distinct (map ps_step_id ?steps)" "list_all (\<lambda>s. set (ps_dependencies s) \<subseteq> ps_step_id ` set ?steps) ?steps"
    using detect_cycles_exact(1) [OF assms, of ?steps] edges_dependency_graph [OF assms that] by simp
  then show ?thesis
    unfolding validate_valid plan_ok_def c tool_errors_nil dependency_errors_nil
    using self_dependency_cyclic by (fastforce simp: list_all_iff)
qed

lemma step_of_json_retries: "step_of_json L ij = Inr s \<Longrightarrow> ps_max_retries s = 1"
  by (auto simp: step_of_json_def bindE_Inr split: prod.splits json.splits)

lemma plan_of_json_retries:
  assumes "plan_of_json L pid goal data = Inr q"
  shows "list_all (\<lambda>s. ps_max_retries s = 1) (ep_steps q)"
proof -
  from assms obtain d where d: "data = JObj d" by (cases data) (simp_all add: plan_of_json_def)
  with assms have "steps_of_json L (dict_get_or d ''steps'' (JArr [])) = Inr (ep_steps q)"
    by (auto simp: plan_of_json_def bindE_Inr)
  then obtain xs where "all_of (step_of_json L) (zip [0..<length xs] xs) = Inr (ep_steps q)"
    by (cases "dict_get_or d ''steps'' (JArr [])") simp_all
  then show ?thesis by (rule all_of_Inr) (rule step_of_json_retries)
qed

lemma generated_retries:
  assumes "generate_plan D pid goal prompt w = (Inr q, w1)"
  shows "list_all (\<lambda>s. ps_max_retries s = 1) (ep_steps q)"
proof -
  from assms obtain data where "plan_of_json (dp_lib D) pid goal data = Inr q"
    by (auto simp: generate_plan_def bindE_Inr case_prod_beta Let_def split: option.splits)
  then show ?thesis by (rule plan_of_json_retries)
qed

text \<open>The planner only talks to the model, and what it returns has passed the validator.\<close>

lemma valid_plan_ok: "set_order (pv_order V) \<Longrightarrow> validate L V p = Inr v \<Longrightarrow> pv_valid v \<Longrightarrow> plan_ok V p"
  using validate_iff_plan_ok by blast

lemma plan_attempts_result:
  assumes "plan_attempts D V pid goal prompt n w = (p, w')"
  shows "(\<exists>l. w' = w\<lparr>w_llm := l\<rparr>) \<and>
    (p = rejected_plan pid goal \<or>
     (\<exists>q v. p = q\<lparr>ep_status := PS_VALIDATED\<rparr> \<and> validate (dp_lib D) V q = Inr v \<and> pv_valid v \<and>
       list_all (\<lambda>s. ps_max_retries s = 1) (ep_steps q)))"
  using assms
proof (induction n arbitrary: w)
  case 0
  then show ?case by (auto intro: exI [of _ "w_llm w"])
next
  case (Suc n)
  obtain r w1 where g: "generate_plan D pid goal prompt w = (r, w1)" by fastforce
  then have w1: "\<exists>l. w1 = w\<lparr>w_llm := l\<rparr>" by (auto simp: generate_plan_def case_prod_beta Let_def)
  have retries: "list_all (\<lambda>s. ps_max_retries s = 1) (ep_steps q)" if "r = Inr q" for q
    using g that generated_retries by blast
  have next_try: ?case if "plan_attempts D V pid goal prompt n w1 = (p, w')"
    using Suc.IH [OF that] w1 by auto
  show ?case
    using Suc.prems g w1 retries next_try
    by (auto split: sum.splits if_splits)
qed

lemma plan_ok_status [simp]: "plan_ok V (p\<lparr>ep_status := st\<rparr>) = plan_ok V p"
  by (simp add: plan_ok_def)

text \<open>Every banking tool reads an argument before it does anything: a call without arguments fails.\<close>

lemma no_args_fail:
  "\<exists>err. tools_execute L e n [] b = (([], Some err), b) \<and> err \<noteq> []"
proof (cases "tool_method L e n")
  case (Some f)
  then have "\<exists>k. f [] b = (Inl (KeyError k), b)"
    by (cases rule: tool_method_cases)
      (simp_all add: tool_get_account_summary_def tool_get_balance_def tool_list_transactions_def
        tool_find_beneficiary_def tool_create_transfer_draft_def tool_submit_transfer_def
        tool_cancel_transfer_def tool_get_transfer_status_def tool_report_suspicious_transaction_def
        subscript_def Let_def)
  with Some show ?thesis by (auto simp: tools_execute_def quoted_def)
qed (simp add: tools_execute_def)

lemma banking_call_no_args:
  assumes "banking_call L envs \<lparr>tc_name = n, tc_arguments = []\<rparr> s = (r, s')"
  shows "bank_of s' = bank_of s" and "r = Inr res \<Longrightarrow> \<not> tr_success res"
proof -
  obtain ad b k where s: "s = (ad, b, k)" by (cases s)
  obtain err where err: "tools_execute L (envs k) n [] b = (([], Some err), b)" "err \<noteq> []"
    using no_args_fail by blast
  show "bank_of s' = bank_of s" "r = Inr res \<Longrightarrow> \<not> tr_success res"
    using assms err
    by (auto simp: s banking_call_def bank_of_def mcp_call_tool_def banking_transport_def invoke_tool_def
        opt_str_def split: if_splits)
qed

lemma deployed_step_fails:
  assumes "execute_step (deployed L loads clk envs invoke m) p s None w = (r, w1)"
  shows "\<not> sr_success r \<and> bank_of (w_backend w1) = bank_of (w_backend w)"
proof (cases "ps_status s = SS_pending")
  case True
  show ?thesis
  proof (cases "ps_tool_candidates s")
    case (Cons t ts)
    let ?D = "deployed L loads clk envs invoke m"
    have call: "dp_call ?D = banking_call L envs" by (simp add: deployed_def)
    show ?thesis
      using assms True Cons banking_call_no_args [of L envs t]
      by (auto simp: execute_step_def Let_def case_prod_beta call failed_step_def
          split: if_splits sum.splits) (metis ask_auth_frame(1) prod.collapse)+
  qed (use assms True in \<open>auto simp: execute_step_def failed_step_def\<close>)
qed (use assms in \<open>auto simp: execute_step_def failed_step_def\<close>)

lemma deployed_plan_stops:
  assumes "steps \<noteq> []" "list_all (\<lambda>s. ps_max_retries s = 1) steps"
  shows "\<exists>msg w'. plan_loop (deployed L loads clk envs invoke m) p steps [] w = (PlanStopped msg 1, w') \<and>
    bank_of (w_backend w') = bank_of (w_backend w)"
proof -
  obtain s ss where steps: "steps = s # ss" using assms(1) by (cases steps) auto
  obtain r w1 where r: "execute_step (deployed L loads clk envs invoke m) p s None w = (r, w1)" by fastforce
  from deployed_step_fails [OF r] have f: "\<not> sr_success r" "bank_of (w_backend w1) = bank_of (w_backend w)"
    by simp_all
  have "vr_action (verify s r (Some p)) = Abort \<or> vr_action (verify s r (Some p)) = Ask_user"
    "\<not> vr_passed (verify s r (Some p))"
    using f(1) assms(2) steps by (auto simp: verify_def verdict_def next_action_for_failure_def)
  with r f(2) show ?thesis by (auto simp: steps)
qed

section \<open>Properties\<close>

text \<open>
  C22. The validator accepts exactly the well-formed plans: some steps but not too many, distinct
  ids, tools that are registered and not forbidden, dependencies among the steps, no dependency
  cycle, a goal. The depth-first search is exact for every order in which the sets of step ids
  are traversed, and its depth stays within the number of steps.
\<close>

theorem plan_validates_iff:
  assumes "set_order (pv_order V)"
  shows "((\<exists>v. validate L V p = Inr v \<and> pv_valid v) \<longleftrightarrow> plan_ok V p) \<and>
    detect_cycles (pv_order V) (ep_steps p) \<noteq> Inl recursion_error"
  using validate_iff_plan_ok [OF assms] detect_cycles_exact(2) [OF assms] by blast

definition demo_step :: "string \<Rightarrow> string list \<Rightarrow> plan_step" where
  "demo_step i ds = \<lparr>ps_step_id = i, ps_objective = ''look'', ps_tool_candidates = [''get_balance''],
     ps_dependencies = ds, ps_risk_level = ''low'', ps_status = SS_pending,
     ps_expected_output_schema = None, ps_max_retries = 1\<rparr>"

definition demo_plan :: "plan_step list \<Rightarrow> execution_plan" where
  "demo_plan ss = \<lparr>ep_plan_id = ''p1'', ep_goal = ''look'', ep_assumptions = [], ep_required_user_inputs = [],
     ep_steps = ss, ep_completion_criteria = [], ep_max_replans = 2, ep_status = PS_DRAFT\<rparr>"

definition demo_validator :: plan_validator where
  "demo_validator = \<lparr>pv_registry = None, pv_max_steps = 15, pv_forbidden = [], pv_order = remdups\<rparr>"

theorem plan_validates_iff_witness:
  "plan_ok demo_validator (demo_plan [demo_step ''1'' [], demo_step ''2'' [''1'']]) \<and>
   \<not> plan_ok demo_validator (demo_plan [demo_step ''1'' [''2''], demo_step ''2'' [''1'']])"
proof -
  let ?good = "demo_plan [demo_step ''1'' [], demo_step ''2'' [''1'']]"
  let ?bad = "demo_plan [demo_step ''1'' [''2''], demo_step ''2'' [''1'']]"
  have o: "set_order (pv_order demo_validator)" by (simp add: demo_validator_def set_order_def)
  note defs = validate_def count_errors_def step_count_def tool_errors_def tool_error_def dependency_errors_def
    detect_cycles_def deps_of_def all_white_def paint_def index_of_def quoted_def
    demo_plan_def demo_step_def demo_validator_def strip_def is_space_def Let_def
  have "\<exists>v. validate demo_lib demo_validator ?good = Inr v \<and> pv_valid v" by (simp add: defs)
  moreover have "\<not> (\<exists>v. validate demo_lib demo_validator ?bad = Inr v \<and> pv_valid v)" by (simp add: defs)
  ultimately show ?thesis
    using plan_validates_iff [OF o, of demo_lib ?good] plan_validates_iff [OF o, of demo_lib ?bad] by blast
qed


definition silent_deps :: "(unit, unit) deps" where
  "silent_deps = demo_deps\<lparr>dp_invoke := (\<lambda>ms ts l. (Inl (RuntimeError ''down''), l))\<rparr>"


text \<open>
  The step executor does not wait for a human: under the approval policy, where the graph
  suspends on every operation that is not a read, a pending step is dispatched whatever its
  tool, because only a denial stops it.
\<close>

theorem executor_runs_unapproved_steps:
  assumes "gw_policy (w_gateway w) = RequireApprovalPolicy" and "ps_status s = SS_pending"
    and "ps_tool_candidates s = tool # tools"
  shows "w_dispatched (snd (execute_step D p s args w)) =
    w_dispatched w @ [\<lparr>tc_name = tool, tc_arguments = (case args of None \<Rightarrow> [] | Some a \<Rightarrow> a)\<rparr>] \<and>
    ad_decision (last (gw_decisions (w_gateway (snd (execute_step D p s args w))))) =
      (if step_kind (dp_registry D) tool = K_READ then APPROVED else PENDING)"
proof -
  have "ad_decision (fst (ask_auth D x w)) = (if op_kind x = K_READ then APPROVED else PENDING)" for x
    using ask_auth_policy(2) [of w D x] assms(1) by simp
  with assms(2,3) show ?thesis
    by (simp add: execute_step_def Let_def case_prod_beta ask_auth_trail split: sum.split)
qed

text \<open>The progress of a plan: pending, done and failed steps are disjoint, and a plan is complete
  exactly when all of its steps are done.\<close>

lemma plan_progress:
  "set (pending_steps p) \<inter> set (done_steps p) = {}" "set (pending_steps p) \<inter> set (failed_steps p) = {}"
  "set (done_steps p) \<inter> set (failed_steps p) = {}"
  "set (done_steps p) \<union> set (failed_steps p) = {s \<in> set (ep_steps p). ps_is_terminal s}"
  by (auto simp: pending_steps_def done_steps_def failed_steps_def ps_is_ready_def ps_is_terminal_def)

lemma complete_iff_all_done: "plan_is_complete p \<longleftrightarrow> done_steps p = ep_steps p"
  by (auto simp: plan_is_complete_def done_steps_def list_all_iff filter_id_conv)

end
