(* ===== verification/Routing.thy ===== *)
theory Routing
  imports Banking
begin

text \<open>
  Intent classification and routing: \<open>routing/intent.py\<close>, \<open>routing/classifier.py\<close>,
  \<open>routing/policies.py\<close>, \<open>routing/router.py\<close>. Text is ASCII. A regular expression \<open>\bw\b\<close> for a
  word \<open>w\<close> matches exactly when \<open>w\<close> is one of the maximal runs of word characters of the text
  (\<open>word_tokens\<close>); every keyword without a blank is such a word. The fallback model is a
  function from the prompt to its text, \<open>None\<close> when the call raises. (The arrow in the reason
  of a route is written \<open>->\<close>.)
\<close>

section \<open>Intents\<close>

datatype intent =
    ACCOUNT_QUERY | TRANSACTION_QUERY | BENEFICIARY_QUERY
  | TRANSFER_CREATE | TRANSFER_SUBMIT | TRANSFER_CANCEL | TRANSFER_STATUS
  | POLICY_QUESTION | FORM_ASSISTANCE | PRODUCT_QUESTION
  | SUSPICIOUS_ACTIVITY_REPORT | COMPLEX_TASK | MULTI_ACCOUNT_TASK | GENERAL_UNSUPPORTED

fun intent_value :: "intent \<Rightarrow> string" where
  "intent_value ACCOUNT_QUERY = ''account_query''"
| "intent_value TRANSACTION_QUERY = ''transaction_query''"
| "intent_value BENEFICIARY_QUERY = ''beneficiary_query''"
| "intent_value TRANSFER_CREATE = ''transfer_create''"
| "intent_value TRANSFER_SUBMIT = ''transfer_submit''"
| "intent_value TRANSFER_CANCEL = ''transfer_cancel''"
| "intent_value TRANSFER_STATUS = ''transfer_status''"
| "intent_value POLICY_QUESTION = ''policy_question''"
| "intent_value FORM_ASSISTANCE = ''form_assistance''"
| "intent_value PRODUCT_QUESTION = ''product_question''"
| "intent_value SUSPICIOUS_ACTIVITY_REPORT = ''suspicious_activity_report''"
| "intent_value COMPLEX_TASK = ''complex_task''"
| "intent_value MULTI_ACCOUNT_TASK = ''multi_account_task''"
| "intent_value GENERAL_UNSUPPORTED = ''general_unsupported''"

datatype intent_confidence = C_HIGH | C_MEDIUM | C_LOW

record intent_result =
  in_intent :: intent
  in_confidence :: intent_confidence
  in_reason :: string
  in_sub_intents :: "intent list"
  in_suggested_tools :: "string list"

definition is_simple_read :: "intent_result \<Rightarrow> bool" where
  "is_simple_read r = (in_intent r \<in> {ACCOUNT_QUERY, TRANSACTION_QUERY, BENEFICIARY_QUERY, TRANSFER_STATUS})"

definition is_transfer_workflow :: "intent_result \<Rightarrow> bool" where
  "is_transfer_workflow r = (in_intent r \<in> {TRANSFER_CREATE, TRANSFER_SUBMIT, TRANSFER_CANCEL})"

definition is_knowledge_question :: "intent_result \<Rightarrow> bool" where
  "is_knowledge_question r = (in_intent r \<in> {POLICY_QUESTION, FORM_ASSISTANCE, PRODUCT_QUESTION})"

definition is_complex :: "intent_result \<Rightarrow> bool" where
  "is_complex r = (in_intent r \<in> {COMPLEX_TASK, MULTI_ACCOUNT_TASK})"

definition is_high_risk :: "intent_result \<Rightarrow> bool" where
  "is_high_risk r = (in_intent r \<in> {SUSPICIOUS_ACTIVITY_REPORT, TRANSFER_SUBMIT})"

section \<open>The classifier\<close>

definition KEYWORD_RULES :: "(string list \<times> intent \<times> string) list" where
  "KEYWORD_RULES =
     [([''submit draft'', ''execute transfer'', ''finalize transfer'', ''confirm transfer''],
       TRANSFER_SUBMIT, ''Transfer submission intent''),
      ([''cancel'', ''void'', ''stop transfer''], TRANSFER_CANCEL, ''Transfer cancellation intent''),
      ([''transfer status'', ''where is my transfer'', ''track transfer'', ''status of transfer''],
       TRANSFER_STATUS, ''Transfer status inquiry''),
      ([''send money'', ''send $'', ''transfer $'', ''pay '', ''make a transfer'', ''create transfer'',
        ''draft transfer'', ''send a transfer'', ''new transfer''],
       TRANSFER_CREATE, ''Transfer creation intent''),
      ([''fraud'', ''suspicious'', ''scam'', ''unauthorized'', ''phishing'', ''report suspicious''],
       SUSPICIOUS_ACTIVITY_REPORT, ''Suspicious activity report''),
      ([''balance'', ''how much'', ''account summary'', ''my account'', ''show account''],
       ACCOUNT_QUERY, ''Account balance/summary query''),
      ([''transactions'', ''transaction'', ''recent'', ''history'', ''last payment'', ''what did I spend'',
        ''statement''],
       TRANSACTION_QUERY, ''Transaction history query''),
      ([''beneficiary'', ''payee'', ''recipient'', ''who can I send''], BENEFICIARY_QUERY, ''Beneficiary lookup''),
      ([''fee'', ''charge'', ''rate'', ''policy'', ''rule'', ''limit'', ''how long'', ''how much does it cost'',
        ''what is the'', ''how do I'', ''form'', ''account type'', ''offer'', ''product''],
       POLICY_QUESTION, ''Policy/product knowledge question''),
      ([''and then'', ''also'', ''additionally'', ''after that'', ''schedule recurring''],
       COMPLEX_TASK, ''Multi-step task detected'')]"

definition is_word_char :: "char \<Rightarrow> bool" where
  "is_word_char c = (let n = (of_char c :: nat) in
     48 \<le> n \<and> n \<le> 57 \<or> 65 \<le> n \<and> n \<le> 90 \<or> 97 \<le> n \<and> n \<le> 122 \<or> n = 95)"

fun tokens_acc :: "string \<Rightarrow> string \<Rightarrow> string list" where
  "tokens_acc acc [] = (if acc = [] then [] else [rev acc])"
| "tokens_acc acc (c # s) =
     (if is_word_char c then tokens_acc (c # acc) s
      else if acc = [] then tokens_acc [] s else rev acc # tokens_acc [] s)"

definition word_tokens :: "string \<Rightarrow> string list" where
  "word_tokens s = tokens_acc [] s"

definition is_word_match :: "string \<Rightarrow> string \<Rightarrow> bool" where
  "is_word_match keyword text =
     (if CHR '' '' \<in> set keyword then str_in keyword text else keyword \<in> set (word_tokens text))"

definition suggest_tools :: "intent \<Rightarrow> string list" where
  "suggest_tools i = (case i of
     ACCOUNT_QUERY \<Rightarrow> [''get_balance'', ''get_account_summary'']
   | TRANSACTION_QUERY \<Rightarrow> [''list_transactions'']
   | BENEFICIARY_QUERY \<Rightarrow> [''find_beneficiary'']
   | TRANSFER_CREATE \<Rightarrow> [''create_transfer_draft'']
   | TRANSFER_SUBMIT \<Rightarrow> [''submit_transfer'']
   | TRANSFER_CANCEL \<Rightarrow> [''cancel_transfer'']
   | TRANSFER_STATUS \<Rightarrow> [''get_transfer_status'']
   | SUSPICIOUS_ACTIVITY_REPORT \<Rightarrow> [''report_suspicious_transaction'']
   | _ \<Rightarrow> [])"

definition mk_intent :: "intent \<Rightarrow> intent_confidence \<Rightarrow> string \<Rightarrow> string list \<Rightarrow> intent_result" where
  "mk_intent i c r ts = \<lparr>in_intent = i, in_confidence = c, in_reason = r, in_sub_intents = [],
     in_suggested_tools = ts\<rparr>"

definition rule_matches :: "string \<Rightarrow> string list \<times> intent \<times> string \<Rightarrow> bool" where
  "rule_matches text rule = list_ex (\<lambda>kw. str_in kw text \<and> is_word_match kw text) (fst rule)"

definition action_verbs :: "string list" where
  "action_verbs = [''send'', ''pay'', ''transfer'', ''check'', ''find'', ''show'', ''get'', ''cancel'', ''report'']"

definition LLM_INTENTS :: "intent list" where
  "LLM_INTENTS = [ACCOUNT_QUERY, TRANSACTION_QUERY, BENEFICIARY_QUERY, TRANSFER_CREATE, TRANSFER_SUBMIT,
     TRANSFER_CANCEL, TRANSFER_STATUS, POLICY_QUESTION, SUSPICIOUS_ACTIVITY_REPORT, COMPLEX_TASK,
     GENERAL_UNSUPPORTED]"

definition llm_classify :: "(string \<Rightarrow> string option) \<Rightarrow> string \<Rightarrow> intent_result" where
  "llm_classify llm message =
     (case llm (''Classify this banking request into one of: account_query, transaction_query, beneficiary_query, '' @
        ''transfer_create, transfer_submit, transfer_cancel, transfer_status, policy_question, '' @
        ''suspicious_activity_report, complex_task, general_unsupported.'' @ [CHR 0x0A, CHR 0x0A] @
        ''Request: '' @ message @ [CHR 0x0A, CHR 0x0A] @ ''Intent:'') of
        None \<Rightarrow> mk_intent GENERAL_UNSUPPORTED C_LOW ''LLM classification failed'' []
      | Some content \<Rightarrow>
          (let raw = lower (strip content) in
           case List.find (\<lambda>i. str_in (intent_value i) raw) LLM_INTENTS of
             Some i \<Rightarrow> mk_intent i C_LOW (''LLM classified as '' @ intent_value i) (suggest_tools i)
           | None \<Rightarrow> mk_intent GENERAL_UNSUPPORTED C_LOW (''LLM returned unrecognized intent: '' @ take 100 raw) []))"

definition classify :: "string \<Rightarrow> (string \<Rightarrow> string option) option \<Rightarrow> intent_result" where
  "classify message llm =
     (let text = strip (lower message) in
      case List.find (rule_matches text) KEYWORD_RULES of
        Some (kws, i, reason) \<Rightarrow> mk_intent i C_HIGH reason (suggest_tools i)
      | None \<Rightarrow>
          if 2 \<le> length (filter (\<lambda>w. w \<in> set action_verbs) (word_tokens text))
          then mk_intent COMPLEX_TASK C_MEDIUM ''Multiple action verbs detected'' (suggest_tools COMPLEX_TASK)
          else if list_ex (\<lambda>q. str_in q text) [''what'', ''how'', ''why'', ''when'', ''where'', ''can i'', ''do i'']
          then (if list_ex (\<lambda>q. str_in q text) [''$'', ''dollar'', ''amount'', ''balance'', ''money'']
                then mk_intent ACCOUNT_QUERY C_MEDIUM ''Financial question pattern'' (suggest_tools ACCOUNT_QUERY)
                else mk_intent POLICY_QUESTION C_MEDIUM ''General question pattern'' (suggest_tools POLICY_QUESTION))
          else (case llm of
                  Some f \<Rightarrow> llm_classify f message
                | None \<Rightarrow> mk_intent GENERAL_UNSUPPORTED C_LOW ''No keyword or pattern match'' []))"

section \<open>Routes\<close>

datatype route_kind = R_DIRECT | R_RAG | R_PLANNER | R_TRANSFER_STATE_MACHINE | R_REJECT

fun route_kind_value :: "route_kind \<Rightarrow> string" where
  "route_kind_value R_DIRECT = ''direct''"
| "route_kind_value R_RAG = ''rag''"
| "route_kind_value R_PLANNER = ''planner''"
| "route_kind_value R_TRANSFER_STATE_MACHINE = ''transfer_state_machine''"
| "route_kind_value R_REJECT = ''reject''"

record route =
  rt_kind :: route_kind
  rt_intent :: intent
  rt_reason :: string
  rt_max_steps :: "int option"
  rt_require_approval :: bool
  rt_suggested_tools :: "string list option"

fun ROUTES :: "intent \<Rightarrow> route_kind" where
  "ROUTES ACCOUNT_QUERY = R_DIRECT"
| "ROUTES TRANSACTION_QUERY = R_DIRECT"
| "ROUTES BENEFICIARY_QUERY = R_DIRECT"
| "ROUTES TRANSFER_STATUS = R_DIRECT"
| "ROUTES TRANSFER_CREATE = R_TRANSFER_STATE_MACHINE"
| "ROUTES TRANSFER_SUBMIT = R_TRANSFER_STATE_MACHINE"
| "ROUTES TRANSFER_CANCEL = R_TRANSFER_STATE_MACHINE"
| "ROUTES POLICY_QUESTION = R_RAG"
| "ROUTES FORM_ASSISTANCE = R_RAG"
| "ROUTES PRODUCT_QUESTION = R_RAG"
| "ROUTES COMPLEX_TASK = R_PLANNER"
| "ROUTES MULTI_ACCOUNT_TASK = R_PLANNER"
| "ROUTES SUSPICIOUS_ACTIVITY_REPORT = R_PLANNER"
| "ROUTES GENERAL_UNSUPPORTED = R_REJECT"

definition policy_route :: "intent_result \<Rightarrow> route" where
  "policy_route r =
     (let kind = ROUTES (in_intent r);
          reason = intent_value (in_intent r) @ '' -> '' @ route_kind_value kind;
          tools = (if in_suggested_tools r = [] then None else Some (in_suggested_tools r))
      in \<lparr>rt_kind = kind, rt_intent = in_intent r, rt_reason = reason,
          rt_max_steps = (if kind = R_PLANNER then Some 20 else None),
          rt_require_approval = is_high_risk r, rt_suggested_tools = tools\<rparr>)"

definition router_route :: "(string \<Rightarrow> string option) option \<Rightarrow> string \<Rightarrow> route" where
  "router_route llm message = policy_route (classify message llm)"

definition route_from_intent :: "intent_result \<Rightarrow> route" where
  "route_from_intent r = policy_route r"

section \<open>Lemmas\<close>

lemma mk_intent_simps [simp]:
  "in_intent (mk_intent i c r ts) = i" "in_suggested_tools (mk_intent i c r ts) = ts"
  "in_confidence (mk_intent i c r ts) = c"
  by (simp_all add: mk_intent_def)

text \<open>Classification always suggests the tools of the intent it returns.\<close>

lemma llm_classify_tools:
  "in_suggested_tools (llm_classify f m) = suggest_tools (in_intent (llm_classify f m))"
  by (auto simp: llm_classify_def suggest_tools_def Let_def split: option.splits)

lemma classify_tools: "in_suggested_tools (classify m llm) = suggest_tools (in_intent (classify m llm))"
  by (auto simp: classify_def llm_classify_tools Let_def suggest_tools_def [of GENERAL_UNSUPPORTED]
      split: option.splits)

lemma tokens_chars: "w \<in> set (tokens_acc acc s) \<Longrightarrow> set w \<subseteq> set acc \<union> set s"
proof (induction acc s rule: tokens_acc.induct)
  case (2 acc c s)
  then show ?case by (fastforce split: if_splits)
qed (auto split: if_splits)

lemma word_tokens_chars: "kw \<in> set (word_tokens text) \<Longrightarrow> set kw \<subseteq> set text"
  using tokens_chars [of kw "[]" "text"] by (simp add: word_tokens_def)

lemma word_match_chars: "is_word_match kw text \<Longrightarrow> set kw \<subseteq> set text"
  using str_in_set [of kw "text"] word_tokens_chars [of kw "text"]
  by (auto simp: is_word_match_def split: if_splits)

lemma upper_keyword_dead: "list_ex is_upper kw \<Longrightarrow> \<not> is_word_match kw (strip (lower m))"
  using word_match_chars strip_lower_no_upper by (fastforce simp: list_ex_iff)

lemma direct_intents: "ROUTES i = R_DIRECT \<Longrightarrow> i \<in> {ACCOUNT_QUERY, TRANSACTION_QUERY, BENEFICIARY_QUERY, TRANSFER_STATUS}"
  by (cases i) simp_all

lemma direct_tools:
  "ROUTES i = R_DIRECT \<Longrightarrow> suggest_tools i \<noteq> [] \<and> list_all is_read_only (suggest_tools i)"
  by (cases i) (simp_all add: suggest_tools_def is_read_only_def TOOL_RISK_def dict_get_or_def)

lemma direct_route_tools:
  assumes "rt_kind (router_route llm message) = R_DIRECT"
  shows "\<exists>t ts. rt_suggested_tools (router_route llm message) = Some (t # ts) \<and> list_all is_read_only (t # ts)"
proof -
  let ?r = "classify message llm"
  have "ROUTES (in_intent ?r) = R_DIRECT"
    using assms by (simp add: router_route_def policy_route_def Let_def)
  from direct_tools [OF this] obtain t ts where "suggest_tools (in_intent ?r) = t # ts" "list_all is_read_only (t # ts)"
    by (cases "suggest_tools (in_intent ?r)") auto
  then show ?thesis by (simp add: router_route_def policy_route_def Let_def classify_tools)
qed

section \<open>Properties\<close>

text \<open>
  The route that bypasses the authorization gateway is harmless: whatever the message and
  whatever the fallback model answers, a DIRECT route suggests at least one tool and only
  tools the banking policy classifies READ_ONLY.
\<close>

theorem direct_route_suggests_reads:
  assumes "rt_kind (router_route llm message) = R_DIRECT"
  shows "\<exists>t ts. rt_suggested_tools (router_route llm message) = Some (t # ts) \<and> list_all is_read_only (t # ts)"
  using assms by (rule direct_route_tools)

lemma demo_balance: "rt_kind (router_route None ''balance'') = R_DIRECT"
  by (simp add: router_route_def policy_route_def classify_def Let_def KEYWORD_RULES_def rule_matches_def
      is_word_match_def word_tokens_def is_word_char_def strip_def lower_def lower_char_def is_space_def)

text \<open>
  Dead keywords: messages are lower-cased before matching, so a keyword with an upper
  case letter matches no message; three of the keyword table have one.
\<close>

theorem capital_keywords_never_match:
  "(list_ex is_upper kw \<longrightarrow> \<not> is_word_match kw (strip (lower message))) \<and>
   filter (list_ex is_upper) (concat (map fst KEYWORD_RULES)) = [''what did I spend'', ''who can I send'', ''how do I'']"
  using upper_keyword_dead by (simp add: KEYWORD_RULES_def is_upper_def)

text \<open>The predicates on a classification name the routes its intent leads to.\<close>

lemma intent_predicates_are_routes:
  "is_simple_read r \<longleftrightarrow> rt_kind (route_from_intent r) = R_DIRECT"
  "is_transfer_workflow r \<longleftrightarrow> rt_kind (route_from_intent r) = R_TRANSFER_STATE_MACHINE"
  "is_knowledge_question r \<longleftrightarrow> rt_kind (route_from_intent r) = R_RAG"
  "is_complex r \<or> in_intent r = SUSPICIOUS_ACTIVITY_REPORT \<longleftrightarrow> rt_kind (route_from_intent r) = R_PLANNER"
  by (cases "in_intent r"; simp add: route_from_intent_def policy_route_def Let_def is_simple_read_def
      is_transfer_workflow_def is_knowledge_question_def is_complex_def)+

end
