(* ===== verification/Rag.thy ===== *)
theory Rag
  imports Json
begin

text \<open>
  Retrieval: \<open>rag/models.py\<close> and \<open>rag/retriever.py\<close>. A word set is the set of whitespace
  separated words of the lower-cased text; a score is a double. \<open>datetime.fromisoformat\<close> is a
  parameter: it refuses a text, or gives a time with or without a time zone. Comparing the
  present with a time without zone raises.
\<close>

datatype knowledge_domain =
    PRODUCTS_FEES | TRANSFER_RULES | KYC_AML | OPERATIONS_SOP | FORM_GUIDANCE | EXCEPTIONS

record document_chunk =
  dc_chunk_id :: string
  dc_document_id :: string
  dc_version :: string
  dc_title :: string
  dc_content :: string
  dc_source_uri :: string
  dc_effective_from :: string
  dc_effective_to :: string
  dc_jurisdiction :: string
  dc_product :: string
  dc_access_roles :: "string list"
  dc_tenant_id :: string
  dc_classification :: string
  dc_section_path :: string
  dc_content_hash :: string
  dc_domain :: knowledge_domain

definition is_effective :: "(string \<Rightarrow> iso_time) \<Rightarrow> timestamp \<Rightarrow> document_chunk \<Rightarrow> pyexn + bool" where
  "is_effective parse now c =
     (if dc_effective_to c \<noteq> []
      then (case parse (dc_effective_to c) of
          BadTime \<Rightarrow> Inr True
        | NaiveTime t \<Rightarrow> Inl (TypeError ''can not compare offset-naive and offset-aware datetimes'')
        | AwareTime t \<Rightarrow> Inr (now < t))
      else Inr True)"

record citation =
  ct_document_id :: string
  ct_title :: string
  ct_version :: string
  ct_section_path :: string
  ct_source_uri :: string
  ct_chunk_id :: string

definition to_text :: "citation \<Rightarrow> string" where
  "to_text c = ''['' @ ct_title c @ '' v'' @ ct_version c @
     (if ct_section_path c = [] then [] else '', section '' @ ct_section_path c) @
     (if ct_source_uri c = [] then [] else '' (source: '' @ ct_source_uri c @ '')'') @ '']''"

record retrieval_result =
  rv_query :: string
  rv_chunks :: "document_chunk list"
  rv_total_hits :: nat

definition citations :: "retrieval_result \<Rightarrow> citation list" where
  "citations r = map (\<lambda>c. \<lparr>ct_document_id = dc_document_id c, ct_title = dc_title c, ct_version = dc_version c,
     ct_section_path = dc_section_path c, ct_source_uri = dc_source_uri c, ct_chunk_id = dc_chunk_id c\<rparr>) (rv_chunks r)"

section \<open>The retriever\<close>

definition terms :: "string \<Rightarrow> string set" where
  "terms s = set (split_ws (lower s))"

text \<open>The filter stops at the first chunk whose date cannot be compared.\<close>

definition in_scope :: "knowledge_domain option \<Rightarrow> string \<Rightarrow> document_chunk \<Rightarrow> bool" where
  "in_scope domain tenant c = ((case domain of None \<Rightarrow> True | Some d \<Rightarrow> dc_domain c = d) \<and> dc_tenant_id c = tenant)"

fun candidates ::
    "(string \<Rightarrow> iso_time) \<Rightarrow> timestamp \<Rightarrow> knowledge_domain option \<Rightarrow> string \<Rightarrow> document_chunk list \<Rightarrow>
     pyexn + document_chunk list" where
  "candidates parse now domain tenant [] = Inr []"
| "candidates parse now domain tenant (c # cs) =
     (if in_scope domain tenant c
      then bindE (is_effective parse now c) (\<lambda>ok.
           bindE (candidates parse now domain tenant cs) (\<lambda>rest. Inr (if ok then c # rest else rest)))
      else candidates parse now domain tenant cs)"

definition score :: "string set \<Rightarrow> document_chunk \<Rightarrow> pyfloat" where
  "score query_terms c =
     (if query_terms = {} \<or> terms (dc_content c) = {} then Fin 0
      else round_double (of_nat (card (query_terms \<inter> terms (dc_content c))) / of_nat (card query_terms)))"

text \<open>Scores are finite; the sort is by descending score and keeps the order of equal ones.\<close>

fun fin_val :: "pyfloat \<Rightarrow> rat" where
  "fin_val (Fin q) = q"
| "fin_val x = 0"

definition slice_to :: "int \<Rightarrow> 'a list \<Rightarrow> 'a list" where
  "slice_to k xs = (if 0 \<le> k then take (nat k) xs else take (length xs - nat (- k)) xs)"

definition retrieve ::
    "(string \<Rightarrow> iso_time) \<Rightarrow> timestamp \<Rightarrow> string \<Rightarrow> int \<Rightarrow> knowledge_domain option \<Rightarrow> string \<Rightarrow> document_chunk list \<Rightarrow>
     pyexn + retrieval_result" where
  "retrieve parse now query top_k domain tenant chunks =
     bindE (candidates parse now domain tenant chunks) (\<lambda>cands.
       let scored = sort_key (\<lambda>c. - fin_val (score (terms query) c)) cands in
       Inr \<lparr>rv_query = query, rv_chunks = slice_to top_k scored, rv_total_hits = length cands\<rparr>)"

definition get_citations ::
    "(string \<Rightarrow> iso_time) \<Rightarrow> timestamp \<Rightarrow> string \<Rightarrow> int \<Rightarrow> document_chunk list \<Rightarrow> pyexn + citation list" where
  "get_citations parse now query top_k chunks =
     bindE (retrieve parse now query top_k None ''default'' chunks) (\<lambda>r. Inr (citations r))"

section \<open>Lemmas\<close>

lemma candidates_set:
  assumes "candidates parse now domain tenant cs = Inr ys"
  shows "ys = filter (\<lambda>c. in_scope domain tenant c \<and> is_effective parse now c = Inr True) cs"
  using assms by (induction cs arbitrary: ys) (auto simp: bindE_Inr split: if_splits)

text \<open>Every returned chunk scores at least as high as every candidate that was left out.\<close>

lemma sorted_take_best:
  fixes f :: "'a \<Rightarrow> 'k::linorder"
  assumes "x \<in> set (take n (sort_key f xs))" "y \<in> set (drop n (sort_key f xs))"
  shows "f x \<le> f y"
proof -
  let ?ys = "sort_key f xs"
  have "sorted (map f (take n ?ys @ drop n ?ys))" by simp
  then have "\<forall>a \<in> set (take n ?ys). \<forall>b \<in> set (drop n ?ys). f a \<le> f b"
    by (simp add: sorted_append del: append_take_drop_id)
  with assms show ?thesis by blast
qed

lemma retrieve_chunks:
  assumes "retrieve parse now query top_k domain tenant chunks = Inr r" "0 \<le> top_k"
  obtains ys where "candidates parse now domain tenant chunks = Inr ys"
    "rv_chunks r = take (nat top_k) (sort_key (\<lambda>c. - fin_val (score (terms query) c)) ys)" "rv_total_hits r = length ys"
  using assms by (auto simp: retrieve_def bindE_Inr slice_to_def Let_def)

lemma retrieve_best:
  assumes "retrieve parse now query top_k domain tenant chunks = Inr r" "0 \<le> top_k"
  shows "length (rv_chunks r) = min (nat top_k) (rv_total_hits r)"
    and "set (rv_chunks r) \<subseteq> {c \<in> set chunks. in_scope domain tenant c \<and> is_effective parse now c = Inr True}"
    and "c \<in> set chunks \<Longrightarrow> in_scope domain tenant c \<Longrightarrow> is_effective parse now c = Inr True \<Longrightarrow> c \<notin> set (rv_chunks r) \<Longrightarrow>
      d \<in> set (rv_chunks r) \<Longrightarrow> fin_val (score (terms query) c) \<le> fin_val (score (terms query) d)"
proof -
  obtain ys where ys: "candidates parse now domain tenant chunks = Inr ys"
    "rv_chunks r = take (nat top_k) (sort_key (\<lambda>c. - fin_val (score (terms query) c)) ys)" "rv_total_hits r = length ys"
    using retrieve_chunks [OF assms] .
  note cs = candidates_set [OF ys(1)]
  let ?s = "sort_key (\<lambda>c. - fin_val (score (terms query) c)) ys"
  show "length (rv_chunks r) = min (nat top_k) (rv_total_hits r)" by (simp add: ys(2,3) min.commute)
  have "set (rv_chunks r) \<subseteq> set ?s" unfolding ys(2) by (rule set_take_subset)
  then show "set (rv_chunks r) \<subseteq> {c \<in> set chunks. in_scope domain tenant c \<and> is_effective parse now c = Inr True}"
    by (auto simp: cs)
  show "fin_val (score (terms query) c) \<le> fin_val (score (terms query) d)"
    if "c \<in> set chunks" "in_scope domain tenant c" "is_effective parse now c = Inr True" "c \<notin> set (rv_chunks r)"
      "d \<in> set (rv_chunks r)"
  proof -
    have "c \<in> set ?s" using that(1-3) by (simp add: cs)
    then have "c \<in> set (take (nat top_k) ?s) \<union> set (drop (nat top_k) ?s)"
      by (metis append_take_drop_id set_append)
    with that(4) have "c \<in> set (drop (nat top_k) ?s)" by (simp add: ys(2))
    with that(5) have "- fin_val (score (terms query) d) \<le> - fin_val (score (terms query) c)"
      unfolding ys(2) by (rule sorted_take_best)
    then show ?thesis by simp
  qed
qed

text \<open>The citations are those of the retrieved chunks, in their order, and at most \<open>top_k\<close>.\<close>

lemma get_citations_result:
  assumes "get_citations parse now query top_k chunks = Inr cs" "0 \<le> top_k"
  obtains r where "retrieve parse now query top_k None ''default'' chunks = Inr r" "length cs = length (rv_chunks r)"
    "map ct_chunk_id cs = map dc_chunk_id (rv_chunks r)" "int (length cs) \<le> top_k"
  using assms
  by (auto simp: get_citations_def retrieve_def citations_def slice_to_def bindE_def Let_def split: sum.splits)

end
