(* ===== verification/Security.thy ===== *)
theory Security
  imports Json
begin

text \<open>
  Identity and access control: \<open>security/context.py\<close>, \<open>auth_middleware.py\<close>, \<open>iam.py\<close> and
  \<open>security/authorization.py\<close>. Headers are an association list under lower-case names, which is
  how Starlette compares them. Token verification, which the middleware does not
  call, is in the theory \<open>Oidc\<close>.
\<close>

section \<open>The trusted request context\<close>

record trusted_request_context =
  tx_subject_id :: string
  tx_tenant_id :: string
  tx_roles :: "string set"
  tx_scopes :: "string set"
  tx_account_ids :: "string set"
  tx_auth_session_id :: string
  tx_token_id :: string
  tx_issuer :: string
  tx_request_id :: string
  tx_correlation_id :: string
  tx_source :: string

definition mk_context :: "string \<Rightarrow> string \<Rightarrow> trusted_request_context" where
  "mk_context subject source = \<lparr>tx_subject_id = subject, tx_tenant_id = ''default'', tx_roles = {},
     tx_scopes = {}, tx_account_ids = {}, tx_auth_session_id = [], tx_token_id = [], tx_issuer = [],
     tx_request_id = [], tx_correlation_id = [], tx_source = source\<rparr>"

definition ANONYMOUS_CONTEXT :: trusted_request_context where
  "ANONYMOUS_CONTEXT = mk_context ''anonymous'' ''none''"

definition has_role :: "trusted_request_context \<Rightarrow> string \<Rightarrow> bool" where
  "has_role c role = (role \<in> tx_roles c)"

definition can_access_account :: "trusted_request_context \<Rightarrow> string \<Rightarrow> bool" where
  "can_access_account c acc = (if tx_account_ids c = {} then True else acc \<in> tx_account_ids c)"

definition is_same_tenant :: "trusted_request_context \<Rightarrow> string \<Rightarrow> bool" where
  "is_same_tenant c other = (tx_tenant_id c = other)"

definition to_injection_dict :: "trusted_request_context \<Rightarrow> kwargs" where
  "to_injection_dict c = [(''user_id'', JStr (tx_subject_id c)), (''tenant_id'', JStr (tx_tenant_id c))]"

section \<open>The middleware\<close>

type_synonym headers = "(string \<times> string) list"

text \<open>\<open>s.split(",")\<close>.\<close>

fun split_char :: "char \<Rightarrow> string \<Rightarrow> string \<Rightarrow> string list" where
  "split_char sep acc [] = [rev acc]"
| "split_char sep acc (c # s) =
     (if c = sep then rev acc # split_char sep [] s else split_char sep (c # acc) s)"

definition resolve_development :: "string \<Rightarrow> headers \<Rightarrow> trusted_request_context" where
  "resolve_development correlation_id hs =
     (mk_context (dict_get_or hs ''x-user-id'' ''default'') ''development-header'')
       \<lparr>tx_tenant_id := dict_get_or hs ''x-tenant-id'' ''default'',
        tx_roles := set (split_char CHR '','' [] (dict_get_or hs ''x-user-roles'' ''customer'')),
        tx_auth_session_id := dict_get_or hs ''x-session-id'' [],
        tx_request_id := correlation_id\<rparr>"

definition resolve_production :: "headers \<Rightarrow> trusted_request_context" where
  "resolve_production hs =
     (if \<not> starts_with (dict_get_or hs ''authorization'' []) ''Bearer '' then ANONYMOUS_CONTEXT
      else mk_context ''authenticated-user'' ''oidc'')"

definition middleware_context :: "bool \<Rightarrow> string \<Rightarrow> headers \<Rightarrow> trusted_request_context" where
  "middleware_context production correlation_id hs =
     (if production then resolve_production hs else resolve_development correlation_id hs)"

definition get_trusted_context :: "trusted_request_context option \<Rightarrow> trusted_request_context" where
  "get_trusted_context state = (case state of None \<Rightarrow> ANONYMOUS_CONTEXT | Some c \<Rightarrow> c)"

section \<open>Roles and permissions\<close>

datatype role =
    CUSTOMER | BANKING_OFFICER | APPROVER | COMPLIANCE_OFFICER | ADMIN | AUDITOR | SYSTEM

fun role_value :: "role \<Rightarrow> string" where
  "role_value CUSTOMER = ''customer''"
| "role_value BANKING_OFFICER = ''banking_officer''"
| "role_value APPROVER = ''approver''"
| "role_value COMPLIANCE_OFFICER = ''compliance_officer''"
| "role_value ADMIN = ''admin''"
| "role_value AUDITOR = ''auditor''"
| "role_value SYSTEM = ''system''"

definition all_roles :: "role list" where
  "all_roles = [CUSTOMER, BANKING_OFFICER, APPROVER, COMPLIANCE_OFFICER, ADMIN, AUDITOR, SYSTEM]"

datatype permission =
    ACCOUNT_READ | ACCOUNT_READ_OWN | P_TRANSFER_CREATE | P_TRANSFER_SUBMIT | P_TRANSFER_CANCEL
  | TRANSFER_READ | BENEFICIARY_READ | AUDIT_READ | USER_MANAGE | REPORT_SUSPICIOUS
  | APPROVE_LOW_RISK | APPROVE_HIGH_RISK | APPROVE_CRITICAL

fun permission_value :: "permission \<Rightarrow> string" where
  "permission_value ACCOUNT_READ = ''account:read''"
| "permission_value ACCOUNT_READ_OWN = ''account:read_own''"
| "permission_value P_TRANSFER_CREATE = ''transfer:create''"
| "permission_value P_TRANSFER_SUBMIT = ''transfer:submit''"
| "permission_value P_TRANSFER_CANCEL = ''transfer:cancel''"
| "permission_value TRANSFER_READ = ''transfer:read''"
| "permission_value BENEFICIARY_READ = ''beneficiary:read''"
| "permission_value AUDIT_READ = ''audit:read''"
| "permission_value USER_MANAGE = ''user:manage''"
| "permission_value REPORT_SUSPICIOUS = ''report:suspicious''"
| "permission_value APPROVE_LOW_RISK = ''approve:low_risk''"
| "permission_value APPROVE_HIGH_RISK = ''approve:high_risk''"
| "permission_value APPROVE_CRITICAL = ''approve:critical''"

definition all_permissions :: "permission list" where
  "all_permissions = [ACCOUNT_READ, ACCOUNT_READ_OWN, P_TRANSFER_CREATE, P_TRANSFER_SUBMIT, P_TRANSFER_CANCEL,
     TRANSFER_READ, BENEFICIARY_READ, AUDIT_READ, USER_MANAGE, REPORT_SUSPICIOUS, APPROVE_LOW_RISK,
     APPROVE_HIGH_RISK, APPROVE_CRITICAL]"

fun ROLE_PERMISSIONS :: "role \<Rightarrow> permission list" where
  "ROLE_PERMISSIONS CUSTOMER = [ACCOUNT_READ_OWN, P_TRANSFER_CREATE, P_TRANSFER_CANCEL, TRANSFER_READ,
     BENEFICIARY_READ, REPORT_SUSPICIOUS]"
| "ROLE_PERMISSIONS BANKING_OFFICER = [ACCOUNT_READ, P_TRANSFER_CREATE, P_TRANSFER_SUBMIT, P_TRANSFER_CANCEL,
     TRANSFER_READ, BENEFICIARY_READ, APPROVE_LOW_RISK, REPORT_SUSPICIOUS]"
| "ROLE_PERMISSIONS APPROVER = [ACCOUNT_READ, TRANSFER_READ, APPROVE_LOW_RISK, APPROVE_HIGH_RISK, APPROVE_CRITICAL]"
| "ROLE_PERMISSIONS COMPLIANCE_OFFICER = [ACCOUNT_READ, TRANSFER_READ, AUDIT_READ, REPORT_SUSPICIOUS, APPROVE_CRITICAL]"
| "ROLE_PERMISSIONS ADMIN = [ACCOUNT_READ, TRANSFER_READ, AUDIT_READ, USER_MANAGE]"
| "ROLE_PERMISSIONS AUDITOR = [AUDIT_READ]"
| "ROLE_PERMISSIONS SYSTEM = all_permissions"

definition has_permission :: "role list \<Rightarrow> permission \<Rightarrow> bool" where
  "has_permission roles p = list_ex (\<lambda>r. p \<in> set (ROLE_PERMISSIONS r)) roles"

record approval_requirement =
  aq_required_count :: int
  aq_distinct_from_requester :: bool
  aq_required_roles :: "role set"
  aq_require_different_roles :: bool
  aq_ttl_minutes :: int

section \<open>Authorization policies\<close>

record resource_attributes =
  ra_resource_type :: string
  ra_resource_id :: string
  ra_tenant_id :: string
  ra_owner_subject_id :: string
  ra_risk_level :: string
  ra_side_effect :: bool

record authz_decision =
  az_allowed :: bool
  az_reason :: string
  az_error_code :: string

definition az_deny :: "string \<Rightarrow> string \<Rightarrow> authz_decision" where
  "az_deny reason code = \<lparr>az_allowed = False, az_reason = reason, az_error_code = code\<rparr>"

definition az_allow :: "string \<Rightarrow> authz_decision" where
  "az_allow reason = \<lparr>az_allowed = True, az_reason = reason, az_error_code = []\<rparr>"

type_synonym authz_policy = "trusted_request_context \<Rightarrow> resource_attributes \<Rightarrow> string \<Rightarrow> authz_decision"

definition tenant_scoped_policy :: authz_policy where
  "tenant_scoped_policy c r action =
     (if ra_tenant_id r \<noteq> [] \<and> tx_tenant_id c \<noteq> ra_tenant_id r
      then az_deny ''Cross-tenant access denied'' ''CROSS_TENANT_DENIED''
      else if ra_resource_type r = ''account'' \<and> ra_owner_subject_id r \<noteq> [] \<and>
        tx_subject_id c \<noteq> ra_owner_subject_id r \<and> ''banking_officer'' \<notin> tx_roles c
      then az_deny ''Account access denied'' ''ACCOUNT_ACCESS_DENIED''
      else if ra_risk_level r = ''critical'' \<and> ''approver'' \<notin> tx_roles c
      then az_deny ''Critical operation requires approver role'' ''INSUFFICIENT_ROLE''
      else az_allow (''Access granted to '' @ tx_subject_id c))"

definition action_to_permission :: "string \<Rightarrow> permission option" where
  "action_to_permission action = map_of
     [(''read_account'', ACCOUNT_READ), (''read_own_account'', ACCOUNT_READ_OWN),
      (''create_transfer'', P_TRANSFER_CREATE), (''submit_transfer'', P_TRANSFER_SUBMIT),
      (''cancel_transfer'', P_TRANSFER_CANCEL), (''read_transfer'', TRANSFER_READ),
      (''read_beneficiary'', BENEFICIARY_READ), (''audit_read'', AUDIT_READ),
      (''report_suspicious'', REPORT_SUSPICIOUS), (''approve_low_risk'', APPROVE_LOW_RISK),
      (''approve_high_risk'', APPROVE_HIGH_RISK), (''approve_critical'', APPROVE_CRITICAL)] action"

definition valid_roles :: "trusted_request_context \<Rightarrow> role list" where
  "valid_roles c = filter (\<lambda>r. role_value r \<in> tx_roles c) all_roles"

definition rbac_policy :: authz_policy where
  "rbac_policy c r action =
     (if valid_roles c = [] then az_deny ''No valid roles'' ''NO_ROLES''
      else (case action_to_permission action of
          None \<Rightarrow> az_deny (''Unknown action: '' @ action) ''UNKNOWN_ACTION''
        | Some p \<Rightarrow>
            if has_permission (valid_roles c) p
            then az_allow (''Permission '' @ permission_value p @ '' granted'')
            else az_deny (''Missing permission: '' @ permission_value p) ''INSUFFICIENT_PERMISSION''))"

fun composite_policy :: "authz_policy list \<Rightarrow> authz_policy" where
  "composite_policy [] c r action = az_allow ''All policies passed''"
| "composite_policy (p # ps) c r action =
     (if \<not> az_allowed (p c r action) then p c r action else composite_policy ps c r action)"

section \<open>Lemmas\<close>

lemma az_simps [simp]: "\<not> az_allowed (az_deny x y)" "az_allowed (az_allow x)"
  by (simp_all add: az_deny_def az_allow_def)

lemma composite_allowed: "az_allowed (composite_policy ps c r a) \<longleftrightarrow> (\<forall>p \<in> set ps. az_allowed (p c r a))"
  by (induction ps) auto

lemma tenant_scoped_allowed:
  "az_allowed (tenant_scoped_policy c r a) \<longleftrightarrow>
     (ra_tenant_id r \<in> {[], tx_tenant_id c}) \<and>
     (ra_resource_type r = ''account'' \<longrightarrow>
        ra_owner_subject_id r \<in> {[], tx_subject_id c} \<or> has_role c ''banking_officer'') \<and>
     (ra_risk_level r = ''critical'' \<longrightarrow> has_role c ''approver'')"
  by (auto simp: tenant_scoped_policy_def has_role_def)

lemma all_roles_complete: "r \<in> set all_roles"
  by (cases r) (simp_all add: all_roles_def)

lemma rbac_allowed:
  "az_allowed (rbac_policy c r a) \<longleftrightarrow>
     (\<exists>p role. action_to_permission a = Some p \<and> has_role c (role_value role) \<and> p \<in> set (ROLE_PERMISSIONS role))"
  using all_roles_complete
  by (auto simp: rbac_policy_def valid_roles_def has_permission_def has_role_def list_ex_iff filter_empty_conv
      split: option.splits)

text \<open>Duties are separated: no role but SYSTEM both submits transfers and approves critical operations.\<close>

lemma separation_of_duties:
  "P_TRANSFER_SUBMIT \<in> set (ROLE_PERMISSIONS r) \<Longrightarrow> APPROVE_CRITICAL \<in> set (ROLE_PERMISSIONS r) \<Longrightarrow> r = SYSTEM"
  by (cases r) simp_all

section \<open>Properties\<close>

text \<open>
  Access under the tenant policy followed by the role policy is granted exactly when the
  resource is of the subject's tenant (or carries none), an owned account is the subject's own
  or the subject is a banking officer, a critical resource meets an approver, and one of the
  subject's roles grants the permission of the action.
\<close>

theorem access_granted_iff:
  "az_allowed (composite_policy [tenant_scoped_policy, rbac_policy] c r a) =
    (ra_tenant_id r \<in> {[], tx_tenant_id c} \<and>
     (if ra_resource_type r = ''account''
      then ra_owner_subject_id r \<in> {[], tx_subject_id c} \<or> has_role c ''banking_officer'' else True) \<and>
     (if ra_risk_level r = ''critical'' then has_role c ''approver'' else True) \<and>
     (\<exists>p role. action_to_permission a = Some p \<and> has_role c (role_value role) \<and> p \<in> set (ROLE_PERMISSIONS role)))"
  by (simp add: composite_allowed tenant_scoped_allowed rbac_allowed)

text \<open>The predicates of a context against the tenant policy: what it allows is of the subject's tenant,
  unless the resource names none. A context without a list of accounts reaches every account.\<close>

lemma allowed_is_same_tenant:
  "az_allowed (tenant_scoped_policy c r a) \<Longrightarrow> ra_tenant_id r = [] \<or> is_same_tenant c (ra_tenant_id r)"
  by (auto simp: tenant_scoped_allowed is_same_tenant_def)

lemma no_account_list_is_every_account: "(\<forall>a. can_access_account c a) \<longleftrightarrow> tx_account_ids c = {} \<or> tx_account_ids c = UNIV"
  by (auto simp: can_access_account_def)

lemma middleware_modes:
  "tx_source (middleware_context True cid hs) \<noteq> ''development-header''"
  "tx_source (middleware_context False cid hs) = ''development-header''"
  by (simp_all add: middleware_context_def resolve_production_def resolve_development_def ANONYMOUS_CONTEXT_def mk_context_def)

end
