(* ===== verification/Hitl_Store.thy ===== *)
theory Hitl_Store
  imports Json
begin

text \<open>
  The repository of human-in-the-loop sessions, \<open>hitl_store.py\<close>, over the table
  \<open>hitl_sessions\<close>: primary key \<open>session_id\<close>, and \<open>idempotency_key\<close> unique when it is not
  NULL. Updates carry the version their caller has read (optimistic concurrency).
\<close>

datatype hitl_status =
  H_PENDING | H_APPROVED | H_REJECTED | H_EXPIRED | H_RESUMED | H_FAILED | H_RECONCILIATION_REQUIRED

record hitl_session =
  hs_session_id :: string
  hs_user_id :: string
  hs_thread_id :: string
  hs_status :: hitl_status
  hs_tool_name :: string
  hs_tool_args :: kwargs
  hs_authorization_decision :: "string option"
  hs_approval_requirement :: "string option"
  hs_idempotency_key :: "string option"
  hs_version :: int
  hs_created_at :: timestamp
  hs_updated_at :: timestamp
  hs_expires_at :: "timestamp option"
  hs_tool_call_id :: string

type_synonym hitl_table = "hitl_session list"

definition hitl_is_terminal :: "hitl_session \<Rightarrow> bool" where
  "hitl_is_terminal s = (hs_status s \<in>
     {H_APPROVED, H_REJECTED, H_EXPIRED, H_FAILED, H_RECONCILIATION_REQUIRED})"

definition hitl_is_expired :: "timestamp \<Rightarrow> hitl_session \<Rightarrow> bool" where
  "hitl_is_expired now s = (case hs_expires_at s of None \<Rightarrow> False | Some x \<Rightarrow> x < now)"

text \<open>The uniqueness constraints; NULL keys do not collide.\<close>

definition hitl_conflict :: "hitl_session \<Rightarrow> hitl_session \<Rightarrow> bool" where
  "hitl_conflict a b = (hs_session_id a = hs_session_id b \<or>
     (hs_idempotency_key a \<noteq> None \<and> hs_idempotency_key a = hs_idempotency_key b))"

definition hitl_insert :: "hitl_session \<Rightarrow> hitl_table \<Rightarrow> hitl_table option" where
  "hitl_insert s t = sql_insert hitl_conflict s t"

definition hitl_get :: "string \<Rightarrow> hitl_table \<Rightarrow> hitl_session option" where
  "hitl_get session_id t = find_row hs_session_id session_id t"

definition is_version_row :: "string \<Rightarrow> int \<Rightarrow> hitl_session \<Rightarrow> bool" where
  "is_version_row session_id v s = (hs_session_id s = session_id \<and> hs_version s = v)"

definition hitl_update_status ::
    "timestamp \<Rightarrow> string \<Rightarrow> hitl_status \<Rightarrow> int \<Rightarrow> hitl_table \<Rightarrow> bool \<times> hitl_table" where
  "hitl_update_status now session_id status expected_version t =
     (let (t', n) = sql_update (is_version_row session_id expected_version)
        (\<lambda>s. s\<lparr>hs_status := status, hs_updated_at := now, hs_version := hs_version s + 1\<rparr>) t
      in (n = 1, t'))"

definition hitl_list_pending :: "string option \<Rightarrow> hitl_table \<Rightarrow> hitl_session list" where
  "hitl_list_pending user_id t =
     (if opt_str user_id \<noteq> [] then filter (\<lambda>s. hs_status s = H_PENDING \<and> Some (hs_user_id s) = user_id) t
      else filter (\<lambda>s. hs_status s = H_PENDING) t)"

definition is_stale_row :: "timestamp \<Rightarrow> hitl_session \<Rightarrow> bool" where
  "is_stale_row now s = (hs_status s = H_PENDING \<and>
     (case hs_expires_at s of None \<Rightarrow> False | Some x \<Rightarrow> x < now))"

definition hitl_expire_stale_sessions :: "timestamp \<Rightarrow> hitl_table \<Rightarrow> nat \<times> hitl_table" where
  "hitl_expire_stale_sessions now t =
     (let (t', n) = sql_update (is_stale_row now) (\<lambda>s. s\<lparr>hs_status := H_EXPIRED, hs_updated_at := now\<rparr>) t
      in (n, t'))"

section \<open>Laws of the statements\<close>

interpretation versioned: compare_and_set hs_session_id sid "is_version_row sid v"
    "\<lambda>s. s\<lparr>hs_status := st, hs_updated_at := now, hs_version := hs_version s + 1\<rparr>" for sid v st now
  by unfold_locales (simp_all add: is_version_row_def)

definition hitl_ok :: "hitl_table \<Rightarrow> bool" where
  "hitl_ok t = (distinct (map hs_session_id t) \<and>
     distinct (filter (\<lambda>k. k \<noteq> None) (map hs_idempotency_key t)))"

lemma insert_some:
  assumes "hitl_insert s t = Some t'"
  shows "t' = t @ [s]" "hitl_get (hs_session_id s) t = None"
    "hs_idempotency_key s \<noteq> None \<Longrightarrow> hs_idempotency_key s \<notin> hs_idempotency_key ` set t"
  using assms by (auto simp: hitl_insert_def sql_insert_def hitl_get_def find_row_None hitl_conflict_def
      list_ex_iff split: if_splits)

lemma insert_ok: "hitl_ok t \<Longrightarrow> hitl_insert s t = Some t' \<Longrightarrow> hitl_ok t'"
  using insert_some [of s t t']
  by (auto simp: hitl_ok_def hitl_get_def find_row_None)

lemma insert_get:
  "hitl_insert s t = Some t' \<Longrightarrow>
     hitl_get sid t' = (if sid = hs_session_id s then Some s else hitl_get sid t)"
  using insert_some [of s t t']
  by (auto simp: hitl_get_def find_row_append table_laws split: option.splits)

lemma update_get:
  "hitl_get k (snd (hitl_update_status now sid st v t)) =
     (if k = sid then map_option (\<lambda>s. if hs_version s = v
        then s\<lparr>hs_status := st, hs_updated_at := now, hs_version := hs_version s + 1\<rparr> else s)
        (hitl_get k t) else hitl_get k t)"
proof (cases "k = sid")
  case True
  then show ?thesis
    using versioned.find_same [where sid = sid and v = v and st = st and now = now and t = t]
    by (cases "find_row hs_session_id sid t")
      (auto simp: hitl_update_status_def hitl_get_def case_prod_beta is_version_row_def dest: find_row_Some)
qed (simp add: hitl_update_status_def hitl_get_def case_prod_beta versioned.find_other)

lemma update_wins:
  assumes "hitl_ok t"
  shows "fst (hitl_update_status now sid st v t) = (\<exists>s. hitl_get sid t = Some s \<and> hs_version s = v)"
  using versioned.rowcount_one [where sid = sid and v = v and st = st and now = now and t = t] assms
  by (auto simp: hitl_update_status_def hitl_ok_def hitl_get_def case_prod_beta is_version_row_def
      dest: find_row_Some)

lemma update_lost:
  assumes "hitl_ok t" "\<not> fst (hitl_update_status now sid st v t)"
  shows "snd (hitl_update_status now sid st v t) = t"
  using versioned.missed [where sid = sid and v = v and st = st and now = now and t = t] assms
  by (simp add: hitl_update_status_def hitl_ok_def case_prod_beta)

lemma update_ok: "hitl_ok t \<Longrightarrow> hitl_ok (snd (hitl_update_status now sid st v t))"
  by (simp add: hitl_ok_def hitl_update_status_def sql_update_def comp_def if_distrib cong: if_cong)

lemma expire_get:
  "hitl_get k (snd (hitl_expire_stale_sessions now t)) =
     map_option (\<lambda>s. if is_stale_row now s then s\<lparr>hs_status := H_EXPIRED, hs_updated_at := now\<rparr> else s) (hitl_get k t)"
  by (simp add: hitl_expire_stale_sessions_def hitl_get_def sql_update_def find_row_map)

lemma expire_ok: "hitl_ok t \<Longrightarrow> hitl_ok (snd (hitl_expire_stale_sessions now t))"
  by (simp add: hitl_ok_def hitl_expire_stale_sessions_def sql_update_def comp_def if_distrib cong: if_cong)

lemmas hitl_get_laws [store_simps] = update_get expire_get

section \<open>Histories of the store\<close>

datatype hitl_call =
    InsertSession hitl_session
  | UpdateStatus timestamp string hitl_status int
  | ExpireStale timestamp

fun hitl_step :: "hitl_call \<Rightarrow> hitl_table \<Rightarrow> bool \<times> hitl_table" where
  "hitl_step (InsertSession s) t = (case hitl_insert s t of None \<Rightarrow> (False, t) | Some t' \<Rightarrow> (True, t'))"
| "hitl_step (UpdateStatus now sid st v) t = hitl_update_status now sid st v t"
| "hitl_step (ExpireStale now) t = (True, snd (hitl_expire_stale_sessions now t))"

text \<open>A session's position relative to a version \<open>v\<close>: before, at, or past it.\<close>

definition version_rank :: "string \<Rightarrow> int \<Rightarrow> hitl_table \<Rightarrow> int" where
  "version_rank sid v t = (case hitl_get sid t of
     None \<Rightarrow> 0 | Some s \<Rightarrow> if hs_version s < v then 0 else if hs_version s = v then 1 else 2)"

fun is_update_of :: "string \<Rightarrow> int \<Rightarrow> hitl_call \<Rightarrow> bool" where
  "is_update_of sid v (UpdateStatus now k st w) = (k = sid \<and> w = v)"
| "is_update_of sid v c = False"

interpretation hitl_versions: one_winner hitl_step hitl_ok "version_rank sid v" "is_update_of sid v" 1 for sid v
proof
  fix t c assume ok: "hitl_ok t"
  show "hitl_ok (snd (hitl_step c t))"
    using ok by (cases c) (auto simp: update_ok expire_ok insert_ok split: option.splits)
  show "version_rank sid v t \<le> version_rank sid v (snd (hitl_step c t))"
  proof (cases c)
    case (InsertSession s)
    then show ?thesis
      by (auto simp: version_rank_def insert_get dest: insert_some(2) split: option.splits)
  qed (auto simp: version_rank_def store_simps split: option.splits)
next
  fix t c assume "hitl_ok t" "is_update_of sid v c" "fst (hitl_step c t)"
  then show "version_rank sid v t = 1 \<and> 1 < version_rank sid v (snd (hitl_step c t))"
    by (cases c) (auto simp: update_wins version_rank_def store_simps)
qed

section \<open>Properties\<close>

text \<open>
  C10. Optimistic concurrency: of all the calls of a history that try to update a session
  from the same version, at most one succeeds; one that fails leaves the table untouched.
\<close>

theorem session_version_once:
  assumes "hitl_ok t"
  shows "wins (is_update_of sid v) (fst (run_steps hitl_step cs t)) \<le> 1 \<and>
    (\<not> fst (hitl_update_status now sid st v t) \<longrightarrow> snd (hitl_update_status now sid st v t) = t)"
  using hitl_versions.at_most_one_win [OF assms] update_lost [OF assms] by blast

definition demo_session :: hitl_session where
  "demo_session = \<lparr>hs_session_id = ''s1'', hs_user_id = ''user-alice'', hs_thread_id = ''t1'',
     hs_status = H_PENDING, hs_tool_name = ''submit_transfer'', hs_tool_args = [(''draft_id'', JStr ''D1'')],
     hs_authorization_decision = None, hs_approval_requirement = None, hs_idempotency_key = Some ''k1'',
     hs_version = 1, hs_created_at = 0, hs_updated_at = 0, hs_expires_at = Some 100, hs_tool_call_id = ''c1''\<rparr>"

lemma demo_session_ok: "hitl_ok [demo_session]"
  by (simp add: hitl_ok_def)

theorem session_version_once_witness:
  "wins (is_update_of ''s1'' 1) (fst (run_steps hitl_step
     [UpdateStatus 1 ''s1'' H_APPROVED 1, UpdateStatus 2 ''s1'' H_REJECTED 1] [demo_session])) \<le> 1"
  using session_version_once [OF demo_session_ok, of "''s1''" 1
      "[UpdateStatus 1 ''s1'' H_APPROVED 1, UpdateStatus 2 ''s1'' H_REJECTED 1]"] by blast

text \<open>
  Expiry is invisible to optimistic concurrency: the sweep marks a stale pending session
  EXPIRED without changing its version, so an update prepared before the sweep still wins and
  turns the expired session into an approved one.
\<close>

theorem expired_session_can_be_approved:
  assumes "hitl_ok t" "hitl_get sid t = Some s" "is_stale_row now s"
  defines "t' \<equiv> snd (hitl_expire_stale_sessions now t)"
  shows "map_option hs_status (hitl_get sid t') = Some H_EXPIRED \<and>
    fst (hitl_update_status now' sid H_APPROVED (hs_version s) t') \<and>
    map_option hs_status (hitl_get sid (snd (hitl_update_status now' sid H_APPROVED (hs_version s) t'))) = Some H_APPROVED"
proof -
  have "hitl_ok t'" unfolding t'_def by (rule expire_ok [OF assms(1)])
  then show ?thesis using assms(2,3) by (simp add: update_wins t'_def store_simps)
qed

text \<open>The pending list shows exactly the pending sessions, of one user when one is named; a stored
  pending session is on it, an expired one is not.\<close>

lemma pending_listed:
  "s \<in> set (hitl_list_pending u t) \<longleftrightarrow> s \<in> set t \<and> hs_status s = H_PENDING \<and> (opt_str u = [] \<or> Some (hs_user_id s) = u)"
  by (auto simp: hitl_list_pending_def)

lemma inserted_is_listed:
  assumes "hitl_insert s t = Some t'" "hs_status s = H_PENDING"
  shows "s \<in> set (hitl_list_pending (Some (hs_user_id s)) t')"
  using assms by (auto simp: pending_listed hitl_insert_def sql_insert_def split: if_splits)

end
