(* ===== verification/Grant_Repo.thy ===== *)
theory Grant_Repo
  imports Json
begin

text \<open>
  The durable grants of \<open>grant_repo.py\<close>, over the table \<open>approved_operation_grants\<close> as the
  schema migrations leave it: primary key \<open>session_id\<close>, unique \<open>idempotency_key\<close>, a CHECK on
  \<open>decision\<close>. \<open>sha\<close> is SHA-256 on the canonical JSON text, a parameter.
\<close>

datatype grant_status =
    G_PENDING | G_APPROVED | G_CONSUMING | G_CONSUMED | G_REJECTED | G_EXPIRED | G_FAILED | G_UNKNOWN
  | G_RECONCILIATION_REQUIRED

record grant_record =
  gt_session_id :: string
  gt_requesting_user_id :: string
  gt_approving_actor_id :: string
  gt_thread_id :: string
  gt_run_id :: "string option"
  gt_checkpoint_id :: "string option"
  gt_tool_call_id :: string
  gt_tool_name :: string
  gt_canonical_tool_args :: json
  gt_argument_digest :: string
  gt_idempotency_key :: string
  gt_decision :: string
  gt_status :: grant_status
  gt_created_at :: timestamp
  gt_approved_at :: "timestamp option"
  gt_expires_at :: "timestamp option"
  gt_consuming_at :: "timestamp option"
  gt_consumed_at :: "timestamp option"
  gt_failed_at :: "timestamp option"
  gt_version :: int

type_synonym grant_table = "grant_record list"

definition grant_digest :: "(json \<Rightarrow> string) \<Rightarrow> kwargs \<Rightarrow> string" where
  "grant_digest sha tool_args = sha (canon (JObj tool_args))"

definition grant_conflict :: "grant_record \<Rightarrow> grant_record \<Rightarrow> bool" where
  "grant_conflict a b = (gt_session_id a = gt_session_id b \<or> gt_idempotency_key a = gt_idempotency_key b)"

text \<open>The columns the statement sets; a failed CHECK or uniqueness constraint is \<open>None\<close>.\<close>

definition grant_insert_pending :: "grant_record \<Rightarrow> grant_table \<Rightarrow> grant_table option" where
  "grant_insert_pending g t =
     (if gt_decision g \<in> {''PENDING'', ''approved'', ''rejected''}
      then sql_insert grant_conflict
        (g\<lparr>gt_status := G_PENDING, gt_version := 1, gt_approved_at := None, gt_consuming_at := None,
           gt_consumed_at := None, gt_failed_at := None\<rparr>) t
      else None)"

record consume_request =
  cq_session_id :: string
  cq_user_id :: string
  cq_approving_actor_id :: string
  cq_thread_id :: string
  cq_run_id :: string
  cq_checkpoint_id :: string
  cq_tool_call_id :: string
  cq_tool_name :: string
  cq_tool_args :: kwargs
  cq_idempotency_key :: string
  cq_version :: int

definition is_consumable_row ::
    "(json \<Rightarrow> string) \<Rightarrow> timestamp \<Rightarrow> consume_request \<Rightarrow> grant_record \<Rightarrow> bool" where
  "is_consumable_row sha now q g =
     (gt_session_id g = cq_session_id q \<and> gt_status g = G_APPROVED \<and> gt_version g = cq_version q \<and>
      gt_requesting_user_id g = cq_user_id q \<and> gt_thread_id g = cq_thread_id q \<and>
      (gt_approving_actor_id g = cq_approving_actor_id q \<or> gt_approving_actor_id g = [] \<or>
         cq_approving_actor_id q = []) \<and>
      (gt_run_id g = Some (cq_run_id q) \<or> gt_run_id g = None \<or> cq_run_id q = []) \<and>
      (gt_checkpoint_id g = Some (cq_checkpoint_id q) \<or> gt_checkpoint_id g = None \<or> cq_checkpoint_id q = []) \<and>
      gt_tool_call_id g = cq_tool_call_id q \<and> gt_tool_name g = cq_tool_name q \<and>
      gt_argument_digest g = grant_digest sha (cq_tool_args q) \<and>
      gt_idempotency_key g = cq_idempotency_key q \<and>
      (case gt_expires_at g of None \<Rightarrow> True | Some x \<Rightarrow> now < x))"

definition grant_atomic_consume ::
    "(json \<Rightarrow> string) \<Rightarrow> timestamp \<Rightarrow> consume_request \<Rightarrow> grant_table \<Rightarrow> grant_record option \<times> grant_table" where
  "grant_atomic_consume sha now q t =
     (let (t', n) = sql_update (is_consumable_row sha now q)
        (\<lambda>g. g\<lparr>gt_status := G_CONSUMING, gt_consuming_at := Some now\<rparr>) t
      in (if n = 0 then None
          else List.find (\<lambda>g. gt_session_id g = cq_session_id q \<and> gt_status g = G_CONSUMING) t', t'))"

definition is_status_row :: "string \<Rightarrow> grant_status set \<Rightarrow> grant_record \<Rightarrow> bool" where
  "is_status_row session_id sts g = (gt_session_id g = session_id \<and> gt_status g \<in> sts)"

definition grant_mark_consumed :: "timestamp \<Rightarrow> string \<Rightarrow> grant_table \<Rightarrow> grant_table" where
  "grant_mark_consumed now session_id t = fst (sql_update (is_status_row session_id {G_CONSUMING})
     (\<lambda>g. g\<lparr>gt_status := G_CONSUMED, gt_consumed_at := Some now\<rparr>) t)"

definition grant_mark_failed :: "timestamp \<Rightarrow> string \<Rightarrow> grant_table \<Rightarrow> grant_table" where
  "grant_mark_failed now session_id t = fst (sql_update (is_status_row session_id {G_CONSUMING})
     (\<lambda>g. g\<lparr>gt_status := G_FAILED, gt_failed_at := Some now\<rparr>) t)"

definition grant_mark_rejected :: "timestamp \<Rightarrow> string \<Rightarrow> grant_table \<Rightarrow> grant_table" where
  "grant_mark_rejected now session_id t = fst (sql_update (is_status_row session_id {G_PENDING, G_APPROVED})
     (\<lambda>g. g\<lparr>gt_status := G_REJECTED, gt_failed_at := Some now\<rparr>) t)"

definition grant_mark_reconciliation_required :: "timestamp \<Rightarrow> string \<Rightarrow> grant_table \<Rightarrow> grant_table" where
  "grant_mark_reconciliation_required now session_id t = fst (sql_update (is_status_row session_id {G_PENDING})
     (\<lambda>g. g\<lparr>gt_status := G_RECONCILIATION_REQUIRED, gt_failed_at := Some now\<rparr>) t)"

definition grant_mark_unknown :: "timestamp \<Rightarrow> string \<Rightarrow> grant_table \<Rightarrow> grant_table" where
  "grant_mark_unknown now session_id t = fst (sql_update (is_status_row session_id {G_CONSUMING})
     (\<lambda>g. g\<lparr>gt_status := G_UNKNOWN, gt_failed_at := Some now\<rparr>) t)"

definition is_pending_version_row :: "string \<Rightarrow> int \<Rightarrow> grant_record \<Rightarrow> bool" where
  "is_pending_version_row session_id v g =
     (gt_session_id g = session_id \<and> gt_status g = G_PENDING \<and> gt_version g = v)"

definition grant_approve_pending ::
    "timestamp \<Rightarrow> string \<Rightarrow> string \<Rightarrow> int \<Rightarrow> grant_table \<Rightarrow> bool \<times> grant_table" where
  "grant_approve_pending now session_id approving_actor_id expected_version t =
     (let (t', n) = sql_update (is_pending_version_row session_id expected_version)
        (\<lambda>g. g\<lparr>gt_status := G_APPROVED, gt_approving_actor_id := approving_actor_id, gt_approved_at := Some now\<rparr>) t
      in (n = 1, t'))"

definition grant_get_by_session :: "string \<Rightarrow> grant_table \<Rightarrow> grant_record option" where
  "grant_get_by_session session_id t = find_row gt_session_id session_id t"

section \<open>Laws of the statements\<close>

definition grants_ok :: "grant_table \<Rightarrow> bool" where
  "grants_ok t = (distinct (map gt_session_id t) \<and> distinct (map gt_idempotency_key t))"

interpretation consuming: compare_and_set gt_session_id "cq_session_id q" "is_consumable_row sha now q"
    "\<lambda>g. g\<lparr>gt_status := G_CONSUMING, gt_consuming_at := Some now\<rparr>" for q sha now
  by unfold_locales (simp_all add: is_consumable_row_def)

interpretation approving: compare_and_set gt_session_id sid "is_pending_version_row sid v"
    "\<lambda>g. g\<lparr>gt_status := G_APPROVED, gt_approving_actor_id := actor, gt_approved_at := Some now\<rparr>" for sid v actor now
  by unfold_locales (simp_all add: is_pending_version_row_def)

text \<open>All the unconditional-looking marks are guarded by the row's status and keep its keys.\<close>

definition grant_settle ::
    "string \<Rightarrow> grant_status set \<Rightarrow> (grant_record \<Rightarrow> grant_record) \<Rightarrow> grant_table \<Rightarrow> grant_table" where
  "grant_settle sid sts f t = fst (sql_update (is_status_row sid sts) f t)"

lemma grant_settle_get:
  assumes "\<And>g. gt_session_id (f g) = gt_session_id g"
  shows "grant_get_by_session k (grant_settle sid sts f t) =
    (if k = sid then map_option (\<lambda>g. if gt_status g \<in> sts then f g else g) (grant_get_by_session k t)
     else grant_get_by_session k t)"
proof -
  have "grant_get_by_session k (grant_settle sid sts f t) =
      map_option (\<lambda>g. if is_status_row sid sts g then f g else g) (grant_get_by_session k t)"
    by (simp add: grant_settle_def grant_get_by_session_def sql_update_def find_row_map assms)
  then show ?thesis
    by (cases "grant_get_by_session k t")
      (auto simp: is_status_row_def grant_get_by_session_def dest: find_row_Some)
qed

lemma grant_settle_ok:
  assumes "\<And>g. gt_session_id (f g) = gt_session_id g" "\<And>g. gt_idempotency_key (f g) = gt_idempotency_key g"
  shows "grants_ok (grant_settle sid sts f t) = grants_ok t"
  by (simp add: grants_ok_def grant_settle_def sql_update_def comp_def if_distrib assms cong: if_cong)

lemma grant_marks:
  "grant_mark_consumed now sid t =
     grant_settle sid {G_CONSUMING} (\<lambda>g. g\<lparr>gt_status := G_CONSUMED, gt_consumed_at := Some now\<rparr>) t"
  "grant_mark_failed now sid t =
     grant_settle sid {G_CONSUMING} (\<lambda>g. g\<lparr>gt_status := G_FAILED, gt_failed_at := Some now\<rparr>) t"
  "grant_mark_rejected now sid t =
     grant_settle sid {G_PENDING, G_APPROVED} (\<lambda>g. g\<lparr>gt_status := G_REJECTED, gt_failed_at := Some now\<rparr>) t"
  "grant_mark_reconciliation_required now sid t =
     grant_settle sid {G_PENDING} (\<lambda>g. g\<lparr>gt_status := G_RECONCILIATION_REQUIRED, gt_failed_at := Some now\<rparr>) t"
  "grant_mark_unknown now sid t =
     grant_settle sid {G_CONSUMING} (\<lambda>g. g\<lparr>gt_status := G_UNKNOWN, gt_failed_at := Some now\<rparr>) t"
  by (simp_all add: grant_settle_def grant_mark_consumed_def grant_mark_failed_def grant_mark_rejected_def
      grant_mark_reconciliation_required_def grant_mark_unknown_def)

lemma grant_insert_some:
  assumes "grant_insert_pending g t = Some t'"
  obtains g' where "t' = t @ [g']" "gt_session_id g' = gt_session_id g" "gt_idempotency_key g' = gt_idempotency_key g"
    "gt_status g' = G_PENDING" "gt_version g' = 1" "gt_requesting_user_id g' = gt_requesting_user_id g"
    "gt_argument_digest g' = gt_argument_digest g" "gt_tool_name g' = gt_tool_name g"
    "grant_get_by_session (gt_session_id g) t = None" "gt_idempotency_key g \<notin> gt_idempotency_key ` set t"
proof -
  let ?g = "g\<lparr>gt_status := G_PENDING, gt_version := 1, gt_approved_at := None, gt_consuming_at := None,
    gt_consumed_at := None, gt_failed_at := None\<rparr>"
  from assms have "t' = t @ [?g]" "\<not> list_ex (grant_conflict ?g) t"
    by (auto simp: grant_insert_pending_def sql_insert_def split: if_splits)
  then show ?thesis
    by (intro that [of ?g])
      (auto simp: list_ex_iff grant_conflict_def grant_get_by_session_def find_row_None)
qed

lemma grant_insert_ok: "grants_ok t \<Longrightarrow> grant_insert_pending g t = Some t' \<Longrightarrow> grants_ok t'"
  by (erule grant_insert_some) (auto simp: grants_ok_def grant_get_by_session_def find_row_None)

lemma grant_insert_get:
  assumes "grant_insert_pending g t = Some t'"
  shows "\<exists>g'. gt_status g' = G_PENDING \<and> grant_get_by_session k t' =
    (if k = gt_session_id g then Some g' else grant_get_by_session k t)"
  using assms
proof (rule grant_insert_some)
  fix g' assume "t' = t @ [g']" "gt_session_id g' = gt_session_id g" "gt_status g' = G_PENDING"
    "grant_get_by_session (gt_session_id g) t = None"
  then show ?thesis
    by (intro exI [of _ g'])
      (auto simp: grant_get_by_session_def find_row_append table_laws split: option.splits)
qed

lemma grant_approve_get:
  "grant_get_by_session k (snd (grant_approve_pending now sid actor v t)) =
     (if k = sid then map_option (\<lambda>g. if gt_status g = G_PENDING \<and> gt_version g = v
        then g\<lparr>gt_status := G_APPROVED, gt_approving_actor_id := actor, gt_approved_at := Some now\<rparr> else g)
        (grant_get_by_session k t) else grant_get_by_session k t)"
proof (cases "k = sid")
  case True
  then show ?thesis
    using approving.find_same [where sid = sid and v = v and actor = actor and now = now and t = t]
    by (cases "find_row gt_session_id sid t")
      (auto simp: grant_approve_pending_def grant_get_by_session_def case_prod_beta is_pending_version_row_def
        dest: find_row_Some)
qed (simp add: grant_approve_pending_def grant_get_by_session_def case_prod_beta approving.find_other)

lemma grant_approve_wins:
  assumes "grants_ok t"
  shows "fst (grant_approve_pending now sid actor v t) =
    (\<exists>g. grant_get_by_session sid t = Some g \<and> gt_status g = G_PENDING \<and> gt_version g = v)"
  using approving.rowcount_one [where sid = sid and v = v and actor = actor and now = now and t = t] assms
  by (auto simp: grant_approve_pending_def grants_ok_def grant_get_by_session_def case_prod_beta
      is_pending_version_row_def dest: find_row_Some)

lemma grant_approve_ok: "grants_ok t \<Longrightarrow> grants_ok (snd (grant_approve_pending now sid actor v t))"
  by (simp add: grants_ok_def grant_approve_pending_def sql_update_def comp_def if_distrib cong: if_cong)

lemma consume_get:
  "grant_get_by_session k (snd (grant_atomic_consume sha now q t)) =
     map_option (\<lambda>g. if is_consumable_row sha now q g
       then g\<lparr>gt_status := G_CONSUMING, gt_consuming_at := Some now\<rparr> else g) (grant_get_by_session k t)"
  by (simp add: grant_atomic_consume_def grant_get_by_session_def case_prod_beta sql_update_def find_row_map)

lemma consume_ok: "grants_ok t \<Longrightarrow> grants_ok (snd (grant_atomic_consume sha now q t))"
  by (simp add: grants_ok_def grant_atomic_consume_def case_prod_beta sql_update_def comp_def if_distrib cong: if_cong)

lemma find_distinct:
  "distinct (map key t) \<Longrightarrow> find_row key k t = Some r \<Longrightarrow>
     List.find (\<lambda>x. key x = k \<and> P x) t = (if P r then Some r else None)"
proof (induction t)
  case (Cons a t)
  show ?case
  proof (cases "key a = k")
    case True
    then have "List.find (\<lambda>x. key x = k \<and> P x) t = None"
      using Cons.prems(1) by (auto simp: find_None_iff) (metis imageI)
    with True Cons.prems(2) show ?thesis by (simp add: find_row_def)
  qed (use Cons in \<open>simp add: find_row_def\<close>)
qed (simp add: find_row_def)

lemma consume_result:
  assumes "grants_ok t"
  shows "fst (grant_atomic_consume sha now q t) = Some g' \<longleftrightarrow>
    (\<exists>g. grant_get_by_session (cq_session_id q) t = Some g \<and> is_consumable_row sha now q g \<and>
       g' = g\<lparr>gt_status := G_CONSUMING, gt_consuming_at := Some now\<rparr>)"
proof -
  let ?u = "sql_update (is_consumable_row sha now q) (\<lambda>g. g\<lparr>gt_status := G_CONSUMING, gt_consuming_at := Some now\<rparr>) t"
  from assms have d: "distinct (map gt_session_id t)" by (simp add: grants_ok_def)
  have d': "distinct (map gt_session_id (fst ?u))" using d by (simp add: consuming.keys_kept)
  note rc = consuming.rowcount [where q = q and sha = sha and now = now, OF d]
  show ?thesis
  proof (cases "\<exists>g. grant_get_by_session (cq_session_id q) t = Some g \<and> is_consumable_row sha now q g")
    case True
    then obtain g where g: "find_row gt_session_id (cq_session_id q) t = Some g" "is_consumable_row sha now q g"
      by (auto simp: grant_get_by_session_def)
    then have f: "find_row gt_session_id (cq_session_id q) (fst ?u) =
        Some (g\<lparr>gt_status := G_CONSUMING, gt_consuming_at := Some now\<rparr>)"
      by (simp add: consuming.find_same)
    from rc g find_distinct [OF d' f, of "\<lambda>g. gt_status g = G_CONSUMING"] show ?thesis
      by (auto simp: grant_atomic_consume_def case_prod_beta grant_get_by_session_def)
  next
    case False
    with rc have "snd ?u = 0" by (auto simp: grant_get_by_session_def split: option.splits)
    with False show ?thesis by (auto simp: grant_atomic_consume_def case_prod_beta)
  qed
qed

section \<open>Histories of the repository\<close>

datatype grant_call =
    InsertGrant grant_record
  | ApprovePending timestamp string string int
  | AtomicConsume timestamp consume_request
  | MarkConsumed timestamp string
  | MarkGrantFailed timestamp string
  | MarkRejected timestamp string
  | MarkReconciliation timestamp string
  | MarkGrantUnknown timestamp string

fun grant_step :: "(json \<Rightarrow> string) \<Rightarrow> grant_call \<Rightarrow> grant_table \<Rightarrow> bool \<times> grant_table" where
  "grant_step sha (InsertGrant g) t = (case grant_insert_pending g t of None \<Rightarrow> (False, t) | Some t' \<Rightarrow> (True, t'))"
| "grant_step sha (ApprovePending now sid actor v) t = grant_approve_pending now sid actor v t"
| "grant_step sha (AtomicConsume now q) t =
     (let (r, t') = grant_atomic_consume sha now q t in (r \<noteq> None, t'))"
| "grant_step sha (MarkConsumed now sid) t = (True, grant_mark_consumed now sid t)"
| "grant_step sha (MarkGrantFailed now sid) t = (True, grant_mark_failed now sid t)"
| "grant_step sha (MarkRejected now sid) t = (True, grant_mark_rejected now sid t)"
| "grant_step sha (MarkReconciliation now sid) t = (True, grant_mark_reconciliation_required now sid t)"
| "grant_step sha (MarkGrantUnknown now sid) t = (True, grant_mark_unknown now sid t)"

fun status_rank :: "grant_status \<Rightarrow> int" where
  "status_rank G_PENDING = 1"
| "status_rank G_APPROVED = 2"
| "status_rank G_CONSUMING = 3"
| "status_rank s = 4"

definition grant_rank :: "string \<Rightarrow> grant_table \<Rightarrow> int" where
  "grant_rank sid t = (case grant_get_by_session sid t of None \<Rightarrow> 0 | Some g \<Rightarrow> status_rank (gt_status g))"

fun is_consume_of :: "string \<Rightarrow> grant_call \<Rightarrow> bool" where
  "is_consume_of sid (AtomicConsume now q) = (cq_session_id q = sid)"
| "is_consume_of sid c = False"

fun is_approval_of :: "string \<Rightarrow> grant_call \<Rightarrow> bool" where
  "is_approval_of sid (ApprovePending now k actor v) = (k = sid)"
| "is_approval_of sid c = False"

lemma status_rank_pos: "1 \<le> status_rank s \<and> status_rank s \<le> 4"
  by (cases s) simp_all

interpretation grant_history: monotone_store "grant_step sha" grants_ok "grant_rank sid" for sha sid
proof
  fix t c assume ok: "grants_ok t"
  show "grants_ok (snd (grant_step sha c t))"
    using ok by (cases c) (auto simp: grant_insert_ok grant_approve_ok consume_ok grant_marks grant_settle_ok
        case_prod_beta split: option.splits)
  show "grant_rank sid t \<le> grant_rank sid (snd (grant_step sha c t))"
  proof (cases c)
    case (InsertGrant g)
    then show ?thesis
    proof (cases "grant_insert_pending g t")
      case (Some t')
      have "grant_get_by_session (gt_session_id g) t = None" using Some by (rule grant_insert_some)
      with InsertGrant Some grant_insert_get [OF Some, of sid] show ?thesis
        by (auto simp: grant_rank_def)
    qed simp
  next
    case (ApprovePending now k actor v)
    then show ?thesis by (auto simp: grant_rank_def grant_approve_get split: option.splits)
  next
    case (AtomicConsume now q)
    then show ?thesis
      by (auto simp: grant_rank_def consume_get case_prod_beta is_consumable_row_def split: option.splits)
  qed (auto simp: grant_rank_def grant_marks grant_settle_get split: option.splits)
qed

interpretation grant_consume: one_winner "grant_step sha" grants_ok "grant_rank sid" "is_consume_of sid" 2 for sha sid
proof
  fix t c assume "grants_ok t" "is_consume_of sid c" "fst (grant_step sha c t)"
  then show "grant_rank sid t = 2 \<and> 2 < grant_rank sid (snd (grant_step sha c t))"
    by (cases c) (auto simp: consume_result case_prod_beta grant_rank_def consume_get is_consumable_row_def)
qed

interpretation grant_approval: one_winner "grant_step sha" grants_ok "grant_rank sid" "is_approval_of sid" 1 for sha sid
proof
  fix t c assume "grants_ok t" "is_approval_of sid c" "fst (grant_step sha c t)"
  then show "grant_rank sid t = 1 \<and> 1 < grant_rank sid (snd (grant_step sha c t))"
    by (cases c) (auto simp: grant_approve_wins grant_rank_def grant_approve_get)
qed

section \<open>Properties\<close>

text \<open>
  C3. Single use of a grant: in any history of calls on the repository, interleaved in any
  way, at most one \<open>atomic_consume\<close> of a session and at most one \<open>approve_pending\<close> succeeds.
\<close>

theorem grant_consumed_once:
  assumes "grants_ok t"
  shows "wins (is_consume_of sid) (fst (run_steps (grant_step sha) cs t)) \<le> 1 \<and>
    wins (is_approval_of sid) (fst (run_steps (grant_step sha) cs t)) \<le> 1"
  using grant_consume.at_most_one_win [OF assms] grant_approval.at_most_one_win [OF assms] by blast

definition demo_grant_record :: grant_record where
  "demo_grant_record = \<lparr>gt_session_id = ''s1'', gt_requesting_user_id = ''user-alice'',
     gt_approving_actor_id = ''mgr'', gt_thread_id = ''t1'', gt_run_id = None, gt_checkpoint_id = None,
     gt_tool_call_id = ''c1'', gt_tool_name = ''submit_transfer'', gt_canonical_tool_args = JObj [],
     gt_argument_digest = ''d'', gt_idempotency_key = ''k1'', gt_decision = ''approved'',
     gt_status = G_APPROVED, gt_created_at = 0, gt_approved_at = Some 1, gt_expires_at = Some 100,
     gt_consuming_at = None, gt_consumed_at = None, gt_failed_at = None, gt_version = 1\<rparr>"

definition demo_consume :: consume_request where
  "demo_consume = \<lparr>cq_session_id = ''s1'', cq_user_id = ''user-alice'', cq_approving_actor_id = ''mgr'',
     cq_thread_id = ''t1'', cq_run_id = [], cq_checkpoint_id = [], cq_tool_call_id = ''c1'',
     cq_tool_name = ''submit_transfer'', cq_tool_args = [], cq_idempotency_key = ''k1'', cq_version = 1\<rparr>"

theorem grant_consumed_once_witness:
  "wins (is_consume_of ''s1'') (fst (run_steps (grant_step (\<lambda>j. ''d''))
     [AtomicConsume 5 demo_consume, AtomicConsume 6 demo_consume] [demo_grant_record])) \<le> 1"
  using grant_consumed_once [of "[demo_grant_record]" "''s1''" "\<lambda>j. ''d''"
      "[AtomicConsume 5 demo_consume, AtomicConsume 6 demo_consume]"]
  by (simp add: grants_ok_def)



end
