(* ===== verification/Event_Store.thy ===== *)
theory Event_Store
  imports Json "HOL-Library.Multiset"
begin

text \<open>
  The event log, \<open>persistence.py\<close>: a table with the constraint \<open>UNIQUE(run_id, seq)\<close>, and its
  two queries. An unconnected store (\<open>_conn\<close> is None) raises on every call. Rows of equal
  sort key keep their insertion order.
\<close>

datatype event_kind =
    E_USER_MESSAGE | E_AGENT_MESSAGE | E_TOOL_CALL | E_TOOL_RESULT | E_ERROR | E_CHECKPOINT
  | E_RECONCILIATION_REQUIRED

record agent_event =
  ev_run_id :: string
  ev_seq :: int
  ev_kind :: event_kind
  ev_payload :: kwargs
  ev_timestamp :: timestamp

type_synonym event_table = "agent_event list"
type_synonym event_store = "event_table option"

definition event_connect :: "event_table \<Rightarrow> event_store \<Rightarrow> event_store" where
  "event_connect file s = Some file"

definition event_close :: "event_store \<Rightarrow> event_store" where
  "event_close s = None"

definition event_conflict :: "agent_event \<Rightarrow> agent_event \<Rightarrow> bool" where
  "event_conflict a b = (ev_run_id a = ev_run_id b \<and> ev_seq a = ev_seq b)"

definition not_connected :: pyexn where
  "not_connected = RuntimeError ''SqliteEventStore not connected''"

definition integrity_error :: pyexn where
  "integrity_error = OtherError ''UNIQUE constraint failed: events.run_id, events.seq''"

definition event_insert :: "agent_event \<Rightarrow> event_store \<Rightarrow> (pyexn + unit) \<times> event_store" where
  "event_insert e s = (case s of
     None \<Rightarrow> (Inl not_connected, None)
   | Some t \<Rightarrow> (case sql_insert event_conflict e t of
       None \<Rightarrow> (Inl integrity_error, Some t)
     | Some t' \<Rightarrow> (Inr (), Some t')))"

definition event_query_run :: "string \<Rightarrow> event_store \<Rightarrow> pyexn + agent_event list" where
  "event_query_run run_id s = (case s of
     None \<Rightarrow> Inl not_connected
   | Some t \<Rightarrow> Inr (sort_key ev_seq (filter (\<lambda>e. ev_run_id e = run_id) t)))"

text \<open>\<open>ORDER BY timestamp DESC LIMIT ?\<close>; a negative limit is no limit.\<close>

definition event_query ::
    "string option \<Rightarrow> event_kind option \<Rightarrow> int \<Rightarrow> event_store \<Rightarrow> pyexn + agent_event list" where
  "event_query run_id kind limit s = (case s of
     None \<Rightarrow> Inl not_connected
   | Some t \<Rightarrow>
       (let rows = filter (\<lambda>e. (opt_str run_id = [] \<or> Some (ev_run_id e) = run_id) \<and>
                               (kind = None \<or> Some (ev_kind e) = kind)) t;
            sorted = sort_key (\<lambda>e. - ev_timestamp e) rows
        in Inr (if limit < 0 then sorted else take (nat limit) sorted)))"

section \<open>Lemmas\<close>

definition events_ok :: "event_table \<Rightarrow> bool" where
  "events_ok t = distinct (map (\<lambda>e. (ev_run_id e, ev_seq e)) t)"

lemma event_insert_ok: "events_ok t \<Longrightarrow> event_insert e (Some t) = (r, Some t') \<Longrightarrow> events_ok t'"
  by (auto simp: event_insert_def sql_insert_def events_ok_def list_ex_iff event_conflict_def
      split: if_splits)

fun insert_all :: "agent_event list \<Rightarrow> event_store \<Rightarrow> event_store" where
  "insert_all [] s = s"
| "insert_all (e # es) s = insert_all es (snd (event_insert e s))"

lemma insert_all_ok: "events_ok t \<Longrightarrow> \<exists>t'. insert_all es (Some t) = Some t' \<and> events_ok t'"
proof (induction es arbitrary: t)
  case (Cons e es)
  obtain t1 where t1: "snd (event_insert e (Some t)) = Some t1"
    by (cases "sql_insert event_conflict e t") (auto simp: event_insert_def)
  with Cons.prems have "events_ok t1" by (metis event_insert_ok prod.collapse)
  with Cons.IH t1 show ?case by simp
qed simp

text \<open>The seq numbers of a run are strictly increasing in what \<open>query_run\<close> returns.\<close>

lemma filter_run_distinct:
  "events_ok t \<Longrightarrow> distinct (map ev_seq (filter (\<lambda>e. ev_run_id e = r) t))"
  unfolding events_ok_def distinct_map by (auto simp: inj_on_def)

lemma query_run_strict:
  assumes "events_ok t" "event_query_run r (Some t) = Inr es"
  shows "sorted_wrt (<) (map ev_seq es)"
proof -
  from assms(2) have es: "es = sort_key ev_seq (filter (\<lambda>e. ev_run_id e = r) t)"
    by (simp add: event_query_run_def)
  then have "mset (map ev_seq es) = mset (map ev_seq (filter (\<lambda>e. ev_run_id e = r) t))" by simp
  then have "distinct (map ev_seq es)"
    using filter_run_distinct [OF assms(1)] by (metis mset_eq_imp_distinct_iff)
  moreover have "sorted (map ev_seq es)" by (simp add: es)
  ultimately show ?thesis by (simp add: strict_sorted_iff)
qed

section \<open>Properties\<close>

text \<open>
  C18. Reading back a run: after any sequence of inserts into an empty log, \<open>query_run\<close>
  returns exactly the accepted events of the run, in strictly increasing order of their
  sequence numbers; an insert that repeats a sequence number of its run raises and changes
  nothing.
\<close>

theorem query_run_reads_back:
  assumes "insert_all es (Some []) = Some t"
  shows "(\<exists>qs. event_query_run r (Some t) = Inr qs \<and> sorted_wrt (<) (map ev_seq qs) \<and>
      set qs = {e \<in> set t. ev_run_id e = r}) \<and>
    (\<forall>e. event_insert e (Some t) =
      (if \<exists>d \<in> set t. ev_run_id d = ev_run_id e \<and> ev_seq d = ev_seq e
       then (Inl integrity_error, Some t) else (Inr (), Some (t @ [e]))))"
proof (intro conjI allI)
  have ok: "events_ok t" using insert_all_ok [of "[]" es] assms by (auto simp: events_ok_def)
  obtain qs where qs: "event_query_run r (Some t) = Inr qs" by (simp add: event_query_run_def)
  have "set qs = {e \<in> set t. ev_run_id e = r}" using qs by (auto simp: event_query_run_def)
  with qs query_run_strict [OF ok qs]
  show "\<exists>qs. event_query_run r (Some t) = Inr qs \<and> sorted_wrt (<) (map ev_seq qs) \<and>
      set qs = {e \<in> set t. ev_run_id e = r}" by blast
next
  fix e
  show "event_insert e (Some t) =
      (if \<exists>d \<in> set t. ev_run_id d = ev_run_id e \<and> ev_seq d = ev_seq e
       then (Inl integrity_error, Some t) else (Inr (), Some (t @ [e])))"
    by (auto simp: event_insert_def sql_insert_def list_ex_iff event_conflict_def)
qed

definition demo_event :: "int \<Rightarrow> agent_event" where
  "demo_event n = \<lparr>ev_run_id = ''r'', ev_seq = n, ev_kind = E_TOOL_CALL, ev_payload = [], ev_timestamp = n\<rparr>"

theorem query_run_reads_back_witness:
  "\<exists>qs. event_query_run ''r'' (Some [demo_event 2, demo_event 1]) = Inr qs \<and> sorted_wrt (<) (map ev_seq qs)"
  using query_run_reads_back [of "[demo_event 2, demo_event 1, demo_event 2]" "[demo_event 2, demo_event 1]" "''r''"]
  by (auto simp: demo_event_def event_insert_def sql_insert_def event_conflict_def)

text \<open>A filtered query gives only matching events of the store, newest first, and no more than asked
  for; a closed store gives none, and opening the same file again gives back what was in it.\<close>

lemma event_query_result:
  assumes "event_query run_id kind limit (Some t) = Inr es"
  shows "set es \<subseteq> {e \<in> set t. (opt_str run_id = [] \<or> Some (ev_run_id e) = run_id) \<and> (kind = None \<or> Some (ev_kind e) = kind)}"
    and "sorted (map (\<lambda>e. - ev_timestamp e) es)" and "0 \<le> limit \<Longrightarrow> int (length es) \<le> limit"
proof -
  define rows where "rows = sort_key (\<lambda>e. - ev_timestamp e) (filter (\<lambda>e. (opt_str run_id = [] \<or> Some (ev_run_id e) = run_id) \<and>
    (kind = None \<or> Some (ev_kind e) = kind)) t)"
  have es: "es = (if limit < 0 then rows else take (nat limit) rows)"
    using assms by (auto simp: event_query_def Let_def rows_def split: if_splits)
  have rows: "sorted (map (\<lambda>e. - ev_timestamp e) rows)" unfolding rows_def by (rule sorted_sort_key)
  then show "sorted (map (\<lambda>e. - ev_timestamp e) es)" by (simp add: es take_map [symmetric] sorted_wrt_take del: take_map)
  show "set es \<subseteq> {e \<in> set t. (opt_str run_id = [] \<or> Some (ev_run_id e) = run_id) \<and> (kind = None \<or> Some (ev_kind e) = kind)}"
    by (auto simp: es rows_def dest: in_set_takeD split: if_splits)
  show "0 \<le> limit \<Longrightarrow> int (length es) \<le> limit" by (simp add: es)
qed

lemma event_reopened:
  "event_query_run r (event_close s) = Inl not_connected" "event_query run_id kind limit (event_close s) = Inl not_connected"
  "event_query_run r (event_connect t (event_close s)) = event_query_run r (Some t)"
  by (simp_all add: event_query_run_def event_query_def event_close_def event_connect_def)

end
