(* ===== verification/Approval.thy ===== *)
theory Approval
  imports Banking_Tools Auth Idempotency Hitl_Store Grant_Repo Event_Store
begin

text \<open>
  The approval workflow: \<open>approval_executor.py\<close> and \<open>actor_resolver.py\<close>, with the part of the
  agent endpoint (\<open>api.py\<close>) that opens a session when the graph is interrupted. The executor
  works on the four stores and the MCP backend, gathered in \<open>approval_state\<close> with a ghost trace
  of dispatched calls. \<open>clk i\<close> is the \<open>i\<close>-th clock reading of a workflow; \<open>sha\<close> is SHA-256.
\<close>

section \<open>Actors\<close>

record trusted_actor =
  ta_actor_id :: string
  ta_source :: string

text \<open>A request context is its headers.\<close>

type_synonym request_context = "(string \<times> string) list"
type_synonym actor_resolver = "request_context option \<Rightarrow> trusted_actor option"

definition development_header_resolver :: "string \<Rightarrow> actor_resolver" where
  "development_header_resolver header_name context = (case context of
     None \<Rightarrow> None
   | Some headers \<Rightarrow>
       (let identity = dict_get_or headers (lower header_name) [] in
        if identity = [] then None else Some \<lparr>ta_actor_id = identity, ta_source = ''header''\<rparr>))"

definition fixed_actor_resolver :: "string \<Rightarrow> actor_resolver" where
  "fixed_actor_resolver actor_id context = Some \<lparr>ta_actor_id = actor_id, ta_source = ''test''\<rparr>"

section \<open>State and results\<close>

record 'b approval_state =
  ax_hitl :: hitl_table
  ax_grants :: grant_table
  ax_idem :: idem_table
  ax_events :: event_store
  ax_backend :: 'b
  ax_dispatched :: "tool_call list"

record approval_result =
  ar_decision :: string
  ar_session_id :: string
  ar_answer :: "string option"
  ar_step_count :: nat
  ar_error :: "string option"
  ar_reconciliation_reason :: "string option"

definition ar_fail :: "string \<Rightarrow> string \<Rightarrow> approval_result" where
  "ar_fail session_id err = \<lparr>ar_decision = ''error'', ar_session_id = session_id, ar_answer = None,
     ar_step_count = 0, ar_error = Some err, ar_reconciliation_reason = None\<rparr>"

definition ar_ok :: "string \<Rightarrow> string \<Rightarrow> string \<Rightarrow> approval_result" where
  "ar_ok decision session_id answer = \<lparr>ar_decision = decision, ar_session_id = session_id,
     ar_answer = Some answer, ar_step_count = 0, ar_error = None, ar_reconciliation_reason = None\<rparr>"

fun hitl_status_value :: "hitl_status \<Rightarrow> string" where
  "hitl_status_value H_PENDING = ''PENDING''"
| "hitl_status_value H_APPROVED = ''APPROVED''"
| "hitl_status_value H_REJECTED = ''REJECTED''"
| "hitl_status_value H_EXPIRED = ''EXPIRED''"
| "hitl_status_value H_RESUMED = ''RESUMED''"
| "hitl_status_value H_FAILED = ''FAILED''"
| "hitl_status_value H_RECONCILIATION_REQUIRED = ''RECONCILIATION_REQUIRED''"

fun idem_status_value :: "idempotency_status \<Rightarrow> string" where
  "idem_status_value I_RESERVED = ''RESERVED''"
| "idem_status_value I_EXECUTING = ''EXECUTING''"
| "idem_status_value I_SUCCEEDED = ''SUCCEEDED''"
| "idem_status_value I_FAILED = ''FAILED''"
| "idem_status_value I_UNKNOWN = ''UNKNOWN''"

text \<open>\<open>_persist_event\<close>: a failed insert is swallowed.\<close>

definition ax_persist :: "timestamp \<Rightarrow> string \<Rightarrow> int \<Rightarrow> event_kind \<Rightarrow> kwargs \<Rightarrow> 'b approval_state \<Rightarrow> 'b approval_state" where
  "ax_persist now run_id n kind payload s = s\<lparr>ax_events := snd (event_insert
     \<lparr>ev_run_id = run_id, ev_seq = n, ev_kind = kind, ev_payload = payload, ev_timestamp = now\<rparr> (ax_events s))\<rparr>"

definition ax_update :: "timestamp \<Rightarrow> string \<Rightarrow> hitl_status \<Rightarrow> int \<Rightarrow> 'b approval_state \<Rightarrow> 'b approval_state" where
  "ax_update now sid st v s = s\<lparr>ax_hitl := snd (hitl_update_status now sid st v (ax_hitl s))\<rparr>"

abbreviation kind_payload :: "string \<Rightarrow> kwargs" where
  "kind_payload k \<equiv> [(''kind'', JStr k)]"

section \<open>Approve\<close>

text \<open>
  The checks on the session and the actor. \<open>Inl\<close> is an early return with its state,
  \<open>Inr\<close> the session and the actor to go on with.
\<close>

definition approve_checks ::
    "actor_resolver \<Rightarrow> (nat \<Rightarrow> timestamp) \<Rightarrow> string \<Rightarrow> request_context option \<Rightarrow> 'b approval_state \<Rightarrow>
     (approval_result \<times> 'b approval_state) + (hitl_session \<times> trusted_actor)" where
  "approve_checks resolve clk session_id context s = (case hitl_get session_id (ax_hitl s) of
     None \<Rightarrow> Inl (ar_fail session_id ''Session not found'', s)
   | Some session \<Rightarrow>
       if hitl_is_terminal session
       then Inl (ar_fail session_id (''Already '' @ hitl_status_value (hs_status session)), s)
       else if hitl_is_expired (clk 0) session
       then Inl (ar_fail session_id ''Session expired'', ax_update (clk 1) session_id H_EXPIRED (hs_version session) s)
       else if hs_tool_call_id session = []
       then (let s1 = ax_update (clk 1) session_id H_RECONCILIATION_REQUIRED (hs_version session) s;
                 s2 = s1\<lparr>ax_grants := grant_mark_reconciliation_required (clk 2) session_id (ax_grants s1)\<rparr>;
                 s3 = ax_persist (clk 3) session_id 0 E_RECONCILIATION_REQUIRED
                        [(''reason'', JStr ''missing_historical_tool_call_id''), (''session_id'', JStr session_id)] s2
             in Inl (\<lparr>ar_decision = ''reconciliation_required'', ar_session_id = session_id, ar_answer = None,
                      ar_step_count = 0,
                      ar_error = Some ''Historical record missing tool_call_id -- manual reconciliation required'',
                      ar_reconciliation_reason = Some ''missing_historical_tool_call_id''\<rparr>, s3))
       else (case resolve context of
               None \<Rightarrow> Inl (ar_fail session_id ''Trusted actor identity required'', s)
             | Some actor \<Rightarrow> Inr (session, actor)))"

definition claim_request :: "string \<Rightarrow> hitl_session \<Rightarrow> trusted_actor \<Rightarrow> consume_request" where
  "claim_request session_id session actor = \<lparr>cq_session_id = session_id, cq_user_id = hs_user_id session,
     cq_approving_actor_id = ta_actor_id actor, cq_thread_id = hs_thread_id session, cq_run_id = session_id,
     cq_checkpoint_id = [], cq_tool_call_id = hs_tool_call_id session, cq_tool_name = hs_tool_name session,
     cq_tool_args = hs_tool_args session, cq_idempotency_key = opt_str (hs_idempotency_key session),
     cq_version = 1\<rparr>"

text \<open>Approve the grant and the session, then claim the grant.\<close>

definition approve_claim ::
    "(json \<Rightarrow> string) \<Rightarrow> (nat \<Rightarrow> timestamp) \<Rightarrow> string \<Rightarrow> hitl_session \<Rightarrow> trusted_actor \<Rightarrow> 'b approval_state \<Rightarrow>
     (approval_result + grant_record) \<times> 'b approval_state" where
  "approve_claim sha clk session_id session actor s =
     (let (ok, gs) = grant_approve_pending (clk 4) session_id (ta_actor_id actor) 1 (ax_grants s);
          s1 = s\<lparr>ax_grants := gs\<rparr>
      in if \<not> ok then (Inl (ar_fail session_id ''Grant approval failed''), s1)
         else (let (ok2, ht) = hitl_update_status (clk 5) session_id H_APPROVED (hs_version session) (ax_hitl s1);
                   s2 = s1\<lparr>ax_hitl := ht\<rparr>
               in if \<not> ok2 then (Inl (ar_fail session_id ''Session update failed''), s2)
                  else (let s3 = ax_persist (clk 6) session_id 0 E_CHECKPOINT
                              [(''kind'', JStr ''APPROVAL_GRANTED''), (''actor'', JStr (ta_actor_id actor))] s2;
                            (c, gs3) = grant_atomic_consume sha (clk 7) (claim_request session_id session actor) (ax_grants s3);
                            s4 = s3\<lparr>ax_grants := gs3\<rparr>
                        in case c of
                             None \<Rightarrow> (Inl (ar_fail session_id ''Grant already consumed''), s4)
                           | Some g \<Rightarrow>
                               (Inr g, ax_persist (clk 8) session_id 1 E_CHECKPOINT (kind_payload ''GRANT_CLAIMED'') s4))))"

definition json_object :: "json \<Rightarrow> kwargs" where
  "json_object j = (case j of JObj kvs \<Rightarrow> kvs | _ \<Rightarrow> [])"

text \<open>Dispatch the claimed call and settle the three stores by its outcome.\<close>

definition approve_dispatch ::
    "(tool_call \<Rightarrow> 'b \<Rightarrow> (pyexn + tool_result) \<times> 'b) \<Rightarrow> (nat \<Rightarrow> timestamp) \<Rightarrow> string \<Rightarrow> hitl_session \<Rightarrow> string \<Rightarrow>
     grant_record \<Rightarrow> 'b approval_state \<Rightarrow> approval_result \<times> 'b approval_state" where
  "approve_dispatch call clk session_id session idem_key claimed s =
     (let s1 = s\<lparr>ax_idem := snd (idem_reserve (clk 12) idem_key (hs_tool_name session) (Some (hs_tool_args session)) (ax_idem s))\<rparr>;
          tool_call = \<lparr>tc_name = gt_tool_name claimed, tc_arguments = json_object (gt_canonical_tool_args claimed)\<rparr>;
          s2 = ax_persist (clk 13) session_id 3 E_CHECKPOINT (kind_payload ''MCP_DISPATCH_STARTED'') s1;
          (r, b) = call tool_call (ax_backend s2);
          s3 = s2\<lparr>ax_backend := b, ax_dispatched := ax_dispatched s2 @ [tool_call]\<rparr>;
          v = hs_version session + 1
      in case r of
           Inl exc \<Rightarrow>
             (ar_fail session_id ''MCP dispatch failed -- outcome unknown'',
              ax_persist (clk 17) session_id 4 E_CHECKPOINT (kind_payload ''MCP_EXECUTION_UNKNOWN'')
                (ax_update (clk 16) session_id H_FAILED v
                  (s3\<lparr>ax_idem := snd (idem_mark_unknown idem_key (ax_idem s3)),
                      ax_grants := grant_mark_unknown (clk 15) session_id (ax_grants s3)\<rparr>)))
         | Inr res \<Rightarrow>
             if tr_success res
             then (ar_ok ''approved'' session_id (tr_content res),
                   ax_persist (clk 17) session_id 4 E_CHECKPOINT (kind_payload ''MCP_EXECUTION_SUCCEEDED'')
                     (ax_update (clk 16) session_id H_RESUMED v
                       (s3\<lparr>ax_idem := snd (idem_mark_succeeded (clk 14) idem_key (tr_content res) (ax_idem s3)),
                           ax_grants := grant_mark_consumed (clk 15) session_id (ax_grants s3)\<rparr>)))
             else (ar_fail session_id (''MCP failed: '' @ (case tr_error res of None \<Rightarrow> ''None'' | Some e \<Rightarrow> e)),
                   ax_persist (clk 17) session_id 4 E_CHECKPOINT (kind_payload ''MCP_EXECUTION_FAILED'')
                     (ax_update (clk 16) session_id H_FAILED v
                       (s3\<lparr>ax_idem := snd (idem_mark_failed (clk 14) idem_key (str_or (opt_str (tr_error res)) ''unknown'') (ax_idem s3)),
                           ax_grants := grant_mark_failed (clk 15) session_id (ax_grants s3)\<rparr>))))"

text \<open>The durable idempotency check between claim and dispatch.\<close>

definition approve_execute ::
    "(tool_call \<Rightarrow> 'b \<Rightarrow> (pyexn + tool_result) \<times> 'b) \<Rightarrow> (nat \<Rightarrow> timestamp) \<Rightarrow> string \<Rightarrow> hitl_session \<Rightarrow> grant_record \<Rightarrow>
     'b approval_state \<Rightarrow> approval_result \<times> 'b approval_state" where
  "approve_execute call clk session_id session claimed s =
     (let idem_key = str_or (opt_str (hs_idempotency_key session)) session_id in
      case idem_get idem_key (ax_idem s) of
        Some r \<Rightarrow>
          if ir_status r = I_SUCCEEDED
          then (ar_ok ''approved'' session_id (str_or (opt_str (ir_result r)) ''done''), s)
          else if ir_status r \<in> {I_RESERVED, I_EXECUTING, I_UNKNOWN}
          then (ar_fail session_id (''Idempotency '' @ idem_status_value (ir_status r) @ '' -- fails closed''),
                ax_persist (clk 11) session_id 2 E_CHECKPOINT (kind_payload ''REPLAY_DENIED'')
                  (ax_update (clk 10) session_id H_FAILED (hs_version session + 1)
                    (s\<lparr>ax_grants := grant_mark_failed (clk 9) session_id (ax_grants s)\<rparr>)))
          else approve_dispatch call clk session_id session idem_key claimed s
      | None \<Rightarrow> approve_dispatch call clk session_id session idem_key claimed s)"

definition approve ::
    "actor_resolver \<Rightarrow> (json \<Rightarrow> string) \<Rightarrow> (tool_call \<Rightarrow> 'b \<Rightarrow> (pyexn + tool_result) \<times> 'b) \<Rightarrow> (nat \<Rightarrow> timestamp) \<Rightarrow>
     string \<Rightarrow> request_context option \<Rightarrow> 'b approval_state \<Rightarrow> approval_result \<times> 'b approval_state" where
  "approve resolve sha call clk session_id context s =
     (case approve_checks resolve clk session_id context s of
        Inl r \<Rightarrow> r
      | Inr (session, actor) \<Rightarrow>
          (case approve_claim sha clk session_id session actor s of
             (Inl r, s1) \<Rightarrow> (r, s1)
           | (Inr claimed, s1) \<Rightarrow> approve_execute call clk session_id session claimed s1))"

section \<open>Reject\<close>

definition reject_session ::
    "actor_resolver \<Rightarrow> (nat \<Rightarrow> timestamp) \<Rightarrow> string \<Rightarrow> request_context option \<Rightarrow> 'b approval_state \<Rightarrow>
     approval_result \<times> 'b approval_state" where
  "reject_session resolve clk session_id context s = (case hitl_get session_id (ax_hitl s) of
     None \<Rightarrow> (ar_fail session_id ''Session not found'', s)
   | Some session \<Rightarrow>
       if hitl_is_terminal session
       then (ar_fail session_id (''Already '' @ hitl_status_value (hs_status session)), s)
       else (case resolve context of
           None \<Rightarrow> (ar_fail session_id ''Trusted actor identity required'', s)
         | Some actor \<Rightarrow>
             (let (ok, ht) = hitl_update_status (clk 0) session_id H_REJECTED (hs_version session) (ax_hitl s);
                  s1 = s\<lparr>ax_hitl := ht\<rparr>
              in if \<not> ok then (ar_fail session_id ''Session update failed'', s1)
                 else (ar_ok ''rejected'' session_id ''Operation was rejected by human operator.'',
                       ax_persist (clk 2) session_id 0 E_CHECKPOINT
                         [(''kind'', JStr ''APPROVAL_REJECTED''), (''actor'', JStr (ta_actor_id actor))]
                         (s1\<lparr>ax_grants := grant_mark_rejected (clk 1) session_id (ax_grants s1)\<rparr>)))))"

section \<open>Opening a session\<close>

text \<open>
  What the agent endpoint stores for an interrupt: a pending session and a pending grant with
  the canonical arguments and their digest. A uniqueness violation propagates; the session
  inserted before a failing grant stays.
\<close>

definition interrupt_str :: "pylib \<Rightarrow> kwargs \<Rightarrow> string \<Rightarrow> string \<Rightarrow> string" where
  "interrupt_str L info k d = py_str L (dict_get_or info k (JStr d))"

definition interrupt_args :: "kwargs \<Rightarrow> kwargs" where
  "interrupt_args info = json_object (dict_get_or info ''tool_args'' (JObj []))"

definition new_hitl_session :: "pylib \<Rightarrow> timestamp \<Rightarrow> string \<Rightarrow> string \<Rightarrow> kwargs \<Rightarrow> hitl_session" where
  "new_hitl_session L now session_id subject info =
     (let call_id = interrupt_str L info ''tool_call_id'' [] in
      \<lparr>hs_session_id = session_id, hs_user_id = subject,
       hs_thread_id = interrupt_str L info ''thread_id'' session_id, hs_status = H_PENDING,
       hs_tool_name = interrupt_str L info ''tool_name'' ''unknown'', hs_tool_args = interrupt_args info,
       hs_authorization_decision = Some ''PENDING'', hs_approval_requirement = Some ''required'',
       hs_idempotency_key = Some (interrupt_str L info ''idempotency_key'' (session_id @ '':'' @ call_id)),
       hs_version = 1, hs_created_at = now, hs_updated_at = now, hs_expires_at = None, hs_tool_call_id = call_id\<rparr>)"

definition new_grant_record :: "pylib \<Rightarrow> (json \<Rightarrow> string) \<Rightarrow> timestamp \<Rightarrow> string \<Rightarrow> string \<Rightarrow> kwargs \<Rightarrow> grant_record" where
  "new_grant_record L sha now session_id subject info =
     (let call_id = interrupt_str L info ''tool_call_id'' [] in
      \<lparr>gt_session_id = session_id, gt_requesting_user_id = subject, gt_approving_actor_id = [],
       gt_thread_id = interrupt_str L info ''thread_id'' session_id, gt_run_id = Some session_id,
       gt_checkpoint_id = Some [], gt_tool_call_id = call_id,
       gt_tool_name = interrupt_str L info ''tool_name'' ''unknown'',
       gt_canonical_tool_args = canon (JObj (interrupt_args info)),
       gt_argument_digest = grant_digest sha (interrupt_args info),
       gt_idempotency_key = interrupt_str L info ''idempotency_key'' (session_id @ '':'' @ call_id),
       gt_decision = ''PENDING'', gt_status = G_PENDING, gt_created_at = now, gt_approved_at = None,
       gt_expires_at = None, gt_consuming_at = None, gt_consumed_at = None, gt_failed_at = None, gt_version = 1\<rparr>)"

definition open_session ::
    "pylib \<Rightarrow> (json \<Rightarrow> string) \<Rightarrow> timestamp \<Rightarrow> string \<Rightarrow> string \<Rightarrow> kwargs \<Rightarrow> 'b approval_state \<Rightarrow>
     (pyexn + unit) \<times> 'b approval_state" where
  "open_session L sha now session_id subject info s =
     (case hitl_insert (new_hitl_session L now session_id subject info) (ax_hitl s) of
        None \<Rightarrow> (Inl integrity_error, s)
      | Some ht \<Rightarrow>
          (case grant_insert_pending (new_grant_record L sha now session_id subject info) (ax_grants s) of
             None \<Rightarrow> (Inl integrity_error, s\<lparr>ax_hitl := ht\<rparr>)
           | Some gs \<Rightarrow> (Inr (), s\<lparr>ax_hitl := ht, ax_grants := gs\<rparr>)))"

section \<open>Frames\<close>

lemma ax_persist_frame [simp]:
  "ax_hitl (ax_persist now r n k p s) = ax_hitl s" "ax_grants (ax_persist now r n k p s) = ax_grants s"
  "ax_idem (ax_persist now r n k p s) = ax_idem s" "ax_backend (ax_persist now r n k p s) = ax_backend s"
  "ax_dispatched (ax_persist now r n k p s) = ax_dispatched s"
  by (simp_all add: ax_persist_def)

lemma ax_update_frame [simp]:
  "ax_hitl (ax_update now sid st v s) = snd (hitl_update_status now sid st v (ax_hitl s))"
  "ax_grants (ax_update now sid st v s) = ax_grants s"
  "ax_idem (ax_update now sid st v s) = ax_idem s" "ax_backend (ax_update now sid st v s) = ax_backend s"
  "ax_dispatched (ax_update now sid st v s) = ax_dispatched s" "ax_events (ax_update now sid st v s) = ax_events s"
  by (simp_all add: ax_update_def)

text \<open>Every effect of a workflow on a store is a call of that store.\<close>

lemma reaches_grant:
  "reaches (grant_step sha) t u \<Longrightarrow> reaches (grant_step sha) t (snd (grant_approve_pending now sid actor v u))"
  "reaches (grant_step sha) t u \<Longrightarrow> reaches (grant_step sha) t (snd (grant_atomic_consume sha now q u))"
  "reaches (grant_step sha) t u \<Longrightarrow> reaches (grant_step sha) t (grant_mark_consumed now sid u)"
  "reaches (grant_step sha) t u \<Longrightarrow> reaches (grant_step sha) t (grant_mark_failed now sid u)"
  "reaches (grant_step sha) t u \<Longrightarrow> reaches (grant_step sha) t (grant_mark_rejected now sid u)"
  "reaches (grant_step sha) t u \<Longrightarrow> reaches (grant_step sha) t (grant_mark_reconciliation_required now sid u)"
  "reaches (grant_step sha) t u \<Longrightarrow> reaches (grant_step sha) t (grant_mark_unknown now sid u)"
  "reaches (grant_step sha) t u \<Longrightarrow> grant_insert_pending g u = Some u' \<Longrightarrow> reaches (grant_step sha) t u'"
  using reaches_step [of "grant_step sha" t u "ApprovePending now sid actor v"]
    reaches_step [of "grant_step sha" t u "AtomicConsume now q"]
    reaches_step [of "grant_step sha" t u "MarkConsumed now sid"]
    reaches_step [of "grant_step sha" t u "MarkGrantFailed now sid"]
    reaches_step [of "grant_step sha" t u "MarkRejected now sid"]
    reaches_step [of "grant_step sha" t u "MarkReconciliation now sid"]
    reaches_step [of "grant_step sha" t u "MarkGrantUnknown now sid"]
    reaches_step [of "grant_step sha" t u "InsertGrant g"]
  by (simp_all add: case_prod_beta)

lemma reaches_hitl:
  "reaches hitl_step t u \<Longrightarrow> reaches hitl_step t (snd (hitl_update_status now sid st v u))"
  "reaches hitl_step t u \<Longrightarrow> hitl_insert h u = Some u' \<Longrightarrow> reaches hitl_step t u'"
  using reaches_step [of hitl_step t u "UpdateStatus now sid st v"] reaches_step [of hitl_step t u "InsertSession h"]
  by simp_all

lemma reaches_idem:
  "reaches idem_step t u \<Longrightarrow> reaches idem_step t (snd (idem_reserve now k n args u))"
  "reaches idem_step t u \<Longrightarrow> reaches idem_step t (snd (idem_mark_succeeded now k r u))"
  "reaches idem_step t u \<Longrightarrow> reaches idem_step t (snd (idem_mark_failed now k e u))"
  "reaches idem_step t u \<Longrightarrow> reaches idem_step t (snd (idem_mark_unknown k u))"
  using reaches_step [of idem_step t u "Reserve now k n args"] reaches_step [of idem_step t u "MarkSucceeded now k r"]
    reaches_step [of idem_step t u "MarkFailed now k e"] reaches_step [of idem_step t u "MarkUnknown k"]
  by simp_all

definition ax_reaches :: "(json \<Rightarrow> string) \<Rightarrow> 'b approval_state \<Rightarrow> 'b approval_state \<Rightarrow> bool" where
  "ax_reaches sha s s' = (reaches (grant_step sha) (ax_grants s) (ax_grants s') \<and>
     reaches hitl_step (ax_hitl s) (ax_hitl s') \<and> reaches idem_step (ax_idem s) (ax_idem s'))"

lemmas ax_reach_intros = reaches_grant(1-7) reaches_hitl(1) reaches_idem

lemma ax_reaches_refl [simp]: "ax_reaches sha s s"
  by (simp add: ax_reaches_def)

lemma ax_reaches_trans: "ax_reaches sha s t \<Longrightarrow> ax_reaches sha t u \<Longrightarrow> ax_reaches sha s u"
  by (auto simp: ax_reaches_def intro: reaches_trans)

lemma checks_reaches:
  "approve_checks resolve clk sid ctx s = Inl (r, s') \<Longrightarrow>
     ax_reaches sha s s' \<and> ax_dispatched s' = ax_dispatched s \<and> ax_backend s' = ax_backend s"
  by (auto simp: approve_checks_def ax_reaches_def Let_def intro!: ax_reach_intros
      split: option.splits if_splits)

lemma claim_reaches:
  "ax_reaches sha s (snd (approve_claim sha clk sid session actor s)) \<and>
     ax_dispatched (snd (approve_claim sha clk sid session actor s)) = ax_dispatched s \<and>
     ax_backend (snd (approve_claim sha clk sid session actor s)) = ax_backend s \<and>
     ax_idem (snd (approve_claim sha clk sid session actor s)) = ax_idem s"
  by (auto simp: approve_claim_def ax_reaches_def Let_def case_prod_beta intro!: ax_reach_intros
      split: option.splits if_splits)

lemma dispatch_reaches:
  "ax_reaches sha s (snd (approve_dispatch call clk sid session k claimed s))"
  "ax_dispatched (snd (approve_dispatch call clk sid session k claimed s)) = ax_dispatched s @
     [\<lparr>tc_name = gt_tool_name claimed, tc_arguments = json_object (gt_canonical_tool_args claimed)\<rparr>]"
  by (auto simp: approve_dispatch_def ax_reaches_def Let_def case_prod_beta intro!: ax_reach_intros
      split: sum.splits if_splits)

lemma execute_reaches:
  "ax_reaches sha s (snd (approve_execute call clk sid session claimed s))"
  by (auto simp: approve_execute_def ax_reaches_def Let_def intro!: ax_reach_intros
      dispatch_reaches(1) [unfolded ax_reaches_def, THEN conjunct1]
      dispatch_reaches(1) [unfolded ax_reaches_def, THEN conjunct2, THEN conjunct1]
      dispatch_reaches(1) [unfolded ax_reaches_def, THEN conjunct2, THEN conjunct2] split: option.splits)

lemma execute_dispatches:
  "ax_dispatched (snd (approve_execute call clk sid session claimed s)) \<in> {ax_dispatched s, ax_dispatched s @
     [\<lparr>tc_name = gt_tool_name claimed, tc_arguments = json_object (gt_canonical_tool_args claimed)\<rparr>]}"
  by (auto simp: approve_execute_def Let_def dispatch_reaches(2) split: option.splits)

lemma approve_reaches: "ax_reaches sha s (snd (approve resolve sha call clk sid ctx s))"
proof (cases "approve_checks resolve clk sid ctx s")
  case (Inl r)
  then show ?thesis by (cases r) (auto simp: approve_def dest: checks_reaches)
next
  case (Inr sa)
  obtain session actor where sa: "sa = (session, actor)" by fastforce
  obtain c s1 where c: "approve_claim sha clk sid session actor s = (c, s1)" by fastforce
  have "ax_reaches sha s s1" using claim_reaches [of sha s clk sid session actor] c by simp
  with Inr sa c show ?thesis
    by (cases c) (auto simp: approve_def intro: ax_reaches_trans execute_reaches)
qed

lemma reject_reaches:
  "ax_reaches sha s (snd (reject_session resolve clk sid ctx s)) \<and>
     ax_dispatched (snd (reject_session resolve clk sid ctx s)) = ax_dispatched s"
  by (auto simp: reject_session_def ax_reaches_def Let_def case_prod_beta intro!: ax_reach_intros
      split: option.splits)

lemma open_reaches:
  "ax_reaches sha s (snd (open_session L sha now sid subj info s)) \<and>
     ax_dispatched (snd (open_session L sha now sid subj info s)) = ax_dispatched s"
  by (auto simp: open_session_def ax_reaches_def intro: reaches_grant(8) [OF reaches_refl]
      reaches_hitl(2) [OF reaches_refl] split: option.splits)

section \<open>What a dispatch requires\<close>

definition ax_ok :: "'b approval_state \<Rightarrow> bool" where
  "ax_ok s = (grants_ok (ax_grants s) \<and> hitl_ok (ax_hitl s) \<and> idem_ok (ax_idem s))"

lemma ax_reaches_ok: "ax_reaches sha s t \<Longrightarrow> ax_ok s \<Longrightarrow> ax_ok t"
  by (auto simp: ax_reaches_def ax_ok_def intro: grant_history.inv_reaches hitl_versions.inv_reaches
      idem_store.inv_reaches)

lemma checks_pass:
  assumes "approve_checks resolve clk sid ctx s = Inr (session, actor)"
  shows "hitl_get sid (ax_hitl s) = Some session" "\<not> hitl_is_terminal session"
    "\<not> hitl_is_expired (clk 0) session" "hs_tool_call_id session \<noteq> []" "resolve ctx = Some actor"
  using assms by (auto simp: approve_checks_def Let_def split: option.splits if_splits)

lemma claim_pass:
  assumes "approve_claim sha clk sid session actor s = (Inr claimed, s1)" "ax_ok s"
  obtains g where "grant_get_by_session sid (ax_grants s) = Some g" "gt_status g = G_PENDING" "gt_version g = 1"
    "claimed = g\<lparr>gt_status := G_CONSUMING, gt_approving_actor_id := ta_actor_id actor, gt_approved_at := Some (clk 4),
       gt_consuming_at := Some (clk 7)\<rparr>"
    "gt_requesting_user_id g = hs_user_id session" "gt_tool_name g = hs_tool_name session"
    "gt_tool_call_id g = hs_tool_call_id session" "gt_argument_digest g = grant_digest sha (hs_tool_args session)"
    "2 < grant_rank sid (ax_grants s1)"
proof -
  let ?ap = "grant_approve_pending (clk 4) sid (ta_actor_id actor) 1 (ax_grants s)"
  let ?q = "claim_request sid session actor"
  from assms(1) have ap: "fst ?ap" and co: "fst (grant_atomic_consume sha (clk 7) ?q (snd ?ap)) = Some claimed"
    and s1: "ax_grants s1 = snd (grant_atomic_consume sha (clk 7) ?q (snd ?ap))"
    by (auto simp: approve_claim_def Let_def case_prod_beta split: if_splits option.splits)
  have ok: "grants_ok (ax_grants s)" using assms(2) by (simp add: ax_ok_def)
  then have ok': "grants_ok (snd ?ap)" by (rule grant_approve_ok)
  from ap obtain g where g: "grant_get_by_session sid (ax_grants s) = Some g" "gt_status g = G_PENDING" "gt_version g = 1"
    using grant_approve_wins [OF ok] by blast
  then have ga: "grant_get_by_session sid (snd ?ap) =
      Some (g\<lparr>gt_status := G_APPROVED, gt_approving_actor_id := ta_actor_id actor, gt_approved_at := Some (clk 4)\<rparr>)"
    by (simp add: grant_approve_get)
  obtain g' where "grant_get_by_session (cq_session_id ?q) (snd ?ap) = Some g'" "is_consumable_row sha (clk 7) ?q g'"
    "claimed = g'\<lparr>gt_status := G_CONSUMING, gt_consuming_at := Some (clk 7)\<rparr>"
    using consume_result [OF ok', of sha "clk 7" ?q claimed] co by blast
  with ga g show ?thesis
    by (intro that [OF g])
      (auto simp: claim_request_def is_consumable_row_def s1 grant_rank_def consume_get)
qed

text \<open>A dispatch happens only through a claimed grant.\<close>

lemma approve_dispatched:
  assumes "ax_dispatched (snd (approve resolve sha call clk sid ctx s)) \<noteq> ax_dispatched s"
  obtains session actor claimed s1 where "approve_checks resolve clk sid ctx s = Inr (session, actor)"
    "approve_claim sha clk sid session actor s = (Inr claimed, s1)"
    "ax_dispatched (snd (approve resolve sha call clk sid ctx s)) = ax_dispatched s @
       [\<lparr>tc_name = gt_tool_name claimed, tc_arguments = json_object (gt_canonical_tool_args claimed)\<rparr>]"
proof (cases "approve_checks resolve clk sid ctx s")
  case (Inl r)
  with assms checks_reaches [of resolve clk sid ctx s "fst r" "snd r" sha] show ?thesis by (simp add: approve_def)
next
  case (Inr sa)
  obtain session actor where sa: "sa = (session, actor)" by fastforce
  obtain c s1 where c: "approve_claim sha clk sid session actor s = (c, s1)" by fastforce
  have same: "ax_dispatched s1 = ax_dispatched s" using claim_reaches [of sha s clk sid session actor] c by simp
  show ?thesis
  proof (cases c)
    case (Inl r)
    with assms Inr sa c same show ?thesis by (simp add: approve_def)
  next
    case (Inr claimed)
    with execute_dispatches [of call clk sid session claimed s1] assms \<open>approve_checks _ _ _ _ _ = Inr sa\<close> sa c same
    show ?thesis by (intro that [of session actor claimed s1]) (auto simp: approve_def)
  qed
qed

section \<open>Histories of the workflow\<close>

datatype approval_call =
    DoApprove "nat \<Rightarrow> timestamp" string "request_context option"
  | DoReject "nat \<Rightarrow> timestamp" string "request_context option"
  | DoOpen timestamp string string kwargs

text \<open>One request; it reports whether a tool call was dispatched.\<close>

fun approval_apply ::
    "actor_resolver \<Rightarrow> (json \<Rightarrow> string) \<Rightarrow> (tool_call \<Rightarrow> 'b \<Rightarrow> (pyexn + tool_result) \<times> 'b) \<Rightarrow> pylib \<Rightarrow>
     approval_call \<Rightarrow> 'b approval_state \<Rightarrow> 'b approval_state" where
  "approval_apply resolve sha call L (DoApprove clk sid ctx) s = snd (approve resolve sha call clk sid ctx s)"
| "approval_apply resolve sha call L (DoReject clk sid ctx) s = snd (reject_session resolve clk sid ctx s)"
| "approval_apply resolve sha call L (DoOpen now sid subj info) s = snd (open_session L sha now sid subj info s)"

definition approval_step ::
    "actor_resolver \<Rightarrow> (json \<Rightarrow> string) \<Rightarrow> (tool_call \<Rightarrow> 'b \<Rightarrow> (pyexn + tool_result) \<times> 'b) \<Rightarrow> pylib \<Rightarrow>
     approval_call \<Rightarrow> 'b approval_state \<Rightarrow> bool \<times> 'b approval_state" where
  "approval_step resolve sha call L c s =
     (let s' = approval_apply resolve sha call L c s in (ax_dispatched s' \<noteq> ax_dispatched s, s'))"

fun about_session :: "string \<Rightarrow> approval_call \<Rightarrow> bool" where
  "about_session sid (DoApprove clk k ctx) = (k = sid)"
| "about_session sid (DoReject clk k ctx) = (k = sid)"
| "about_session sid (DoOpen now k subj info) = (k = sid)"

lemma apply_reaches: "ax_reaches sha s (approval_apply resolve sha call L c s)"
  by (cases c) (simp_all add: approve_reaches reject_reaches open_reaches)

interpretation workflow: monotone_store "approval_step resolve sha call L" ax_ok "\<lambda>s. grant_rank sid (ax_grants s)"
  for resolve sha call L sid
proof
  fix s :: "'a approval_state" and c assume ok: "ax_ok s"
  note r = apply_reaches [of sha s resolve call L c]
  show "ax_ok (snd (approval_step resolve sha call L c s))"
    using ax_reaches_ok [OF r ok] by (simp add: approval_step_def Let_def)
  show "grant_rank sid (ax_grants s) \<le> grant_rank sid (ax_grants (snd (approval_step resolve sha call L c s)))"
    using grant_history.rank_reaches [of sha "ax_grants s" "ax_grants (approval_apply resolve sha call L c s)" sid] r ok
    by (simp add: approval_step_def Let_def ax_reaches_def ax_ok_def)
qed

lemma approve_rank:
  assumes "ax_ok s" "ax_dispatched (snd (approve resolve sha call clk sid ctx s)) \<noteq> ax_dispatched s"
  shows "grant_rank sid (ax_grants s) = 1 \<and> 1 < grant_rank sid (ax_grants (snd (approve resolve sha call clk sid ctx s)))"
  using assms(2)
proof (rule approve_dispatched)
  fix session actor claimed s1
  assume c: "approve_checks resolve clk sid ctx s = Inr (session, actor)"
    "approve_claim sha clk sid session actor s = (Inr claimed, s1)"
  obtain g where g: "grant_get_by_session sid (ax_grants s) = Some g" "gt_status g = G_PENDING"
    "2 < grant_rank sid (ax_grants s1)"
    using c(2) assms(1) by (rule claim_pass)
  have ok1: "ax_ok s1" using ax_reaches_ok [of sha s s1] assms(1) claim_reaches [of sha s clk sid session actor] c(2) by simp
  have "ax_reaches sha s1 (snd (approve resolve sha call clk sid ctx s))"
    using c execute_reaches by (simp add: approve_def)
  then have "grant_rank sid (ax_grants s1) \<le> grant_rank sid (ax_grants (snd (approve resolve sha call clk sid ctx s)))"
    using grant_history.rank_reaches ok1 by (auto simp: ax_reaches_def ax_ok_def)
  with g show ?thesis by (simp add: grant_rank_def)
qed

interpretation one_dispatch: one_winner "approval_step resolve sha call L" ax_ok "\<lambda>s. grant_rank sid (ax_grants s)"
    "about_session sid" 1 for resolve sha call L sid
proof
  fix s c
  assume "ax_ok s" "about_session sid c" "fst (approval_step resolve sha call L c s)"
  then show "grant_rank sid (ax_grants s) = 1 \<and>
      1 < grant_rank sid (ax_grants (snd (approval_step resolve sha call L c s)))"
    using approve_rank [of s resolve sha call _ sid]
    by (cases c) (auto simp: approval_step_def Let_def reject_reaches open_reaches)
qed

section \<open>Properties\<close>

text \<open>
  C19. An approval session executes its tool at most once: in any sequence of approvals,
  rejections and newly opened sessions, at most one request about a session dispatches a
  call to the backend.
\<close>

theorem session_dispatches_once:
  assumes "ax_ok s"
  shows "wins (about_session sid) (fst (run_steps (approval_step resolve sha call L) cs s)) \<le> 1"
  by (rule one_dispatch.at_most_one_win [OF assms])

definition demo_backend :: "tool_call \<Rightarrow> unit \<Rightarrow> (pyexn + tool_result) \<times> unit" where
  "demo_backend c b = (Inr \<lparr>tr_name = tc_name c, tr_success = True, tr_content = ''ok'', tr_error = None\<rparr>, b)"

definition demo_info :: kwargs where
  "demo_info = [(''tool_name'', JStr ''submit_transfer''), (''tool_args'', JObj [(''draft_id'', JStr ''D1'')]),
     (''tool_call_id'', JStr ''c1''), (''session_id'', JStr ''s1''), (''thread_id'', JStr ''s1''),
     (''idempotency_key'', JStr ''s1:c1'')]"

definition demo_stores :: "unit approval_state" where
  "demo_stores = \<lparr>ax_hitl = [], ax_grants = [], ax_idem = [], ax_events = Some [], ax_backend = (), ax_dispatched = []\<rparr>"

lemma demo_stores_ok: "ax_ok demo_stores"
  by (simp add: ax_ok_def demo_stores_def grants_ok_def hitl_ok_def idem_ok_def)

theorem session_dispatches_once_witness:
  "wins (about_session ''s1'') (fst (run_steps
     (approval_step (fixed_actor_resolver ''op'') (\<lambda>j. ''d'') demo_backend demo_lib)
     [DoOpen 0 ''s1'' ''user-alice'' demo_info, DoApprove int ''s1'' None, DoApprove int ''s1'' None] demo_stores)) \<le> 1"
  by (rule session_dispatches_once [OF demo_stores_ok])


text \<open>The state after the demonstration interrupt has been stored.\<close>

definition demo_open :: "unit approval_state" where
  "demo_open = snd (open_session demo_lib (\<lambda>j. ''d'') 0 ''s1'' ''user-alice'' demo_info demo_stores)"

lemmas demo_open_simps = demo_open_def open_session_def demo_stores_def hitl_insert_def sql_insert_def
  grant_insert_pending_def new_hitl_session_def new_grant_record_def interrupt_str_def interrupt_args_def
  demo_info_def py_str_def dict_get_or_def json_object_def grant_digest_def Let_def

lemma demo_approve_dispatches:
  "ax_dispatched (snd (approve (fixed_actor_resolver ''op'') (\<lambda>j. ''d'') demo_backend int ''s1'' None demo_open)) =
     [\<lparr>tc_name = ''submit_transfer'', tc_arguments = [(''draft_id'', JStr ''D1'')]\<rparr>]"
  by (simp add: demo_open_simps approve_def approve_checks_def hitl_get_def find_row_def hitl_is_terminal_def
      hitl_is_expired_def fixed_actor_resolver_def approve_claim_def grant_approve_pending_def sql_update_def
      is_pending_version_row_def hitl_update_status_def is_version_row_def grant_atomic_consume_def
      is_consumable_row_def claim_request_def approve_execute_def idem_get_def str_or_def opt_str_def
      dispatch_reaches(2))


lemma insert_pending_get:
  assumes "grant_insert_pending g t = Some t'" "gt_status g = G_PENDING" "gt_version g = 1"
    "gt_approved_at g = None" "gt_consuming_at g = None" "gt_consumed_at g = None" "gt_failed_at g = None"
  shows "grant_get_by_session (gt_session_id g) t' = Some g"
proof -
  have eq: "g\<lparr>gt_status := G_PENDING, gt_version := 1, gt_approved_at := None, gt_consuming_at := None,
     gt_consumed_at := None, gt_failed_at := None\<rparr> = g"
    using assms(2-) by simp
  have "t' = t @ [g] \<and> \<not> list_ex (grant_conflict g) t"
    using assms(1) unfolding grant_insert_pending_def eq sql_insert_def by (auto split: if_splits)
  moreover from this have "find_row gt_session_id (gt_session_id g) t = None"
    by (auto simp: find_row_None list_ex_iff grant_conflict_def)
  ultimately show ?thesis by (simp add: grant_get_by_session_def find_row_append table_laws)
qed

lemma claim_succeeds:
  assumes "ax_ok s" "hitl_get sid (ax_hitl s) = Some session" "grant_get_by_session sid (ax_grants s) = Some g"
    "gt_status g = G_PENDING" "gt_version g = 1" "gt_requesting_user_id g = hs_user_id session"
    "gt_thread_id g = hs_thread_id session" "gt_run_id g = Some sid" "gt_tool_call_id g = hs_tool_call_id session"
    "gt_tool_name g = hs_tool_name session" "gt_argument_digest g = grant_digest sha (hs_tool_args session)"
    "gt_idempotency_key g = opt_str (hs_idempotency_key session)" "gt_expires_at g = None"
  obtains claimed s1 where "approve_claim sha clk sid session actor s = (Inr claimed, s1)"
    "gt_tool_name claimed = gt_tool_name g" "gt_canonical_tool_args claimed = gt_canonical_tool_args g"
    "ax_idem s1 = ax_idem s" "ax_dispatched s1 = ax_dispatched s" "ax_backend s1 = ax_backend s"
    "hitl_get sid (ax_hitl s1) = Some (session\<lparr>hs_status := H_APPROVED, hs_updated_at := clk 5, hs_version := hs_version session + 1\<rparr>)"
proof -
  from assms(1) have ok: "grants_ok (ax_grants s)" "hitl_ok (ax_hitl s)" by (simp_all add: ax_ok_def)
  let ?ap = "grant_approve_pending (clk 4) sid (ta_actor_id actor) 1 (ax_grants s)"
  let ?up = "hitl_update_status (clk 5) sid H_APPROVED (hs_version session) (ax_hitl s)"
  let ?q = "claim_request sid session actor"
  let ?g = "g\<lparr>gt_status := G_APPROVED, gt_approving_actor_id := ta_actor_id actor, gt_approved_at := Some (clk 4)\<rparr>"
  have ap: "fst ?ap" using assms(3-5) by (simp add: grant_approve_wins [OF ok(1)])
  have up: "fst ?up" using assms(2) by (simp add: update_wins [OF ok(2)])
  have "gt_session_id g = sid" using assms(3) unfolding grant_get_by_session_def by (auto dest: find_row_Some)
  then have "grant_get_by_session (cq_session_id ?q) (snd ?ap) = Some ?g" "is_consumable_row sha (clk 7) ?q ?g"
    using assms(3-) by (simp_all add: grant_approve_get claim_request_def is_consumable_row_def)
  then have co: "fst (grant_atomic_consume sha (clk 7) ?q (snd ?ap)) = Some (?g\<lparr>gt_status := G_CONSUMING, gt_consuming_at := Some (clk 7)\<rparr>)"
    using consume_result [OF grant_approve_ok [OF ok(1)], of sha "clk 7" ?q] by blast
  show ?thesis
    by (rule that [of "?g\<lparr>gt_status := G_CONSUMING, gt_consuming_at := Some (clk 7)\<rparr>" "snd (approve_claim sha clk sid session actor s)"])
      (use ap up co claim_reaches [of sha s clk sid session actor] assms(2) in
        \<open>simp_all add: approve_claim_def Let_def case_prod_beta update_get\<close>)
qed

text \<open>On a freshly opened session the claim succeeds and the stored call is what remains to be executed.\<close>

lemma opened_claim:
  assumes "ax_ok s" "open_session L sha now sid subj info s = (Inr (), s1)" "resolve ctx = Some actor"
    "interrupt_str L info ''tool_call_id'' [] \<noteq> []"
  obtains claimed s2 where
    "approve resolve sha call clk sid ctx s1 =
       approve_execute call clk sid (new_hitl_session L now sid subj info) claimed s2"
    "gt_tool_name claimed = interrupt_str L info ''tool_name'' ''unknown''"
    "gt_canonical_tool_args claimed = canon (JObj (interrupt_args info))"
    "ax_idem s2 = ax_idem s" "ax_dispatched s2 = ax_dispatched s" "ax_backend s2 = ax_backend s"
    "map_option hs_tool_args (hitl_get sid (ax_hitl s2)) = Some (interrupt_args info)" "ax_ok s2"
proof -
  let ?h = "new_hitl_session L now sid subj info" and ?g = "new_grant_record L sha now sid subj info"
  obtain ht gs where ins: "hitl_insert ?h (ax_hitl s) = Some ht" "grant_insert_pending ?g (ax_grants s) = Some gs"
    and s1: "s1 = s\<lparr>ax_hitl := ht, ax_grants := gs\<rparr>"
    using assms(2) by (auto simp: open_session_def split: option.splits)
  have ok: "ax_ok s1" using ax_reaches_ok [of sha s s1] assms(1,2) open_reaches [of sha s L now sid subj info] by simp
  have h: "hitl_get sid (ax_hitl s1) = Some ?h"
    using insert_get [OF ins(1), of sid] s1 by (simp add: new_hitl_session_def Let_def)
  have g: "grant_get_by_session sid (ax_grants s1) = Some ?g"
    using insert_pending_get [OF ins(2)] s1 by (simp add: new_grant_record_def Let_def)
  have chk: "approve_checks resolve clk sid ctx s1 = Inr (?h, actor)"
    using h assms(3,4) by (simp add: approve_checks_def hitl_is_terminal_def hitl_is_expired_def new_hitl_session_def Let_def)
  obtain claimed s2 where cl: "approve_claim sha clk sid ?h actor s1 = (Inr claimed, s2)"
    "gt_tool_name claimed = gt_tool_name ?g" "gt_canonical_tool_args claimed = gt_canonical_tool_args ?g"
    "ax_idem s2 = ax_idem s1" "ax_dispatched s2 = ax_dispatched s1" "ax_backend s2 = ax_backend s1"
    "hitl_get sid (ax_hitl s2) = Some (?h\<lparr>hs_status := H_APPROVED, hs_updated_at := clk 5, hs_version := hs_version ?h + 1\<rparr>)"
    by (rule claim_succeeds [where clk = clk and actor = actor, OF ok h g])
      (simp_all add: new_grant_record_def new_hitl_session_def Let_def opt_str_def)
  have "ax_reaches sha s1 s2" using claim_reaches [of sha s1 clk sid ?h actor] cl(1) by simp
  then have ok2: "ax_ok s2" using ok by (rule ax_reaches_ok)
  show ?thesis
    by (rule that [of claimed s2])
      (use chk cl s1 ok2 in \<open>simp_all add: approve_def new_grant_record_def new_hitl_session_def Let_def\<close>)
qed

lemma opened_dispatches:
  assumes "ax_ok s" "open_session L sha now sid subj info s = (Inr (), s1)" "resolve ctx = Some actor"
    "interrupt_str L info ''tool_call_id'' [] \<noteq> []"
    "idem_get (str_or (interrupt_str L info ''idempotency_key'' (sid @ '':'' @ interrupt_str L info ''tool_call_id'' [])) sid)
       (ax_idem s) = None"
  shows "ax_dispatched (snd (approve resolve sha call clk sid ctx s1)) = ax_dispatched s @
    [\<lparr>tc_name = interrupt_str L info ''tool_name'' ''unknown'',
      tc_arguments = json_object (canon (JObj (interrupt_args info)))\<rparr>]"
proof -
  let ?h = "new_hitl_session L now sid subj info"
  obtain claimed s2 where cl: "approve resolve sha call clk sid ctx s1 = approve_execute call clk sid ?h claimed s2"
    "gt_tool_name claimed = interrupt_str L info ''tool_name'' ''unknown''"
    "gt_canonical_tool_args claimed = canon (JObj (interrupt_args info))"
    "ax_idem s2 = ax_idem s" "ax_dispatched s2 = ax_dispatched s"
    using opened_claim [where call = call and clk = clk and resolve = resolve and ctx = ctx and actor = actor,
        OF assms(1-4)] by metis
  have "idem_get (str_or (opt_str (hs_idempotency_key ?h)) sid) (ax_idem s2) = None"
    using assms(5) cl(4) by (simp add: new_hitl_session_def Let_def opt_str_def)
  then have "ax_dispatched (snd (approve_execute call clk sid ?h claimed s2)) = ax_dispatched s2 @
      [\<lparr>tc_name = gt_tool_name claimed, tc_arguments = json_object (gt_canonical_tool_args claimed)\<rparr>]"
    by (simp add: approve_execute_def dispatch_reaches(2))
  with cl show ?thesis by simp
qed

text \<open>
  After a successful execution the answer is the tool's, and the key is still RESERVED: the
  store settles only keys that are EXECUTING.
\<close>

lemma opened_succeeds:
  assumes "ax_ok s" "open_session L sha now sid subj info s = (Inr (), s1)" "resolve ctx = Some actor"
    "interrupt_str L info ''tool_call_id'' [] \<noteq> []"
    and key: "key = str_or (interrupt_str L info ''idempotency_key'' (sid @ '':'' @ interrupt_str L info ''tool_call_id'' [])) sid"
      "idem_get key (ax_idem s) = None"
    and call: "call \<lparr>tc_name = interrupt_str L info ''tool_name'' ''unknown'',
      tc_arguments = json_object (canon (JObj (interrupt_args info)))\<rparr> (ax_backend s) = (Inr res, b)" "tr_success res"
  shows "fst (approve resolve sha call clk sid ctx s1) = ar_ok ''approved'' sid (tr_content res) \<and>
    idem_status key (ax_idem (snd (approve resolve sha call clk sid ctx s1))) = Some I_RESERVED \<and>
    ax_backend (snd (approve resolve sha call clk sid ctx s1)) = b \<and>
    map_option hs_tool_args (hitl_get sid (ax_hitl (snd (approve resolve sha call clk sid ctx s1)))) =
      Some (interrupt_args info)"
proof -
  let ?h = "new_hitl_session L now sid subj info"
  obtain claimed s2 where cl: "approve resolve sha call clk sid ctx s1 = approve_execute call clk sid ?h claimed s2"
    "gt_tool_name claimed = interrupt_str L info ''tool_name'' ''unknown''"
    "gt_canonical_tool_args claimed = canon (JObj (interrupt_args info))"
    "ax_idem s2 = ax_idem s" "ax_backend s2 = ax_backend s"
    "map_option hs_tool_args (hitl_get sid (ax_hitl s2)) = Some (interrupt_args info)" "ax_ok s2"
    using opened_claim [where call = call and clk = clk and resolve = resolve and ctx = ctx and actor = actor,
        OF assms(1-4)] by metis
  have k: "str_or (opt_str (hs_idempotency_key ?h)) sid = key"
    by (simp add: key(1) new_hitl_session_def Let_def opt_str_def)
  have ex: "approve_execute call clk sid ?h claimed s2 = approve_dispatch call clk sid ?h key claimed s2"
    using key(2) cl(4) by (simp add: approve_execute_def k)
  obtain z where z: "hitl_get sid (ax_hitl s2) = Some z" "hs_tool_args z = interrupt_args info" using cl(6) by auto
  have "hitl_ok (ax_hitl s2)" using cl(7) by (simp add: ax_ok_def)
  then show ?thesis
    unfolding cl(1) ex using call key(2) cl(2-5) z
    by (simp add: approve_dispatch_def Let_def idem_status_def store_simps)
qed


lemma demo_open_result:
  "open_session demo_lib (\<lambda>j. ''d'') 0 ''s1'' ''user-alice'' demo_info demo_stores = (Inr (), demo_open)"
  by (simp add: demo_open_simps)


text \<open>
  Without a request context the header resolver refuses everyone: the approval endpoint,
  which passes no context, then never dispatches a call.
\<close>

theorem no_context_no_dispatch:
  "ax_dispatched (snd (approve (development_header_resolver h) sha call clk sid None s)) = ax_dispatched s \<and>
   ar_decision (fst (approve (development_header_resolver h) sha call clk sid None s)) \<noteq> ''approved''"
proof (cases "approve_checks (development_header_resolver h) clk sid None s")
  case (Inl r)
  with checks_reaches [of "development_header_resolver h" clk sid None s "fst r" "snd r" sha]
  have "ax_dispatched (snd r) = ax_dispatched s" by simp
  moreover have "ar_decision (fst r) \<noteq> ''approved''"
    using Inl by (auto simp: approve_checks_def ar_fail_def Let_def split: option.splits if_splits)
  ultimately show ?thesis using Inl by (simp add: approve_def)
next
  case (Inr sa)
  with checks_pass(5) [of "development_header_resolver h" clk sid None s "fst sa" "snd sa"]
  show ?thesis by (simp add: development_header_resolver_def)
qed

lemma demo_resumed:
  "\<exists>session. hitl_get ''s1'' (ax_hitl (snd (approve (fixed_actor_resolver ''op'') (\<lambda>j. ''d'') demo_backend int ''s1'' None demo_open))) =
     Some session \<and> hs_status session = H_RESUMED"
  by (simp add: demo_open_simps approve_def approve_checks_def hitl_get_def find_row_def hitl_is_terminal_def
      hitl_is_expired_def fixed_actor_resolver_def approve_claim_def grant_approve_pending_def sql_update_def
      is_pending_version_row_def hitl_update_status_def is_version_row_def grant_atomic_consume_def
      is_consumable_row_def claim_request_def approve_execute_def idem_get_def str_or_def opt_str_def
      approve_dispatch_def demo_backend_def)

text \<open>
  Execution does not end a session: RESUMED, the status after a successful execution, is
  not terminal, so a later rejection is accepted and reports an executed operation as
  rejected.
\<close>

theorem executed_session_can_be_rejected:
  assumes "ax_ok s" "hitl_get sid (ax_hitl s) = Some session" "hs_status session = H_RESUMED" "resolve ctx = Some actor"
  shows "ar_decision (fst (reject_session resolve clk sid ctx s)) = ''rejected'' \<and>
    map_option hs_status (hitl_get sid (ax_hitl (snd (reject_session resolve clk sid ctx s)))) = Some H_REJECTED"
proof -
  have w: "fst (hitl_update_status (clk 0) sid H_REJECTED (hs_version session) (ax_hitl s))"
    using assms by (simp add: update_wins ax_ok_def)
  with assms show ?thesis
    by (simp add: reject_session_def hitl_is_terminal_def case_prod_beta Let_def ar_ok_def update_get)
qed

end
