(* ===== verification/Runtime.thy ===== *)
theory Runtime
  imports Plan Routing Rag Security Approval
begin

text \<open>
  The runtime \<open>agent.py\<close>, which routes a message to one of five execution paths, and the two
  agent endpoints of \<open>api.py\<close>.

  \<open>runtime\<close> holds what is configured once: the collaborators (\<open>deps\<close>), LangGraph's recursion
  limit, the intent router with its optional model, the order of
  Python's sets, the documents of the retriever. \<open>run_state\<close> is what a run changes. Metrics and
  logs, on which no branch depends, are left out; the model router's choice is only logged.
  A reply of the model that is JSON but not an object
  reaches a tool without identity as an empty argument list.
\<close>

section \<open>State\<close>

record ('b, 'l) runtime =
  rt_deps :: "('b, 'l) deps"
  rt_limit :: nat
  rt_router :: "(string \<Rightarrow> string option) option option"
  rt_order :: "string list \<Rightarrow> string list"
  rt_retriever :: "document_chunk list option"
  rt_parse_time :: "string \<Rightarrow> iso_time"

record ('b, 'l) run_state =
  rs_world :: "('b, 'l) world"
  rs_events :: "event_store option"

record run_reply =
  rr_session_id :: string
  rr_final_answer :: "string option"
  rr_step_count :: int
  rr_status :: "string option"
  rr_messages :: "message list"
  rr_interrupt :: "kwargs option"

type_synonym ('b, 'l) run_out = "(pyexn + run_reply) \<times> ('b, 'l) run_state"

definition reply :: "string \<Rightarrow> string \<Rightarrow> int \<Rightarrow> run_reply" where
  "reply run_id answer steps = \<lparr>rr_session_id = run_id, rr_final_answer = Some answer, rr_step_count = steps,
     rr_status = None, rr_messages = [], rr_interrupt = None\<rparr>"

definition persist_event ::
    "('b, 'l) runtime \<Rightarrow> string \<Rightarrow> int \<Rightarrow> event_kind \<Rightarrow> kwargs \<Rightarrow> ('b, 'l) run_state \<Rightarrow> ('b, 'l) run_state" where
  "persist_event R run_id n kind payload s = (case rs_events s of
     None \<Rightarrow> s
   | Some es \<Rightarrow> s\<lparr>rs_events := Some (snd (event_insert
       \<lparr>ev_run_id = run_id, ev_seq = n, ev_kind = kind, ev_payload = payload,
        ev_timestamp = dp_clock (rt_deps R) (w_tick (rs_world s))\<rparr> es))\<rparr>)"

definition ask_llm ::
    "('b, 'l) runtime \<Rightarrow> message list \<Rightarrow> json list option \<Rightarrow> ('b, 'l) run_state \<Rightarrow> (pyexn + message) \<times> ('b, 'l) run_state" where
  "ask_llm R ms tools s =
     (let (r, l) = dp_invoke (rt_deps R) ms tools (w_llm (rs_world s)) in (r, s\<lparr>rs_world := (rs_world s)\<lparr>w_llm := l\<rparr>\<rparr>))"

definition call_backend ::
    "('b, 'l) runtime \<Rightarrow> tool_call \<Rightarrow> ('b, 'l) run_state \<Rightarrow> (pyexn + tool_result) \<times> ('b, 'l) run_state" where
  "call_backend R c s =
     (let w = rs_world s; (r, b) = dp_call (rt_deps R) c (w_backend w)
      in (r, s\<lparr>rs_world := w\<lparr>w_backend := b, w_dispatched := w_dispatched w @ [c]\<rparr>\<rparr>))"

section \<open>Prompts\<close>

text \<open>The system messages of the routes.\<close>

definition direct_prompt :: "string \<Rightarrow> string" where
  "direct_prompt tool =
     (''You are a banking assistant. Extract the required parameters for the tool '' @ quoted tool @
      '' from the user'' @ [CHR 0x27] @ ''s request. Do NOT include user_id or tenant_id -- these are handled by the '' @
      ''system. Respond with ONLY a JSON object. Do not add any other text.'')"

definition rag_prompt :: "string \<Rightarrow> string" where
  "rag_prompt context =
     (''You are a banking knowledge assistant. Answer the user'' @ [CHR 0x27] @ ''s question based ONLY on the provided '' @
      ''document excerpts. Cite your sources. If the documents don'' @ [CHR 0x27] @ ''t contain the answer, say '' @ [CHR 0x27] @ ''The '' @
      ''knowledge base does not contain this information.'' @ [CHR 0x27] @
      nl @
      nl @
      ''Documents:'' @
      nl @ context)"

definition RAG_FALLBACK_PROMPT :: string where
  "RAG_FALLBACK_PROMPT =
     (''You are a banking knowledge assistant. Answer the user'' @ [CHR 0x27] @ ''s question to the best of your '' @
      ''knowledge, but clearly state when you are uncertain. Never fabricate specific fee amounts, '' @
      ''policy details, or regulatory information. Suggest the user contact their bank for definitive '' @
      ''answers.'')"

definition TRANSFER_PROMPT :: string where
  "TRANSFER_PROMPT =
     (''You are a banking transfer assistant. Help the user create a transfer by extracting: '' @
      ''source_account_id, beneficiary name/id, amount, and currency. After creating a draft, summarize '' @
      ''the transfer details and ask for confirmation before submitting. Use the tools: '' @
      ''find_beneficiary, create_transfer_draft. Do NOT call submit_transfer -- the user must explicitly '' @
      ''confirm first.'')"

section \<open>The direct route\<close>

text \<open>\<open>agent.py\<close> has its own copy of the planner's search for a JSON block, and the two agree.\<close>

definition extract_json_block :: "string \<Rightarrow> string" where
  "extract_json_block text = (case extract_fenced text of
     Some block \<Rightarrow> strip block
   | None \<Rightarrow> (case extract_braces text of Some block \<Rightarrow> strip block | None \<Rightarrow> strip text))"

lemma extract_json_block_eq: "extract_json_block text = extract_json text"
  by (simp add: extract_json_block_def extract_json_def split: option.split)

definition IDENTITY_TOOLS :: "string list" where
  "IDENTITY_TOOLS = [''get_account_summary'', ''get_balance'', ''list_transactions'', ''create_transfer_draft'',
     ''submit_transfer'', ''cancel_transfer'', ''report_suspicious_transaction'']"

definition auth_required :: "string \<Rightarrow> run_reply" where
  "auth_required run_id = (reply run_id ''Authentication is required for this operation.'' 1)
     \<lparr>rr_status := Some ''auth_required''\<rparr>"

definition error_recovery :: "string \<Rightarrow> run_reply" where
  "error_recovery run_id = (reply run_id
     (''I had trouble understanding your request. Could you rephrase it with the specific account or details you'' @
      [CHR 0x27] @ ''re asking about?'') 1)\<lparr>rr_status := Some ''error_recovery''\<rparr>"

definition identity_ok :: "string \<Rightarrow> trusted_request_context option \<Rightarrow> bool" where
  "identity_ok tool trusted =
     (tool \<notin> set IDENTITY_TOOLS \<or>
      (case trusted of None \<Rightarrow> False | Some c \<Rightarrow> tx_subject_id c \<noteq> ''anonymous'' \<and> tx_subject_id c \<noteq> []))"

text \<open>The identity fields overwrite what the model gave; only an object can take them.\<close>

definition inject_identity :: "string \<Rightarrow> trusted_request_context option \<Rightarrow> json \<Rightarrow> pyexn + kwargs" where
  "inject_identity tool trusted args =
     (case (tool \<in> set IDENTITY_TOOLS, trusted) of
        (True, Some c) \<Rightarrow>
          (case args of
             JObj kvs \<Rightarrow> Inr (dict_set ''tenant_id'' (JStr (tx_tenant_id c))
                                (dict_set ''user_id'' (JStr (tx_subject_id c)) kvs))
           | _ \<Rightarrow> Inl (TypeError ''object does not support item assignment''))
      | _ \<Rightarrow> Inr (json_object args))"

definition execute_direct ::
    "('b, 'l) runtime \<Rightarrow> route \<Rightarrow> string \<Rightarrow> string \<Rightarrow> trusted_request_context option \<Rightarrow> ('b, 'l) run_state \<Rightarrow>
     (pyexn + run_reply option) \<times> ('b, 'l) run_state" where
  "execute_direct R rt run_id user_message trusted s =
     (case rt_suggested_tools rt of
        None \<Rightarrow> (Inr None, s)
      | Some [] \<Rightarrow> (Inr None, s)
      | Some (tool # _) \<Rightarrow>
          if \<not> identity_ok tool trusted then (Inr (Some (auth_required run_id)), s)
          else (let user = HumanMsg user_message;
                    (r, s1) = ask_llm R [SystemMsg (direct_prompt tool), user] None s
                in case r of
                     Inl e \<Rightarrow> (Inr (Some (error_recovery run_id)), s1)
                   | Inr response \<Rightarrow>
                       (case dp_loads (rt_deps R) (extract_json_block (strip (msg_content response))) of
                          None \<Rightarrow> (Inr (Some (error_recovery run_id)), s1)
                        | Some j \<Rightarrow>
                            (case inject_identity tool trusted j of
                               Inl e \<Rightarrow> (Inl e, s1)
                             | Inr args \<Rightarrow>
                                 (case call_backend R \<lparr>tc_name = tool, tc_arguments = args\<rparr> s1 of
                                    (Inl e, s2) \<Rightarrow> (Inl e, s2)
                                  | (Inr res, s2) \<Rightarrow>
                                      (let answer = (if tr_success res then tr_content res
                                             else ''Error: '' @ (case tr_error res of None \<Rightarrow> ''None'' | Some e \<Rightarrow> e))
                                       in (Inr (Some ((reply run_id answer 1)\<lparr>rr_messages := [user, response]\<rparr>)),
                                           persist_event R run_id 2 E_AGENT_MESSAGE [(''final_answer'', JStr answer)] s2)))))))"

section \<open>The planner route\<close>

definition planner_validator :: "('b, 'l) runtime \<Rightarrow> int \<Rightarrow> plan_validator" where
  "planner_validator R max_steps = \<lparr>pv_registry = dp_registry (rt_deps R), pv_max_steps = max_steps,
     pv_forbidden = [], pv_order = rt_order R\<rparr>"

definition execute_planner ::
    "('b, 'l) runtime \<Rightarrow> route \<Rightarrow> string \<Rightarrow> string \<Rightarrow> string \<Rightarrow> ('b, 'l) run_state \<Rightarrow> ('b, 'l) run_out" where
  "execute_planner R rt run_id plan_id user_message s =
     (let D = rt_deps R; L = dp_lib D;
          V1 = planner_validator R 15;
          V2 = planner_validator R (case rt_max_steps rt of None \<Rightarrow> 15 | Some m \<Rightarrow> if m = 0 then 15 else m);
          (plan, w1) = planner_plan D V1 3 plan_id user_message [] (rs_world s);
          s1 = s\<lparr>rs_world := w1\<rparr>
      in if ep_status plan = PS_REJECTED
         then (Inr (reply run_id ''I could not create a valid plan for this request. Could you rephrase?'' 0), s1)
         else (case validate L V2 plan of
             Inl e \<Rightarrow> (Inl e, s1)
           | Inr v \<Rightarrow>
               if \<not> pv_valid v
               then (Inr (reply run_id (''I'' @ [CHR 0x27] @ ''m unable to process this request: '' @ pv_reason v) 0), s1)
               else (let s2 = persist_event R run_id 1 E_CHECKPOINT
                            [(''kind'', JStr ''PLAN_CREATED''), (''plan_id'', JStr (ep_plan_id plan)),
                             (''steps'', JInt (int (step_count plan)))] s1;
                         (out, w3) = plan_loop D plan (ep_steps plan) [] (rs_world s2);
                         s3 = s2\<lparr>rs_world := w3\<rparr>
                     in case out of
                          PlanStopped msg n \<Rightarrow> (Inr (reply run_id msg (int n)), s3)
                        | PlanCompleted results \<Rightarrow>
                            (Inr (reply run_id (''Task completed in '' @ pl_str L (JInt (int (length results))) @ '' steps:'' @
                               [CHR 0x0A] @ plan_summary results) (int (length results))), s3))))"

section \<open>The knowledge route\<close>

definition rag_context :: "retrieval_result \<Rightarrow> string" where
  "rag_context r = join [CHR 0x0A, CHR 0x0A]
     (map (\<lambda>(c, chunk). to_text c @ [CHR 0x0A] @ take 500 (dc_content chunk)) (zip (citations r) (rv_chunks r)))"

definition rag_fallback ::
    "('b, 'l) runtime \<Rightarrow> string \<Rightarrow> string \<Rightarrow> ('b, 'l) run_state \<Rightarrow> ('b, 'l) run_out" where
  "rag_fallback R run_id user_message s =
     (case ask_llm R [SystemMsg RAG_FALLBACK_PROMPT, HumanMsg user_message] None s of
        (Inl e, s1) \<Rightarrow> (Inl e, s1)
      | (Inr m, s1) \<Rightarrow>
          (Inr (reply run_id (msg_content m) 1),
           persist_event R run_id 2 E_AGENT_MESSAGE [(''final_answer'', JStr (msg_content m))] s1))"

definition execute_rag ::
    "('b, 'l) runtime \<Rightarrow> string \<Rightarrow> string \<Rightarrow> ('b, 'l) run_state \<Rightarrow> ('b, 'l) run_out" where
  "execute_rag R run_id user_message s =
     (case rt_retriever R of
        None \<Rightarrow> rag_fallback R run_id user_message s
      | Some chunks \<Rightarrow>
          (case retrieve (rt_parse_time R) (dp_clock (rt_deps R) (w_tick (rs_world s))) user_message 3 None ''default'' chunks of
             Inl e \<Rightarrow> rag_fallback R run_id user_message s
           | Inr res \<Rightarrow>
               if rv_chunks res = [] then rag_fallback R run_id user_message s
               else (case ask_llm R [SystemMsg (rag_prompt (rag_context res)), HumanMsg user_message] None s of
                   (Inl e, s1) \<Rightarrow> rag_fallback R run_id user_message s1
                 | (Inr m, s1) \<Rightarrow>
                     (Inr (reply run_id (msg_content m) 1),
                      persist_event R run_id 2 E_AGENT_MESSAGE [(''final_answer'', JStr (msg_content m))] s1))))"

section \<open>The graph and the transfer route\<close>

definition recursion_limit_error :: pyexn where
  "recursion_limit_error = RuntimeError ''Recursion limit reached''"

definition is_runtime_error :: "pyexn \<Rightarrow> bool" where
  "is_runtime_error e = (case e of RuntimeError m \<Rightarrow> True | _ \<Rightarrow> False)"

text \<open>The dictionary \<open>graph.ainvoke\<close> returns: the state, with the interrupt when it was suspended.\<close>

definition reply_of_state :: "agent_state \<Rightarrow> run_reply" where
  "reply_of_state st = \<lparr>rr_session_id = (case gs_session_id st of None \<Rightarrow> [] | Some i \<Rightarrow> i),
     rr_final_answer = gs_final_answer st, rr_step_count = gs_step_count st, rr_status = None,
     rr_messages = gs_messages st, rr_interrupt = None\<rparr>"

definition last_content :: "agent_state \<Rightarrow> string" where
  "last_content st = (if gs_messages st = [] then ''Transfer processed.'' else msg_content (last (gs_messages st)))"

definition execute_transfer_workflow ::
    "('b, 'l) runtime \<Rightarrow> string \<Rightarrow> string \<Rightarrow> ('b, 'l) run_state \<Rightarrow> ('b, 'l) run_out" where
  "execute_transfer_workflow R run_id user_message s =
     (let D = rt_deps R; user = HumanMsg user_message;
          tools = map_option (provider_definitions False)
            (case dp_registry D of Some [] \<Rightarrow> None | x \<Rightarrow> x)
      in case ask_llm R [SystemMsg TRANSFER_PROMPT, user] tools s of
           (Inl e, s1) \<Rightarrow>
             (Inr ((reply run_id (''I was unable to process your transfer request. Please try again with the recipient name, '' @
                ''amount, and currency clearly specified.'') 0)\<lparr>rr_status := Some ''error''\<rparr>), s1)
         | (Inr response, s1) \<Rightarrow>
             (let st = \<lparr>gs_messages = [user, response], gs_final_answer = None, gs_step_count = 1,
                        gs_session_id = Some run_id, gs_executed = []\<rparr>;
                  (out, w2) = graph_invoke D (rt_limit R) st (rs_world s1); s2 = s1\<lparr>rs_world := w2\<rparr>;
                  answer = (\<lambda>st'. str_or (opt_str (gs_final_answer st')) (last_content st'))
              in case out of
                   GraphRaised e \<Rightarrow> (Inl e, s2)
                 | GraphRecursionError \<Rightarrow> (Inl recursion_limit_error, s2)
                 | GraphDone st' \<Rightarrow> (Inr (reply run_id (answer st') (gs_step_count st')), s2)
                 | GraphInterrupted p st' \<Rightarrow> (Inr (reply run_id (answer st') (gs_step_count st')), s2)))"

definition run_graph ::
    "('b, 'l) runtime \<Rightarrow> string \<Rightarrow> agent_state \<Rightarrow> ('b, 'l) run_state \<Rightarrow> ('b, 'l) run_out" where
  "run_graph R run_id st s =
     (let (out, w1) = graph_invoke (rt_deps R) (rt_limit R) st (rs_world s); s1 = s\<lparr>rs_world := w1\<rparr>;
          n = gs_step_count st + 1;
          failed = (\<lambda>e. (Inl e, if is_runtime_error e
             then persist_event R run_id n E_CHECKPOINT
                    [(''state'', JObj [(''step_count'', JInt (gs_step_count st)), (''session_id'', JStr run_id)])] s1
             else s1))
      in case out of
           GraphRaised e \<Rightarrow> failed e
         | GraphRecursionError \<Rightarrow> failed recursion_limit_error
         | GraphInterrupted p st' \<Rightarrow>
             (Inr \<lparr>rr_session_id = run_id, rr_final_answer = None, rr_step_count = gs_step_count st,
                   rr_status = None, rr_messages = [], rr_interrupt = Some p\<rparr>,
              persist_event R run_id n E_CHECKPOINT
                [(''kind'', JStr ''HITL_INTERRUPT''), (''interrupt'', JObj p)] s1)
         | GraphDone st' \<Rightarrow>
             (Inr (reply_of_state st'),
              persist_event R run_id n E_AGENT_MESSAGE
                [(''final_answer'', case gs_final_answer st' of None \<Rightarrow> JNull | Some a \<Rightarrow> JStr a)] s1))"

section \<open>A run\<close>

definition reject_reply :: "string \<Rightarrow> run_reply" where
  "reject_reply run_id = (reply run_id (''I'' @ [CHR 0x27] @ ''m sorry, but I can'' @ [CHR 0x27] @
     ''t help with that request. I can assist with account inquiries, transfers, beneficiary lookups, and policy questions.'') 0)
     \<lparr>rr_status := Some ''rejected''\<rparr>"

definition start_state :: "string \<Rightarrow> string \<Rightarrow> agent_state" where
  "start_state run_id user_message = \<lparr>gs_messages = [HumanMsg user_message], gs_final_answer = None,
     gs_step_count = 0, gs_session_id = Some run_id, gs_executed = []\<rparr>"

definition intent_event :: "route \<Rightarrow> kwargs" where
  "intent_event rt = [(''kind'', JStr ''INTENT_CLASSIFIED''), (''intent'', JStr (intent_value (rt_intent rt))),
     (''route'', JStr (route_kind_value (rt_kind rt)))]"

text \<open>Each route in turn; \<open>resumed\<close> runs skip all of them but the rejection.\<close>

definition run_routed ::
    "('b, 'l) runtime \<Rightarrow> route \<Rightarrow> string \<Rightarrow> string \<Rightarrow> string \<Rightarrow> bool \<Rightarrow> trusted_request_context option \<Rightarrow> agent_state \<Rightarrow>
     ('b, 'l) run_state \<Rightarrow> ('b, 'l) run_out" where
  "run_routed R rt run_id plan_id user_message resumed trusted st s =
     (case rt_kind rt of
        R_REJECT \<Rightarrow> (Inr (reject_reply run_id), s)
      | R_DIRECT \<Rightarrow>
          if resumed then run_graph R run_id st s
          else (case execute_direct R rt run_id user_message trusted s of
                  (Inl e, s1) \<Rightarrow> (Inl e, s1)
                | (Inr (Some r), s1) \<Rightarrow> (Inr r, s1)
                | (Inr None, s1) \<Rightarrow> run_graph R run_id st s1)
      | R_PLANNER \<Rightarrow> if resumed then run_graph R run_id st s else execute_planner R rt run_id plan_id user_message s
      | R_RAG \<Rightarrow> if resumed then run_graph R run_id st s else execute_rag R run_id user_message s
      | R_TRANSFER_STATE_MACHINE \<Rightarrow>
          if resumed then run_graph R run_id st s else execute_transfer_workflow R run_id user_message s)"

definition run ::
    "('b, 'l) runtime \<Rightarrow> string \<Rightarrow> string \<Rightarrow> string \<Rightarrow> agent_state option \<Rightarrow> trusted_request_context option \<Rightarrow>
     ('b, 'l) run_state \<Rightarrow> ('b, 'l) run_out" where
  "run R user_message run_id plan_id resume_from_state trusted s =
     (let st = (case resume_from_state of
            None \<Rightarrow> start_state run_id user_message
          | Some st \<Rightarrow> st\<lparr>gs_session_id := Some run_id\<rparr>);
          s1 = (case resume_from_state of
            None \<Rightarrow> persist_event R run_id 0 E_USER_MESSAGE [(''content'', JStr user_message)] s
          | Some _ \<Rightarrow> s)
      in case rt_router R of
           None \<Rightarrow> run_graph R run_id st s1
         | Some llm \<Rightarrow>
             (let rt = router_route llm user_message
              in run_routed R rt run_id plan_id user_message (resume_from_state \<noteq> None) trusted st
                   (persist_event R run_id (gs_step_count st + 1) E_CHECKPOINT (intent_event rt) s1)))"

section \<open>Suspended threads\<close>

text \<open>
  LangGraph's checkpointer keeps, per thread, the suspended state and the values its interrupts
  were already answered with. \<open>system\<close> adds the checkpoints, the session table and the grant
  table to the state of a run; the approval executor shares the idempotency table, the events
  and the backend with the graph.
\<close>

record ('b, 'l) system =
  sy_run :: "('b, 'l) run_state"
  sy_hitl :: hitl_table
  sy_grants :: grant_table
  sy_threads :: "string \<Rightarrow> (agent_state \<times> json list) option"

definition no_checkpoint :: pyexn where
  "no_checkpoint = OtherError ''no suspended checkpoint''"

definition set_thread :: "string \<Rightarrow> json list \<Rightarrow> graph_out \<Rightarrow> ('b, 'l) system \<Rightarrow> ('b, 'l) system" where
  "set_thread t answers out sy = sy\<lparr>sy_threads := (sy_threads sy)(t := (case out of
     GraphInterrupted p st \<Rightarrow> Some (st, answers) | _ \<Rightarrow> None))\<rparr>"

definition resume ::
    "('b, 'l) runtime \<Rightarrow> string \<Rightarrow> json \<Rightarrow> string \<Rightarrow> ('b, 'l) system \<Rightarrow> (pyexn + run_reply) \<times> ('b, 'l) system" where
  "resume R thread_id v run_id sy =
     (case sy_threads sy thread_id of
        None \<Rightarrow> (Inl no_checkpoint, sy)
      | Some (st, answers) \<Rightarrow>
          (let s = sy_run sy;
               (out, w1) = graph_resume (rt_deps R) (rt_limit R) (answers @ [v]) st (rs_world s);
               s1 = s\<lparr>rs_world := w1\<rparr>;
               sy1 = set_thread thread_id (answers @ [v]) out (sy\<lparr>sy_run := s1\<rparr>);
               finished = (\<lambda>st' i. (Inr ((reply_of_state st')\<lparr>rr_interrupt := i\<rparr>),
                 sy1\<lparr>sy_run := persist_event R run_id 0 E_AGENT_MESSAGE
                   [(''final_answer'', case gs_final_answer st' of None \<Rightarrow> JNull | Some a \<Rightarrow> JStr a)] s1\<rparr>))
           in case out of
                GraphRaised e \<Rightarrow> (Inl e, sy1)
              | GraphRecursionError \<Rightarrow> (Inl recursion_limit_error, sy1)
              | GraphDone st' \<Rightarrow> finished st' None
              | GraphInterrupted p st' \<Rightarrow> finished st' (Some p)))"

section \<open>The approval endpoint\<close>

definition approval_view :: "('b, 'l) system \<Rightarrow> 'b approval_state" where
  "approval_view sy = \<lparr>ax_hitl = sy_hitl sy, ax_grants = sy_grants sy,
     ax_idem = (case w_idem (rs_world (sy_run sy)) of None \<Rightarrow> [] | Some t \<Rightarrow> t),
     ax_events = (case rs_events (sy_run sy) of None \<Rightarrow> None | Some e \<Rightarrow> e),
     ax_backend = w_backend (rs_world (sy_run sy)), ax_dispatched = w_dispatched (rs_world (sy_run sy))\<rparr>"

definition approval_put :: "'b approval_state \<Rightarrow> ('b, 'l) system \<Rightarrow> ('b, 'l) system" where
  "approval_put s sy = sy\<lparr>sy_hitl := ax_hitl s, sy_grants := ax_grants s, sy_run := (sy_run sy)
     \<lparr>rs_events := Some (ax_events s),
      rs_world := (rs_world (sy_run sy))\<lparr>w_idem := Some (ax_idem s), w_backend := ax_backend s,
        w_dispatched := ax_dispatched s\<rparr>\<rparr>\<rparr>"

record http_reply =
  ht_session_id :: string
  ht_decision :: string
  ht_result :: "(string \<times> int) option"

datatype http_out = Http_Ok http_reply | Http_Error nat string | Http_Raised pyexn

definition map_executor_result :: "approval_result \<Rightarrow> http_out option" where
  "map_executor_result r =
     (let err = opt_str (ar_error r) in
      if err = [] then None
      else if ar_decision r = ''reconciliation_required'' then Some (Http_Error 409 err)
      else Some (Http_Error (if str_in ''Already'' err then 409 else 500) err))"

definition resumed_reply :: "approval_result \<Rightarrow> pyexn + run_reply \<Rightarrow> http_out" where
  "resumed_reply r g = (case g of
     Inl e \<Rightarrow> Http_Raised e
   | Inr rep \<Rightarrow>
       (let a = str_or (opt_str (rr_final_answer rep)) (opt_str (ar_answer r))
        in Http_Ok \<lparr>ht_session_id = ar_session_id r, ht_decision = ar_decision r,
                    ht_result = (if a = [] then None else Some (a, rr_step_count rep))\<rparr>))"

definition approve_endpoint ::
    "('b, 'l) runtime \<Rightarrow> actor_resolver \<Rightarrow> (json \<Rightarrow> string) \<Rightarrow> (nat \<Rightarrow> timestamp) \<Rightarrow> string \<Rightarrow> string \<Rightarrow> string \<Rightarrow>
     ('b, 'l) system \<Rightarrow> http_out \<times> ('b, 'l) system" where
  "approve_endpoint R resolve sha clk run_id decision session_id sy =
     (if decision = ''reject''
      then (let (r, ax) = reject_session resolve clk session_id None (approval_view sy); sy1 = approval_put ax sy
            in case map_executor_result r of
                 Some h \<Rightarrow> (h, sy1)
               | None \<Rightarrow>
                   (let (g, sy2) = resume R session_id
                          (JObj [(''decision'', JStr ''rejected''),
                                 (''reason'', JStr ''Human operator rejected the operation'')]) run_id sy1
                    in (resumed_reply r g, sy2)))
      else (let (r, ax) = approve resolve sha (dp_call (rt_deps R)) clk session_id None (approval_view sy);
                sy1 = approval_put ax sy
            in case map_executor_result r of
                 Some h \<Rightarrow> (h, sy1)
               | None \<Rightarrow>
                   (let session = hitl_get session_id (sy_hitl sy1);
                        (g, sy2) = resume R (ar_session_id r)
                          (JObj [(''decision'', JStr ''approved''),
                                 (''canonical_args'', JObj (case session of None \<Rightarrow> [] | Some h \<Rightarrow> hs_tool_args h)),
                                 (''tool_name'', JStr (case session of None \<Rightarrow> [] | Some h \<Rightarrow> hs_tool_name h)),
                                 (''tool_call_id'', JStr (case session of None \<Rightarrow> [] | Some h \<Rightarrow> hs_tool_call_id h))])
                          run_id sy1
                    in (resumed_reply r g, sy2))))"

section \<open>Frames\<close>

lemma persist_world [simp]: "rs_world (persist_event R i n k p s) = rs_world s"
  by (simp add: persist_event_def split: option.splits)

lemma ask_llm_world [simp]:
  "w_backend (rs_world (snd (ask_llm R ms ts s))) = w_backend (rs_world s)"
  "w_gateway (rs_world (snd (ask_llm R ms ts s))) = w_gateway (rs_world s)"
  "w_idem (rs_world (snd (ask_llm R ms ts s))) = w_idem (rs_world s)"
  "w_dispatched (rs_world (snd (ask_llm R ms ts s))) = w_dispatched (rs_world s)"
  by (simp_all add: ask_llm_def case_prod_beta Let_def)

lemma call_backend_world [simp]:
  "w_backend (rs_world (snd (call_backend R c s))) = snd (dp_call (rt_deps R) c (w_backend (rs_world s)))"
  "w_gateway (rs_world (snd (call_backend R c s))) = w_gateway (rs_world s)"
  "w_dispatched (rs_world (snd (call_backend R c s))) = w_dispatched (rs_world s) @ [c]"
  by (simp_all add: call_backend_def case_prod_beta Let_def)

text \<open>What the direct route does to the world: nothing, or one call with the injected identity.\<close>

lemma execute_direct_world:
  assumes "execute_direct R rt run_id msg trusted s = (out, s')"
  obtains (none) "w_dispatched (rs_world s') = w_dispatched (rs_world s)"
      "w_backend (rs_world s') = w_backend (rs_world s)" "w_gateway (rs_world s') = w_gateway (rs_world s)"
  | (one) tool tools j args where "rt_suggested_tools rt = Some (tool # tools)" "identity_ok tool trusted"
      "inject_identity tool trusted j = Inr args"
      "w_dispatched (rs_world s') = w_dispatched (rs_world s) @ [\<lparr>tc_name = tool, tc_arguments = args\<rparr>]"
      "w_backend (rs_world s') = snd (dp_call (rt_deps R) \<lparr>tc_name = tool, tc_arguments = args\<rparr> (w_backend (rs_world s)))"
      "w_gateway (rs_world s') = w_gateway (rs_world s)"
proof (cases "\<exists>tool tools. rt_suggested_tools rt = Some (tool # tools) \<and> identity_ok tool trusted")
  case False
  then have "rs_world s' = rs_world s"
    using assms by (auto simp: execute_direct_def split: option.splits list.splits if_splits)
  with none show ?thesis by simp
next
  case True
  then obtain tool tools where t: "rt_suggested_tools rt = Some (tool # tools)" "identity_ok tool trusted" by blast
  obtain r s1 where r: "ask_llm R [SystemMsg (direct_prompt tool), HumanMsg msg] None s = (r, s1)" by fastforce
  have w: "w_backend (rs_world s1) = w_backend (rs_world s)" "w_gateway (rs_world s1) = w_gateway (rs_world s)"
    "w_dispatched (rs_world s1) = w_dispatched (rs_world s)"
    using ask_llm_world [of R "[SystemMsg (direct_prompt tool), HumanMsg msg]" None s] r by simp_all
  show ?thesis
  proof (cases "\<exists>m j args. r = Inr m \<and> dp_loads (rt_deps R) (extract_json_block (strip (msg_content m))) = Some j \<and>
      inject_identity tool trusted j = Inr args")
    case False
    then have "s' = s1"
      using assms t r by (auto simp: execute_direct_def Let_def split: sum.splits option.splits)
    with none w show ?thesis by simp
  next
    case True
    then obtain m j args where m: "r = Inr m" "dp_loads (rt_deps R) (extract_json_block (strip (msg_content m))) = Some j"
      "inject_identity tool trusted j = Inr args" by blast
    have "rs_world s' = rs_world (snd (call_backend R \<lparr>tc_name = tool, tc_arguments = args\<rparr> s1))"
      using assms t r m by (auto simp: execute_direct_def Let_def split: sum.splits prod.splits)
    with w show ?thesis by (intro one [OF t m(3)]) simp_all
  qed
qed

section \<open>Sequences of requests\<close>

text \<open>
  A request runs a message or resumes a suspended state with the answers of its interrupts. The
  state and the answers of a resume are arbitrary: whatever the checkpointer gives back.
\<close>

datatype request =
    RunReq string string string "agent_state option" "trusted_request_context option"
  | ResumeReq "json list" agent_state

fun serve :: "('b, 'l) runtime \<Rightarrow> request \<Rightarrow> ('b, 'l) run_state \<Rightarrow> ('b, 'l) run_state" where
  "serve R (RunReq msg run_id plan_id st trusted) s = snd (run R msg run_id plan_id st trusted s)"
| "serve R (ResumeReq answers st) s =
     s\<lparr>rs_world := snd (graph_resume (rt_deps R) (rt_limit R) answers st (rs_world s))\<rparr>"

section \<open>The read-only policy is kept\<close>

abbreviation read_only_world :: "('b, 'l) world \<Rightarrow> bool" where
  "read_only_world w \<equiv> gw_policy (w_gateway w) = ReadOnlyPolicy"

lemma ask_auth_read_only: "read_only_world w \<Longrightarrow> read_only_world (snd (ask_auth D x w))"
  by (simp add: ask_auth_policy)

lemma tool_loop_read_only:
  assumes "read_only_world w"
  shows "read_only_world (snd (tool_loop D st tcs rs acc ids w))"
proof -
  have "\<exists>rs' :: json list. read_only_world (snd (tool_loop D st tcs rs acc ids w))"
    using assms
  proof (induct rule: tool_loop_induct)
    case (exec tc args w rs d w1 rs')
    then show ?case using ask_auth_read_only [of w D "call_operation D tc"] by (simp add: execute_call_gateway)
  qed (simp_all add: ask_auth_read_only)
  then show ?thesis by simp
qed

lemma graph_loop_read_only: "read_only_world w \<Longrightarrow> read_only_world (snd (graph_loop D n nd rs st w))"
proof (induction n arbitrary: nd rs st w)
  case (Suc n)
  have "read_only_world (snd (tool_node D rs st w))"
    using Suc.prems by (simp add: tool_node_def tool_loop_read_only)
  moreover have "read_only_world (snd (agent_node D st w))"
    using Suc.prems by (auto simp: agent_node_def case_prod_beta Let_def split: sum.splits)
  ultimately show ?case
    using Suc.IH by (cases nd) (auto split: prod.splits sum.splits node_out.splits)
qed simp

text \<open>It never suspends a run: a denied call is answered, not put to a human.\<close>

lemma tool_loop_no_interrupt: "read_only_world w \<Longrightarrow> fst (tool_loop D st tcs rs acc ids w) \<noteq> NodeInterrupt p"
proof (induction tcs arbitrary: rs acc ids w)
  case (Cons tc tcs)
  obtain d w1 where a: "ask_auth D (call_operation D tc) w = (d, w1)" by fastforce
  have w1: "read_only_world w1" using ask_auth_read_only [OF Cons.prems, of D "call_operation D tc"] a by simp
  have "ad_decision d \<noteq> PENDING"
    using ask_auth_policy(2) [of w D "call_operation D tc"] Cons.prems a by (simp split: if_splits)
  moreover have "read_only_world (snd (execute_call D st tc args w1))" for args
    using w1 by (simp add: execute_call_gateway)
  ultimately show ?case
    using Cons w1 a
    by (auto simp: decision_gate_def split: option.splits approval_decision.splits prod.splits sum.splits)
      (metis fst_conv snd_conv)+
qed simp

lemma graph_loop_no_interrupt: "read_only_world w \<Longrightarrow> fst (graph_loop D n nd rs st w) \<noteq> GraphInterrupted p st'"
proof (induction n arbitrary: nd rs st w)
  case (Suc n)
  obtain r w1 where r: "agent_node D st w = (r, w1)" by fastforce
  have w1: "read_only_world w1" using Suc.prems r by (auto simp: agent_node_def case_prod_beta Let_def split: if_splits sum.splits)
  obtain t w2 where t: "tool_node D rs st w = (t, w2)" by fastforce
  have w2: "read_only_world w2" "t \<noteq> NodeInterrupt p"
    using tool_loop_read_only [OF Suc.prems] tool_loop_no_interrupt [OF Suc.prems] t Suc.prems
    by (auto simp: tool_node_def split: if_splits) (metis fst_conv snd_conv)+
  show ?case
    using Suc.IH r t w1 w2 by (cases nd) (auto split: sum.splits node_out.splits)
qed simp

section \<open>Every route of the deployed runtime only reads\<close>

lemma deployed_step_kind_read: "step_kind (Some deployed_registry) n = K_READ \<Longrightarrow> is_read_only n"
  by (rule deployed_registered_read) (auto simp: step_kind_def kind_from_metadata_def split: option.splits if_splits)

definition untouched :: "bank \<Rightarrow> tool_call list \<Rightarrow> (bank_backend, 'l) world \<Rightarrow> bool" where
  "untouched b cs w = (read_only_world w \<and> only_read b cs (w_backend w) (w_dispatched w))"

lemma graph_untouched:
  "untouched b cs w \<Longrightarrow> untouched b cs (snd (graph_loop (deployed L loads clk envs invoke m) n nd rs st w))"
  using graph_loop_read_only [of w "deployed L loads clk envs invoke m" n nd rs st]
    bank_graph.graph_loop_guarded [of b cs w rs L loads clk envs invoke m n nd st]
  by (simp add: untouched_def bank_graph.guarded_def)

lemma step_untouched:
  assumes "untouched b cs w"
  shows "untouched b cs (snd (execute_step (deployed L loads clk envs invoke m) p s None w))"
proof (cases "ps_status s = SS_pending \<and> ps_tool_candidates s \<noteq> []")
  case True
  then obtain tool ts where t: "ps_status s = SS_pending" "ps_tool_candidates s = tool # ts"
    by (cases "ps_tool_candidates s") auto
  let ?D = "deployed L loads clk envs invoke m" and ?c = "\<lparr>tc_name = tool, tc_arguments = []\<rparr>"
  let ?op = "\<lparr>op_kind = step_kind (dp_registry ?D) tool, op_name = tool, op_target = ''step:'' @ ps_step_id s,
    op_details = [(''args'', JObj []), (''plan_id'', JStr (ep_plan_id p))]\<rparr>"
  obtain d w1 where a: "ask_auth ?D ?op w = (d, w1)" by fastforce
  have "w_backend w1 = w_backend w" "w_dispatched w1 = w_dispatched w"
    using ask_auth_frame(1,4) [of ?D ?op w] unfolding a by simp_all
  then have w1: "untouched b cs w1"
    using assms ask_auth_read_only [of w ?D ?op] a by (simp add: untouched_def)
  have read: "is_read_only tool" if "ad_decision d \<noteq> DENIED"
    using that assms ask_auth_policy(2) [of w ?D ?op] a
    by (auto simp: untouched_def deployed_def intro: deployed_step_kind_read split: if_splits)
  have "only_read b cs (snd (banking_call L envs ?c (w_backend w1))) (w_dispatched w1 @ [?c])"
    if "ad_decision d \<noteq> DENIED"
    using w1 read [OF that] by (auto simp: untouched_def intro: only_read_call)
  then show ?thesis
    using t a w1 by (auto simp: execute_step_def Let_def untouched_def deployed_def case_prod_beta split: sum.splits)
qed (use assms in \<open>auto simp: execute_step_def\<close>)

lemma plan_loop_untouched:
  "untouched b cs w \<Longrightarrow> untouched b cs (snd (plan_loop (deployed L loads clk envs invoke m) p ss results w))"
proof (induction ss arbitrary: results w)
  case (Cons s ss)
  have "untouched b cs (snd (execute_step (deployed L loads clk envs invoke m) p s None w'))" if "untouched b cs w'" for w'
    using that by (rule step_untouched)
  with Cons show ?case by (simp add: case_prod_beta Let_def)
qed simp

lemma planner_world:
  "planner_plan D V n pid goal ctxt w = (p, w') \<Longrightarrow> \<exists>l. w' = w\<lparr>w_llm := l\<rparr>"
  using plan_attempts_result by (fastforce simp: planner_plan_def)

lemma ask_llm_after:
  assumes "ask_llm R ms ts s = (r, s1)"
  shows "w_backend (rs_world s1) = w_backend (rs_world s)" "w_gateway (rs_world s1) = w_gateway (rs_world s)"
    "w_dispatched (rs_world s1) = w_dispatched (rs_world s)"
  using ask_llm_world(1,2,4) [of R ms ts s] unfolding assms by simp_all

lemma rag_fallback_world:
  "w_backend (rs_world (snd (rag_fallback R i msg s))) = w_backend (rs_world s)"
  "w_gateway (rs_world (snd (rag_fallback R i msg s))) = w_gateway (rs_world s)"
  "w_dispatched (rs_world (snd (rag_fallback R i msg s))) = w_dispatched (rs_world s)"
  by (auto simp: rag_fallback_def ask_llm_after split: prod.splits sum.splits)

lemma rag_world:
  "w_backend (rs_world (snd (execute_rag R i msg s))) = w_backend (rs_world s)"
  "w_gateway (rs_world (snd (execute_rag R i msg s))) = w_gateway (rs_world s)"
  "w_dispatched (rs_world (snd (execute_rag R i msg s))) = w_dispatched (rs_world s)"
  by (auto simp: execute_rag_def rag_fallback_world ask_llm_after split: option.splits sum.splits prod.splits)

lemma transfer_untouched:
  assumes "rt_deps R = deployed L loads clk envs invoke m" "untouched b cs (rs_world s)"
  shows "untouched b cs (rs_world (snd (execute_transfer_workflow R i msg s)))"
proof -
  let ?tools = "map_option (provider_definitions False) (case dp_registry (rt_deps R) of Some [] \<Rightarrow> None | x \<Rightarrow> x)"
  obtain r s1 where r: "ask_llm R [SystemMsg TRANSFER_PROMPT, HumanMsg msg] ?tools s = (r, s1)" by fastforce
  have u: "untouched b cs (rs_world s1)" using assms(2) ask_llm_after [OF r] by (simp add: untouched_def)
  have g: "untouched b cs (snd (graph_invoke (rt_deps R) (rt_limit R) st (rs_world s1)))" for st
    using graph_untouched [OF u] by (simp add: graph_invoke_def assms(1))
  show ?thesis
  proof (cases r)
    case (Inl e)
    with r u show ?thesis by (simp add: execute_transfer_workflow_def Let_def)
  next
    case (Inr m')
    with r g show ?thesis
      by (simp add: execute_transfer_workflow_def Let_def case_prod_beta split: graph_out.split)
  qed
qed

lemma run_graph_untouched:
  assumes "rt_deps R = deployed L loads clk envs invoke m" "untouched b cs (rs_world s)"
  shows "untouched b cs (rs_world (snd (run_graph R i st s)))"
proof -
  have "untouched b cs (snd (graph_invoke (rt_deps R) (rt_limit R) st (rs_world s)))"
    using graph_untouched [OF assms(2)] by (simp add: graph_invoke_def assms(1))
  then show ?thesis by (simp add: run_graph_def Let_def case_prod_beta split: graph_out.split)
qed

lemma planner_untouched:
  assumes "rt_deps R = deployed L loads clk envs invoke m" "untouched b cs (rs_world s)"
  shows "untouched b cs (rs_world (snd (execute_planner R rt i pid msg s)))"
proof -
  let ?V = "planner_validator R 15"
  obtain p w1 where p: "planner_plan (rt_deps R) ?V 3 pid msg [] (rs_world s) = (p, w1)"
    by fastforce
  from planner_world [OF p] assms(2) have u: "untouched b cs w1" by (auto simp: untouched_def)
  have l: "untouched b cs (snd (plan_loop (rt_deps R) p ss rs w1))" for ss rs
    using plan_loop_untouched [OF u] by (simp add: assms(1))
  show ?thesis
    using u l by (auto simp: execute_planner_def Let_def p case_prod_beta split: sum.split plan_outcome.split)
qed

lemma direct_untouched:
  assumes "rt_deps R = deployed L loads clk envs invoke m" "untouched b cs (rs_world s)"
    "rt_kind (router_route llm msg) = R_DIRECT"
  shows "untouched b cs (rs_world (snd (execute_direct R (router_route llm msg) i msg trusted s)))"
proof -
  obtain r s1 where r: "execute_direct R (router_route llm msg) i msg trusted s = (r, s1)" by fastforce
  then show ?thesis
  proof (cases rule: execute_direct_world)
    case none
    with assms(2) r show ?thesis by (simp add: untouched_def)
  next
    case (one tool tools j args)
    have "is_read_only tool" using direct_route_tools [OF assms(3)] one(1) by auto
    then show ?thesis
      using one(4,5,6) assms(2) r only_read_call [of b cs "w_backend (rs_world s)"]
      by (simp add: assms(1) deployed_def untouched_def)
  qed
qed

lemma run_untouched:
  assumes D: "rt_deps R = deployed L loads clk envs invoke m" and u: "untouched b cs (rs_world s)"
  shows "untouched b cs (rs_world (snd (run R msg i pid resume_st trusted s)))"
proof -
  have routed: "untouched b cs (rs_world (snd (run_routed R (router_route llm msg) i pid msg resumed trusted st s')))"
    if "untouched b cs (rs_world s')" for llm resumed st s'
  proof (cases "rt_kind (router_route llm msg)")
    case R_DIRECT
    obtain r s1 where r: "execute_direct R (router_route llm msg) i msg trusted s' = (r, s1)" by fastforce
    with direct_untouched [OF D that R_DIRECT, of i trusted] have "untouched b cs (rs_world s1)" by simp
    with R_DIRECT r run_graph_untouched [OF D] that show ?thesis
      by (auto simp: run_routed_def split: sum.split option.split)
  next
    case R_RAG
    have "untouched b cs (rs_world (snd (execute_rag R i msg s')))" using that by (simp add: untouched_def rag_world)
    with R_RAG run_graph_untouched [OF D that] show ?thesis by (simp add: run_routed_def)
  qed (use that planner_untouched [OF D that] transfer_untouched [OF D that] run_graph_untouched [OF D that]
       in \<open>simp_all add: run_routed_def\<close>)
  then show ?thesis
    using u run_graph_untouched [OF D] by (auto simp: run_def Let_def split: option.split)
qed

lemma serve_untouched:
  assumes "rt_deps R = deployed L loads clk envs invoke m" "untouched b cs (rs_world s)"
  shows "untouched b cs (rs_world (fold (serve R) reqs s))"
  using assms(2)
proof (induction reqs arbitrary: s)
  case (Cons q reqs)
  have "untouched b cs (rs_world (serve R q s))"
    using Cons.prems run_untouched [OF assms(1)] graph_untouched
    by (cases q) (simp_all add: graph_resume_def assms(1))
  with Cons.IH show ?case by simp
qed simp

section \<open>Approval followed by resumption\<close>

text \<open>A tool node whose only call has been approved hands it to the backend, unless the key is settled.\<close>

lemma resumed_node_dispatches:
  assumes "last_tool_calls st = [tc]" "call_rejection D tc = None" "lc_id tc \<notin> set (gs_executed st)"
    "gw_policy (w_gateway w) = RequireApprovalPolicy" "call_kind D (lc_name tc) \<noteq> K_READ"
    "idem_key_of st tc = Some key" "w_idem w = Some t" "idem_status key t = Some I_RESERVED"
    and v: "v = JObj kvs" "map_of kvs ''decision'' = Some (JStr ''approved'')"
      "map_of kvs ''canonical_args'' = Some (JObj args)"
  shows "w_dispatched (snd (tool_node D [v] st w)) = w_dispatched w @ [\<lparr>tc_name = lc_name tc, tc_arguments = args\<rparr>]"
proof -
  obtain d w1 where a: "ask_auth D (call_operation D tc) w = (d, w1)" by fastforce
  have "ad_decision d = PENDING"
    using ask_auth_policy(2) [of w D "call_operation D tc"] assms(4,5) a by (simp add: call_operation_def)
  then have g: "decision_gate (dp_lib D) st tc d [v] = Proceed args []"
    using v by (simp add: decision_gate_def approval_gate_def)
  have w1: "w_idem w1 = w_idem w" "w_dispatched w1 = w_dispatched w"
    using ask_auth_frame(2,4) [of D "call_operation D tc" w] unfolding a by simp_all
  then have "w_dispatched (snd (execute_call D st tc args w1)) = w_dispatched w @ [\<lparr>tc_name = lc_name tc, tc_arguments = args\<rparr>]"
    using execute_reserved_dispatches [OF assms(6) _ assms(8), of w1] assms(7) by simp
  then show ?thesis
    using assms(1-3) a g by (auto simp: tool_node_def split: prod.splits sum.splits)
qed

lemma approval_put_world:
  "rs_world (sy_run (approval_put ax sy)) = (rs_world (sy_run sy))
     \<lparr>w_idem := Some (ax_idem ax), w_backend := ax_backend ax, w_dispatched := ax_dispatched ax\<rparr>"
  "sy_threads (approval_put ax sy) = sy_threads sy" "sy_hitl (approval_put ax sy) = ax_hitl ax"
  by (simp_all add: approval_put_def)

lemma resume_world:
  assumes "sy_threads sy t = Some (st, answers)"
  shows "rs_world (sy_run (snd (resume R t v i sy))) =
    snd (graph_resume (rt_deps R) (rt_limit R) (answers @ [v]) st (rs_world (sy_run sy)))"
  using assms by (auto simp: resume_def Let_def set_thread_def case_prod_beta split: graph_out.splits)

text \<open>The interrupt of a call, as the endpoint stores it.\<close>

lemma payload_fields:
  assumes "gs_session_id st = Some sid" "sid \<noteq> []"
  shows "interrupt_str L (interrupt_payload st tc) ''tool_call_id'' d = lc_id tc"
    "interrupt_str L (interrupt_payload st tc) ''tool_name'' d = lc_name tc"
    "interrupt_str L (interrupt_payload st tc) ''idempotency_key'' d = sid @ '':'' @ lc_id tc"
    "interrupt_args (interrupt_payload st tc) = lc_args tc"
  using assms by (simp_all add: interrupt_str_def interrupt_args_def interrupt_payload_def dict_get_or_def py_str_def
      sid_or_unknown_def opt_str_def str_or_def json_object_def)

lemma approve_then_resume:
  assumes ax: "ax_ok s0" "open_session L sha now sid subj (interrupt_payload st tc) s0 = (Inr (), approval_view sy)"
      "resolve None = Some actor"
    and th: "sy_threads sy sid = Some (st, [])" "gs_session_id st = Some sid" "sid \<noteq> []" "last_tool_calls st = [tc]"
      "lc_id tc \<noteq> []" "lc_id tc \<notin> set (gs_executed st)" "call_rejection (rt_deps R) tc = None"
      "call_kind (rt_deps R) (lc_name tc) \<noteq> K_READ"
    and w: "gw_policy (w_gateway (rs_world (sy_run sy))) = RequireApprovalPolicy" "rt_limit R = Suc n"
      "idem_get (sid @ '':'' @ lc_id tc) (ax_idem s0) = None"
    and ok: "dp_call (rt_deps R) \<lparr>tc_name = lc_name tc, tc_arguments = json_object (canon (JObj (lc_args tc)))\<rparr>
        (ax_backend s0) = (Inr res, b)" "tr_success res"
    and d: "decision \<noteq> ''reject''"
  shows "prefix (w_dispatched (rs_world (sy_run sy)) @
      [\<lparr>tc_name = lc_name tc, tc_arguments = json_object (canon (JObj (lc_args tc)))\<rparr>,
       \<lparr>tc_name = lc_name tc, tc_arguments = lc_args tc\<rparr>])
    (w_dispatched (rs_world (sy_run (snd (approve_endpoint R resolve sha clk run_id decision sid sy)))))"
proof -
  let ?info = "interrupt_payload st tc" and ?key = "sid @ '':'' @ lc_id tc"
  let ?call = "\<lparr>tc_name = lc_name tc, tc_arguments = json_object (canon (JObj (lc_args tc)))\<rparr>"
  note pf = payload_fields [OF th(2,3)]
  obtain r a where ap: "approve resolve sha (dp_call (rt_deps R)) clk sid None (approval_view sy) = (r, a)" by fastforce
  have key: "?key = str_or (interrupt_str L ?info ''idempotency_key'' (sid @ '':'' @ interrupt_str L ?info ''tool_call_id'' [])) sid"
    by (simp add: pf str_or_def)
  have nid: "interrupt_str L ?info ''tool_call_id'' [] \<noteq> []" using th(5) by (simp add: pf)
  have call: "dp_call (rt_deps R) \<lparr>tc_name = interrupt_str L ?info ''tool_name'' ''unknown'',
      tc_arguments = json_object (canon (JObj (interrupt_args ?info)))\<rparr> (ax_backend s0) = (Inr res, b)"
    using ok(1) by (simp add: pf)
  from opened_succeeds [where resolve = resolve and ctx = None and actor = actor and clk = clk
      and call = "dp_call (rt_deps R)",
      OF ax(1,2,3) nid key w(3) call ok(2)]
  have r: "r = ar_ok ''approved'' sid (tr_content res)" and st: "idem_status ?key (ax_idem a) = Some I_RESERVED"
    and args: "map_option hs_tool_args (hitl_get sid (ax_hitl a)) = Some (lc_args tc)"
    unfolding ap by (simp_all add: pf)
  have disp: "ax_dispatched a = w_dispatched (rs_world (sy_run sy)) @ [?call]"
  proof -
    have "ax_dispatched (approval_view sy) = ax_dispatched s0"
      using open_reaches [of sha s0 L now sid subj ?info] ax(2) by simp
    moreover have "ax_dispatched (approval_view sy) = w_dispatched (rs_world (sy_run sy))"
      by (simp add: approval_view_def)
    moreover have "ax_dispatched a = ax_dispatched s0 @ [?call]"
      using opened_dispatches [where resolve = resolve and ctx = None and actor = actor and clk = clk
          and call = "dp_call (rt_deps R)", OF ax(1,2,3) nid w(3) [unfolded key]]
      unfolding ap by (simp add: pf)
    ultimately show ?thesis by simp
  qed
  obtain h where h: "hitl_get sid (ax_hitl a) = Some h" "hs_tool_args h = lc_args tc" using args by auto
  let ?sy1 = "approval_put a sy"
  let ?v = "JObj [(''decision'', JStr ''approved''), (''canonical_args'', JObj (hs_tool_args h)),
    (''tool_name'', JStr (hs_tool_name h)), (''tool_call_id'', JStr (hs_tool_call_id h))]"
  have e: "snd (approve_endpoint R resolve sha clk run_id decision sid sy) = snd (resume R sid ?v run_id ?sy1)"
    using d by (simp add: approve_endpoint_def ap r ar_ok_def map_executor_result_def opt_str_def h(1)
        approval_put_world case_prod_beta Let_def)
  let ?w = "rs_world (sy_run ?sy1)"
  have "w_dispatched (snd (tool_node (rt_deps R) [?v] st ?w)) =
      w_dispatched ?w @ [\<lparr>tc_name = lc_name tc, tc_arguments = lc_args tc\<rparr>]"
    by (rule resumed_node_dispatches [where key = ?key and t = "ax_idem a", OF th(4,7,6) _ th(8) _ _ _ refl])
      (use w(1) st th(2,5) h(2) in \<open>simp_all add: approval_put_world idem_key_of_def\<close>)
  then have node: "w_dispatched (snd (tool_node (rt_deps R) [?v] st ?w)) =
      w_dispatched (rs_world (sy_run sy)) @ [?call, \<lparr>tc_name = lc_name tc, tc_arguments = lc_args tc\<rparr>]"
    by (simp add: approval_put_world disp)
  obtain out w2 where out: "tool_node (rt_deps R) [?v] st ?w = (out, w2)" by fastforce
  have "prefix (w_dispatched w2) (w_dispatched (snd (graph_loop (rt_deps R) (Suc n) ToolNode [?v] st ?w)))"
    using out by (cases out) (simp_all add: graph_dispatched_grows)
  then show ?thesis
    using node out th(1) by (simp add: e resume_world approval_put_world graph_resume_def w(2))
qed

lemma plan_stopped_text:
  "plan_loop D p ss rs w = (PlanStopped msg n, w') \<Longrightarrow> \<exists>rest. msg = ''Step '' @ rest"
proof (induction ss arbitrary: rs w)
  case (Cons s ss)
  then show ?case by (auto simp: case_prod_beta Let_def split: if_splits)
qed simp

section \<open>Properties\<close>

text \<open>
  The deployed agent is read-only end to end: with the policy \<open>bootstrap.py\<close> installs, no
  sequence of requests changes anything in the bank, whatever messages are sent and with
  whatever identity, whichever route each one takes, whatever the language model answers, and
  whatever suspended states are resumed with whatever values.
\<close>

theorem deployed_requests_never_change_bank:
  assumes "rt_deps R = deployed L loads clk envs invoke m" and "gw_policy (w_gateway (rs_world s)) = ReadOnlyPolicy"
  shows "bank_of (w_backend (rs_world (fold (serve R) reqs s))) = bank_of (w_backend (rs_world s))"
  using serve_untouched [OF assms(1), of "bank_of (w_backend (rs_world s))" "w_dispatched (rs_world s)" s reqs] assms(2)
  by (simp add: untouched_def only_read_def)

definition demo_runtime :: "('b, 'l) deps \<Rightarrow> ('b, 'l) runtime" where
  "demo_runtime D = \<lparr>rt_deps = D, rt_limit = 25, rt_router = Some None, rt_order = remdups,
     rt_retriever = None, rt_parse_time = (\<lambda>s. BadTime)\<rparr>"

definition demo_run_state :: "('b, 'l) world \<Rightarrow> ('b, 'l) run_state" where
  "demo_run_state w = \<lparr>rs_world = w, rs_events = Some (Some [])\<rparr>"

text \<open>
  The direct route, which bypasses the gateway, acts only for the authenticated subject: a
  message routed there leads to at most one tool call; the tool is read-only; and for a tool
  that reads a user's data the caller is authenticated and the user and tenant of the call are
  the caller's, whatever the model put in the arguments.
\<close>

theorem direct_route_acts_for_subject:
  assumes "rt_router R = Some llm" and "rt_kind (router_route llm msg) = R_DIRECT"
    and "run R msg run_id plan_id None trusted s = (out, s')"
  shows "w_dispatched (rs_world s') = w_dispatched (rs_world s) \<or>
    (\<exists>tool args. w_dispatched (rs_world s') = w_dispatched (rs_world s) @ [\<lparr>tc_name = tool, tc_arguments = args\<rparr>] \<and>
      is_read_only tool \<and>
      (if tool \<in> set IDENTITY_TOOLS
       then (case trusted of None \<Rightarrow> False | Some c \<Rightarrow> tx_subject_id c \<noteq> [] \<and> tx_subject_id c \<noteq> ''anonymous'' \<and>
           map_of args ''user_id'' = Some (JStr (tx_subject_id c)) \<and>
           map_of args ''tenant_id'' = Some (JStr (tx_tenant_id c)))
       else True))"
proof -
  let ?rt = "router_route llm msg"
  obtain t ts where tools: "rt_suggested_tools ?rt = Some (t # ts)" "is_read_only t"
    using direct_route_tools [OF assms(2)] by auto
  obtain s1 where s1: "rs_world s1 = rs_world s"
    and r: "run_routed R ?rt run_id plan_id msg False trusted (start_state run_id msg) s1 = (out, s')"
    using assms(1,3) that [of "persist_event R run_id (gs_step_count (start_state run_id msg) + 1) E_CHECKPOINT
        (intent_event ?rt) (persist_event R run_id 0 E_USER_MESSAGE [(''content'', JStr msg)] s)"]
    by (simp add: run_def Let_def)
  obtain o1 s2 where x: "execute_direct R ?rt run_id msg trusted s1 = (o1, s2)" by fastforce
  have "o1 \<noteq> Inr None"
    using x tools(1) by (auto simp: execute_direct_def Let_def split: if_splits sum.splits prod.splits option.splits)
  then have s': "s' = s2" using r x assms(2) by (auto simp: run_routed_def split: sum.splits option.splits)
  from x show ?thesis
  proof (cases rule: execute_direct_world)
    case none
    with s1 s' show ?thesis by simp
  next
    case (one tool tools' j args)
    have "tool = t" using one(1) tools(1) by simp
    with one s1 s' tools(2) show ?thesis
      by (auto simp: identity_ok_def inject_identity_def split: option.splits json.splits)
  qed
qed

definition alice :: trusted_request_context where
  "alice = mk_context ''user-alice'' ''test''"

definition balance_deps :: "(unit, unit) deps" where
  "balance_deps = demo_deps\<lparr>dp_loads := (\<lambda>s. Some (JObj [(''user_id'', JStr ''user-bob'')])),
     dp_invoke := (\<lambda>ms ts l. (Inr (AIMsg ''x'' []), l))\<rparr>"

lemma balance_routed: "rt_kind (router_route None ''balance'') = R_DIRECT"
  by (simp add: router_route_def classify_def KEYWORD_RULES_def rule_matches_def is_word_match_def word_tokens_def
      is_word_char_def strip_def lower_def lower_char_def is_space_def policy_route_def mk_intent_def Let_def)

text \<open>
  On the banking backend the planner route never completes a task: the executor is given no
  arguments and every banking tool needs some, so whatever plan the model proposes, the run
  ends at its first step at the latest, under every policy.
\<close>

theorem planner_route_never_completes:
  assumes "rt_deps R = deployed L loads clk envs invoke m" and "set_order (rt_order R)"
  shows "\<exists>r a. fst (execute_planner R rt run_id plan_id msg s) = Inr r \<and> rr_final_answer r = Some a \<and>
    \<not> starts_with a ''Task completed'' \<and> rr_step_count r \<le> 1 \<and>
    bank_of (w_backend (rs_world (snd (execute_planner R rt run_id plan_id msg s)))) = bank_of (w_backend (rs_world s))"
proof -
  let ?D = "rt_deps R" and ?V = "planner_validator R 15"
  have o: "set_order (pv_order ?V)" using assms(2) by (simp add: planner_validator_def)
  obtain p w1 where p: "planner_plan ?D ?V 3 plan_id msg [] (rs_world s) = (p, w1)" by fastforce
  note res = plan_attempts_result [OF p [unfolded planner_plan_def]]
  then have b1: "bank_of (w_backend w1) = bank_of (w_backend (rs_world s))" by auto
  from res consider (rej) "ep_status p = PS_REJECTED"
    | (val) "ep_status p = PS_VALIDATED" "plan_ok ?V p" "list_all (\<lambda>s. ps_max_retries s = 1) (ep_steps p)"
    by (auto simp: rejected_plan_def dest: valid_plan_ok [OF o])
  then show ?thesis
  proof cases
    case rej
    with p b1 show ?thesis by (simp add: execute_planner_def Let_def reply_def)
  next
    case val
    let ?M = "case rt_max_steps rt of None \<Rightarrow> 15 | Some m \<Rightarrow> if m = 0 then 15 else m"
    have "detect_cycles (rt_order R) (ep_steps p) = Inr []"
      using val(2) validate_iff_plan_ok [OF o, of "dp_lib ?D" p] validate_valid [of "dp_lib ?D" ?V p]
      by (simp add: planner_validator_def)
    then obtain v where v: "validate (dp_lib ?D) (planner_validator R ?M) p = Inr v"
      by (auto simp: validate_def Let_def planner_validator_def)
    have ne: "ep_steps p \<noteq> []" using val(2) by (simp add: plan_ok_def)
    obtain msg' w' where l: "plan_loop ?D p (ep_steps p) [] w1 = (PlanStopped msg' 1, w')"
      "bank_of (w_backend w') = bank_of (w_backend w1)"
      using deployed_plan_stops [OF ne val(3), of L loads clk envs invoke m p w1] by (auto simp: assms(1))
    have "\<not> starts_with msg' ''Task completed''"
      using plan_stopped_text [OF l(1)] by auto
    with p b1 val(1) v l show ?thesis
      by (simp add: execute_planner_def Let_def reply_def)
  qed
qed

text \<open>
  C21. Approval executes twice: when a trusted actor approves the one suspended call of a thread
  and its execution succeeds, the endpoint then resumes the graph, which finds the key of the
  call still RESERVED and hands the same call to the backend again.
\<close>

theorem approved_call_dispatched_twice:
  assumes "ax_ok s0" "open_session L sha now sid subj (interrupt_payload st tc) s0 = (Inr (), approval_view sy)"
      "resolve None = Some actor"
    and "sy_threads sy sid = Some (st, [])" "gs_session_id st = Some sid" "sid \<noteq> []" "last_tool_calls st = [tc]"
      "lc_id tc \<noteq> []" "lc_id tc \<notin> set (gs_executed st)" "call_rejection (rt_deps R) tc = None"
      "call_kind (rt_deps R) (lc_name tc) \<noteq> K_READ"
    and "gw_policy (w_gateway (rs_world (sy_run sy))) = RequireApprovalPolicy" "rt_limit R = Suc n"
      "idem_get (sid @ '':'' @ lc_id tc) (ax_idem s0) = None"
    and "dp_call (rt_deps R) \<lparr>tc_name = lc_name tc, tc_arguments = json_object (canon (JObj (lc_args tc)))\<rparr>
        (ax_backend s0) = (Inr res, b)" "tr_success res"
  shows "prefix (w_dispatched (rs_world (sy_run sy)) @
      [\<lparr>tc_name = lc_name tc, tc_arguments = json_object (canon (JObj (lc_args tc)))\<rparr>,
       \<lparr>tc_name = lc_name tc, tc_arguments = lc_args tc\<rparr>])
    (w_dispatched (rs_world (sy_run (snd (approve_endpoint R resolve sha clk run_id ''approve'' sid sy)))))"
  using assms by (rule approve_then_resume) simp

definition suspended_state :: agent_state where
  "suspended_state = \<lparr>gs_messages = [AIMsg [] [demo_tc ''c1'']], gs_final_answer = None, gs_step_count = 1,
     gs_session_id = Some ''s1'', gs_executed = []\<rparr>"

definition opened_stores :: "unit approval_state" where
  "opened_stores = snd (open_session demo_lib (\<lambda>j. ''d'') 0 ''s1'' ''user-alice''
     (interrupt_payload suspended_state (demo_tc ''c1'')) demo_stores)"

definition demo_system :: "(unit, unit) system" where
  "demo_system = \<lparr>sy_run = demo_run_state demo_unit_world, sy_hitl = ax_hitl opened_stores,
     sy_grants = ax_grants opened_stores,
     sy_threads = (\<lambda>t. if t = ''s1'' then Some (suspended_state, []) else None)\<rparr>"

theorem approved_call_dispatched_twice_witness:
  "prefix [\<lparr>tc_name = ''submit_transfer'', tc_arguments = json_object (canon (JObj (lc_args (demo_tc ''c1''))))\<rparr>,
       \<lparr>tc_name = ''submit_transfer'', tc_arguments = lc_args (demo_tc ''c1'')\<rparr>]
    (w_dispatched (rs_world (sy_run (snd (approve_endpoint (demo_runtime demo_deps) (fixed_actor_resolver ''op'')
       (\<lambda>j. ''d'') int ''r2'' ''approve'' ''s1'' demo_system)))))"
proof -
  have o: "open_session demo_lib (\<lambda>j. ''d'') 0 ''s1'' ''user-alice'' (interrupt_payload suspended_state (demo_tc ''c1''))
      demo_stores = (Inr (), approval_view demo_system)"
    by (simp add: opened_stores_def demo_system_def demo_run_state_def approval_view_def demo_unit_world_def
        open_session_def demo_stores_def hitl_insert_def grant_insert_pending_def sql_insert_def
        new_grant_record_def Let_def)
  have n: "lc_name (demo_tc ''c1'') = ''submit_transfer''" by (simp add: demo_tc_def)
  show ?thesis
    using approved_call_dispatched_twice [of demo_stores demo_lib "\<lambda>j. ''d''" 0 "''s1''" "''user-alice''" suspended_state
        "demo_tc ''c1''" demo_system "fixed_actor_resolver ''op''" "\<lparr>ta_actor_id = ''op'', ta_source = ''test''\<rparr>"
        "demo_runtime demo_deps" 24 "\<lparr>tr_name = ''submit_transfer'', tr_success = True, tr_content = ''ok'', tr_error = None\<rparr>"
        "()" int "''r2''", OF demo_stores_ok o] submit_is_transfer
    by (simp add: n demo_system_def demo_run_state_def demo_unit_world_def fixed_actor_resolver_def suspended_state_def
        last_tool_calls_def demo_runtime_def call_rejection_def demo_deps_def idem_get_def find_row_def demo_stores_def
        demo_tc_def)
qed

text \<open>What the runtime injects is what the context offers for injection.\<close>

lemma injection_is_the_contexts:
  assumes "tool \<in> set IDENTITY_TOOLS"
  shows "inject_identity tool (Some c) (JObj kvs) = Inr (fold (\<lambda>(k, v). dict_set k v) (to_injection_dict c) kvs)"
  using assms by (simp add: inject_identity_def to_injection_dict_def)

end
