(* ===== verification/Threads.thy ===== *)
theory Threads
  imports Json
begin

text \<open>
  The thread registry, \<open>conversation_service.py\<close>: its dictionary of thread metadata and the
  operations on it, the clock an argument. The life of a registry is the step relation
  \<open>thread_step\<close>; its invariant is proved by rule induction over the reachable registries.
\<close>

record thread_info =
  ti_thread_id :: string
  ti_created_at :: string
  ti_updated_at :: string
  ti_message_count :: int
  ti_status :: string

type_synonym thread_service = "(string \<times> thread_info) list"

definition thread_exists_error :: "string \<Rightarrow> pyexn" where
  "thread_exists_error t = ValueError (''Thread already exists: '' @ quoted t)"

definition new_thread :: "string \<Rightarrow> string \<Rightarrow> thread_info" where
  "new_thread now t = \<lparr>ti_thread_id = t, ti_created_at = now, ti_updated_at = now, ti_message_count = 0,
     ti_status = ''active''\<rparr>"

definition create_thread :: "string \<Rightarrow> string \<Rightarrow> thread_service \<Rightarrow> (pyexn + thread_info) \<times> thread_service" where
  "create_thread now t svc = (case dict_get svc t of
     Some old \<Rightarrow>
       if ti_status old = ''deleted'' then (Inr (new_thread now t), dict_set t (new_thread now t) svc)
       else (Inl (thread_exists_error t), svc)
   | None \<Rightarrow> (Inr (new_thread now t), dict_set t (new_thread now t) svc))"

definition get_thread :: "string \<Rightarrow> thread_service \<Rightarrow> thread_info option" where
  "get_thread t svc = (case dict_get svc t of
     None \<Rightarrow> None | Some i \<Rightarrow> if ti_status i = ''deleted'' then None else Some i)"

definition touch_thread :: "string \<Rightarrow> string \<Rightarrow> thread_service \<Rightarrow> bool \<times> thread_service" where
  "touch_thread now t svc = (case dict_get svc t of
     None \<Rightarrow> (False, svc)
   | Some i \<Rightarrow>
       if ti_status i = ''deleted'' then (False, svc)
       else (True, dict_set t (i\<lparr>ti_updated_at := now, ti_message_count := ti_message_count i + 1\<rparr>) svc))"

definition set_status :: "string \<Rightarrow> string \<Rightarrow> thread_service \<Rightarrow> bool \<times> thread_service" where
  "set_status status t svc = (case dict_get svc t of
     None \<Rightarrow> (False, svc) | Some i \<Rightarrow> (True, dict_set t (i\<lparr>ti_status := status\<rparr>) svc))"

definition archive_thread :: "string \<Rightarrow> thread_service \<Rightarrow> bool \<times> thread_service" where
  "archive_thread = set_status ''archived''"

definition delete_thread :: "string \<Rightarrow> thread_service \<Rightarrow> bool \<times> thread_service" where
  "delete_thread = set_status ''deleted''"

definition list_active_threads :: "thread_service \<Rightarrow> thread_info list" where
  "list_active_threads svc = filter (\<lambda>i. ti_status i \<notin> {''deleted'', ''archived''}) (map snd svc)"

definition active_count :: "thread_service \<Rightarrow> nat" where
  "active_count svc = length (list_active_threads svc)"

section \<open>The life of a registry\<close>

datatype thread_call = CreateT string string | TouchT string string | ArchiveT string | DeleteT string

inductive thread_step :: "thread_service \<Rightarrow> thread_call \<Rightarrow> thread_service \<Rightarrow> bool" where
  created: "create_thread now t svc = (Inr i, svc') \<Longrightarrow> thread_step svc (CreateT now t) svc'"
| touched: "touch_thread now t svc = (True, svc') \<Longrightarrow> thread_step svc (TouchT now t) svc'"
| archived: "archive_thread t svc = (True, svc') \<Longrightarrow> thread_step svc (ArchiveT t) svc'"
| deleted: "delete_thread t svc = (True, svc') \<Longrightarrow> thread_step svc (DeleteT t) svc'"

inductive thread_reachable :: "thread_service \<Rightarrow> bool" where
  start: "thread_reachable []"
| step: "thread_reachable svc \<Longrightarrow> thread_step svc c svc' \<Longrightarrow> thread_reachable svc'"

inductive_cases thread_stepE: "thread_step svc c svc'"

inductive_simps thread_step_simps:
  "thread_step svc (CreateT now t) svc'" "thread_step svc (TouchT now t) svc'"
  "thread_step svc (ArchiveT t) svc'" "thread_step svc (DeleteT t) svc'"

definition thread_ok :: "string \<times> thread_info \<Rightarrow> bool" where
  "thread_ok e = (ti_thread_id (snd e) = fst e \<and> ti_status (snd e) \<in> {''active'', ''archived'', ''deleted''}
     \<and> 0 \<le> ti_message_count (snd e))"

definition threads_ok :: "thread_service \<Rightarrow> bool" where
  "threads_ok svc = (dict_ok svc \<and> list_all thread_ok svc)"

lemma thread_ok_set: "list_all thread_ok svc \<Longrightarrow> thread_ok (t, i) \<Longrightarrow> list_all thread_ok (dict_set t i svc)"
  by (induction svc) (auto split: if_splits)

lemma threads_ok_set: "threads_ok svc \<Longrightarrow> thread_ok (t, i) \<Longrightarrow> threads_ok (dict_set t i svc)"
  by (simp add: threads_ok_def thread_ok_set dict_ok_set)

lemma threads_ok_get: "threads_ok svc \<Longrightarrow> dict_get svc t = Some i \<Longrightarrow> thread_ok (t, i)"
  by (auto simp: threads_ok_def list_all_iff dest: map_of_SomeD)

lemma threads_ok_step: "thread_step svc c svc' \<Longrightarrow> threads_ok svc \<Longrightarrow> threads_ok svc'"
proof (erule thread_stepE)
  assume ok: "threads_ok svc"
  note get = threads_ok_get [OF ok]
  show "threads_ok svc'" if "create_thread now t svc = (Inr i, svc')" for now t i
    using that ok by (auto simp: create_thread_def thread_ok_def new_thread_def intro!: threads_ok_set split: option.splits if_splits)
  show "threads_ok svc'" if "touch_thread now t svc = (True, svc')" for now t
    using that ok get [of t] by (auto simp: touch_thread_def thread_ok_def intro!: threads_ok_set split: option.splits if_splits)
  show "threads_ok svc'" if "archive_thread t svc = (True, svc')" for t
    using that ok get [of t] by (auto simp: archive_thread_def set_status_def thread_ok_def intro!: threads_ok_set split: option.splits)
  show "threads_ok svc'" if "delete_thread t svc = (True, svc')" for t
    using that ok get [of t] by (auto simp: delete_thread_def set_status_def thread_ok_def intro!: threads_ok_set split: option.splits)
qed

lemma reachable_threads_ok: "thread_reachable svc \<Longrightarrow> threads_ok svc"
proof (induction rule: thread_reachable.induct)
  case start
  then show ?case by (simp add: threads_ok_def dict_ok_def)
next
  case (step svc c svc')
  then show ?case by (blast intro: threads_ok_step)
qed

text \<open>Which calls can make a deleted thread visible again.\<close>

fun revives :: "string \<Rightarrow> thread_call \<Rightarrow> bool" where
  "revives t (CreateT now u) = (u = t)"
| "revives t (ArchiveT u) = (u = t)"
| "revives t c = False"

lemma hidden_step: "thread_step svc c svc' \<Longrightarrow> get_thread t svc = None \<Longrightarrow> \<not> revives t c \<Longrightarrow> get_thread t svc' = None"
  by (erule thread_stepE)
    (auto simp: get_thread_def create_thread_def touch_thread_def archive_thread_def delete_thread_def set_status_def
      map_of_dict_set split: option.splits if_splits)

lemma archive_revives:
  assumes "dict_get svc t = Some i" "ti_status i = ''deleted''"
  shows "get_thread t (snd (archive_thread t svc)) = Some (i\<lparr>ti_status := ''archived''\<rparr>)"
  using assms by (simp add: get_thread_def archive_thread_def set_status_def map_of_dict_set)

section \<open>Properties\<close>


lemma demo_reachable: "thread_reachable [(''t'', (new_thread ''now'' ''t'')\<lparr>ti_status := ''deleted''\<rparr>)]"
proof -
  have "thread_step [] (CreateT ''now'' ''t'') [(''t'', new_thread ''now'' ''t'')]"
    by (simp add: thread_step_simps create_thread_def)
  moreover have "thread_step [(''t'', new_thread ''now'' ''t'')] (DeleteT ''t'')
      [(''t'', (new_thread ''now'' ''t'')\<lparr>ti_status := ''deleted''\<rparr>)]"
    by (simp add: thread_step_simps delete_thread_def set_status_def)
  ultimately show ?thesis by (blast intro: thread_reachable.intros)
qed


text \<open>Creating a thread adds one active thread.\<close>

lemma create_adds_active:
  assumes "dict_get svc t = None"
  shows "active_count (snd (create_thread now t svc)) = Suc (active_count svc)"
  using assms by (simp add: create_thread_def active_count_def list_active_threads_def new_thread_def dict_set_new)

end
