(* ===== verification/Api.thy ===== *)
theory Api
  imports Runtime Threads
begin

text \<open>
  The HTTP service, \<open>api.py\<close>: the guards of \<open>create_app\<close>, the rate limiter, the agent endpoint,
  the probes, the thread and audit endpoints. The approval endpoint is in \<open>Runtime\<close>. An
  \<open>HTTPException\<close> is \<open>Api_Error\<close>, a \<open>JSONResponse\<close> with its own status \<open>Api_Json\<close>; any other exception
  that leaves a handler is \<open>Api_Raised\<close>. The middleware and the routes are in \<open>Http_Service\<close>.
  Request bodies have passed FastAPI's validation. What LangGraph's checkpointer holds after a
  run is an argument of the agent endpoint.
\<close>

datatype api_out = Api_Ok json | Api_Json nat json | Api_Error nat json | Api_Raised pyexn

section \<open>Building the application\<close>

record app_deps =
  ad_gateway :: bool
  ad_hitl_store :: bool
  ad_grant_repo :: bool
  ad_executor :: bool
  ad_db_path :: string

text \<open>The guards of \<open>create_app\<close>; the result tells whether there is a session store.\<close>

definition create_app :: "app_deps \<Rightarrow> pyexn + bool" where
  "create_app a =
     (if \<not> ad_gateway a
      then Inl (RuntimeError ''create_app requires an explicit AuthorizationGateway -- refusing to fail open'')
      else if (ad_hitl_store a \<and> ad_grant_repo a \<or> ad_db_path a \<noteq> []) \<and> \<not> ad_executor a
      then Inl (RuntimeError ''HITL is fully enabled but approval_executor is not provided.'')
      else Inr (ad_hitl_store a \<or> ad_db_path a \<noteq> []))"

section \<open>Rate limiting\<close>

record rate_limiter =
  rl_max :: int
  rl_window :: int
  rl_counters :: "(string \<times> pyfloat list) list"

definition rate_key :: "headers \<Rightarrow> string \<Rightarrow> string" where
  "rate_key hs path = dict_get_or hs ''x-tenant-id'' ''default'' @ '':'' @ path"

definition rate_limit :: "string \<Rightarrow> pyfloat \<Rightarrow> rate_limiter \<Rightarrow> bool \<times> rate_limiter" where
  "rate_limit key now rl =
     (let cs = (if dict_has (rl_counters rl) key then rl_counters rl else dict_set key [] (rl_counters rl));
          timestamps = filter (\<lambda>t. fless (fsub now t) (Fin (of_int (rl_window rl)))) (dict_get_or cs key [])
      in if rl_max rl \<le> int (length timestamps) then (False, rl\<lparr>rl_counters := cs\<rparr>)
         else (True, rl\<lparr>rl_counters := dict_set key (timestamps @ [now]) cs\<rparr>))"

text \<open>A sequence of requests with their clock readings, and the admitted times of one key.\<close>

fun rate_run :: "(string \<times> rat) list \<Rightarrow> rate_limiter \<Rightarrow> (string \<times> rat) list \<times> rate_limiter" where
  "rate_run [] rl = ([], rl)"
| "rate_run ((key, now) # rs) rl =
     (let (ok, rl1) = rate_limit key (Fin now) rl; (adm, rl2) = rate_run rs rl1
      in (if ok then (key, now) # adm else adm, rl2))"

definition admitted :: "string \<Rightarrow> (string \<times> rat) list \<Rightarrow> rat list" where
  "admitted key adm = map snd (filter (\<lambda>r. fst r = key) adm)"

definition in_window :: "int \<Rightarrow> rat \<Rightarrow> rat \<Rightarrow> bool" where
  "in_window w now t = fless (fsub (Fin now) (Fin t)) (Fin (of_int w))"

section \<open>The agent endpoint\<close>

definition agent_operation :: "string option \<Rightarrow> string \<Rightarrow> trusted_request_context \<Rightarrow> operation" where
  "agent_operation session_id message c =
     \<lparr>op_kind = K_READ, op_name = ''agent_request'', op_target = ''session:'' @ str_or (opt_str session_id) ''new'',
      op_details = [(''message'', JStr message), (''subject_id'', JStr (tx_subject_id c))]\<rparr>"

definition error_detail :: "string \<Rightarrow> string \<Rightarrow> trusted_request_context \<Rightarrow> json" where
  "error_detail code message c = JObj [(''error_code'', JStr code), (''message'', JStr message),
     (''correlation_id'', JStr (tx_correlation_id c))]"

text \<open>Storing an interrupt, in the stores the application was built with.\<close>

definition store_interrupt ::
    "bool \<Rightarrow> bool \<Rightarrow> pylib \<Rightarrow> (json \<Rightarrow> string) \<Rightarrow> timestamp \<Rightarrow> string \<Rightarrow> string \<Rightarrow> kwargs \<Rightarrow> 'b approval_state \<Rightarrow>
     (pyexn + unit) \<times> 'b approval_state" where
  "store_interrupt hitl grants L sha now session_id subject info s =
     (case (if hitl then map_option (\<lambda>t. s\<lparr>ax_hitl := t\<rparr>)
                           (hitl_insert (new_hitl_session L now session_id subject info) (ax_hitl s))
            else Some s) of
        None \<Rightarrow> (Inl integrity_error, s)
      | Some s1 \<Rightarrow>
          if \<not> grants then (Inr (), s1)
          else case grant_insert_pending (new_grant_record L sha now session_id subject info) (ax_grants s1) of
            None \<Rightarrow> (Inl integrity_error, s1)
          | Some gs \<Rightarrow> (Inr (), s1\<lparr>ax_grants := gs\<rparr>))"

definition agent_endpoint ::
    "('b, 'l) runtime \<Rightarrow> app_deps \<Rightarrow> (json \<Rightarrow> string) \<Rightarrow> (nat \<Rightarrow> timestamp) \<Rightarrow> string \<Rightarrow> string \<Rightarrow>
     (string \<Rightarrow> (agent_state \<times> json list) option) \<Rightarrow> trusted_request_context \<Rightarrow> string option \<Rightarrow> string \<Rightarrow>
     ('b, 'l) system \<Rightarrow> api_out \<times> ('b, 'l) system" where
  "agent_endpoint R a sha clk new_id plan_id ckpt c session_id message sy =
     (if tx_subject_id c \<in> {''anonymous'', []}
      then (Api_Error 401 (JStr ''Authentication required -- provide valid credentials''), sy)
      else
        (let w = rs_world (sy_run sy);
             (d, gw) = gateway_authorize (dp_lib (rt_deps R)) (clk 0) (clk 1) (agent_operation session_id message c) (w_gateway w);
             sy1 = sy\<lparr>sy_run := (sy_run sy)\<lparr>rs_world := w\<lparr>w_gateway := gw\<rparr>\<rparr>\<rparr>
         in if ad_decision d = DENIED then (Api_Error 403 (JStr ''Request denied by authorization policy''), sy1)
         else if ad_decision d = PENDING then (Api_Error 401 (JStr ''Request requires human approval''), sy1)
         else if 10000 < length message
         then (Api_Error 422 (JObj [(''error_code'', JStr ''PROMPT_TOO_LONG''),
                 (''message'', JStr ''Request message exceeds maximum length.'')]), sy1)
         else
           (let run_id = str_or (opt_str session_id) new_id;
                (r, s2) = run R message run_id plan_id None (Some c) (sy_run sy1);
                sy2 = sy1\<lparr>sy_run := s2, sy_threads := ckpt\<rparr>
            in case r of
                 Inl e \<Rightarrow>
                   (Api_Error 500 (if is_runtime_error e
                      then error_detail ''AGENT_EXECUTION_FAILED'' ''The request could not be completed.'' c
                      else error_detail ''INTERNAL_ERROR'' ''An unexpected error occurred.'' c), sy2)
               | Inr rep \<Rightarrow>
                   (case rr_interrupt rep of
                      Some (i # is) \<Rightarrow>
                        (let info = i # is;
                             sid = str_or (opt_str session_id) (interrupt_str (dp_lib (rt_deps R)) info ''session_id'' ''unknown'');
                             (stored, ax) = store_interrupt (ad_hitl_store a \<or> ad_db_path a \<noteq> []) (ad_grant_repo a)
                                (dp_lib (rt_deps R)) sha (clk 2) sid (tx_subject_id c) info (approval_view sy2);
                             sy3 = sy2\<lparr>sy_hitl := ax_hitl ax, sy_grants := ax_grants ax\<rparr>
                         in case stored of
                              Inl e \<Rightarrow> (Api_Raised e, sy3)
                            | Inr _ \<Rightarrow> (Api_Error 202 (JStr (''Action requires approval. Use POST /agent/approve with session_id='' @ sid)), sy3))
                    | _ \<Rightarrow>
                        (Api_Ok (JObj [(''session_id'', JStr (rr_session_id rep)),
                           (''answer'', case rr_final_answer rep of None \<Rightarrow> JNull | Some s \<Rightarrow> JStr s),
                           (''step_count'', JInt (rr_step_count rep)), (''status'', JStr ''complete'')]), sy2)))))"

section \<open>Probes\<close>

text \<open>\<open>mcp\<close>: whether the client has an attribute \<open>tools\<close>, and how many; \<open>llm\<close>: whether one is
  configured.\<close>

definition readiness :: "nat option \<Rightarrow> bool \<Rightarrow> api_out" where
  "readiness mcp llm =
     (let checks = [(''mcp'', if mcp \<noteq> None then ''ok'' else ''degraded''), (''provider'', if llm then ''configured'' else ''missing'')];
          failed = map fst (filter (\<lambda>(k, v). v \<in> {''error'', ''missing''}) checks);
          shown = JObj (map (\<lambda>(k, v). (k, JStr v)) checks)
      in if failed \<noteq> []
         then Api_Json 503 (JObj [(''status'', JStr ''not_ready''), (''checks'', shown), (''failed'', JArr (map JStr failed))])
         else Api_Ok (JObj [(''status'', JStr ''ready''), (''checks'', shown)]))"

definition deep_health :: "string \<Rightarrow> nat option \<Rightarrow> bool \<Rightarrow> api_out" where
  "deep_health version mcp llm = Api_Ok (JObj [(''status'', JStr ''ok''), (''version'', JStr version),
     (''mcp_tools'', JInt (int (case mcp of None \<Rightarrow> 0 | Some n \<Rightarrow> n))), (''provider_configured'', JBool llm)])"

section \<open>Threads and audit\<close>

text \<open>Every request builds a thread service of its own.\<close>

definition create_thread_endpoint :: "string \<Rightarrow> string \<Rightarrow> api_out" where
  "create_thread_endpoint now uuid = (case fst (create_thread now uuid []) of
     Inl e \<Rightarrow> Api_Raised e
   | Inr i \<Rightarrow> Api_Ok (JObj [(''thread_id'', JStr (ti_thread_id i)), (''created_at'', JStr (ti_created_at i)),
       (''status'', JStr (ti_status i))]))"

definition get_thread_endpoint :: "string \<Rightarrow> api_out" where
  "get_thread_endpoint t = (case get_thread t [] of
     None \<Rightarrow> Api_Error 404 (JStr ''Thread not found'')
   | Some i \<Rightarrow> Api_Ok (JObj [(''thread_id'', JStr (ti_thread_id i)), (''created_at'', JStr (ti_created_at i)),
       (''updated_at'', JStr (ti_updated_at i)), (''message_count'', JInt (ti_message_count i)), (''status'', JStr (ti_status i))]))"

definition delete_thread_endpoint :: "string \<Rightarrow> api_out" where
  "delete_thread_endpoint t = (if \<not> fst (delete_thread t []) then Api_Error 404 (JStr ''Thread not found'')
     else Api_Ok (JObj [(''thread_id'', JStr t), (''status'', JStr ''deleted'')]))"

text \<open>The event store has no \<open>list_by_run\<close>: the attribute error is caught.\<close>

definition list_audit_events :: "bool \<Rightarrow> string \<Rightarrow> api_out" where
  "list_audit_events configured run_id =
     (if \<not> configured then Api_Error 501 (JStr ''Event store not configured'')
      else if run_id \<noteq> [] then Api_Error 500 (JStr ''Failed to query audit events'')
      else Api_Ok (JObj [(''events'', JArr []), (''count'', JInt 0)]))"

section \<open>The sliding window\<close>

lemma rate_limit_key:
  assumes "rate_limit key now rl = (ok, rl1)"
  defines "ts \<equiv> filter (\<lambda>t. fless (fsub now t) (Fin (of_int (rl_window rl)))) (dict_get_or (rl_counters rl) key [])"
  shows "ok \<longleftrightarrow> int (length ts) < rl_max rl"
    and "dict_get_or (rl_counters rl1) k [] = (if ok \<and> k = key then ts @ [now] else dict_get_or (rl_counters rl) k [])"
    and "rl_max rl1 = rl_max rl" "rl_window rl1 = rl_window rl"
  using assms(1) unfolding ts_def
  by (auto simp: rate_limit_def Let_def dict_get_or_def dict_has_def map_of_dict_set split: if_splits option.splits)

text \<open>What the limiter keeps of a key: of the admitted times, all that a later request could
  still find in its window.\<close>

definition window_kept :: "string \<Rightarrow> rat \<Rightarrow> (string \<times> rat) list \<Rightarrow> rate_limiter \<Rightarrow> bool" where
  "window_kept key since adm rl =
     ((\<forall>now \<ge> since. filter (\<lambda>t. fless (fsub (Fin now) t) (Fin (of_int (rl_window rl)))) (dict_get_or (rl_counters rl) key [])
        = map Fin (filter (in_window (rl_window rl) now) (admitted key adm)))
      \<and> (\<forall>t \<in> set (admitted key adm). t \<le> since))"

lemma admitted_simps [simp]:
  "admitted key [] = []" "admitted key ((k, t) # adm) = (if k = key then t # admitted key adm else admitted key adm)"
  "admitted key (adm @ [(k, t)]) = admitted key adm @ (if k = key then [t] else [])"
  by (simp_all add: admitted_def)

lemma window_kept_step:
  assumes kept: "window_kept key since adm rl" and later: "since \<le> now"
    and step: "rate_limit k (Fin now) rl = (ok, rl1)"
  shows "window_kept key now (if ok then adm @ [(k, now)] else adm) rl1"
proof -
  let ?W = "rl_window rl" and ?ts = "dict_get_or (rl_counters rl) key []"
  let ?f = "\<lambda>now t. fless (fsub (Fin now) t) (Fin (of_int ?W))"
  note rk = rate_limit_key [OF step]
  have old: "filter (?f u) ?ts = map Fin (filter (in_window ?W u) (admitted key adm))" if "now \<le> u" for u
    using kept that later by (simp add: window_kept_def)
  have ts: "?f u t \<Longrightarrow> ?f now t" if "now \<le> u" "t \<in> set (filter (?f u) ?ts)" for u t
  proof -
    from that old have "t \<in> Fin ` set (admitted key adm)" by auto
    then obtain q where "t = Fin q" "q \<le> now" using kept later by (auto simp: window_kept_def)
    with that show "?f u t \<Longrightarrow> ?f now t" using elapsed_mono by blast
  qed
  have again: "filter (?f u) (filter (?f now) ?ts) = filter (?f u) ?ts" if "now \<le> u" for u
    using ts [OF that] by (auto simp: filter_filter intro!: filter_cong)
  have le: "\<forall>t \<in> set (admitted key adm). t \<le> now" using kept later by (auto simp: window_kept_def)
  show ?thesis
  proof (cases "ok \<and> k = key")
    case True
    then have "dict_get_or (rl_counters rl1) key [] = filter (?f now) ?ts @ [Fin now]"
      using rk(2) [of key] by simp
    with True again old le rk(4) show ?thesis
      by (auto simp: window_kept_def in_window_def)
  next
    case False
    then have "dict_get_or (rl_counters rl1) key [] = ?ts" using rk(2) [of key] by auto
    with False old le rk(4) show ?thesis by (auto simp: window_kept_def)
  qed
qed

text \<open>Of every admitted request, the admitted ones of its window (itself included) are at most \<open>m\<close>.\<close>

fun within_rate :: "int \<Rightarrow> int \<Rightarrow> rat list \<Rightarrow> rat list \<Rightarrow> bool" where
  "within_rate m w before [] = True"
| "within_rate m w before (t # ts) =
     (int (length (filter (in_window w t) (before @ [t]))) \<le> m \<and> within_rate m w (before @ [t]) ts)"

lemma rate_run_within:
  assumes "window_kept key since adm rl" "sorted (since # map snd rs)"
  shows "within_rate (rl_max rl) (rl_window rl) (admitted key adm) (admitted key (fst (rate_run rs rl)))"
  using assms
proof (induction rs arbitrary: since adm rl)
  case Nil
  then show ?case by simp
next
  case (Cons r rs)
  obtain k now where r: "r = (k, now)" by fastforce
  obtain ok rl1 where step: "rate_limit k (Fin now) rl = (ok, rl1)" by fastforce
  note rk = rate_limit_key [OF step]
  have later: "since \<le> now" using Cons.prems(2) r by simp
  let ?adm = "if ok then adm @ [(k, now)] else adm"
  have "window_kept key now ?adm rl1" using Cons.prems(1) later step by (rule window_kept_step)
  moreover have "sorted (now # map snd rs)" using Cons.prems(2) r by simp
  ultimately have IH: "within_rate (rl_max rl) (rl_window rl) (admitted key ?adm) (admitted key (fst (rate_run rs rl1)))"
    using Cons.IH rk(3,4) by metis
  have run: "fst (rate_run (r # rs) rl) = (if ok then (k, now) # fst (rate_run rs rl1) else fst (rate_run rs rl1))"
    by (simp add: r step split: prod.splits)
  show ?case
  proof (cases "ok \<and> k = key")
    case True
    have "length (filter (in_window (rl_window rl) now) (admitted key adm)) =
        length (filter (\<lambda>t. fless (fsub (Fin now) t) (Fin (of_int (rl_window rl)))) (dict_get_or (rl_counters rl) k []))"
      using Cons.prems(1) later True by (simp add: window_kept_def)
    also have "int \<dots> < rl_max rl" using rk(1) True by simp
    finally have "int (length (filter (in_window (rl_window rl) now) (admitted key adm @ [now]))) \<le> rl_max rl" by simp
    with True IH show ?thesis by (simp add: run)
  next
    case False
    with IH show ?thesis by (auto simp: run split: if_splits)
  qed
qed

definition new_rate_limiter :: "int \<Rightarrow> int \<Rightarrow> rate_limiter" where
  "new_rate_limiter max_requests window_seconds =
     \<lparr>rl_max = max_requests, rl_window = window_seconds, rl_counters = []\<rparr>"

section \<open>The endpoints\<close>

lemma store_interrupt_both:
  "store_interrupt True True L sha now sid subject info s = open_session L sha now sid subject info s"
  by (simp add: store_interrupt_def open_session_def split: option.splits)

lemma thread_endpoints_find_nothing:
  "get_thread_endpoint t = Api_Error 404 (JStr ''Thread not found'')"
  "delete_thread_endpoint t = Api_Error 404 (JStr ''Thread not found'')"
  by (simp_all add: get_thread_endpoint_def delete_thread_endpoint_def get_thread_def delete_thread_def set_status_def)

section \<open>Properties\<close>

text \<open>
  The rate limiter keeps its promise: whatever requests arrive, as long as the clock
  does not run backwards, no admitted request has more than \<open>max_requests\<close> admitted requests
  of its tenant and path in the \<open>window_seconds\<close> before it, itself included, although only
  pruned time stamps are kept and the differences are rounded to doubles.
\<close>

theorem rate_limit_holds:
  assumes "sorted (map snd rs)"
  shows "within_rate max_requests window_seconds []
    (admitted key (fst (rate_run rs (new_rate_limiter max_requests window_seconds))))"
proof (cases rs)
  case (Cons r rs')
  have "window_kept key (snd r) [] (new_rate_limiter max_requests window_seconds)"
    by (simp add: window_kept_def new_rate_limiter_def dict_get_or_def)
  moreover have "sorted (snd r # map snd rs)" using assms Cons by simp
  ultimately show ?thesis using rate_run_within [of key "snd r" "[]" _ rs]
    by (fastforce simp: new_rate_limiter_def)
qed simp

text \<open>
  The agent endpoint fails closed on identity: a request whose trusted context is
  anonymous or has an empty subject is answered 401 and changes nothing, neither a store
  nor the model nor the audit trail of the gateway.
\<close>

theorem anonymous_request_refused:
  assumes "c = ANONYMOUS_CONTEXT \<or> tx_subject_id c = []"
  shows "agent_endpoint R a sha clk new_id plan_id ckpt c session_id message sy =
    (Api_Error 401 (JStr ''Authentication required -- provide valid credentials''), sy)"
  using assms by (auto simp: agent_endpoint_def ANONYMOUS_CONTEXT_def mk_context_def)

text \<open>The service is ready whenever a model is configured: an MCP client without tools is only
  reported as degraded.\<close>

lemma ready_iff_model: "(\<exists>j. readiness mcp llm = Api_Ok j) \<longleftrightarrow> llm"
  by (auto simp: readiness_def Let_def)

end
