(* ===== verification/Provider.thy ===== *)
theory Provider
  imports Graph
begin

text \<open>
  The language-model clients: \<open>providers/base.py\<close>, \<open>providers/deepseek.py\<close>,
  \<open>providers/factory.py\<close> and the scripted models of \<open>llm.py\<close>. The HTTP transport, \<open>json.loads\<close>,
  the random source, the clock, UUIDs and the constructor of LangChain's \<open>AIMessage\<close> (which
  validates its arguments) are the fields of \<open>provider_env\<close>. \<open>pv_posts\<close> and \<open>pv_sleeps\<close> are
  ghost traces of the requests sent and of the delays slept between them. A task that is
  cancelled while it waits is not modelled.
\<close>

section \<open>Configuration and responses\<close>

record provider_config =
  pc_provider_type :: string
  pc_base_url :: string
  pc_model :: string
  pc_token_env_var :: string
  pc_request_timeout :: pyfloat
  pc_max_retries :: int
  pc_retry_backoff :: pyfloat
  pc_max_tokens :: int
  pc_temperature :: pyfloat

definition default_provider_config :: provider_config where
  "default_provider_config =
     \<lparr>pc_provider_type = ''deepseek'', pc_base_url = ''https://api.deepseek.com/v1'',
      pc_model = ''deepseek-v4-pro'', pc_token_env_var = ''DEEPSEEK_API_TOKEN'',
      pc_request_timeout = Fin 120, pc_max_retries = 3, pc_retry_backoff = Fin 1,
      pc_max_tokens = 4096, pc_temperature = Fin 0\<rparr>"

record provider_response =
  pr_content :: json
  pr_tool_calls :: "json list"
  pr_usage_input_tokens :: json
  pr_usage_output_tokens :: json
  pr_latency_ms :: pyfloat
  pr_request_id :: json
  pr_model :: json

type_synonym http_headers = "(string \<times> string) list"
type_synonym http_answer = "pyexn + int \<times> string"

record http_post =
  hp_url :: string
  hp_headers :: http_headers
  hp_body :: string
  hp_timeout :: pyfloat

record 't provider_env =
  pe_lib :: pylib
  pe_loads :: "string \<Rightarrow> json option"
  pe_post :: "http_post \<Rightarrow> 't \<Rightarrow> http_answer \<times> 't"
  pe_random :: "nat \<Rightarrow> pyfloat"
  pe_monotonic :: "nat \<Rightarrow> pyfloat"
  pe_uuid :: "nat \<Rightarrow> string"
  pe_ai_message :: "json \<Rightarrow> json list \<Rightarrow> pyexn + message"

record 't provider =
  pv_config :: provider_config
  pv_token :: string
  pv_transport :: 't
  pv_closed :: bool
  pv_calls :: nat
  pv_posts :: "http_post list"
  pv_sleeps :: "pyfloat list"

section \<open>Building a request\<close>

fun message_type :: "message \<Rightarrow> string" where
  "message_type (SystemMsg c) = ''SystemMessage''"
| "message_type (HumanMsg c) = ''HumanMessage''"
| "message_type (AIMsg c tcs) = ''AIMessage''"
| "message_type (ToolMsg c i n) = ''ToolMessage''"

definition role_mapping :: "(string \<times> string) list" where
  "role_mapping = [(''HumanMessage'', ''user''), (''AIMessage'', ''assistant''),
     (''SystemMessage'', ''system''), (''ToolMessage'', ''tool'')]"

definition map_role :: "string \<Rightarrow> string" where
  "map_role lc_type = dict_get_or role_mapping lc_type ''user''"

text \<open>A tool call as LangChain keeps it in \<open>AIMessage.tool_calls\<close>.\<close>

definition tool_call_json :: "llm_tool_call \<Rightarrow> json" where
  "tool_call_json tc = JObj [(''name'', JStr (lc_name tc)), (''args'', JObj (lc_args tc)),
     (''id'', JStr (lc_id tc)), (''type'', JStr ''tool_call'')]"

fun msg_tool_call_id :: "message \<Rightarrow> string" where
  "msg_tool_call_id (ToolMsg c i n) = i"
| "msg_tool_call_id m = []"

definition convert_message :: "message \<Rightarrow> json" where
  "convert_message m = JObj (
     [(''role'', JStr (map_role (message_type m))), (''content'', JStr (msg_content m))]
     @ (if msg_tool_calls m \<noteq> [] then [(''tool_calls'', JArr (map tool_call_json (msg_tool_calls m)))] else [])
     @ (if msg_tool_call_id m \<noteq> [] then [(''tool_call_id'', JStr (msg_tool_call_id m))] else []))"

definition build_request_body ::
    "provider_config \<Rightarrow> message list \<Rightarrow> json list option \<Rightarrow> json option \<Rightarrow> json" where
  "build_request_body cfg ms tools choice = JObj (
     [(''model'', JStr (pc_model cfg)), (''max_tokens'', JInt (pc_max_tokens cfg)),
      (''temperature'', JFloat (pc_temperature cfg)), (''messages'', JArr (map convert_message ms))]
     @ (case tools of Some (t # ts) \<Rightarrow> [(''tools'', JArr (t # ts))] | _ \<Rightarrow> [])
     @ (case choice of Some c \<Rightarrow> [(''tool_choice'', c)] | None \<Rightarrow> []))"

section \<open>Sending it, with retries\<close>

definition RETRYABLE_STATUSES :: "int list" where
  "RETRYABLE_STATUSES = [408, 429, 500, 502, 503]"

definition NON_RETRYABLE_STATUSES :: "int list" where
  "NON_RETRYABLE_STATUSES = [400, 401, 403, 409]"

definition post :: "'t provider_env \<Rightarrow> http_post \<Rightarrow> 't provider \<Rightarrow> http_answer \<times> 't provider" where
  "post E q p = (let (a, t) = pe_post E q (pv_transport p)
     in (a, p\<lparr>pv_transport := t, pv_posts := pv_posts p @ [q]\<rparr>))"

text \<open>\<open>random.uniform(a, b)\<close> is \<open>a + (b - a) * random()\<close>.\<close>

definition uniform :: "pyfloat \<Rightarrow> pyfloat \<Rightarrow> pyfloat \<Rightarrow> pyfloat" where
  "uniform r a b = fadd a (fmul (fsub b a) r)"

definition back_off :: "'t provider_env \<Rightarrow> pyfloat \<Rightarrow> 't provider \<Rightarrow> 't provider" where
  "back_off E backoff p = p\<lparr>pv_sleeps := pv_sleeps p @
     [fadd backoff (uniform (pe_random E (length (pv_sleeps p))) (Fin 0) (fmul backoff (Fin (1 / 2))))]\<rparr>"

text \<open>\<open>for attempt in range(max_retries + 1)\<close>: the \<open>nat\<close> is the number of iterations left.\<close>

fun retry_from ::
    "'t provider_env \<Rightarrow> http_post \<Rightarrow> nat \<Rightarrow> int \<Rightarrow> pyfloat \<Rightarrow> pyexn option \<Rightarrow> 't provider \<Rightarrow>
     http_answer \<times> 't provider" where
  "retry_from E q 0 attempt backoff last_exc p =
     (Inl (RuntimeError (''Provider request failed: '' @
        (case last_exc of None \<Rightarrow> ''None'' | Some e \<Rightarrow> exn_text e))), p)"
| "retry_from E q (Suc k) attempt backoff last_exc p =
     (let more_left = attempt < pc_max_retries (pv_config p); (a, p1) = post E q p in
      case a of
        Inr (status, body) \<Rightarrow>
          if status \<in> set NON_RETRYABLE_STATUSES then (Inr (status, body), p1)
          else if status \<in> set RETRYABLE_STATUSES \<and> more_left
          then retry_from E q k (attempt + 1) (fmul backoff (Fin 2)) last_exc (back_off E backoff p1)
          else (Inr (status, body), p1)
      | Inl exc \<Rightarrow>
          if more_left
          then retry_from E q k (attempt + 1) (fmul backoff (Fin 2)) (Some exc) (back_off E backoff p1)
          else (Inl (RuntimeError (''Provider request failed after '' @
                  pl_str (pe_lib E) (JInt (pc_max_retries (pv_config p) + 1)) @ '' attempts: '' @ exn_text exc)), p1))"

definition request_with_retry ::
    "'t provider_env \<Rightarrow> string \<Rightarrow> http_headers \<Rightarrow> string \<Rightarrow> 't provider \<Rightarrow> http_answer \<times> 't provider" where
  "request_with_retry E url headers body p =
     retry_from E \<lparr>hp_url = url, hp_headers = headers, hp_body = body,
         hp_timeout = pc_request_timeout (pv_config p)\<rparr>
       (nat (pc_max_retries (pv_config p) + 1)) 0 (pc_retry_backoff (pv_config p)) None p"

section \<open>Reading the answer\<close>

definition status_error :: "pylib \<Rightarrow> int \<Rightarrow> string \<Rightarrow> pyexn option" where
  "status_error L status raw =
     (if status = 401 then Some (RuntimeError ''Provider authentication failed -- check your API token'')
      else if status = 403 then Some (RuntimeError ''Provider authorization failed -- check your account permissions'')
      else if status = 400 then Some (RuntimeError (''Provider rejected request (400): '' @ take 500 raw))
      else if status = 429 then Some (RuntimeError ''Provider rate limit exceeded -- retry exhausted'')
      else if 500 \<le> status then Some (RuntimeError (''Provider server error ('' @ pl_str L (JInt status) @ ''): '' @ take 500 raw))
      else None)"

text \<open>\<open>(data.get("choices") or [{}])[0] if "choices" in data else data\<close>.\<close>

definition choice_of :: "json \<Rightarrow> pyexn + json" where
  "choice_of data = bindE (py_contains ''choices'' data) (\<lambda>has.
     if has then bindE (py_get data ''choices'' JNull) (\<lambda>cs. py_nth 0 (json_or cs (JArr [JObj []])))
     else Inr data)"

definition content_of :: "json \<Rightarrow> kwargs \<Rightarrow> pyexn + json" where
  "content_of data msg =
     (let c1 = json_or (dict_get_or msg ''content'' (JStr [])) (JStr []);
          c2 = (if truthy c1 then c1 else json_or (dict_get_or msg ''reasoning_content'' (JStr [])) (JStr []))
      in if truthy c2 then Inr c2
         else bindE (py_contains ''content'' data) (\<lambda>has.
           if has then bindE (py_get data ''content'' (JStr [])) (\<lambda>c. Inr (json_or c (JStr []))) else Inr c2))"

definition malformed_json :: pyexn where
  "malformed_json = ValueError ''Expecting value''"

definition loads :: "'t provider_env \<Rightarrow> string \<Rightarrow> pyexn + json" where
  "loads E s = (case pe_loads E s of None \<Rightarrow> Inl malformed_json | Some j \<Rightarrow> Inr j)"

definition parse_tool_call :: "'t provider_env \<Rightarrow> json \<Rightarrow> pyexn + json" where
  "parse_tool_call E tc =
     bindE (py_get tc ''function'' (JObj [])) (\<lambda>f. bindE (py_get f ''arguments'' JNull) (\<lambda>arguments.
     bindE (bindE (py_subscript tc ''function'') (\<lambda>g. py_subscript g ''name'')) (\<lambda>name.
     bindE (case arguments of
              JStr s \<Rightarrow> loads E s
            | _ \<Rightarrow> bindE (py_subscript tc ''function'') (\<lambda>g. py_subscript g ''arguments'')) (\<lambda>args.
     bindE (py_subscript tc ''id'') (\<lambda>i.
       Inr (JObj [(''name'', name), (''args'', args), (''id'', i)]))))))"

definition parse_tool_calls :: "'t provider_env \<Rightarrow> kwargs \<Rightarrow> pyexn + json list" where
  "parse_tool_calls E msg =
     (let raw = dict_get_or msg ''tool_calls'' (JArr []) in
      if truthy raw then bindE (py_iter raw) (all_of (parse_tool_call E)) else Inr [])"

definition parse_response ::
    "'t provider_env \<Rightarrow> provider_config \<Rightarrow> int \<Rightarrow> string \<Rightarrow> pyfloat \<Rightarrow> pyexn + provider_response" where
  "parse_response E cfg status raw latency =
     (case status_error (pe_lib E) status raw of Some e \<Rightarrow> Inl e | None \<Rightarrow>
     (case pe_loads E raw of
        None \<Rightarrow> Inl (RuntimeError (''Provider returned malformed JSON (status '' @ pl_str (pe_lib E) (JInt status)
                  @ ''): '' @ take 500 raw))
      | Some data \<Rightarrow>
          bindE (choice_of data) (\<lambda>choice. bindE (py_get choice ''message'' (JObj [])) (\<lambda>msg.
          bindE (case msg of
                   JObj m \<Rightarrow> bindE (content_of data m) (\<lambda>c. bindE (parse_tool_calls E m) (\<lambda>tcs. Inr (c, tcs)))
                 | _ \<Rightarrow> Inr (JStr [], [])) (\<lambda>(content, tcs).
          bindE (py_get data ''usage'' (JObj [])) (\<lambda>usage.
          bindE (py_get usage ''prompt_tokens'' (JInt 0)) (\<lambda>input_tokens.
          bindE (py_get usage ''completion_tokens'' (JInt 0)) (\<lambda>output_tokens.
          bindE (py_get data ''id'' (JStr [])) (\<lambda>rid. bindE (py_get data ''model'' (JStr (pc_model cfg))) (\<lambda>model.
            Inr \<lparr>pr_content = content, pr_tool_calls = tcs, pr_usage_input_tokens = input_tokens,
                 pr_usage_output_tokens = output_tokens, pr_latency_ms = latency, pr_request_id = rid,
                 pr_model = model\<rparr>))))))))))"

definition to_ai_message :: "'t provider_env \<Rightarrow> provider_response \<Rightarrow> pyexn + message" where
  "to_ai_message E r =
     (if pr_tool_calls r \<noteq> [] then pe_ai_message E (json_or (pr_content r) (JStr [])) (pr_tool_calls r)
      else pe_ai_message E (pr_content r) [])"

section \<open>The provider\<close>

definition invoke_headers :: "'t provider \<Rightarrow> string \<Rightarrow> http_headers" where
  "invoke_headers p correlation_id = [(''Content-Type'', ''application/json''),
     (''Authorization'', ''Bearer '' @ pv_token p), (''X-Correlation-Id'', correlation_id)]"

definition completions_url :: "'t provider \<Rightarrow> string" where
  "completions_url p = pc_base_url (pv_config p) @ ''/chat/completions''"

definition invoke ::
    "'t provider_env \<Rightarrow> json option \<Rightarrow> message list \<Rightarrow> json list option \<Rightarrow> 't provider \<Rightarrow>
     (pyexn + message) \<times> 't provider" where
  "invoke E choice ms tools p =
     (if pv_closed p then (Inl (RuntimeError ''DeepSeekProvider is closed''), p)
      else
        (let n = pv_calls p; body = build_request_body (pv_config p) ms tools choice;
             (a, p1) = request_with_retry E (completions_url p) (invoke_headers p (pe_uuid E n))
                         (pl_dumps (pe_lib E) body) (p\<lparr>pv_calls := n + 1\<rparr>);
             latency = fmul (fsub (pe_monotonic E (2 * n + 1)) (pe_monotonic E (2 * n))) (Fin 1000)
         in (bindE a (\<lambda>(status, raw). bindE (parse_response E (pv_config p) status raw latency) (to_ai_message E)), p1)))"

definition provider_close :: "'t provider \<Rightarrow> 't provider" where
  "provider_close p = p\<lparr>pv_closed := True\<rparr>"

definition create_provider ::
    "(string \<Rightarrow> string option) \<Rightarrow> 't \<Rightarrow> provider_config option \<Rightarrow> pyexn + 't provider" where
  "create_provider environ transport config =
     (let cfg = (case config of None \<Rightarrow> default_provider_config | Some c \<Rightarrow> c) in
      if pc_provider_type cfg = ''deepseek'' then
        (let token = (case environ (pc_token_env_var cfg) of None \<Rightarrow> [] | Some t \<Rightarrow> t) in
         if token = [] then
           Inl (RuntimeError (''DeepSeek provider requires '' @ pc_token_env_var cfg @
             '' environment variable. Set it or configure a different provider.''))
         else Inr \<lparr>pv_config = cfg, pv_token = token, pv_transport = transport, pv_closed = False, pv_calls = 0,
                   pv_posts = [], pv_sleeps = []\<rparr>)
      else Inl (RuntimeError (''Unknown provider type: '' @ quoted (pc_provider_type cfg))))"

section \<open>Scripted models\<close>

record mock_llm =
  ml_responses :: "message list"
  ml_index :: nat
  ml_call_count :: nat

definition mock_new :: "message list option \<Rightarrow> mock_llm" where
  "mock_new responses =
     \<lparr>ml_responses = (case responses of Some (m # ms) \<Rightarrow> m # ms | _ \<Rightarrow> [AIMsg ''No further actions needed.'' []]),
      ml_index = 0, ml_call_count = 0\<rparr>"

definition mock_invoke ::
    "pylib \<Rightarrow> message list \<Rightarrow> json list option \<Rightarrow> mock_llm \<Rightarrow> (pyexn + message) \<times> mock_llm" where
  "mock_invoke L ms tools m =
     (if length (ml_responses m) \<le> ml_index m
      then (Inl (RuntimeError (''MockLLM exhausted after '' @ pl_str L (JInt (int (length (ml_responses m)))) @ '' response(s)'')), m)
      else (Inr (ml_responses m ! ml_index m), m\<lparr>ml_index := ml_index m + 1, ml_call_count := ml_call_count m + 1\<rparr>))"

definition mock_exhausted :: "mock_llm \<Rightarrow> bool" where
  "mock_exhausted m = (length (ml_responses m) \<le> ml_index m)"

record echo_llm =
  el_prefix :: string
  el_call_count :: nat

definition echo_invoke ::
    "message list \<Rightarrow> json list option \<Rightarrow> echo_llm \<Rightarrow> (pyexn + message) \<times> echo_llm" where
  "echo_invoke ms tools e =
     (let e1 = e\<lparr>el_call_count := el_call_count e + 1\<rparr> in
      if ms = [] then (Inl (OtherError ''list index out of range''), e1)
      else (Inr (AIMsg (el_prefix e @ msg_content (last ms)) []), e1))"

section \<open>The retry loop\<close>

text \<open>What the transport answers to the same request sent \<open>n\<close> times, and which answers the
  loop tries again.\<close>

fun answers :: "('t \<Rightarrow> 'a \<times> 't) \<Rightarrow> nat \<Rightarrow> 't \<Rightarrow> 'a list" where
  "answers f 0 t = []"
| "answers f (Suc n) t = (let (a, t1) = f t in a # answers f n t1)"

fun transient :: "http_answer \<Rightarrow> bool" where
  "transient (Inl e) = True"
| "transient (Inr (status, body)) = (status \<in> set RETRYABLE_STATUSES)"

text \<open>The answer a caller sees: an exception of the transport is wrapped.\<close>

fun deliver :: "'t provider_env \<Rightarrow> provider_config \<Rightarrow> http_answer \<Rightarrow> http_answer" where
  "deliver E cfg (Inl e) = Inl (RuntimeError (''Provider request failed after '' @
     pl_str (pe_lib E) (JInt (pc_max_retries cfg + 1)) @ '' attempts: '' @ exn_text e))"
| "deliver E cfg (Inr x) = Inr x"

definition first_settled :: "http_answer list \<Rightarrow> http_answer" where
  "first_settled as = (case find (\<lambda>a. \<not> transient a) as of Some a \<Rightarrow> a | None \<Rightarrow> last as)"

lemma length_answers [simp]: "length (answers f n t) = n"
  by (induction n arbitrary: t) (simp_all add: case_prod_beta Let_def)

lemma non_retryable_not_transient:
  "status \<in> set NON_RETRYABLE_STATUSES \<Longrightarrow> \<not> transient (Inr (status, body))"
  by (auto simp: RETRYABLE_STATUSES_def NON_RETRYABLE_STATUSES_def)

lemma first_settled_Cons:
  "first_settled (a # as) = (if transient a \<and> as \<noteq> [] then first_settled as else a)"
  by (cases as) (auto simp: first_settled_def split: option.splits)

lemma first_settled_in: "as \<noteq> [] \<Longrightarrow> first_settled as \<in> set as"
  by (induction as) (auto simp: first_settled_Cons)

lemma answers_in: "a \<in> set (answers f n t) \<Longrightarrow> \<exists>u. a = fst (f u)"
  by (induction n arbitrary: t) (auto simp: case_prod_beta Let_def)

lemma answers_ne [simp]: "answers f n t = [] \<longleftrightarrow> n = 0"
  by (metis length_answers length_0_conv)

lemma post_frame [simp]:
  "pv_config (snd (post E q p)) = pv_config p" "fst (post E q p) = fst (pe_post E q (pv_transport p))"
  "pv_transport (snd (post E q p)) = snd (pe_post E q (pv_transport p))"
  "pv_posts (snd (post E q p)) = pv_posts p @ [q]"
  "pv_closed (snd (post E q p)) = pv_closed p" "pv_token (snd (post E q p)) = pv_token p"
  "pv_sleeps (snd (post E q p)) = pv_sleeps p"
  by (simp_all add: post_def case_prod_beta Let_def)

lemma back_off_frame [simp]:
  "pv_config (back_off E b p) = pv_config p" "pv_transport (back_off E b p) = pv_transport p"
  "pv_posts (back_off E b p) = pv_posts p" "pv_closed (back_off E b p) = pv_closed p"
  "pv_token (back_off E b p) = pv_token p" "length (pv_sleeps (back_off E b p)) = Suc (length (pv_sleeps p))"
  by (simp_all add: back_off_def)

text \<open>One turn of the loop, by whether there is another one and the answer calls for it.\<close>

lemma retry_from_turn:
  assumes "attempt + int (Suc k) = pc_max_retries (pv_config p) + 1"
    and "post E q p = (a, p1)"
  shows "\<exists>exc. retry_from E q (Suc k) attempt backoff last_exc p =
    (if transient a \<and> k \<noteq> 0
     then retry_from E q k (attempt + 1) (fmul backoff (Fin 2)) exc (back_off E backoff p1)
     else (deliver E (pv_config p) a, p1))"
proof -
  have "(attempt < pc_max_retries (pv_config p)) = (k \<noteq> 0)" using assms(1) by auto
  moreover have "\<not> transient (Inr (status, body))" if "status \<in> set NON_RETRYABLE_STATUSES" for status body
    using that by (rule non_retryable_not_transient)
  ultimately show ?thesis using assms(2)
    by (cases a) (auto split: prod.splits)
qed

lemma retry_from_settles:
  assumes "attempt + int k = pc_max_retries (pv_config p) + 1" "0 < k"
  shows "fst (retry_from E q k attempt backoff last_exc p) =
      deliver E (pv_config p) (first_settled (answers (pe_post E q) k (pv_transport p)))
    \<and> (\<exists>n. pv_posts (snd (retry_from E q k attempt backoff last_exc p)) = pv_posts p @ replicate n q
        \<and> n = min k (Suc (length (takeWhile transient (answers (pe_post E q) k (pv_transport p))))))"
  using assms
proof (induction k arbitrary: attempt backoff last_exc p)
  case (Suc k)
  obtain a p1 where a: "post E q p = (a, p1)" by fastforce
  let ?p2 = "back_off E backoff p1"
  have fr: "pv_config p1 = pv_config p" "pv_posts p1 = pv_posts p @ [q]"
    "pe_post E q (pv_transport p) = (a, pv_transport p1)"
    using post_frame [of E q p] a by (simp_all add: prod_eq_iff)
  obtain exc where turn: "retry_from E q (Suc k) attempt backoff last_exc p =
      (if transient a \<and> k \<noteq> 0 then retry_from E q k (attempt + 1) (fmul backoff (Fin 2)) exc ?p2
       else (deliver E (pv_config p) a, p1))"
    using retry_from_turn [OF Suc.prems(1) a] by blast
  show ?case
  proof (cases "transient a \<and> k \<noteq> 0")
    case True
    from True Suc.IH [of "attempt + 1" ?p2 "fmul backoff (Fin 2)" exc] Suc.prems turn fr
    show ?thesis by (auto simp: first_settled_Cons)
  next
    case False
    then have "first_settled (answers (pe_post E q) (Suc k) (pv_transport p)) = a"
      using fr(3) by (auto simp: first_settled_Cons)
    moreover have "min (Suc k) (Suc (length (takeWhile transient (answers (pe_post E q) (Suc k) (pv_transport p))))) = 1"
      using False fr(3) by auto
    ultimately show ?thesis using turn fr False by auto
  qed
qed simp

lemma request_settles:
  assumes "0 \<le> pc_max_retries (pv_config p)"
    and "q = \<lparr>hp_url = url, hp_headers = headers, hp_body = body, hp_timeout = pc_request_timeout (pv_config p)\<rparr>"
    and "as = answers (pe_post E q) (nat (pc_max_retries (pv_config p) + 1)) (pv_transport p)"
  shows "fst (request_with_retry E url headers body p) = deliver E (pv_config p) (first_settled as)
    \<and> pv_posts (snd (request_with_retry E url headers body p)) =
        pv_posts p @ replicate (min (length as) (Suc (length (takeWhile transient as)))) q"
  using retry_from_settles [of 0 "nat (pc_max_retries (pv_config p) + 1)" p E q] assms
  by (simp add: request_with_retry_def)

lemma retry_from_config [simp]:
  "pv_config (snd (retry_from E q k attempt backoff last_exc p)) = pv_config p"
proof (induction k arbitrary: attempt backoff last_exc p)
  case (Suc k)
  obtain a p1 where a: "post E q p = (a, p1)" by fastforce
  then have "pv_config p1 = pv_config p" using post_frame(1) [of E q p] by simp
  with a Suc.IH show ?case by (cases a) (auto split: prod.splits)
qed simp

lemma no_retries_no_posts:
  "pc_max_retries (pv_config p) < 0 \<Longrightarrow>
     request_with_retry E url headers body p = (Inl (RuntimeError ''Provider request failed: None''), p)"
  by (simp add: request_with_retry_def)

definition attempts_allowed :: "provider_config \<Rightarrow> nat" where
  "attempts_allowed cfg = nat (pc_max_retries cfg + 1)"

lemma request_posts:
  "length (pv_posts (snd (request_with_retry E url headers body p))) \<le>
     length (pv_posts p) + attempts_allowed (pv_config p)"
proof (cases "pc_max_retries (pv_config p) < 0")
  case False
  then show ?thesis using request_settles [OF _ refl refl, of p E url headers body]
    by (simp add: attempts_allowed_def)
qed (simp add: no_retries_no_posts)

lemma invoke_frame:
  "length (pv_posts (snd (invoke E choice ms tools p))) \<le> length (pv_posts p) + attempts_allowed (pv_config p)"
  "pv_config (snd (invoke E choice ms tools p)) = pv_config p"
proof -
  let ?p = "p\<lparr>pv_calls := pv_calls p + 1\<rparr>"
  show "length (pv_posts (snd (invoke E choice ms tools p))) \<le> length (pv_posts p) + attempts_allowed (pv_config p)"
    using request_posts [of E "completions_url p" "invoke_headers p (pe_uuid E (pv_calls p))"
        "pl_dumps (pe_lib E) (build_request_body (pv_config p) ms tools choice)" ?p]
    by (simp add: invoke_def case_prod_beta Let_def)
  show "pv_config (snd (invoke E choice ms tools p)) = pv_config p"
    by (simp add: invoke_def request_with_retry_def case_prod_beta Let_def)
qed

lemma closed_provider_silent:
  "snd (invoke E choice ms tools (provider_close p)) = provider_close p"
  by (simp add: invoke_def provider_close_def)

section \<open>A model whose calls are metered\<close>

text \<open>
  The contract of a model towards the graph: one call adds at most \<open>k\<close> to its cost. Then a run
  of the graph adds at most \<open>k\<close> for every reasoning step it has left.
\<close>

locale metered_model =
  fixes D :: "('b, 'l) deps" and cost :: "'l \<Rightarrow> nat" and ok :: "'l \<Rightarrow> bool" and k :: nat
  assumes invoke_cost: "ok l \<Longrightarrow> cost (snd (dp_invoke D ms ts l)) \<le> cost l + k"
    and invoke_ok: "ok l \<Longrightarrow> ok (snd (dp_invoke D ms ts l))"
begin

lemma tool_node_llm: "w_llm (snd (tool_node D rs st w)) = w_llm w"
proof -
  have "\<exists>rs' :: json list. w_llm (snd (tool_loop D st tcs rs acc ids w)) = l" if "w_llm w = l"
    for tcs rs acc ids and w :: "('b, 'l) world" and l
    using that
  proof (induct rule: tool_loop_induct)
    case (exec tc args w rs d w1 rs')
    then have "w_llm w1 = l" using ask_auth_frame(3) [of D "call_operation D tc" w] by simp
    then show ?case
      by (auto simp: execute_call_def dispatch_world Let_def split: option.splits prod.splits)
  qed simp_all
  then show ?thesis by (auto simp: tool_node_def)
qed

lemma agent_node_cost:
  assumes "agent_node D st w = (r, w1)" "ok (w_llm w)"
  shows "ok (w_llm w1) \<and> cost (w_llm w1) \<le> cost (w_llm w) + (if gs_step_count st < dp_max_steps D then k else 0)"
proof -
  obtain m l where i: "dp_invoke D (gs_messages st) (visible_tools D) (w_llm w) = (m, l)" by fastforce
  with invoke_cost [OF assms(2)] invoke_ok [OF assms(2)] have "ok l" "cost l \<le> cost (w_llm w) + k"
    by (metis snd_conv)+
  with assms i show ?thesis by (auto simp: agent_node_def Let_def split: if_splits sum.splits)
qed

lemma graph_loop_cost:
  "ok (w_llm w) \<Longrightarrow>
     cost (w_llm (snd (graph_loop D n nd rs st w))) \<le> cost (w_llm w) + k * steps_left D st"
proof (induction n arbitrary: nd rs st w)
  case (Suc n)
  show ?case
  proof (cases nd)
    case AgentNode
    obtain r w1 where a: "agent_node D st w = (r, w1)" by fastforce
    note c = agent_node_cost [OF a Suc.prems]
    have left: "(if gs_step_count st < dp_max_steps D then k else 0) \<le> k * steps_left D st"
      by (auto simp: steps_left_def)
    show ?thesis
    proof (cases r)
      case (Inr st1)
      with a have "gs_step_count st < dp_max_steps D" "gs_step_count st1 = gs_step_count st + 1"
        using agent_node_steps by blast+
      then have "steps_left D st = Suc (steps_left D st1)" by (simp add: steps_left_def)
      with Suc.IH [of w1 ToolNode rs st1] c AgentNode a Inr show ?thesis by (auto split: if_splits)
    qed (use AgentNode a c left in auto)
  next
    case ToolNode
    obtain r w1 where a: "tool_node D rs st w = (r, w1)" by fastforce
    then have l: "w_llm w1 = w_llm w" using tool_node_llm [of rs st w] by simp
    show ?thesis
    proof (cases r)
      case (NodeOk ms ids)
      let ?st1 = "st\<lparr>gs_messages := gs_messages st @ ms, gs_executed := ids\<rparr>"
      have "steps_left D ?st1 = steps_left D st" by (simp add: steps_left_def)
      with Suc.IH [of w1 AgentNode "[]" ?st1] Suc.prems l ToolNode NodeOk a show ?thesis by simp
    qed (use ToolNode a l in simp_all)
  qed
qed simp

end

text \<open>The graph calls the DeepSeek provider with \<open>tool_choice="auto"\<close>; the scripted model
  counts its calls.\<close>

definition with_deepseek :: "'t provider_env \<Rightarrow> ('b, 'l) deps \<Rightarrow> ('b, 't provider) deps" where
  "with_deepseek E D = \<lparr>dp_lib = dp_lib D, dp_loads = dp_loads D, dp_clock = dp_clock D, dp_call = dp_call D,
     dp_invoke = invoke E (Some (JStr ''auto'')), dp_registry = dp_registry D, dp_max_steps = dp_max_steps D\<rparr>"

definition with_mock :: "('b, 'l) deps \<Rightarrow> ('b, mock_llm) deps" where
  "with_mock D = \<lparr>dp_lib = dp_lib D, dp_loads = dp_loads D, dp_clock = dp_clock D, dp_call = dp_call D,
     dp_invoke = mock_invoke (dp_lib D), dp_registry = dp_registry D, dp_max_steps = dp_max_steps D\<rparr>"

interpretation deepseek: metered_model "with_deepseek E D" "\<lambda>p. length (pv_posts p)"
    "\<lambda>p. pv_config p = cfg" "attempts_allowed cfg"
  for E D cfg
  by unfold_locales (auto simp: with_deepseek_def invoke_frame intro: order_trans [OF invoke_frame(1)])

interpretation mock: metered_model "with_mock D" ml_call_count "\<lambda>m. True" 1 for D
  by unfold_locales (simp_all add: with_mock_def mock_invoke_def)

lemma mock_calls_bounded:
  "ml_call_count (w_llm (snd (graph_invoke (with_mock D) limit st w))) \<le>
     ml_call_count (w_llm w) + nat (dp_max_steps D - gs_step_count st)"
  using mock.graph_loop_cost [where w = w and D = D and n = limit and nd = AgentNode and rs = "[]" and st = st]
  by (simp add: graph_invoke_def steps_left_def with_mock_def)

section \<open>Errors taken for answers\<close>

text \<open>\<open>_parse_response\<close> knows the statuses 400, 401, 403, 429 and 500 upwards as errors.\<close>

definition unlisted_status :: "int \<Rightarrow> bool" where
  "unlisted_status status = (status \<notin> {400, 401, 403, 429} \<and> status < 500)"

lemma unlisted_status_accepted [simp]: "unlisted_status status \<Longrightarrow> status_error L status raw = None"
  by (simp add: unlisted_status_def status_error_def)

lemma error_body_parsed:
  assumes "unlisted_status status" "pe_loads E raw = Some (JObj [(''error'', e)])"
  shows "\<exists>r. parse_response E cfg status raw latency = Inr r \<and> pr_content r = JStr [] \<and> pr_tool_calls r = []"
  using assms
  by (simp add: parse_response_def choice_of_def content_of_def parse_tool_calls_def dict_get_or_def dict_has_def
      json_or_def)

lemma error_body_message:
  assumes "unlisted_status status" "pe_loads E raw = Some (JObj [(''error'', e)])"
  shows "bindE (parse_response E cfg status raw latency) (to_ai_message E) = pe_ai_message E (JStr []) []"
  using error_body_parsed [OF assms, of cfg latency] by (auto simp: to_ai_message_def)

section \<open>Properties\<close>

text \<open>
  C28. The retry loop of the DeepSeek client is equivalent to its specification: sending one
  request again and again, it returns the first answer that is neither an exception nor
  a retryable status, or the last one it may ask for, and has sent the same request
  exactly up to that answer, never more than \<open>max_retries + 1\<close> times.
\<close>

theorem retry_returns_first_settled:
  assumes "0 \<le> pc_max_retries (pv_config p)"
    and "q = \<lparr>hp_url = url, hp_headers = headers, hp_body = body, hp_timeout = pc_request_timeout (pv_config p)\<rparr>"
    and "as = answers (pe_post E q) (nat (pc_max_retries (pv_config p) + 1)) (pv_transport p)"
  shows "fst (request_with_retry E url headers body p) = deliver E (pv_config p) (first_settled as)
    \<and> pv_posts (snd (request_with_retry E url headers body p)) =
        pv_posts p @ replicate (min (length as) (Suc (length (takeWhile transient as)))) q"
  using assms by (rule request_settles)

text \<open>A transport that plays a script, and a client on it.\<close>

fun scripted_post :: "http_post \<Rightarrow> http_answer list \<Rightarrow> http_answer \<times> http_answer list" where
  "scripted_post q [] = (Inl (OtherError ''connection refused''), [])"
| "scripted_post q (a # as) = (a, as)"

definition demo_provider_env :: "(http_post \<Rightarrow> 't \<Rightarrow> http_answer \<times> 't) \<Rightarrow> 't provider_env" where
  "demo_provider_env f = \<lparr>pe_lib = demo_lib, pe_loads = (\<lambda>s. Some (JObj [(''error'', JStr s)])), pe_post = f,
     pe_random = (\<lambda>n. Fin 0), pe_monotonic = (\<lambda>n. Fin (of_nat n)), pe_uuid = (\<lambda>n. ''id''),
     pe_ai_message = (\<lambda>c tcs. case c of JStr s \<Rightarrow> Inr (AIMsg s []) | _ \<Rightarrow> Inl (ValueError ''content''))\<rparr>"

definition demo_provider :: "'t \<Rightarrow> 't provider" where
  "demo_provider t = \<lparr>pv_config = default_provider_config, pv_token = ''t'', pv_transport = t, pv_closed = False,
     pv_calls = 0, pv_posts = [], pv_sleeps = []\<rparr>"

theorem retry_returns_first_settled_witness:
  "let r = request_with_retry (demo_provider_env scripted_post) ''/u'' [] ''b''
         (demo_provider [Inl (OtherError ''timeout''), Inr (503, []), Inr (200, ''ok''), Inr (200, ''no'')])
   in fst r = Inr (200, ''ok'') \<and> length (pv_posts (snd r)) = 3"
  using retry_returns_first_settled [OF _ refl refl, of
      "demo_provider [Inl (OtherError ''timeout''), Inr (503, []), Inr (200, ''ok''), Inr (200, ''no'')]"
      "demo_provider_env scripted_post" "''/u''" "[]" "''b''"]
  by (simp add: demo_provider_def demo_provider_env_def default_provider_config_def eval_nat_numeral
      first_settled_def RETRYABLE_STATUSES_def)

text \<open>
  C29. Bound on the traffic of a run: with the DeepSeek client as its model, one run of the
  agent graph sends at most \<open>max_retries + 1\<close> HTTP requests for each reasoning step it has
  left, whatever the service answers and whatever tools the model calls.
\<close>

theorem graph_posts_bounded:
  "length (pv_posts (w_llm (snd (graph_invoke (with_deepseek E D) limit st w)))) \<le>
     length (pv_posts (w_llm w))
     + nat (pc_max_retries (pv_config (w_llm w)) + 1) * nat (dp_max_steps D - gs_step_count st)"
  using deepseek.graph_loop_cost [where w = w and E = E and D = D and n = limit and nd = AgentNode and rs = "[]"
      and st = st and cfg = "pv_config (w_llm w)"]
  by (simp add: graph_invoke_def steps_left_def with_deepseek_def attempts_allowed_def)

text \<open>
  A client error the parser does not list (402, 404, 408, 409, 422, ...) is taken for an
  answer: when the service sends its error as a JSON body with such a status, the
  provider returns an assistant message with empty content and no tool calls.
\<close>

theorem unlisted_error_becomes_empty_answer:
  assumes "\<not> pv_closed p" "0 \<le> pc_max_retries (pv_config p)"
    and "unlisted_status status" "pe_loads E raw = Some (JObj [(''error'', e)])"
    and "\<And>q t. fst (pe_post E q t) = Inr (status, raw)"
  shows "fst (invoke E choice ms tools p) = pe_ai_message E (JStr []) []"
proof -
  let ?n = "nat (pc_max_retries (pv_config p) + 1)"
  have "first_settled (answers (pe_post E q) ?n t) = Inr (status, raw)" for q t
    using first_settled_in [of "answers (pe_post E q) ?n t"] answers_in assms(2,5) by fastforce
  then have "fst (request_with_retry E url headers body (p\<lparr>pv_calls := pv_calls p + 1\<rparr>)) = Inr (status, raw)"
    for url headers body
    using request_settles [OF _ refl refl, of "p\<lparr>pv_calls := pv_calls p + 1\<rparr>" E url headers body] assms(2) by simp
  with assms(1) show ?thesis
    by (simp add: invoke_def error_body_message [OF assms(3,4)] case_prod_beta Let_def)
qed

text \<open>The factory builds a provider exactly when the type is known and the token is set.\<close>

lemma create_provider_iff:
  "(\<exists>p. create_provider environ transport (Some c) = Inr p) \<longleftrightarrow>
     pc_provider_type c = ''deepseek'' \<and> (\<exists>t. environ (pc_token_env_var c) = Some t \<and> t \<noteq> [])"
  by (auto simp: create_provider_def Let_def split: option.splits)

text \<open>The scripted model gives its responses in order and then raises; the echoing one repeats the
  last message.\<close>

lemma mock_plays_in_order:
  assumes "\<not> mock_exhausted m"
  shows "fst (mock_invoke L ms tools m) = Inr (ml_responses m ! ml_index m)"
    "mock_exhausted (snd (mock_invoke L ms tools m)) \<longleftrightarrow> length (ml_responses m) = ml_index m + 1"
  using assms by (auto simp: mock_invoke_def mock_exhausted_def)

lemma mock_exhausted_raises: "mock_exhausted m \<Longrightarrow> \<exists>e. mock_invoke L ms tools m = (Inl e, m)"
  by (simp add: mock_invoke_def mock_exhausted_def)

lemma mock_new_has_a_response: "\<not> mock_exhausted (mock_new rs)"
  by (auto simp: mock_exhausted_def mock_new_def split: option.splits list.splits)

lemma echo_repeats: "ms \<noteq> [] \<Longrightarrow> fst (echo_invoke ms tools e) = Inr (AIMsg (el_prefix e @ msg_content (last ms)) [])"
  by (simp add: echo_invoke_def Let_def)

end
