(* ===== verification/Config.thy ===== *)
theory Config
  imports Json
begin

text \<open>
  The typed configuration, \<open>config.py\<close>. A configuration object is built from the raw field values
  by its dataclass constructor, whose \<open>__post_init__\<close> raises on a value out of range: \<open>mk_*\<close>
  below, from a record of raw values to an error or the validated record.
\<close>

datatype log_level = DEBUG | INFO | WARNING | ERROR

datatype environment = DEVELOPMENT | STAGING | PRODUCTION

record llm_config =
  lg_provider :: string
  lg_model :: string
  lg_api_base :: "string option"
  lg_max_tokens :: int
  lg_temperature :: pyfloat
  lg_max_retries :: int
  lg_timeout_seconds :: int

record database_config =
  dc_url :: string
  dc_pool_size :: int
  dc_pool_timeout_seconds :: int
  dc_echo_sql :: bool

record mcp_config =
  mc_server_command :: string
  mc_server_args :: "string list"
  mc_env :: "(string \<times> string) list"
  mc_timeout_seconds :: int

record persistence_config =
  pg_db_path :: string
  pg_checkpoint_path :: string
  pg_hitl_expiry_minutes :: int
  pg_idempotency_retention_days :: int
  pg_connection_timeout :: int

record environment_config =
  en_env :: environment
  en_allow_dev_headers :: bool
  en_allow_cors_wildcard :: bool
  en_oidc_issuer :: string
  en_oidc_audience :: string
  en_oidc_jwks_url :: string
  en_oidc_jwks_cache_ttl_seconds :: int
  en_database_url :: string
  en_redis_url :: string
  en_cors_allowed_origins :: string
  en_request_timeout_seconds :: int
  en_provider_timeout_seconds :: int
  en_max_request_body_bytes :: int
  en_max_prompt_chars :: int

record agent_config =
  ag_environment :: environment
  ag_environ :: environment_config
  ag_log_level :: log_level
  ag_llm :: llm_config
  ag_database :: database_config
  ag_mcp :: mcp_config
  ag_persistence :: persistence_config
  ag_max_agent_steps :: int
  ag_human_approval_required :: bool

section \<open>Constructors\<close>

definition require :: "bool \<Rightarrow> string \<Rightarrow> pyexn + 'a \<Rightarrow> pyexn + 'a" where
  "require ok message rest = (if ok then rest else Inl (ValueError message))"

definition mk_llm_config :: "llm_config \<Rightarrow> pyexn + llm_config" where
  "mk_llm_config c =
     require (\<not> lg_max_tokens c < 1) ''max_tokens must be >= 1'' (
     require (fle (Fin 0) (lg_temperature c) \<and> fle (lg_temperature c) (Fin 2)) ''temperature must be in [0.0, 2.0]'' (
     require (\<not> lg_max_retries c < 0) ''max_retries must be >= 0'' (
     require (\<not> lg_timeout_seconds c < 1) ''timeout_seconds must be >= 1'' (Inr c))))"

definition mk_database_config :: "database_config \<Rightarrow> pyexn + database_config" where
  "mk_database_config c =
     require (\<not> dc_pool_size c < 1) ''pool_size must be >= 1'' (
     require (\<not> dc_pool_timeout_seconds c < 1) ''pool_timeout_seconds must be >= 1'' (Inr c))"

definition mk_mcp_config :: "mcp_config \<Rightarrow> pyexn + mcp_config" where
  "mk_mcp_config c = require (\<not> mc_timeout_seconds c < 1) ''timeout_seconds must be >= 1'' (Inr c)"

definition mk_persistence_config :: "persistence_config \<Rightarrow> pyexn + persistence_config" where
  "mk_persistence_config c =
     require (\<not> pg_hitl_expiry_minutes c < 1) ''hitl_expiry_minutes must be >= 1'' (
     require (\<not> pg_connection_timeout c < 1) ''connection_timeout must be >= 1'' (Inr c))"

text \<open>The parts are built first, in the order of the fields, then the whole.\<close>

definition mk_agent_config :: "agent_config \<Rightarrow> pyexn + agent_config" where
  "mk_agent_config c =
     bindE (mk_llm_config (ag_llm c)) (\<lambda>_. bindE (mk_database_config (ag_database c)) (\<lambda>_.
     bindE (mk_mcp_config (ag_mcp c)) (\<lambda>_. bindE (mk_persistence_config (ag_persistence c)) (\<lambda>_.
     require (\<not> ag_max_agent_steps c < 1) ''max_agent_steps must be >= 1'' (Inr c)))))"

section \<open>Production mode\<close>

definition is_production :: "environment_config \<Rightarrow> bool" where
  "is_production c = (en_env c = PRODUCTION)"

definition validate_production :: "environment_config \<Rightarrow> string list" where
  "validate_production c =
     (if en_oidc_issuer c = [] then [''OIDC_ISSUER is required in production''] else [])
     @ (if en_oidc_audience c = [] then [''OIDC_AUDIENCE is required in production''] else [])
     @ (if en_database_url c = [] then [''DATABASE_URL is required in production''] else [])
     @ (if en_redis_url c = [] then [''REDIS_URL is required in production''] else [])
     @ (if en_allow_dev_headers c then [''Development identity headers must be disabled in production''] else [])
     @ (if en_allow_cors_wildcard c then [''CORS wildcard must be disabled in production''] else [])
     @ (if str_in ''sqlite'' (lower (en_database_url c)) then [''SQLite is not allowed in production''] else [])"

section \<open>Defaults\<close>

definition default_environment_config :: environment_config where
  "default_environment_config = \<lparr>en_env = DEVELOPMENT, en_allow_dev_headers = True, en_allow_cors_wildcard = True,
     en_oidc_issuer = [], en_oidc_audience = [], en_oidc_jwks_url = [], en_oidc_jwks_cache_ttl_seconds = 300,
     en_database_url = [], en_redis_url = [], en_cors_allowed_origins = [], en_request_timeout_seconds = 30,
     en_provider_timeout_seconds = 120, en_max_request_body_bytes = 100000, en_max_prompt_chars = 20000\<rparr>"

definition default_llm_config :: "string \<Rightarrow> string \<Rightarrow> llm_config" where
  "default_llm_config provider model = \<lparr>lg_provider = provider, lg_model = model, lg_api_base = None,
     lg_max_tokens = 4096, lg_temperature = Fin 0, lg_max_retries = 3, lg_timeout_seconds = 120\<rparr>"

definition default_database_config :: database_config where
  "default_database_config = \<lparr>dc_url = ''sqlite+aiosqlite:///./data/agent.db'', dc_pool_size = 5,
     dc_pool_timeout_seconds = 30, dc_echo_sql = False\<rparr>"

definition default_mcp_config :: mcp_config where
  "default_mcp_config = \<lparr>mc_server_command = ''npx'', mc_server_args = [], mc_env = [], mc_timeout_seconds = 30\<rparr>"

definition default_persistence_config :: persistence_config where
  "default_persistence_config = \<lparr>pg_db_path = [], pg_checkpoint_path = [], pg_hitl_expiry_minutes = 30,
     pg_idempotency_retention_days = 90, pg_connection_timeout = 30\<rparr>"

definition default_agent_config :: agent_config where
  "default_agent_config = \<lparr>ag_environment = DEVELOPMENT, ag_environ = default_environment_config, ag_log_level = INFO,
     ag_llm = default_llm_config ''anthropic'' ''claude-sonnet-4-6'', ag_database = default_database_config,
     ag_mcp = default_mcp_config, ag_persistence = default_persistence_config, ag_max_agent_steps = 50,
     ag_human_approval_required = True\<rparr>"

section \<open>The type of a constructed configuration\<close>

definition llm_ok :: "llm_config \<Rightarrow> bool" where
  "llm_ok c = (1 \<le> lg_max_tokens c \<and> (\<exists>q. lg_temperature c = Fin q \<and> 0 \<le> q \<and> q \<le> 2)
     \<and> 0 \<le> lg_max_retries c \<and> 1 \<le> lg_timeout_seconds c)"

definition config_ok :: "agent_config \<Rightarrow> bool" where
  "config_ok c = (llm_ok (ag_llm c)
     \<and> 1 \<le> dc_pool_size (ag_database c) \<and> 1 \<le> dc_pool_timeout_seconds (ag_database c)
     \<and> 1 \<le> mc_timeout_seconds (ag_mcp c)
     \<and> 1 \<le> pg_hitl_expiry_minutes (ag_persistence c) \<and> 1 \<le> pg_connection_timeout (ag_persistence c)
     \<and> 1 \<le> ag_max_agent_steps c)"

lemma require_Inr [simp]: "require ok m r = Inr x \<longleftrightarrow> ok \<and> r = Inr x"
  by (simp add: require_def)

lemma float_range: "fle (Fin a) t \<and> fle t (Fin b) \<longleftrightarrow> (\<exists>q. t = Fin q \<and> a \<le> q \<and> q \<le> b)"
  by (cases t) auto

lemma mk_llm_config_iff: "mk_llm_config c = Inr c' \<longleftrightarrow> llm_ok c \<and> c' = c"
  by (auto simp: mk_llm_config_def llm_ok_def float_range)

lemma default_config_ok: "mk_agent_config default_agent_config = Inr default_agent_config"
  by (simp add: mk_agent_config_def mk_llm_config_def mk_database_config_def mk_mcp_config_def mk_persistence_config_def
      default_agent_config_def default_llm_config_def default_database_config_def default_mcp_config_def
      default_persistence_config_def require_def)

lemma default_not_for_production: "validate_production default_environment_config \<noteq> []"
  by (simp add: validate_production_def default_environment_config_def)

section \<open>Properties\<close>

text \<open>
  Configuration is typed: building an agent configuration succeeds exactly when every
  bounded field is in its range (the temperature a number between 0 and 2, which excludes
  NaN and the infinities; every timeout and pool size at least 1; the step limit at least
  1; the retry count not negative), and it returns the values unchanged.
\<close>

theorem config_constructed_iff:
  "mk_agent_config c = Inr c' \<longleftrightarrow> config_ok c \<and> c' = c"
  by (auto simp: mk_agent_config_def bindE_Inr mk_llm_config_iff mk_database_config_def mk_mcp_config_def
      mk_persistence_config_def config_ok_def)

text \<open>
  A production configuration passes validation exactly when it names an issuer, an
  audience, a Redis instance and a database that is not SQLite in any spelling, and both
  the development headers and the CORS wildcard are off.
\<close>

theorem production_valid_iff:
  "validate_production c = [] \<longleftrightarrow> en_oidc_issuer c \<noteq> [] \<and> en_oidc_audience c \<noteq> [] \<and> en_redis_url c \<noteq> []
     \<and> en_database_url c \<noteq> [] \<and> \<not> str_in ''sqlite'' (lower (en_database_url c))
     \<and> \<not> en_allow_dev_headers c \<and> \<not> en_allow_cors_wildcard c"
  by (auto simp: validate_production_def)

end
