(* ===== verification/Lifecycle.thy ===== *)
theory Lifecycle
  imports Api Provider Config
begin

text \<open>
  Composition and shutdown: \<open>bootstrap.py\<close>, \<open>lifecycle.py\<close>, \<open>runtime_factory.py\<close> and the start of
  \<open>server.py\<close>. The resources are handles; what constructing, connecting or closing one raises is
  an argument (\<open>boot_env\<close>), as are the environment variables, \<open>pathlib\<close>'s join and \<open>mkdir\<close>. A connection counts as open as soon as connecting is attempted, also
  when the attempt then raises: \<open>SqliteEventStore.connect\<close> assigns its connection before it runs
  the schema script.
\<close>

section \<open>Owned resources\<close>

datatype resource = RHitl | RGrant | RIdempotency | REvents | RProvider | RMcp

text \<open>\<open>ApplicationResources\<close>: which fields hold an object, and \<open>_closed\<close>. Around it, the open handles
  and the calls of \<open>close\<close> (or \<open>disconnect\<close>) so far, in order.\<close>

record app_resources =
  ar_owned :: "resource \<Rightarrow> bool"
  ar_closed :: bool
  ar_live :: "resource list"
  ar_closes :: "resource list"

record boot_env =
  be_environ :: "string \<Rightarrow> string option"
  be_new :: "resource \<Rightarrow> pyexn option"
  be_connect :: "resource \<Rightarrow> pyexn option"
  be_close :: "resource \<Rightarrow> pyexn option"
  be_join :: "string \<Rightarrow> string \<Rightarrow> string"
  be_mkdir :: "string \<Rightarrow> pyexn option"

definition new_resources :: app_resources where
  "new_resources = \<lparr>ar_owned = (\<lambda>_. False), ar_closed = False, ar_live = [], ar_closes = []\<rparr>"

text \<open>Closing one resource: an exception is logged and dropped, and the handle stays open.\<close>

definition close_one :: "boot_env \<Rightarrow> resource \<Rightarrow> app_resources \<Rightarrow> app_resources" where
  "close_one E r a =
     (if ar_owned a r
      then a\<lparr>ar_closes := ar_closes a @ [r], ar_live := (if be_close E r = None then removeAll r (ar_live a) else ar_live a)\<rparr>
      else a)"

definition close_order :: "resource list" where
  "close_order = [RHitl, RGrant, RIdempotency, REvents, RProvider, RMcp]"

definition resources_close :: "boot_env \<Rightarrow> app_resources \<Rightarrow> app_resources" where
  "resources_close E a = (if ar_closed a then a else fold (close_one E) close_order (a\<lparr>ar_closed := True\<rparr>))"

section \<open>The composition root\<close>

datatype actor_resolver = Header_Resolver | Supplied_Resolver

record boot_args =
  ba_config :: "agent_config option"
  ba_provider :: "provider_config option"
  ba_db_path :: string
  ba_production :: bool
  ba_resolver :: "actor_resolver option"

record application =
  app_config :: agent_config
  app_resolver :: actor_resolver
  app_executor :: bool
  app_registry :: tool_registry

text \<open>Phase 1, without effects: the configuration and the resolver, or the first failing check.\<close>

definition with_db_path :: "string \<Rightarrow> agent_config \<Rightarrow> pyexn + agent_config" where
  "with_db_path path c =
     bindE (mk_persistence_config (default_persistence_config\<lparr>pg_db_path := path\<rparr>)) (\<lambda>p.
     mk_agent_config (default_agent_config\<lparr>ag_environment := ag_environment c, ag_llm := ag_llm c, ag_persistence := p\<rparr>))"

definition choose_resolver :: "bool \<Rightarrow> actor_resolver option \<Rightarrow> pyexn + actor_resolver" where
  "choose_resolver production given =
     bindE (case given of
              Some r \<Rightarrow> Inr r
            | None \<Rightarrow> if production then Inl (RuntimeError ''Production mode requires approval_actor_resolver'')
                      else Inr Header_Resolver) (\<lambda>r.
     if production \<and> r = Header_Resolver
     then Inl (RuntimeError ''DevelopmentHeaderResolver not allowed in production mode'') else Inr r)"

definition validate_boot :: "boot_env \<Rightarrow> boot_args \<Rightarrow> pyexn + (agent_config \<times> actor_resolver)" where
  "validate_boot E b =
     (let cfg = (case ba_config b of None \<Rightarrow> default_agent_config | Some c \<Rightarrow> c);
          pcfg = (case ba_provider b of None \<Rightarrow> default_provider_config | Some p \<Rightarrow> p) in
      bindE (if ba_db_path b \<noteq> [] then with_db_path (ba_db_path b) cfg
             else if ba_production b
             then Inl (RuntimeError ''Production mode requires db_path -- refusing to start without durable storage'')
             else Inr cfg) (\<lambda>cfg'.
      if opt_str (be_environ E (pc_token_env_var pcfg)) = []
      then Inl (RuntimeError (''Environment variable '' @ pc_token_env_var pcfg @ '' is not set''))
      else bindE (choose_resolver (ba_production b) (ba_resolver b)) (\<lambda>r. Inr (cfg', r))))"

text \<open>Phase 2. The steps on the resources: construct and hand over to the owner, connect.\<close>

datatype boot_step = Construct resource | Connect resource

fun open_step :: "boot_env \<Rightarrow> boot_step \<Rightarrow> app_resources \<Rightarrow> (pyexn + unit) \<times> app_resources" where
  "open_step E (Construct r) a =
     (case be_new E r of
        Some e \<Rightarrow> (Inl e, a)
      | None \<Rightarrow> (Inr (), a\<lparr>ar_owned := (ar_owned a)(r := True)\<rparr>))"
| "open_step E (Connect r) a =
     (let a1 = a\<lparr>ar_live := ar_live a @ [r]\<rparr> in
      case be_connect E r of Some e \<Rightarrow> (Inl e, a1) | None \<Rightarrow> (Inr (), a1))"

fun boot_steps :: "boot_env \<Rightarrow> boot_step list \<Rightarrow> app_resources \<Rightarrow> (pyexn + unit) \<times> app_resources" where
  "boot_steps E [] a = (Inr (), a)"
| "boot_steps E (s # ss) a =
     (case open_step E s a of (Inl e, a1) \<Rightarrow> (Inl e, a1) | (Inr _, a1) \<Rightarrow> boot_steps E ss a1)"

definition open_steps :: "bool \<Rightarrow> boot_step list" where
  "open_steps durable =
     [Construct RProvider, Construct RMcp, Connect RMcp]
     @ (if durable then [Construct RHitl, Construct RGrant, Construct RIdempotency, Construct REvents, Connect REvents] else [])"

text \<open>What follows uses no resource: the executor, the registry and the guards of \<open>create_app\<close>.\<close>

definition compose :: "boot_args \<Rightarrow> agent_config \<Rightarrow> actor_resolver \<Rightarrow> pyexn + application" where
  "compose b cfg r =
     (let durable = (ba_db_path b \<noteq> []) in
      if \<not> durable \<and> ba_production b
      then Inl (RuntimeError ''Production mode requires full HITL dependency set'')
      else bindE bootstrap_registry (\<lambda>reg.
        bindE (create_app \<lparr>ad_gateway = True, ad_hitl_store = durable, ad_grant_repo = durable,
            ad_executor = durable, ad_db_path = pg_db_path (ag_persistence cfg)\<rparr>) (\<lambda>_.
        Inr \<lparr>app_config = cfg, app_resolver = r, app_executor = durable, app_registry = reg\<rparr>)))"

definition bootstrap_app :: "boot_env \<Rightarrow> boot_args \<Rightarrow> (pyexn + application) \<times> app_resources" where
  "bootstrap_app E b =
     (case validate_boot E b of
        Inl e \<Rightarrow> (Inl e, new_resources)
      | Inr (cfg, r) \<Rightarrow>
          (case boot_steps E (open_steps (ba_db_path b \<noteq> [])) new_resources of
             (Inl e, a) \<Rightarrow> (Inl e, resources_close E a)
           | (Inr _, a) \<Rightarrow>
               (case compose b cfg r of
                  Inl e \<Rightarrow> (Inl e, resources_close E a)
                | Inr app \<Rightarrow> (Inr app, a))))"

section \<open>The entry point and the runtime factory\<close>

definition server_is_production :: "(string \<Rightarrow> string option) \<Rightarrow> bool" where
  "server_is_production environ =
     (lower (strip (case environ ''FXFILL_ENV'' of None \<Rightarrow> ''development'' | Some s \<Rightarrow> s)) = ''production'')"

definition data_dir :: "boot_env \<Rightarrow> string" where
  "data_dir E = (case be_environ E ''FXFILL_DATA_DIR'' of None \<Rightarrow> ''/app/data'' | Some d \<Rightarrow> d)"

definition server_args :: "boot_env \<Rightarrow> boot_args" where
  "server_args E =
     \<lparr>ba_config = None, ba_provider = None,
      ba_db_path = (case be_environ E ''PERSISTENCE_DB_PATH'' of
          Some p \<Rightarrow> p
        | None \<Rightarrow> be_join E (data_dir E) ''agent.db''),
      ba_production = server_is_production (be_environ E), ba_resolver = None\<rparr>"

definition server_start :: "boot_env \<Rightarrow> (pyexn + application) \<times> app_resources" where
  "server_start E = (case be_mkdir E (data_dir E) of
     Some e \<Rightarrow> (Inl e, new_resources)
   | None \<Rightarrow> bootstrap_app E (server_args E))"

text \<open>Which stores \<open>create_runtime\<close> builds, and on which paths.\<close>

record runtime_parts =
  rp_checkpoints :: "string option"
  rp_idempotency :: "string option"
  rp_events :: "string option"

definition create_runtime :: "bool \<Rightarrow> bool \<Rightarrow> bool \<Rightarrow> bool \<Rightarrow> agent_config \<Rightarrow> pyexn + runtime_parts" where
  "create_runtime llm mcp gateway events cfg =
     (let db = pg_db_path (ag_persistence cfg); some = (\<lambda>p. if db \<noteq> [] then Some p else None) in
      if \<not> llm then Inl (RuntimeError ''LLM provider is required'')
      else if \<not> mcp then Inl (RuntimeError ''MCP client is required'')
      else if \<not> gateway
      then Inl (RuntimeError ''AgentRuntime requires an explicit AuthorizationGateway -- refusing to fail open'')
      else Inr \<lparr>rp_checkpoints = some (str_or (pg_checkpoint_path (ag_persistence cfg)) db),
                 rp_idempotency = some db, rp_events = (if events then None else some db)\<rparr>)"

section \<open>Closing\<close>

lemma close_fold:
  assumes "distinct rs"
  shows "ar_closes (fold (close_one E) rs a) = ar_closes a @ filter (ar_owned a) rs"
    and "ar_owned (fold (close_one E) rs a) = ar_owned a"
    and "ar_closed (fold (close_one E) rs a) = ar_closed a"
    and "set (ar_live (fold (close_one E) rs a)) =
      set (ar_live a) - {r \<in> set rs. ar_owned a r \<and> be_close E r = None}"
  using assms by (induction rs arbitrary: a) (auto simp: close_one_def)

lemma close_order_all [simp]: "set close_order = UNIV" "distinct close_order"
  using resource.exhaust by (auto simp: close_order_def)

text \<open>Shutdown closes every owned resource exactly once, whatever the single calls raise, and a second
  shutdown does nothing.\<close>

lemma resources_close_once:
  assumes "\<not> ar_closed a"
  shows "ar_closes (resources_close E a) = ar_closes a @ filter (ar_owned a) close_order"
    and "set (ar_live (resources_close E a)) = set (ar_live a) - {r. ar_owned a r \<and> be_close E r = None}"
    and "resources_close E (resources_close E a) = resources_close E a"
  using assms close_fold [OF close_order_all(2), of E "a\<lparr>ar_closed := True\<rparr>"]
  by (simp_all add: resources_close_def)

section \<open>Rollback\<close>

text \<open>While the resources are opened, every open handle has an owner and nothing is closed.\<close>

definition in_start_up :: "app_resources \<Rightarrow> bool" where
  "in_start_up a = (\<not> ar_closed a \<and> ar_closes a = [] \<and> list_all (ar_owned a) (ar_live a))"

fun step_owned :: "(resource \<Rightarrow> bool) \<Rightarrow> boot_step list \<Rightarrow> bool" where
  "step_owned own [] = True"
| "step_owned own (Construct r # ss) = step_owned (own(r := True)) ss"
| "step_owned own (Connect r # ss) = (own r \<and> step_owned own ss)"

lemma boot_steps_opening:
  assumes "in_start_up a" "step_owned (ar_owned a) ss"
  shows "in_start_up (snd (boot_steps E ss a))"
  using assms
proof (induction ss arbitrary: a)
  case (Cons s ss)
  show ?case
  proof (cases s)
    case (Construct r)
    show ?thesis
    proof (cases "be_new E r")
      case None
      have "in_start_up (a\<lparr>ar_owned := (ar_owned a)(r := True)\<rparr>)"
        using Cons.prems(1) by (auto simp: in_start_up_def list_all_iff)
      with Cons.IH [of "a\<lparr>ar_owned := (ar_owned a)(r := True)\<rparr>"] Cons.prems(2)
      show ?thesis by (simp add: Construct None fun_upd_def)
    qed (use Cons.prems(1) in \<open>simp add: Construct\<close>)
  next
    case (Connect r)
    have o1: "in_start_up (a\<lparr>ar_live := ar_live a @ [r]\<rparr>)"
      using Cons.prems by (simp add: in_start_up_def Connect)
    with Cons.IH [OF o1] Cons.prems(2) show ?thesis
      by (cases "be_connect E r") (simp_all add: Connect Let_def)
  qed
qed simp

lemma open_steps_opening: "in_start_up (snd (boot_steps E (open_steps durable) new_resources))"
  by (rule boot_steps_opening) (simp_all add: in_start_up_def new_resources_def open_steps_def)

lemma bootstrap_cases:
  obtains (refused) e where "bootstrap_app E b = (Inl e, new_resources)"
  | (rolled_back) e a where "bootstrap_app E b = (Inl e, resources_close E a)" "in_start_up a"
  | (started) app a cfg r where "bootstrap_app E b = (Inr app, a)" "in_start_up a"
      "validate_boot E b = Inr (cfg, r)" "compose b cfg r = Inr app"
proof (cases "validate_boot E b")
  case (Inl e)
  then show ?thesis by (intro refused) (simp add: bootstrap_app_def)
next
  case (Inr cr)
  obtain cfg r where cr: "cr = (cfg, r)" by force
  obtain x a where xa: "boot_steps E (open_steps (ba_db_path b \<noteq> [])) new_resources = (x, a)" by force
  have op: "in_start_up a" using open_steps_opening [of E "ba_db_path b \<noteq> []"] by (simp add: xa)
  show ?thesis
  proof (cases x)
    case (Inl e)
    then show ?thesis using Inr op by (intro rolled_back) (auto simp: bootstrap_app_def cr xa)
  next
    case [simp]: (Inr u)
    show ?thesis
    proof (cases "compose b cfg r")
      case (Inl e)
      then show ?thesis using \<open>validate_boot E b = Inr cr\<close> op
        by (intro rolled_back) (auto simp: bootstrap_app_def cr xa)
    next
      case (Inr app)
      then show ?thesis using \<open>validate_boot E b = Inr cr\<close> op
        by (intro started) (auto simp: bootstrap_app_def cr xa)
    qed
  qed
qed

text \<open>A rollback calls \<open>close\<close> once on each owned resource; what is still open is a handle whose own
  \<open>close\<close> raised.\<close>

lemma rollback_closes:
  assumes "in_start_up a"
  shows "ar_closes (resources_close E a) = filter (ar_owned a) close_order"
    and "r \<in> set (ar_live (resources_close E a)) \<Longrightarrow> be_close E r \<noteq> None"
  using assms resources_close_once(1,2) [of a E] by (auto simp: in_start_up_def list_all_iff)

section \<open>Modes\<close>

lemma validate_production_mode:
  assumes "validate_boot E b = Inr (cfg, r)" "ba_production b"
  shows "ba_db_path b \<noteq> [] \<and> r = Supplied_Resolver"
  using assms
  by (cases r) (auto simp: validate_boot_def choose_resolver_def Let_def bindE_Inr split: if_splits option.splits)

text \<open>A database path makes \<open>bootstrap\<close> build a new configuration: of the given one only the
  environment and the model settings are kept.\<close>

lemma db_path_drops_overrides:
  assumes "with_db_path path c = Inr c'"
  shows "ag_max_agent_steps c' = 50 \<and> ag_human_approval_required c' = ag_human_approval_required default_agent_config"
  using assms by (auto simp: with_db_path_def mk_agent_config_def require_def bindE_Inr default_agent_config_def
      split: if_splits)

text \<open>The command-line entry point passes no resolver: in production mode it never starts.\<close>

lemma production_server_never_starts:
  assumes "server_is_production (be_environ E)"
  shows "\<exists>e. server_start E = (Inl e, new_resources)"
proof -
  have "validate_boot E (server_args E) \<noteq> Inr (cfg, r)" for cfg r
    using assms by (auto simp: validate_boot_def choose_resolver_def server_args_def Let_def bindE_Inr split: if_splits)
  then obtain e where "validate_boot E (server_args E) = Inl e"
    by (cases "validate_boot E (server_args E)") auto
  then show ?thesis by (simp add: server_start_def bootstrap_app_def split: option.split)
qed

section \<open>Properties\<close>

text \<open>
  C39. Starting the application is all or nothing. If \<open>bootstrap_app\<close> fails, for whatever reason and
  at whatever step, every resource it had constructed has been asked to close exactly once, a
  second shutdown would change nothing, and the only handles left open are those whose own
  \<open>close\<close> raised. If it succeeds, nothing has been closed, every open handle is owned by the
  application (so the shutdown closes it), and in production mode the stores are durable and
  the approver does not come from request headers.
\<close>

theorem bootstrap_all_or_nothing:
  "case bootstrap_app E b of
     (Inl e, a) \<Rightarrow> distinct (ar_closes a) \<and> set (ar_closes a) = {r. ar_owned a r}
       \<and> (\<forall>r. r \<in> set (ar_live a) \<longrightarrow> be_close E r \<noteq> None)
       \<and> ((\<exists>r. ar_owned a r) \<longrightarrow> resources_close E a = a)
   | (Inr app, a) \<Rightarrow> ar_closes a = [] \<and> list_all (ar_owned a) (ar_live a)
       \<and> (ba_production b \<longrightarrow> app_executor app \<and> app_resolver app = Supplied_Resolver)"
proof (cases rule: bootstrap_cases [of E b])
  case (refused e)
  then show ?thesis by (simp add: new_resources_def)
next
  case (rolled_back e a)
  have "ar_owned (resources_close E a) = ar_owned a"
    using rolled_back(2) close_fold(2) [OF close_order_all(2), of E "a\<lparr>ar_closed := True\<rparr>"]
    by (simp add: resources_close_def in_start_up_def)
  then show ?thesis
    using rolled_back rollback_closes(1) [OF rolled_back(2), of E] rollback_closes(2) [OF rolled_back(2), where E = E] resources_close_once(3) [of a E]
    by (auto simp: in_start_up_def)
next
  case (started app a cfg r)
  have "app_executor app \<and> app_resolver app = Supplied_Resolver" if "ba_production b"
    using started(4) validate_production_mode [OF started(3) that]
    by (auto simp: compose_def Let_def bindE_Inr)
  with started show ?thesis by (simp add: in_start_up_def)
qed

definition demo_boot_env :: boot_env where
  "demo_boot_env = \<lparr>be_environ = (\<lambda>v. if v = ''FXFILL_ENV'' then None else Some ''secret''),
     be_new = (\<lambda>_. None), be_connect = (\<lambda>r. if r = REvents then Some (OtherError ''disk full'') else None),
     be_close = (\<lambda>r. if r = RGrant then Some (OtherError ''locked'') else None),
     be_join = (\<lambda>d f. d @ ''/'' @ f), be_mkdir = (\<lambda>_. None)\<rparr>"

lemma demo_start:
  "bootstrap_app demo_boot_env (server_args demo_boot_env) =
     (Inl (OtherError ''disk full''), resources_close demo_boot_env
        \<lparr>ar_owned = (\<lambda>_. True), ar_closed = False, ar_live = [RMcp, REvents], ar_closes = []\<rparr>)"
proof -
  have all: "(\<lambda>_. False)(RProvider := True, RMcp := True, RHitl := True, RGrant := True, RIdempotency := True, REvents := True)
      = (\<lambda>_. True)" (is "?f = _")
  proof
    show "?f r = True" for r by (cases r) simp_all
  qed
  have "\<exists>v. validate_boot demo_boot_env (server_args demo_boot_env) = Inr v"
    by (simp add: validate_boot_def server_args_def demo_boot_env_def with_db_path_def mk_agent_config_def
        mk_llm_config_def mk_database_config_def mk_mcp_config_def mk_persistence_config_def require_def
        default_agent_config_def default_llm_config_def default_database_config_def default_mcp_config_def
        default_persistence_config_def choose_resolver_def server_is_production_def strip_def lower_def lower_char_def
        is_space_def opt_str_def Let_def default_provider_config_def)
  then show ?thesis
    by (auto simp: bootstrap_app_def open_steps_def demo_boot_env_def new_resources_def server_args_def all)
qed

theorem bootstrap_all_or_nothing_witness:
  "\<exists>e a. bootstrap_app demo_boot_env (server_args demo_boot_env) = (Inl e, a)
    \<and> set (ar_closes a) = UNIV \<and> distinct (ar_closes a) \<and> set (ar_live a) \<subseteq> {RGrant}"
proof -
  let ?a = "resources_close demo_boot_env
        \<lparr>ar_owned = (\<lambda>_. True), ar_closed = False, ar_live = [RMcp, REvents], ar_closes = []\<rparr>"
  have "ar_owned ?a = (\<lambda>_. True)"
    using close_fold(2) [OF close_order_all(2)] by (simp add: resources_close_def)
  moreover have "r = RGrant" if "be_close demo_boot_env r \<noteq> None" for r
    using that by (simp add: demo_boot_env_def split: if_splits)
  ultimately show ?thesis
    using bootstrap_all_or_nothing [of demo_boot_env "server_args demo_boot_env"]
    unfolding demo_start by auto
qed

end
