(* ===== verification/Reliability.thy ===== *)
theory Reliability
  imports Pyfloat
begin

text \<open>
  The tables of \<open>reliability.py\<close> and its circuit breaker, with the monotonic clock read as an argument of
  the calls that read it. The breaker keeps a failure counter that it also goes on counting
  while it is open; the specification \<open>outage\<close> keeps only what its clients can observe:
  how many failures in a row a working service has had, since when a failing one is
  shut off, and that a service is being probed. The simulation between the two is an
  interpretation of \<open>simulates\<close>.
\<close>

section \<open>Objectives and scenarios\<close>

datatype service_state = SVC_HEALTHY | SVC_DEGRADED | SVC_READ_ONLY | SVC_UNAVAILABLE

record slo =
  sl_name :: string
  sl_target_percent :: rat
  sl_measurement_window_days :: int
  sl_current_value :: "pyfloat option"

definition slo_of :: "string \<Rightarrow> rat \<Rightarrow> slo" where
  "slo_of n target = \<lparr>sl_name = n, sl_target_percent = target, sl_measurement_window_days = 30, sl_current_value = None\<rparr>"

definition DEFAULT_SLOS :: "slo list" where
  "DEFAULT_SLOS = [slo_of ''api_availability'' 99.9, slo_of ''read_task_success_rate'' 99.5,
     slo_of ''write_task_exactly_once_rate'' 99.99, slo_of ''approval_resume_success_rate'' 99.9,
     slo_of ''p95_latency_ms'' 95.0, slo_of ''audit_event_loss_rate'' 0.01]"

record reconciliation_task =
  rk_task_id :: string
  rk_idempotency_key :: string
  rk_tool_name :: string
  rk_session_id :: string
  rk_created_at :: string
  rk_retry_count :: int
  rk_max_retries :: int
  rk_resolved :: bool
  rk_resolution :: string

definition CHAOS_SCENARIOS :: "(string \<times> string) list" where
  "CHAOS_SCENARIOS =
     [(''llm_provider_timeout'', ''LLM returns 429/500 -- circuit breaker opens, fallback model used''),
      (''tool_gateway_timeout'', ''MCP tool call times out -- UNKNOWN outcome, reconciliation queued''),
      (''postgres_failover'', ''Primary PostgreSQL fails -- reads continue from replica, writes queued''),
      (''redis_unavailable'', ''Redis down -- rate limits and cache gracefully degraded''),
      (''crash_before_approval'', ''Pod crashes after interrupt, before HITL -- resume from checkpoint''),
      (''crash_after_approval'', ''Pod crashes after approval dispatch -- idempotency prevents double execution''),
      (''duplicate_webhook'', ''Same webhook delivered twice -- idempotency key deduplication''),
      (''clock_skew'', ''System clock jumps -- timestamps still monotonically ordered in audit'')]"

text \<open>An objective's target is documented as a success rate; the loss rate is the one that is not.\<close>

lemma one_target_is_a_loss_rate:
  "map sl_name (filter (\<lambda>o'. sl_target_percent o' < 50) DEFAULT_SLOS) = [''audit_event_loss_rate'']"
  by (simp add: DEFAULT_SLOS_def slo_of_def)

section \<open>The circuit breaker\<close>

datatype circuit_state = CLOSED | OPEN | HALF_OPEN

record circuit_breaker =
  cb_name :: string
  cb_failure_threshold :: int
  cb_recovery_timeout_seconds :: pyfloat
  cb_state :: circuit_state
  cb_failure_count :: int
  cb_last_failure_time :: pyfloat

definition new_breaker :: "string \<Rightarrow> int \<Rightarrow> pyfloat \<Rightarrow> circuit_breaker" where
  "new_breaker n threshold timeout =
     \<lparr>cb_name = n, cb_failure_threshold = threshold, cb_recovery_timeout_seconds = timeout,
      cb_state = CLOSED, cb_failure_count = 0, cb_last_failure_time = Fin 0\<rparr>"

definition record_success :: "circuit_breaker \<Rightarrow> circuit_breaker" where
  "record_success b =
     (if cb_state b = HALF_OPEN then b\<lparr>cb_state := CLOSED, cb_failure_count := 0\<rparr>
      else if cb_state b = CLOSED then b\<lparr>cb_failure_count := 0\<rparr>
      else b)"

definition record_failure :: "pyfloat \<Rightarrow> circuit_breaker \<Rightarrow> circuit_breaker" where
  "record_failure now b =
     (let b1 = b\<lparr>cb_failure_count := cb_failure_count b + 1, cb_last_failure_time := now\<rparr>
      in if cb_failure_threshold b1 \<le> cb_failure_count b1 then b1\<lparr>cb_state := OPEN\<rparr> else b1)"

definition allow_request :: "pyfloat \<Rightarrow> circuit_breaker \<Rightarrow> bool \<times> circuit_breaker" where
  "allow_request now b =
     (if cb_state b = CLOSED then (True, b)
      else if cb_state b = OPEN then
        (if fless (cb_recovery_timeout_seconds b) (fsub now (cb_last_failure_time b))
         then (True, b\<lparr>cb_state := HALF_OPEN\<rparr>)
         else (False, b))
      else (True, b))"

text \<open>The calls of a client, in the order they reach the breaker; only \<open>allow_request\<close>
  answers.\<close>

datatype breaker_call = RecordSuccess | RecordFailure pyfloat | AllowRequest pyfloat

fun breaker_step :: "breaker_call \<Rightarrow> circuit_breaker \<Rightarrow> bool option \<times> circuit_breaker" where
  "breaker_step RecordSuccess b = (None, record_success b)"
| "breaker_step (RecordFailure now) b = (None, record_failure now b)"
| "breaker_step (AllowRequest now) b = (let (ok, b1) = allow_request now b in (Some ok, b1))"

section \<open>What a client can rely on\<close>

datatype outage = Working nat | ShutOff pyfloat | Probing

text \<open>\<open>limit\<close> failures in a row shut the service off; a failure while it is shut off or
  probed restarts the waiting time; a success counts unless the service is shut off.\<close>

fun outage_step :: "nat \<Rightarrow> pyfloat \<Rightarrow> breaker_call \<Rightarrow> outage \<Rightarrow> bool option \<times> outage" where
  "outage_step limit timeout RecordSuccess (ShutOff t) = (None, ShutOff t)"
| "outage_step limit timeout RecordSuccess s = (None, Working 0)"
| "outage_step limit timeout (RecordFailure now) (Working n) =
     (None, if limit \<le> Suc n then ShutOff now else Working (Suc n))"
| "outage_step limit timeout (RecordFailure now) s = (None, ShutOff now)"
| "outage_step limit timeout (AllowRequest now) (ShutOff t) =
     (if fless timeout (fsub now t) then (Some True, Probing) else (Some False, ShutOff t))"
| "outage_step limit timeout (AllowRequest now) s = (Some True, s)"

definition failure_limit :: "int \<Rightarrow> nat" where
  "failure_limit threshold = nat (max 1 threshold)"

definition outage_of :: "circuit_breaker \<Rightarrow> outage" where
  "outage_of b = (case cb_state b of
     CLOSED \<Rightarrow> Working (nat (cb_failure_count b))
   | OPEN \<Rightarrow> ShutOff (cb_last_failure_time b)
   | HALF_OPEN \<Rightarrow> Probing)"

definition breaker_ok :: "int \<Rightarrow> pyfloat \<Rightarrow> circuit_breaker \<Rightarrow> bool" where
  "breaker_ok threshold timeout b =
     (cb_failure_threshold b = threshold \<and> cb_recovery_timeout_seconds b = timeout
      \<and> 0 \<le> cb_failure_count b
      \<and> (cb_state b = CLOSED \<longrightarrow> cb_failure_count b = 0 \<or> cb_failure_count b < threshold)
      \<and> (cb_state b \<noteq> CLOSED \<longrightarrow> threshold \<le> cb_failure_count b))"

lemmas breaker_defs = breaker_ok_def outage_of_def record_success_def record_failure_def
  allow_request_def failure_limit_def

lemma new_breaker_ok [simp]: "breaker_ok threshold timeout (new_breaker n threshold timeout)"
  by (simp add: breaker_ok_def new_breaker_def)

lemma outage_new [simp]: "outage_of (new_breaker n threshold timeout) = Working 0"
  by (simp add: outage_of_def new_breaker_def)

interpretation breaker: simulates breaker_step "outage_step (failure_limit threshold) timeout"
    "breaker_ok threshold timeout" outage_of
  for threshold timeout
proof
  fix b c
  assume ok: "breaker_ok threshold timeout b"
  show "breaker_ok threshold timeout (snd (breaker_step c b))"
    using ok by (cases c; cases "cb_state b") (auto simp: breaker_defs Let_def)
  show "outage_step (failure_limit threshold) timeout c (outage_of b) =
      (fst (breaker_step c b), outage_of (snd (breaker_step c b)))"
    using ok by (cases c; cases "cb_state b") (auto simp: breaker_defs Let_def)
qed

text \<open>The time a service stays shut off, on the specification and on the breaker.\<close>

fun quiet_until :: "pyfloat \<Rightarrow> pyfloat \<Rightarrow> breaker_call \<Rightarrow> bool" where
  "quiet_until timeout t RecordSuccess = True"
| "quiet_until timeout t (RecordFailure now) = False"
| "quiet_until timeout t (AllowRequest now) = (\<not> fless timeout (fsub now t))"

definition refusals :: "breaker_call list \<Rightarrow> (breaker_call \<times> bool option) list" where
  "refusals cs = map (\<lambda>c. (c, case c of AllowRequest now \<Rightarrow> Some False | _ \<Rightarrow> None)) cs"

lemma shut_off_refuses:
  "list_all (quiet_until timeout t) cs \<Longrightarrow>
     run_steps (outage_step limit timeout) cs (ShutOff t) = (refusals cs, ShutOff t)"
proof (induction cs)
  case (Cons c cs)
  then show ?case by (cases c) (simp_all add: refusals_def)
qed (simp add: refusals_def)

lemma half_open_admits_all:
  "cb_state b = HALF_OPEN \<Longrightarrow>
     run_steps breaker_step (map AllowRequest ts) b = (map (\<lambda>t. (AllowRequest t, Some True)) ts, b)"
  by (induction ts) (simp_all add: allow_request_def)

section \<open>Properties\<close>


text \<open>
  An open breaker protects the service: from the failure that opened it until more
  than the recovery timeout has passed, it refuses every request, whatever late successes
  are reported meanwhile, and its state does not change.
\<close>

theorem open_breaker_refuses:
  assumes "breaker_ok threshold timeout b" and "cb_state b = OPEN"
    and "list_all (quiet_until timeout (cb_last_failure_time b)) cs"
  shows "fst (run_steps breaker_step cs b) = refusals cs
    \<and> cb_state (snd (run_steps breaker_step cs b)) = OPEN"
proof -
  have "outage_of b = ShutOff (cb_last_failure_time b)" using assms(2) by (simp add: outage_of_def)
  then have "fst (run_steps breaker_step cs b) = refusals cs
      \<and> outage_of (snd (run_steps breaker_step cs b)) = ShutOff (cb_last_failure_time b)"
    using breaker.sim_run [OF assms(1), of cs] shut_off_refuses [OF assms(3)] by simp
  then show ?thesis by (simp add: outage_of_def split: circuit_state.splits)
qed

end
