(* ===== verification/Base64.thy ===== *)
theory Base64
  imports Prelude "HOL-Library.Word"
begin

text \<open>
  \<open>base64.b64encode\<close> and \<open>base64.b64decode\<close> of Python's standard library, which the checkpoint
  saver puts between the serializer's bytes and the text columns. The decoder is the
  non-strict one the source calls: it skips characters outside the alphabet, stops at a
  complete padding and fails when a group is left incomplete.
\<close>

type_synonym byte = "8 word"

definition b64_alphabet :: string where
  "b64_alphabet = ''ABCDEFGHIJKLMNOPQRSTUVWXYZabcdefghijklmnopqrstuvwxyz0123456789+/''"

definition b64_char :: "nat \<Rightarrow> char" where
  "b64_char n = b64_alphabet ! n"

definition b64_value :: "char \<Rightarrow> nat option" where
  "b64_value c = find (\<lambda>n. b64_alphabet ! n = c) [0..<64]"

fun b64encode :: "byte list \<Rightarrow> string" where
  "b64encode [] = []"
| "b64encode [a] = [b64_char (unat a div 4), b64_char (unat a mod 4 * 16), CHR ''='', CHR ''='']"
| "b64encode [a, b] = [b64_char (unat a div 4), b64_char (unat a mod 4 * 16 + unat b div 16),
     b64_char (unat b mod 16 * 4), CHR ''='']"
| "b64encode (a # b # c # r) = b64_char (unat a div 4) # b64_char (unat a mod 4 * 16 + unat b div 16)
     # b64_char (unat b mod 16 * 4 + unat c div 64) # b64_char (unat c mod 64) # b64encode r"

text \<open>The decoder's registers: the position in the group of four, the bits left over from the
  last character, and the padding characters seen.\<close>

fun b64decode_from :: "nat \<Rightarrow> nat \<Rightarrow> nat \<Rightarrow> string \<Rightarrow> byte list option" where
  "b64decode_from pos left pads [] = (if pos = 0 then Some [] else None)"
| "b64decode_from pos left pads (c # cs) =
     (if c = CHR ''='' then
        (if 2 \<le> pos \<and> 4 \<le> pos + pads + 1 then Some []
         else b64decode_from pos left (if 2 \<le> pos then pads + 1 else pads) cs)
      else case b64_value c of
        None \<Rightarrow> b64decode_from pos left pads cs
      | Some v \<Rightarrow>
          (if pos = 0 then b64decode_from 1 v 0 cs
           else if pos = 1 then map_option (Cons (of_nat (left * 4 + v div 16))) (b64decode_from 2 (v mod 16) 0 cs)
           else if pos = 2 then map_option (Cons (of_nat (left * 16 + v div 4))) (b64decode_from 3 (v mod 4) 0 cs)
           else map_option (Cons (of_nat (left * 64 + v))) (b64decode_from 0 0 0 cs)))"

definition b64decode :: "string \<Rightarrow> byte list option" where
  "b64decode s = b64decode_from 0 0 0 s"

lemma b64_value_all: "list_all (\<lambda>n. b64_value (b64_char n) = Some n \<and> b64_char n \<noteq> CHR ''='') [0..<64]"
  by code_simp

lemma b64_value_char [simp]: "n < 64 \<Longrightarrow> b64_value (b64_char n) = Some n"
  and b64_char_pad [simp]: "n < 64 \<Longrightarrow> b64_char n \<noteq> CHR ''=''"
  using b64_value_all by (simp_all add: list_all_iff)

lemma byte_less: "unat a < 256" for a :: byte
  using unsigned_less [of a, where 'a = nat] by simp

lemma byte_quotients [simp]:
  fixes a :: byte
  shows "unat a div 4 < 64" "unat a div 16 < 16" "unat a div 64 < 4"
    "unat a div 16 div 16 = 0" "unat a div 64 div 4 = 0" "unat a div 16 mod 16 = unat a div 16"
    "unat a div 64 mod 4 = unat a div 64"
  using byte_less [of a] by (simp_all add: less_mult_imp_div_less)

text \<open>The values of the four characters of a group are below 64.\<close>

lemma byte_bounds [simp]:
  fixes a b :: byte
  shows "unat a mod 4 * 16 + unat b div 16 < 64" "unat a mod 16 * 4 + unat b div 64 < 64"
    "unat a mod 4 * 16 < 64" "unat a mod 16 * 4 < 64" "unat a mod 64 < 64"
proof -
  have "unat a mod 4 < 4" "unat a mod 16 < 16" by simp_all
  moreover have "unat b div 16 < 16" "unat b div 64 < 4" by simp_all
  ultimately show "unat a mod 4 * 16 + unat b div 16 < 64" "unat a mod 16 * 4 + unat b div 64 < 64"
    "unat a mod 4 * 16 < 64" "unat a mod 16 * 4 < 64" by linarith+
qed simp

lemma b64decode_encode_from: "b64decode_from 0 0 0 (b64encode bs) = Some bs"
  by (induction bs rule: b64encode.induct) (simp_all del: of_nat_add of_nat_mult)

lemma b64_roundtrip [simp]: "b64decode (b64encode bs) = Some bs"
  by (simp add: b64decode_def b64decode_encode_from)

end
