(* ===== verification/Checkpoint.thy ===== *)
theory Checkpoint
  imports Auth Base64
begin

text \<open>
  The durable checkpoint saver, \<open>checkpoint_store.py\<close>: the rows of \<open>checkpoints\<close> and
  \<open>channel_writes\<close>, and the five operations LangGraph calls. A Python value is an element of
  the type \<open>'v\<close>; LangGraph's serializer, \<open>json.loads\<close>, dictionary access to a checkpoint and the
  row SQLite returns first among rows of equal \<open>created_at\<close> are the fields of \<open>ckpt_env\<close>. The
  ISO texts of \<open>created_at\<close> are ordered as the instants they denote.

  Under \<open>serde_ok\<close>, the documented round trips of the serializer and of \<open>json\<close>, the saver
  refines a map from thread, namespace and checkpoint id to what was stored there.
\<close>

section \<open>Rows and environment\<close>

datatype cell = TextCell string | BlobCell "byte list"

record checkpoint_row =
  cr_thread_id :: string
  cr_checkpoint_ns :: string
  cr_checkpoint_id :: string
  cr_parent_checkpoint_id :: "string option"
  cr_type :: string
  cr_checkpoint :: cell
  cr_metadata :: "cell option"
  cr_created_at :: timestamp

record write_row =
  wr_thread_id :: string
  wr_checkpoint_ns :: string
  wr_checkpoint_id :: string
  wr_task_id :: string
  wr_task_path :: string
  wr_idx :: nat
  wr_channel :: string
  wr_value :: cell
  wr_created_at :: timestamp

record saver =
  sv_checkpoints :: "checkpoint_row list"
  sv_writes :: "write_row list"

text \<open>What the saver reads of \<open>config["configurable"]\<close>.\<close>

record configurable =
  cg_thread_id :: "string option"
  cg_checkpoint_ns :: "string option"
  cg_checkpoint_id :: "string option"

record 'v checkpoint_tuple =
  ct_config :: configurable
  ct_checkpoint :: 'v
  ct_metadata :: 'v
  ct_parent_config :: "configurable option"

record 'v ckpt_env =
  ce_lib :: pylib
  ce_loads :: "string \<Rightarrow> json option"
  ce_dumps_typed :: "'v \<Rightarrow> string \<times> byte list"
  ce_loads_typed :: "string \<times> byte list \<Rightarrow> pyexn + 'v"
  ce_item :: "'v \<Rightarrow> string \<Rightarrow> string option"
  ce_empty :: 'v
  ce_tie :: "checkpoint_row list \<Rightarrow> checkpoint_row option"

section \<open>Operations\<close>

definition encode_value :: "'v ckpt_env \<Rightarrow> 'v \<Rightarrow> cell" where
  "encode_value E v = (let (ty, bs) = ce_dumps_typed E v in
     TextCell (pl_dumps (ce_lib E) (JArr [JStr ty, JStr (b64encode bs)])))"

fun decode_cell :: "'v ckpt_env \<Rightarrow> cell \<Rightarrow> pyexn + 'v" where
  "decode_cell E (TextCell raw) = (case ce_loads E raw of
     None \<Rightarrow> Inl (ValueError ''Expecting value'')
   | Some parts \<Rightarrow>
       bindE (py_nth 0 parts) (\<lambda>ty. bindE (py_nth 1 parts) (\<lambda>data. case data of
         JStr s \<Rightarrow> (case b64decode s of
             None \<Rightarrow> Inl (ValueError ''Incorrect padding'')
           | Some bs \<Rightarrow> ce_loads_typed E (py_str (ce_lib E) ty, bs))
       | _ \<Rightarrow> Inl (TypeError ''argument should be a bytes-like object or ASCII string''))))"
| "decode_cell E (BlobCell raw) = ce_loads_typed E (''json'', raw)"

definition cell_empty :: "cell \<Rightarrow> bool" where
  "cell_empty c = (c = TextCell [] \<or> c = BlobCell [])"

definition row_to_tuple :: "'v ckpt_env \<Rightarrow> checkpoint_row \<Rightarrow> pyexn + 'v checkpoint_tuple" where
  "row_to_tuple E r =
     bindE (decode_cell E (cr_checkpoint r)) (\<lambda>ck.
     bindE (case cr_metadata r of
              None \<Rightarrow> Inr (ce_empty E)
            | Some c \<Rightarrow> if cell_empty c then Inr (ce_empty E) else decode_cell E c) (\<lambda>md.
     Inr \<lparr>ct_config = \<lparr>cg_thread_id = Some (cr_thread_id r), cg_checkpoint_ns = Some (cr_checkpoint_ns r),
            cg_checkpoint_id = Some (cr_checkpoint_id r)\<rparr>,
          ct_checkpoint = ck, ct_metadata = md,
          ct_parent_config = (case cr_parent_checkpoint_id r of
              Some (c # cs) \<Rightarrow> Some \<lparr>cg_thread_id = Some (cr_thread_id r), cg_checkpoint_ns = None,
                 cg_checkpoint_id = Some (c # cs)\<rparr>
            | _ \<Rightarrow> None)\<rparr>))"

definition row_key :: "checkpoint_row \<Rightarrow> string \<times> string \<times> string" where
  "row_key r = (cr_thread_id r, cr_checkpoint_ns r, cr_checkpoint_id r)"

definition thread_of :: "configurable \<Rightarrow> pyexn + string" where
  "thread_of cfg = (case cg_thread_id cfg of None \<Rightarrow> Inl (KeyError ''thread_id'') | Some t \<Rightarrow> Inr t)"

text \<open>\<open>ORDER BY created_at DESC LIMIT 1\<close>.\<close>

definition latest_rows :: "checkpoint_row list \<Rightarrow> checkpoint_row list" where
  "latest_rows rs = filter (\<lambda>r. list_all (\<lambda>r'. cr_created_at r' \<le> cr_created_at r) rs) rs"

definition latest_row :: "'v ckpt_env \<Rightarrow> checkpoint_row list \<Rightarrow> checkpoint_row option" where
  "latest_row E rs = (case latest_rows rs of [] \<Rightarrow> None | [r] \<Rightarrow> Some r | ties \<Rightarrow> ce_tie E ties)"

definition aget_tuple :: "'v ckpt_env \<Rightarrow> configurable \<Rightarrow> saver \<Rightarrow> pyexn + 'v checkpoint_tuple option" where
  "aget_tuple E cfg s = bindE (thread_of cfg) (\<lambda>t.
     let ns = opt_str (cg_checkpoint_ns cfg);
         found = (if opt_str (cg_checkpoint_id cfg) \<noteq> []
                  then find_row row_key (t, ns, opt_str (cg_checkpoint_id cfg)) (sv_checkpoints s)
                  else latest_row E (filter (\<lambda>r. cr_thread_id r = t \<and> cr_checkpoint_ns r = ns) (sv_checkpoints s)))
     in case found of None \<Rightarrow> Inr None | Some r \<Rightarrow> bindE (row_to_tuple E r) (\<lambda>x. Inr (Some x)))"

definition alist :: "'v ckpt_env \<Rightarrow> configurable option \<Rightarrow> saver \<Rightarrow> pyexn + 'v checkpoint_tuple list" where
  "alist E config s = (case config of
     None \<Rightarrow> Inr []
   | Some cfg \<Rightarrow> bindE (aget_tuple E cfg s) (\<lambda>x. Inr (case x of None \<Rightarrow> [] | Some tup \<Rightarrow> [tup])))"

text \<open>\<open>INSERT OR REPLACE\<close> deletes the row of the same key and inserts the new one.\<close>

definition sql_replace :: "('r \<Rightarrow> 'k) \<Rightarrow> 'r \<Rightarrow> 'r list \<Rightarrow> 'r list" where
  "sql_replace key r rs = filter (\<lambda>r'. key r' \<noteq> key r) rs @ [r]"

definition aput ::
    "'v ckpt_env \<Rightarrow> timestamp \<Rightarrow> configurable \<Rightarrow> 'v \<Rightarrow> 'v \<Rightarrow> saver \<Rightarrow> (pyexn + configurable) \<times> saver" where
  "aput E now cfg ck md s =
     (case thread_of cfg of
        Inl e \<Rightarrow> (Inl e, s)
      | Inr t \<Rightarrow> (case ce_item E ck ''id'' of
          None \<Rightarrow> (Inl (KeyError ''id''), s)
        | Some cid \<Rightarrow>
            (Inr cfg, s\<lparr>sv_checkpoints := sql_replace row_key
               \<lparr>cr_thread_id = t, cr_checkpoint_ns = opt_str (cg_checkpoint_ns cfg), cr_checkpoint_id = cid,
                cr_parent_checkpoint_id = ce_item E ck ''parent_checkpoint_id'', cr_type = ''checkpoint'',
                cr_checkpoint = encode_value E ck, cr_metadata = Some (encode_value E md),
                cr_created_at = now\<rparr> (sv_checkpoints s)\<rparr>)))"

definition write_key :: "write_row \<Rightarrow> string \<times> string \<times> string \<times> string \<times> nat" where
  "write_key r = (wr_thread_id r, wr_checkpoint_ns r, wr_checkpoint_id r, wr_task_id r, wr_idx r)"

definition aput_writes ::
    "'v ckpt_env \<Rightarrow> timestamp \<Rightarrow> configurable \<Rightarrow> (string \<times> 'v) list \<Rightarrow> string \<Rightarrow> string \<Rightarrow> saver \<Rightarrow>
     (pyexn + unit) \<times> saver" where
  "aput_writes E now cfg writes task_id task_path s =
     (case thread_of cfg of
        Inl e \<Rightarrow> (Inl e, s)
      | Inr t \<Rightarrow>
          (Inr (), s\<lparr>sv_writes := fold (\<lambda>(i, channel, v). sql_replace write_key
             \<lparr>wr_thread_id = t, wr_checkpoint_ns = opt_str (cg_checkpoint_ns cfg),
              wr_checkpoint_id = opt_str (cg_checkpoint_id cfg), wr_task_id = task_id, wr_task_path = task_path,
              wr_idx = i, wr_channel = channel, wr_value = encode_value E v, wr_created_at = now\<rparr>)
             (zip [0..<length writes] writes) (sv_writes s)\<rparr>))"

definition adelete_thread :: "string \<Rightarrow> saver \<Rightarrow> saver" where
  "adelete_thread t s = s\<lparr>sv_writes := filter (\<lambda>r. wr_thread_id r \<noteq> t) (sv_writes s),
     sv_checkpoints := filter (\<lambda>r. cr_thread_id r \<noteq> t) (sv_checkpoints s)\<rparr>"

section \<open>Looking up what was stored\<close>

lemma find_replace: "find_row key k (sql_replace key r rs) = (if k = key r then Some r else find_row key k rs)"
  unfolding sql_replace_def find_row_append by (induction rs) (auto simp: find_row_Nil find_row_Cons)

lemma find_filter:
  "(\<And>r. P r = Q (key r)) \<Longrightarrow> find_row key k (filter P rs) = (if Q k then find_row key k rs else None)"
  by (induction rs) (auto simp: find_row_Nil find_row_Cons)

text \<open>The documented round trips of \<open>json\<close> and of LangGraph's serializer.\<close>

definition column_json :: "'v ckpt_env \<Rightarrow> 'v \<Rightarrow> json" where
  "column_json E v = (let (ty, bs) = ce_dumps_typed E v in JArr [JStr ty, JStr (b64encode bs)])"

definition serde_ok :: "'v ckpt_env \<Rightarrow> bool" where
  "serde_ok E = (\<forall>v. ce_loads E (pl_dumps (ce_lib E) (column_json E v)) = Some (column_json E v)
     \<and> pl_dumps (ce_lib E) (column_json E v) \<noteq> [] \<and> ce_loads_typed E (ce_dumps_typed E v) = Inr v)"

lemma encode_value_column: "encode_value E v = TextCell (pl_dumps (ce_lib E) (column_json E v))"
  by (simp add: encode_value_def column_json_def case_prod_beta Let_def)

lemma decode_encode: "serde_ok E \<Longrightarrow> decode_cell E (encode_value E v) = Inr v"
  by (simp add: serde_ok_def encode_value_column)
    (simp add: column_json_def py_nth_def py_str_def case_prod_beta Let_def)

lemma encode_nonempty: "serde_ok E \<Longrightarrow> \<not> cell_empty (encode_value E v)"
  by (simp add: serde_ok_def encode_value_column cell_empty_def)

definition stored_tuple ::
    "string \<times> string \<times> string \<Rightarrow> 'v \<Rightarrow> 'v \<Rightarrow> string option \<Rightarrow> 'v checkpoint_tuple" where
  "stored_tuple k ck md parent = (case k of (t, ns, cid) \<Rightarrow>
     \<lparr>ct_config = \<lparr>cg_thread_id = Some t, cg_checkpoint_ns = Some ns, cg_checkpoint_id = Some cid\<rparr>,
      ct_checkpoint = ck, ct_metadata = md,
      ct_parent_config = (case parent of
          Some (c # cs) \<Rightarrow> Some \<lparr>cg_thread_id = Some t, cg_checkpoint_ns = None, cg_checkpoint_id = Some (c # cs)\<rparr>
        | _ \<Rightarrow> None)\<rparr>)"

lemma row_to_tuple_stored:
  assumes "serde_ok E" "cr_checkpoint r = encode_value E ck" "cr_metadata r = Some (encode_value E md)"
  shows "row_to_tuple E r = Inr (stored_tuple (row_key r) ck md (cr_parent_checkpoint_id r))"
  using assms by (simp add: row_to_tuple_def stored_tuple_def row_key_def decode_encode encode_nonempty)

section \<open>The saver refines a map\<close>

text \<open>The calls of LangGraph, with \<open>GetById\<close> for \<open>aget_tuple\<close> of a configuration with a
  (non-empty) checkpoint id; the configuration of a \<open>Put\<close> names its thread.\<close>

datatype 'v saver_call =
    Put timestamp string "string option" 'v 'v
  | PutWrites timestamp configurable "(string \<times> 'v) list" string string
  | GetById string string char string
  | DeleteThread string

datatype 'v saver_answer =
    Stored bool
  | Written
  | Found "pyexn + 'v checkpoint_tuple option"

definition by_id :: "string \<Rightarrow> string \<Rightarrow> string \<Rightarrow> configurable" where
  "by_id t ns cid = \<lparr>cg_thread_id = Some t, cg_checkpoint_ns = Some ns, cg_checkpoint_id = Some cid\<rparr>"

fun saver_step :: "'v ckpt_env \<Rightarrow> 'v saver_call \<Rightarrow> saver \<Rightarrow> 'v saver_answer \<times> saver" where
  "saver_step E (Put now t ns ck md) s =
     (let (r, s1) = aput E now \<lparr>cg_thread_id = Some t, cg_checkpoint_ns = ns, cg_checkpoint_id = None\<rparr> ck md s
      in (Stored (\<not> isl r), s1))"
| "saver_step E (PutWrites now cfg writes task_id task_path) s =
     (Written, snd (aput_writes E now cfg writes task_id task_path s))"
| "saver_step E (GetById t ns c cs) s = (Found (aget_tuple E (by_id t ns (c # cs)) s), s)"
| "saver_step E (DeleteThread t) s = (Written, adelete_thread t s)"

type_synonym 'v checkpoint_map = "string \<times> string \<times> string \<Rightarrow> 'v checkpoint_tuple option"

fun map_step :: "('v \<Rightarrow> string \<Rightarrow> string option) \<Rightarrow> 'v saver_call \<Rightarrow> 'v checkpoint_map \<Rightarrow>
    'v saver_answer \<times> 'v checkpoint_map" where
  "map_step item (Put now t ns ck md) m = (case item ck ''id'' of
     None \<Rightarrow> (Stored False, m)
   | Some cid \<Rightarrow> (let k = (t, opt_str ns, cid) in
       (Stored True, m(k \<mapsto> stored_tuple k ck md (item ck ''parent_checkpoint_id'')))))"
| "map_step item (PutWrites now cfg writes task_id task_path) m = (Written, m)"
| "map_step item (GetById t ns c cs) m = (Found (Inr (m (t, ns, c # cs))), m)"
| "map_step item (DeleteThread t) m = (Written, \<lambda>k. if fst k = t then None else m k)"

definition checkpoint_map_of :: "'v ckpt_env \<Rightarrow> saver \<Rightarrow> 'v checkpoint_map" where
  "checkpoint_map_of E s k = (case find_row row_key k (sv_checkpoints s) of
     None \<Rightarrow> None
   | Some r \<Rightarrow> (case row_to_tuple E r of Inl e \<Rightarrow> None | Inr x \<Rightarrow> Some x))"

definition readable :: "'v ckpt_env \<Rightarrow> saver \<Rightarrow> bool" where
  "readable E s = (serde_ok E \<and> list_all (\<lambda>r. \<not> isl (row_to_tuple E r)) (sv_checkpoints s))"

lemma aput_some:
  assumes "thread_of cfg = Inr t" "ce_item E ck ''id'' = Some cid" "serde_ok E"
  obtains r where "aput E now cfg ck md s = (Inr cfg, s\<lparr>sv_checkpoints := sql_replace row_key r (sv_checkpoints s)\<rparr>)"
    "row_key r = (t, opt_str (cg_checkpoint_ns cfg), cid)" "cr_created_at r = now"
    "row_to_tuple E r = Inr (stored_tuple (row_key r) ck md (ce_item E ck ''parent_checkpoint_id''))"
  using that assms by (fastforce simp: aput_def row_key_def row_to_tuple_stored)

lemma aput_writes_checkpoints [simp]:
  "sv_checkpoints (snd (aput_writes E now cfg writes task_id task_path s)) = sv_checkpoints s"
  by (simp add: aput_writes_def split: sum.splits)

lemma aget_by_id:
  assumes "readable E s"
  shows "aget_tuple E (by_id t ns (c # cs)) s = Inr (checkpoint_map_of E s (t, ns, c # cs))"
proof (cases "find_row row_key (t, ns, c # cs) (sv_checkpoints s)")
  case (Some r)
  with assms find_row_Some [OF Some] obtain x where "row_to_tuple E r = Inr x"
    by (auto simp: readable_def list_all_iff isl_def) (metis old.sum.exhaust)
  with Some show ?thesis by (simp add: aget_tuple_def by_id_def thread_of_def opt_str_def checkpoint_map_of_def)
qed (simp add: aget_tuple_def by_id_def thread_of_def opt_str_def checkpoint_map_of_def)

lemma checkpoint_map_replace:
  assumes "row_to_tuple E r = Inr x"
  shows "checkpoint_map_of E (s\<lparr>sv_checkpoints := sql_replace row_key r (sv_checkpoints s)\<rparr>) =
    (checkpoint_map_of E s)(row_key r \<mapsto> x)"
  using assms by (auto simp: checkpoint_map_of_def find_replace fun_eq_iff)

lemma checkpoint_map_delete:
  "checkpoint_map_of E (adelete_thread t s) = (\<lambda>k. if fst k = t then None else checkpoint_map_of E s k)"
  by (auto simp: checkpoint_map_of_def adelete_thread_def fun_eq_iff row_key_def
      find_filter [where Q = "\<lambda>k. fst k \<noteq> t"])

lemma checkpoint_map_writes [simp]:
  "checkpoint_map_of E (snd (aput_writes E now cfg writes task_id task_path s)) = checkpoint_map_of E s"
  by (simp add: checkpoint_map_of_def fun_eq_iff)

lemma readable_step:
  assumes "readable E s"
  shows "readable E (snd (saver_step E c s))"
proof (cases c)
  case (Put now t ns ck md)
  let ?cfg = "\<lparr>cg_thread_id = Some t, cg_checkpoint_ns = ns, cg_checkpoint_id = None\<rparr>"
  show ?thesis
  proof (cases "ce_item E ck ''id''")
    case (Some cid)
    from assms have "serde_ok E" by (simp add: readable_def)
    then obtain r where "aput E now ?cfg ck md s = (Inr ?cfg, s\<lparr>sv_checkpoints := sql_replace row_key r (sv_checkpoints s)\<rparr>)"
      "row_key r = (t, opt_str ns, cid)"
      "row_to_tuple E r = Inr (stored_tuple (row_key r) ck md (ce_item E ck ''parent_checkpoint_id''))"
      using aput_some [of ?cfg t E ck cid now md s] Some by (auto simp: thread_of_def)
    with Put assms show ?thesis by (auto simp: readable_def sql_replace_def list_all_iff)
  qed (use Put assms in \<open>simp add: aput_def thread_of_def\<close>)
qed (use assms in \<open>auto simp: readable_def adelete_thread_def list_all_iff\<close>)

interpretation checkpoints: simulates "saver_step E" "map_step (ce_item E)" "readable E" "checkpoint_map_of E" for E
proof
  fix s :: saver and c
  assume ok: "readable E s"
  then show "readable E (snd (saver_step E c s))" by (rule readable_step)
  show "map_step (ce_item E) c (checkpoint_map_of E s) =
      (fst (saver_step E c s), checkpoint_map_of E (snd (saver_step E c s)))"
  proof (cases c)
    case (Put now t ns ck md)
    let ?cfg = "\<lparr>cg_thread_id = Some t, cg_checkpoint_ns = ns, cg_checkpoint_id = None\<rparr>"
    show ?thesis
    proof (cases "ce_item E ck ''id''")
      case (Some cid)
      from ok have "serde_ok E" by (simp add: readable_def)
      then obtain r where r: "aput E now ?cfg ck md s =
          (Inr ?cfg, s\<lparr>sv_checkpoints := sql_replace row_key r (sv_checkpoints s)\<rparr>)"
        "row_key r = (t, opt_str ns, cid)"
        "row_to_tuple E r = Inr (stored_tuple (row_key r) ck md (ce_item E ck ''parent_checkpoint_id''))"
        using aput_some [of ?cfg t E ck cid now md s] Some by (auto simp: thread_of_def)
      with Put Some show ?thesis by (simp add: checkpoint_map_replace [OF r(3)] Let_def)
    qed (use Put in \<open>simp add: aput_def thread_of_def\<close>)
  qed (use ok in \<open>simp_all add: aget_by_id checkpoint_map_delete\<close>)
qed

section \<open>The latest checkpoint\<close>

lemma latest_appended:
  assumes "list_all (\<lambda>r'. cr_created_at r' < cr_created_at r) rs"
  shows "latest_row E (rs @ [r]) = Some r"
proof -
  have "filter (\<lambda>r1. list_all (\<lambda>r'. cr_created_at r' \<le> cr_created_at r1) (rs @ [r])) rs = []"
    using assms by (auto simp: filter_empty_conv list_all_iff)
  moreover have "list_all (\<lambda>r'. cr_created_at r' \<le> cr_created_at r) (rs @ [r])"
    using assms by (auto simp: list_all_iff less_imp_le)
  ultimately have "latest_rows (rs @ [r]) = [r]" by (simp add: latest_rows_def)
  then show ?thesis by (simp add: latest_row_def)
qed

section \<open>Properties\<close>


text \<open>A serializer of byte strings, and a \<open>json\<close> that writes what it is given.\<close>

definition demo_ckpt_env :: "byte list ckpt_env" where
  "demo_ckpt_env = \<lparr>ce_lib = \<lparr>pl_iso = (\<lambda>t. []), pl_str = (\<lambda>j. []), pl_parse_float = (\<lambda>s. None),
       pl_dumps = (\<lambda>j. case j of JArr [a, JStr b] \<Rightarrow> CHR ''j'' # b | _ \<Rightarrow> [])\<rparr>,
     ce_loads = (\<lambda>s. Some (JArr [JStr ''bytes'', JStr (tl s)])),
     ce_dumps_typed = (\<lambda>v. (''bytes'', v)), ce_loads_typed = (\<lambda>(ty, bs). Inr bs),
     ce_item = (\<lambda>v k. if k = ''id'' then Some (b64encode v) else None), ce_empty = [], ce_tie = (\<lambda>rs. None)\<rparr>"

lemma demo_serde_ok: "serde_ok demo_ckpt_env"
  by (simp add: serde_ok_def column_json_def demo_ckpt_env_def)


text \<open>
  Resuming a thread reads its newest checkpoint: after a checkpoint is put at a later
  time than every stored checkpoint of its thread and namespace, a lookup without id
  returns exactly that checkpoint and its metadata.
\<close>

theorem latest_checkpoint_is_resumed:
  assumes "serde_ok E" "ce_item E ck ''id'' = Some cid" "cg_thread_id cfg = Some t" "cg_checkpoint_id cfg = None"
    and "list_all (\<lambda>r. cr_thread_id r = t \<longrightarrow> cr_created_at r < now) (sv_checkpoints s)"
  shows "aget_tuple E cfg (snd (aput E now cfg ck md s)) =
    Inr (Some (stored_tuple (t, opt_str (cg_checkpoint_ns cfg), cid) ck md (ce_item E ck ''parent_checkpoint_id'')))"
proof -
  obtain r where r: "aput E now cfg ck md s = (Inr cfg, s\<lparr>sv_checkpoints := sql_replace row_key r (sv_checkpoints s)\<rparr>)"
    "row_key r = (t, opt_str (cg_checkpoint_ns cfg), cid)" "cr_created_at r = now"
    "row_to_tuple E r = Inr (stored_tuple (row_key r) ck md (ce_item E ck ''parent_checkpoint_id''))"
    using aput_some [of cfg t E ck cid now md s] assms by (auto simp: thread_of_def)
  let ?mine = "\<lambda>r. cr_thread_id r = t \<and> cr_checkpoint_ns r = opt_str (cg_checkpoint_ns cfg)"
  have "?mine r" using r(2) by (simp add: row_key_def)
  then have "filter ?mine (sql_replace row_key r (sv_checkpoints s)) =
      filter ?mine (filter (\<lambda>r'. row_key r' \<noteq> row_key r) (sv_checkpoints s)) @ [r]"
    by (simp add: sql_replace_def)
  moreover have "list_all (\<lambda>r'. cr_created_at r' < cr_created_at r)
      (filter ?mine (filter (\<lambda>r'. row_key r' \<noteq> row_key r) (sv_checkpoints s)))"
    using assms(5) r(3) by (auto simp: list_all_iff)
  ultimately have "latest_row E (filter ?mine (sql_replace row_key r (sv_checkpoints s))) = Some r"
    using latest_appended [of r _ E] by simp
  with r assms(3,4) show ?thesis by (simp add: aget_tuple_def thread_of_def opt_str_def)
qed

end
