(* ===== verification/Oidc.thy ===== *)
theory Oidc
  imports Security Auth
begin

text \<open>
  Token verification, \<open>security/oidc.py\<close>: the verifier with its cached key set. PyJWT, the
  download of the key set and the monotonic clock are the fields of \<open>jwt_env\<close>; keys are elements
  of the type \<open>'k\<close>. In \<open>_find_key\<close> the source builds a \<open>PyJWKClient\<close> without initializing it:
  \<open>jw_client\<close> is that object, returned as the key of a token without \<open>kid\<close>, and \<open>jw_client_key\<close>
  what its \<open>get_signing_key\<close> gives.

  The claims of a token are JSON values; where a context needs a text, a claim that is not one
  is represented by its \<open>str\<close>.
\<close>

section \<open>Verifier and environment\<close>

definition ALLOWED_ALGORITHMS :: "string list" where
  "ALLOWED_ALGORITHMS = [''RS256'', ''RS384'', ''RS512'', ''ES256'', ''ES384'', ''ES512'']"

record token_claims =
  cl_sub :: json
  cl_tenant_id :: json
  cl_roles :: json
  cl_scopes :: "string list"
  cl_iss :: json
  cl_aud :: json
  cl_exp :: json
  cl_nbf :: json
  cl_iat :: json
  cl_jti :: json
  cl_sid :: json

record oidc_verifier =
  ov_issuer :: string
  ov_audience :: string
  ov_jwks_url :: string
  ov_cache_ttl :: int
  ov_jwks_cache :: json
  ov_jwks_last_fetch :: pyfloat

definition new_verifier :: "string \<Rightarrow> string \<Rightarrow> string \<Rightarrow> int \<Rightarrow> oidc_verifier" where
  "new_verifier issuer audience jwks_url ttl = \<lparr>ov_issuer = issuer, ov_audience = audience, ov_jwks_url = jwks_url,
     ov_cache_ttl = ttl, ov_jwks_cache = JObj [], ov_jwks_last_fetch = Fin 0\<rparr>"

record 'k jwt_env =
  jw_lib :: pylib
  jw_installed :: bool
  jw_header :: "string \<Rightarrow> pyexn + kwargs"
  jw_client :: 'k
  jw_client_key :: "json \<Rightarrow> pyexn + 'k"
  jw_jwk :: "json \<Rightarrow> pyexn + 'k"
  jw_decode :: "string \<Rightarrow> 'k \<Rightarrow> string \<Rightarrow> string \<Rightarrow> string \<Rightarrow> pyexn + kwargs"

section \<open>The key set\<close>

text \<open>\<open>_get_jwks\<close> at time \<open>now\<close>; \<open>fetched\<close> is what a download would give. The flag tells
  whether there was one.\<close>

definition get_jwks :: "pyfloat \<Rightarrow> pyexn + json \<Rightarrow> oidc_verifier \<Rightarrow> json option \<times> bool \<times> oidc_verifier" where
  "get_jwks now fetched v =
     (if truthy (ov_jwks_cache v) \<and> fless (fsub now (ov_jwks_last_fetch v)) (Fin (of_int (ov_cache_ttl v)))
      then (Some (ov_jwks_cache v), False, v)
      else if ov_jwks_url v = [] then (None, False, v)
      else case fetched of
        Inr jwks \<Rightarrow> (Some jwks, True, v\<lparr>ov_jwks_cache := jwks, ov_jwks_last_fetch := now\<rparr>)
      | Inl e \<Rightarrow> (if truthy (ov_jwks_cache v) then Some (ov_jwks_cache v) else None, True, v))"

fun first_key :: "'k jwt_env \<Rightarrow> json \<Rightarrow> json list \<Rightarrow> pyexn + 'k option" where
  "first_key E kid [] = Inr None"
| "first_key E kid (d # ds) =
     (if kid = JNull then (case jw_jwk E d of Inr k \<Rightarrow> Inr (Some k) | Inl e \<Rightarrow> first_key E kid ds)
      else bindE (py_get d ''kid'' JNull) (\<lambda>k.
        if k = kid then (case jw_jwk E d of Inr key \<Rightarrow> Inr (Some key) | Inl e \<Rightarrow> first_key E kid ds)
        else first_key E kid ds))"

definition find_key :: "'k jwt_env \<Rightarrow> json \<Rightarrow> json \<Rightarrow> pyexn + 'k option" where
  "find_key E jwks kid =
     (case (if truthy kid then jw_client_key E kid else Inr (jw_client E)) of
        Inr k \<Rightarrow> Inr (Some k)
      | Inl e \<Rightarrow> bindE (py_get jwks ''keys'' (JArr [])) (\<lambda>ks. bindE (py_iter ks) (first_key E kid)))"

section \<open>Verification\<close>

text \<open>\<open>payload.get("scope", "").split()\<close>.\<close>

definition scopes_of :: "kwargs \<Rightarrow> pyexn + string list" where
  "scopes_of payload = (case dict_get_or payload ''scope'' (JStr []) of
     JStr s \<Rightarrow> Inr (split_ws s) | _ \<Rightarrow> Inl (no_attribute ''split''))"

definition claims_of :: "kwargs \<Rightarrow> pyexn + token_claims" where
  "claims_of p = bindE (scopes_of p) (\<lambda>scopes. Inr
     \<lparr>cl_sub = dict_get_or p ''sub'' (JStr []), cl_tenant_id = dict_get_or p ''tenant_id'' (JStr []),
      cl_roles = dict_get_or p ''roles'' (JArr []), cl_scopes = scopes, cl_iss = dict_get_or p ''iss'' (JStr []),
      cl_aud = dict_get_or p ''aud'' (JStr []), cl_exp = dict_get_or p ''exp'' (JInt 0),
      cl_nbf = dict_get_or p ''nbf'' (JInt 0), cl_iat = dict_get_or p ''iat'' (JInt 0),
      cl_jti = dict_get_or p ''jti'' (JStr []), cl_sid = dict_get_or p ''sid'' (JStr [])\<rparr>)"

text \<open>\<open>alg not in ALLOWED_ALGORITHMS\<close>: an unhashable value raises.\<close>

definition allowed_algorithm :: "json \<Rightarrow> pyexn + string option" where
  "allowed_algorithm alg = bindE (hash_key alg) (\<lambda>h. Inr (case h of
     JStr a \<Rightarrow> if a \<in> set ALLOWED_ALGORITHMS \<and> a \<noteq> ''none'' then Some a else None | _ \<Rightarrow> None))"

text \<open>The body of the \<open>try\<close>, after the key set has been read: \<open>Inr None\<close> for the early returns.\<close>

definition verify_with :: "'k jwt_env \<Rightarrow> string \<Rightarrow> string \<Rightarrow> json \<Rightarrow> json option \<Rightarrow> oidc_verifier \<Rightarrow> pyexn + token_claims option" where
  "verify_with E token a kid jwks v = (case jwks of
     None \<Rightarrow> Inr None
   | Some ks \<Rightarrow>
       (if \<not> truthy ks then Inr None
        else bindE (find_key E ks kid) (\<lambda>key. case key of
          None \<Rightarrow> Inr None
        | Some k \<Rightarrow> bindE (jw_decode E token k a (ov_issuer v) (ov_audience v)) (\<lambda>payload.
            bindE (claims_of payload) (\<lambda>c. Inr (Some c))))))"

text \<open>Every exception is caught: the result is claims or \<open>None\<close>.\<close>

definition caught :: "pyexn + 'a option \<Rightarrow> 'a option" where
  "caught r = (case r of Inl e \<Rightarrow> None | Inr x \<Rightarrow> x)"

definition oidc_verify ::
    "'k jwt_env \<Rightarrow> pyfloat \<Rightarrow> pyexn + json \<Rightarrow> string \<Rightarrow> oidc_verifier \<Rightarrow> token_claims option \<times> oidc_verifier" where
  "oidc_verify E now fetched token v =
     (if token = [] \<or> ov_issuer v = [] \<or> \<not> jw_installed E then (None, v)
      else case jw_header E token of
        Inl e \<Rightarrow> (None, v)
      | Inr header \<Rightarrow>
          (case allowed_algorithm (dict_get_or header ''alg'' (JStr [])) of
             Inl e \<Rightarrow> (None, v)
           | Inr None \<Rightarrow> (None, v)
           | Inr (Some a) \<Rightarrow>
               (let (jwks, f, v1) = get_jwks now fetched v in
                (caught (verify_with E token a (dict_get_or header ''kid'' JNull) jwks v1), v1))))"

definition claim_texts :: "pylib \<Rightarrow> json \<Rightarrow> pyexn + string set" where
  "claim_texts L j = bindE (py_iter j) (\<lambda>xs. bindE (all_of hash_key xs) (\<lambda>_. Inr (py_str L ` set xs)))"

definition claims_to_context :: "'k jwt_env \<Rightarrow> token_claims \<Rightarrow> string \<Rightarrow> pyexn + trusted_request_context" where
  "claims_to_context E c request_id =
     bindE (claim_texts (jw_lib E) (cl_roles c)) (\<lambda>roles. Inr
       ((mk_context (py_str (jw_lib E) (cl_sub c)) ''oidc'')
         \<lparr>tx_tenant_id := py_str (jw_lib E) (json_or (cl_tenant_id c) (JStr ''default'')), tx_roles := roles,
          tx_scopes := set (cl_scopes c), tx_auth_session_id := py_str (jw_lib E) (cl_sid c),
          tx_token_id := py_str (jw_lib E) (cl_jti c), tx_issuer := py_str (jw_lib E) (cl_iss c),
          tx_request_id := request_id\<rparr>))"

definition build_context_from_token ::
    "'k jwt_env \<Rightarrow> pyfloat \<Rightarrow> pyexn + json \<Rightarrow> string \<Rightarrow> string \<Rightarrow> oidc_verifier \<Rightarrow>
     (pyexn + trusted_request_context option) \<times> oidc_verifier" where
  "build_context_from_token E now fetched token request_id v =
     (let (c, v1) = oidc_verify E now fetched token v in
      (case c of None \<Rightarrow> Inr None
       | Some claims \<Rightarrow> bindE (claims_to_context E claims request_id) (\<lambda>x. Inr (Some x)), v1))"

section \<open>What a verified token has passed\<close>

lemma allowed_algorithm_Some:
  "allowed_algorithm alg = Inr (Some a) \<Longrightarrow> alg = JStr a \<and> a \<in> set ALLOWED_ALGORITHMS"
  by (cases alg rule: hash_key.cases) (auto simp: allowed_algorithm_def split: if_splits)

lemma verify_with_Some:
  assumes "caught (verify_with E token a kid jwks v) = Some c"
  obtains ks k payload where "jwks = Some ks" "truthy ks" "find_key E ks kid = Inr (Some k)"
    "jw_decode E token k a (ov_issuer v) (ov_audience v) = Inr payload" "claims_of payload = Inr c"
  using assms that
  by (auto simp: caught_def verify_with_def bindE_def split: sum.splits option.splits if_splits)

lemma claims_of_fields:
  "claims_of p = Inr c \<Longrightarrow> cl_sub c = dict_get_or p ''sub'' (JStr []) \<and> cl_iss c = dict_get_or p ''iss'' (JStr [])
    \<and> cl_tenant_id c = dict_get_or p ''tenant_id'' (JStr []) \<and> cl_roles c = dict_get_or p ''roles'' (JArr [])"
  by (auto simp: claims_of_def bindE_Inr)

lemma get_jwks_frame:
  "get_jwks now fetched v = (jwks, f, v1) \<Longrightarrow> ov_issuer v1 = ov_issuer v \<and> ov_audience v1 = ov_audience v
     \<and> ov_jwks_url v1 = ov_jwks_url v \<and> ov_cache_ttl v1 = ov_cache_ttl v"
  by (auto simp: get_jwks_def split: if_splits sum.splits)

lemma stale_keys_served:
  "truthy (ov_jwks_cache v) \<Longrightarrow> ov_jwks_url v \<noteq> [] \<Longrightarrow> fst (get_jwks now (Inl e) v) = Some (ov_jwks_cache v)"
  by (simp add: get_jwks_def)

lemma roles_text_is_split:
  "claim_texts L (JStr s) = Inr ((\<lambda>c. [c]) ` set s)"
proof -
  have "all_of hash_key (map (\<lambda>c. JStr [c]) s) = Inr (map (\<lambda>c. JStr [c]) s)" by (induction s) simp_all
  then show ?thesis by (auto simp: claim_texts_def py_str_def image_image)
qed

text \<open>The reads of the key set, and how many of them download it.\<close>

fun jwks_reads :: "(pyfloat \<times> (pyexn + json)) list \<Rightarrow> oidc_verifier \<Rightarrow> nat \<times> oidc_verifier" where
  "jwks_reads [] v = (0, v)"
| "jwks_reads ((now, fetched) # rs) v =
     (let (jwks, f, v1) = get_jwks now fetched v; (n, v2) = jwks_reads rs v1 in ((if f then Suc n else n), v2))"

lemma cached_reads:
  assumes "truthy (ov_jwks_cache v)"
    and "list_all (\<lambda>(now, fetched). fless (fsub now (ov_jwks_last_fetch v)) (Fin (of_int (ov_cache_ttl v)))) rs"
  shows "jwks_reads rs v = (0, v)"
  using assms by (induction rs) (auto simp: get_jwks_def)

section \<open>Properties\<close>


definition demo_jwt :: "string jwt_env" where
  "demo_jwt = \<lparr>jw_lib = \<lparr>pl_iso = (\<lambda>t. []), pl_str = (\<lambda>j. []), pl_parse_float = (\<lambda>s. None), pl_dumps = (\<lambda>j. [])\<rparr>,
     jw_installed = True,
     jw_header = (\<lambda>t. Inr [(''alg'', JStr ''RS256''), (''kid'', JStr ''k1'')]), jw_client = ''client'',
     jw_client_key = (\<lambda>kid. Inl (no_attribute ''jwk_set_cache'')), jw_jwk = (\<lambda>d. Inr ''public-key''),
     jw_decode = (\<lambda>t k a iss aud. if t = ''signed'' \<and> k = ''public-key''
       then Inr [(''sub'', JStr ''alice''), (''iss'', JStr iss), (''aud'', JStr aud), (''exp'', JInt 9)]
       else Inl (ValueError ''Signature verification failed''))\<rparr>"

definition demo_jwks :: json where
  "demo_jwks = JObj [(''keys'', JArr [JObj [(''kid'', JStr ''k0'')], JObj [(''kid'', JStr ''k1'')]])]"

lemma demo_verified:
  "map_option cl_sub (fst (oidc_verify demo_jwt (Fin 1) (Inr demo_jwks) ''signed'' (new_verifier ''https://idp'' ''bank'' ''https://idp/jwks'' 300)))
     = Some (JStr ''alice'')"
  by (simp add: oidc_verify_def demo_jwt_def demo_jwks_def new_verifier_def get_jwks_def allowed_algorithm_def
      ALLOWED_ALGORITHMS_def verify_with_def find_key_def claims_of_def scopes_of_def dict_get_or_def caught_def)


text \<open>
  The key set is downloaded once per lifetime of the cache: after the first read has
  downloaded a non-empty key set, every further read whose clock is within the cache lifetime is
  answered from the cache, however many there are.
\<close>

theorem jwks_downloaded_once:
  assumes "url \<noteq> []" "truthy jwks"
    and "list_all (\<lambda>(t, fetched). fless (fsub t now) (Fin (of_int ttl))) rs"
  shows "fst (jwks_reads ((now, Inr jwks) # rs) (new_verifier issuer audience url ttl)) = 1"
proof -
  let ?v = "new_verifier issuer audience url ttl"
  let ?v1 = "?v\<lparr>ov_jwks_cache := jwks, ov_jwks_last_fetch := now\<rparr>"
  have "get_jwks now (Inr jwks) ?v = (Some jwks, True, ?v1)"
    using assms(1) by (simp add: get_jwks_def new_verifier_def)
  moreover have "jwks_reads rs ?v1 = (0, ?v1)"
    using assms(2,3) by (intro cached_reads) (simp_all add: new_verifier_def)
  ultimately show ?thesis by simp
qed

text \<open>The context of a token names the token's own subject, and there is one only when the token
  was verified.\<close>

lemma context_of_verified_token:
  assumes "fst (build_context_from_token E now fetched token request_id v) = Inr (Some x)"
  obtains claims v1 where "oidc_verify E now fetched token v = (Some claims, v1)"
    "tx_subject_id x = py_str (jw_lib E) (cl_sub claims)" "tx_request_id x = request_id" "tx_source x = ''oidc''"
  using assms
  by (auto simp: build_context_from_token_def claims_to_context_def mk_context_def bindE_def Let_def
      split: prod.splits option.splits sum.splits)

end
