(* ===== verification/Audit_Chain.thy ===== *)
theory Audit_Chain
  imports Json
begin

text \<open>
  The hash-chained audit records of \<open>audit/models.py\<close> and the evidence bundle built from them.
  \<open>sha\<close> is the hexadecimal SHA-256 digest of a text, a parameter of which no law is assumed: the
  theorem on tampering exhibits a collision of \<open>sha\<close> in the only case it excludes.
\<close>

datatype audit_event_kind =
    AGENT_RUN_STARTED | LLM_CALL | TOOL_PROPOSED | AUTHORIZATION_DECISION | APPROVAL_REQUESTED
  | APPROVAL_GRANTED | APPROVAL_REJECTED | TOOL_EXECUTED | TOOL_FAILED | FINAL_RESPONSE
  | ERROR_OCCURRED | CONFIG_CHANGED

fun audit_kind_value :: "audit_event_kind \<Rightarrow> string" where
  "audit_kind_value AGENT_RUN_STARTED = ''agent_run_started''"
| "audit_kind_value LLM_CALL = ''llm_call''"
| "audit_kind_value TOOL_PROPOSED = ''tool_proposed''"
| "audit_kind_value AUTHORIZATION_DECISION = ''authorization_decision''"
| "audit_kind_value APPROVAL_REQUESTED = ''approval_requested''"
| "audit_kind_value APPROVAL_GRANTED = ''approval_granted''"
| "audit_kind_value APPROVAL_REJECTED = ''approval_rejected''"
| "audit_kind_value TOOL_EXECUTED = ''tool_executed''"
| "audit_kind_value TOOL_FAILED = ''tool_failed''"
| "audit_kind_value FINAL_RESPONSE = ''final_response''"
| "audit_kind_value ERROR_OCCURRED = ''error_occurred''"
| "audit_kind_value CONFIG_CHANGED = ''config_changed''"

record audit_event =
  ae_event_id :: string
  ae_kind :: audit_event_kind
  ae_actor_id :: string
  ae_tenant_id :: string
  ae_session_id :: string
  ae_thread_id :: string
  ae_timestamp :: string
  ae_details :: string
  ae_previous_hash :: string
  ae_event_hash :: string
  ae_prompt_version :: string
  ae_model_version :: string
  ae_tool_version :: string

definition hash_content :: "string \<Rightarrow> string \<Rightarrow> string \<Rightarrow> string \<Rightarrow> string \<Rightarrow> string" where
  "hash_content event_id ts kind details previous =
     event_id @ CHR ''|'' # ts @ CHR ''|'' # kind @ CHR ''|'' # details @ CHR ''|'' # previous"

definition compute_hash :: "(string \<Rightarrow> string) \<Rightarrow> string \<Rightarrow> string \<Rightarrow> string \<Rightarrow> string \<Rightarrow> string \<Rightarrow> string" where
  "compute_hash sha event_id ts kind details previous = sha (hash_content event_id ts kind details previous)"

definition expected_hash :: "(string \<Rightarrow> string) \<Rightarrow> string \<Rightarrow> audit_event \<Rightarrow> string" where
  "expected_hash sha previous e =
     compute_hash sha (ae_event_id e) (ae_timestamp e) (audit_kind_value (ae_kind e)) (ae_details e) previous"

text \<open>The loop over the events, which starts at the second one.\<close>

fun chain_ok :: "(string \<Rightarrow> string) \<Rightarrow> audit_event list \<Rightarrow> bool" where
  "chain_ok sha (a # b # es) =
     (if ae_event_hash b \<noteq> expected_hash sha (ae_event_hash a) b then False else chain_ok sha (b # es))"
| "chain_ok sha es = True"

record compliance_evidence_bundle =
  eb_bundle_id :: string
  eb_time_range_start :: string
  eb_time_range_end :: string
  eb_event_count :: nat
  eb_hash_chain_verified :: bool
  eb_generated_at :: string
  eb_controls_covered :: "string list"

definition build_evidence_bundle ::
    "(string \<Rightarrow> string) \<Rightarrow> string \<Rightarrow> string \<Rightarrow> audit_event list \<Rightarrow> string list option \<Rightarrow> compliance_evidence_bundle" where
  "build_evidence_bundle sha now bundle_id events controls =
     \<lparr>eb_bundle_id = bundle_id,
      eb_time_range_start = (if events = [] then [] else ae_timestamp (hd events)),
      eb_time_range_end = (if events = [] then [] else ae_timestamp (last events)),
      eb_event_count = length events, eb_hash_chain_verified = chain_ok sha events, eb_generated_at = now,
      eb_controls_covered = (case controls of None \<Rightarrow> [] | Some cs \<Rightarrow> cs)\<rparr>"

section \<open>The hashed text determines its fields\<close>

lemma first_field:
  assumes "a @ c # r = a' @ c # r'" "c \<notin> set a" "c \<notin> set a'"
  shows "a = a' \<and> r = r'"
  using assms
proof (induction a arbitrary: a')
  case Nil
  then show ?case by (cases a') auto
next
  case (Cons x a)
  then show ?case by (cases a') auto
qed

lemma last_field:
  assumes "r @ c # a = r' @ c # a'" "c \<notin> set a" "c \<notin> set a'"
  shows "a = a' \<and> r = r'"
  using first_field [of "rev a" c "rev r" "rev a'" "rev r'"] arg_cong [OF assms(1), of rev] assms(2,3) by simp

lemma kind_no_separator [simp]: "CHR ''|'' \<notin> set (audit_kind_value k)"
  by (cases k) auto

lemma kind_value_inj: "audit_kind_value k = audit_kind_value k' \<Longrightarrow> k = k'"
  by (cases k; cases k') simp_all

text \<open>Identifiers, time stamps and hashes without the separator; \<open>details\<close> may contain it.\<close>

definition plain_event :: "audit_event \<Rightarrow> bool" where
  "plain_event e = (CHR ''|'' \<notin> set (ae_event_id e) \<and> CHR ''|'' \<notin> set (ae_timestamp e)
     \<and> CHR ''|'' \<notin> set (ae_event_hash e))"

definition same_content :: "audit_event \<Rightarrow> audit_event \<Rightarrow> bool" where
  "same_content e e' = (ae_event_id e = ae_event_id e' \<and> ae_timestamp e = ae_timestamp e'
     \<and> ae_kind e = ae_kind e' \<and> ae_details e = ae_details e' \<and> ae_event_hash e = ae_event_hash e')"

lemma hash_content_fields:
  assumes "hash_content i t (audit_kind_value k) d p = hash_content i' t' (audit_kind_value k') d' p'"
    and "CHR ''|'' \<notin> set i" "CHR ''|'' \<notin> set i'" "CHR ''|'' \<notin> set t" "CHR ''|'' \<notin> set t'"
    and "CHR ''|'' \<notin> set p" "CHR ''|'' \<notin> set p'"
  shows "i = i' \<and> t = t' \<and> k = k' \<and> d = d' \<and> p = p'"
proof -
  let ?c = "CHR ''|''"
  from first_field [OF assms(1) [unfolded hash_content_def] assms(2,3)]
  have 1: "i = i'" "t @ ?c # audit_kind_value k @ ?c # d @ ?c # p = t' @ ?c # audit_kind_value k' @ ?c # d' @ ?c # p'" by auto
  from first_field [OF 1(2) assms(4,5)]
  have 2: "t = t'" "audit_kind_value k @ ?c # d @ ?c # p = audit_kind_value k' @ ?c # d' @ ?c # p'" by auto
  from first_field [OF 2(2)] have 3: "audit_kind_value k = audit_kind_value k'" "d @ ?c # p = d' @ ?c # p'" by auto
  from last_field [OF 3(2) assms(6,7)] 1 2 kind_value_inj [OF 3(1)] show ?thesis by auto
qed

lemma chain_ok_snoc:
  "chain_ok sha (es @ [e]) \<longleftrightarrow>
     chain_ok sha es \<and> (es \<noteq> [] \<longrightarrow> ae_event_hash e = expected_hash sha (ae_event_hash (last es)) e)"
  by (induction sha es rule: chain_ok.induct) auto

text \<open>The texts hashed while a list is verified. A collision among the texts of two lists is one
  that their holder can exhibit.\<close>

definition event_text :: "string \<Rightarrow> audit_event \<Rightarrow> string" where
  "event_text previous e =
     hash_content (ae_event_id e) (ae_timestamp e) (audit_kind_value (ae_kind e)) (ae_details e) previous"

fun hashed_texts :: "audit_event list \<Rightarrow> string list" where
  "hashed_texts (a # b # es) = event_text (ae_event_hash a) b # hashed_texts (b # es)"
| "hashed_texts es = []"

definition collision :: "(string \<Rightarrow> string) \<Rightarrow> audit_event list \<Rightarrow> audit_event list \<Rightarrow> bool" where
  "collision sha es fs = (\<exists>x \<in> set (hashed_texts es). \<exists>y \<in> set (hashed_texts fs). x \<noteq> y \<and> sha x = sha y)"

lemma expected_hash_text: "expected_hash sha p e = sha (event_text p e)"
  by (simp add: expected_hash_def compute_hash_def event_text_def)

lemma hashed_texts_snoc:
  "hashed_texts (es @ [e]) = hashed_texts es @ (if es = [] then [] else [event_text (ae_event_hash (last es)) e])"
  by (induction es rule: hashed_texts.induct) auto

lemma event_text_fields:
  assumes "event_text p e = event_text p' e'"
    and "plain_event e" "plain_event e'" "CHR ''|'' \<notin> set p" "CHR ''|'' \<notin> set p'"
  shows "ae_event_id e = ae_event_id e' \<and> ae_timestamp e = ae_timestamp e' \<and> ae_kind e = ae_kind e'
    \<and> ae_details e = ae_details e' \<and> p = p'"
  using hash_content_fields [OF assms(1) [unfolded event_text_def]] assms(2-) by (simp add: plain_event_def)

lemma chain_binds:
  assumes "length es = length fs" "es \<noteq> []" "chain_ok sha es" "chain_ok sha fs"
    and "ae_event_hash (last es) = ae_event_hash (last fs)" "list_all plain_event (es @ fs)"
    and "\<not> collision sha es fs"
  shows "list_all2 same_content (tl es) (tl fs) \<and> ae_event_hash (hd es) = ae_event_hash (hd fs)"
  using assms
proof (induction es arbitrary: fs rule: rev_induct)
  case (snoc e es)
  from snoc.prems(1) obtain f fs' where fs: "fs = fs' @ [f]" "length es = length fs'"
    by (cases fs rule: rev_cases) auto
  show ?case
  proof (cases "es = []")
    case True
    with fs snoc.prems(5) show ?thesis by simp
  next
    case False
    with fs have ne: "fs' \<noteq> []" by auto
    have plain: "plain_event (last es)" "plain_event (last fs')" "plain_event e" "plain_event f"
      using snoc.prems(6) False ne by (auto simp: fs(1) list_all_iff)
    have "event_text (ae_event_hash (last es)) e = event_text (ae_event_hash (last fs')) f"
      using snoc.prems(3-5,7) False ne
      by (auto simp: fs(1) chain_ok_snoc expected_hash_text collision_def hashed_texts_snoc)
    then have eq: "ae_event_id e = ae_event_id f \<and> ae_timestamp e = ae_timestamp f \<and> ae_kind e = ae_kind f
        \<and> ae_details e = ae_details f \<and> ae_event_hash (last es) = ae_event_hash (last fs')"
      using plain by (intro event_text_fields) (simp_all add: plain_event_def)
    have "\<not> collision sha es fs'" using snoc.prems(7) by (auto simp: fs(1) collision_def hashed_texts_snoc)
    then have "list_all2 same_content (tl es) (tl fs') \<and> ae_event_hash (hd es) = ae_event_hash (hd fs')"
      using eq snoc.IH [of fs'] snoc.prems(3,4,6) False by (auto simp: fs chain_ok_snoc)
    moreover have "same_content e f" using eq snoc.prems(5) by (simp add: fs(1) same_content_def)
    ultimately show ?thesis using False ne by (auto simp: fs(1) intro: list_all2_appendI)
  qed
qed simp

lemma first_event_unverified:
  "eb_hash_chain_verified (build_evidence_bundle sha now b [e] controls)"
  by (simp add: build_evidence_bundle_def)

section \<open>Properties\<close>


definition demo_event :: "string \<Rightarrow> string \<Rightarrow> string \<Rightarrow> audit_event" where
  "demo_event i details h = \<lparr>ae_event_id = i, ae_kind = TOOL_EXECUTED, ae_actor_id = [], ae_tenant_id = ''default'',
     ae_session_id = [], ae_thread_id = [], ae_timestamp = ''2026-01-01T00:00:00'', ae_details = details,
     ae_previous_hash = [], ae_event_hash = h, ae_prompt_version = [], ae_model_version = [], ae_tool_version = []\<rparr>"

definition demo_sha :: "string \<Rightarrow> string" where
  "demo_sha s = map (\<lambda>c. if c = CHR ''|'' then CHR ''!'' else c) s"

definition demo_history :: "audit_event list" where
  "demo_history = [demo_event ''e1'' ''a'' ''h1'', demo_event ''e2'' ''b|c'' (demo_sha (hash_content ''e2''
     ''2026-01-01T00:00:00'' ''tool_executed'' ''b|c'' ''h1''))]"


end
