(* ===== verification/Redaction.thy ===== *)
theory Redaction
  imports Json
begin

text \<open>
  Field policies and redaction: \<open>data_security.py\<close>, \<open>redacted_logger.py\<close> and the redaction of
  \<open>observability.py\<close>, with its spans and the retention table. A dictionary is an association list with distinct keys, in iteration
  order. \<open>sha\<close> is the hexadecimal SHA-256 digest of a text.
\<close>

section \<open>Field policies\<close>

datatype data_classification =
  PUBLIC | INTERNAL | CONFIDENTIAL | FINANCIAL_CONFIDENTIAL | RESTRICTED_PII | SECRET

record field_policy =
  fp_field_name :: string
  fp_classification :: data_classification
  fp_can_enter_prompt :: bool
  fp_can_enter_log :: bool
  fp_can_enter_vector_store :: bool
  fp_can_persist_long_term :: bool
  fp_retention_days :: int
  fp_redaction_rule :: string

definition field_policy_of :: "string \<Rightarrow> data_classification \<Rightarrow> bool \<Rightarrow> bool \<Rightarrow> string \<Rightarrow> field_policy" where
  "field_policy_of n c prompt logged rule = \<lparr>fp_field_name = n, fp_classification = c, fp_can_enter_prompt = prompt,
     fp_can_enter_log = logged, fp_can_enter_vector_store = False, fp_can_persist_long_term = False,
     fp_retention_days = 0, fp_redaction_rule = rule\<rparr>"

definition DEFAULT_FIELD_POLICIES :: "(string \<times> field_policy) list" where
  "DEFAULT_FIELD_POLICIES =
     [(''user_id'', field_policy_of ''user_id'' INTERNAL False True ''full''),
      (''account_id'', field_policy_of ''account_id'' CONFIDENTIAL True False ''last4''),
      (''full_account_number'', field_policy_of ''full_account_number'' RESTRICTED_PII False False ''full''),
      (''balance'', field_policy_of ''balance'' FINANCIAL_CONFIDENTIAL True False ''full''),
      (''transaction_id'', field_policy_of ''transaction_id'' CONFIDENTIAL True True ''full''),
      (''api_key'', field_policy_of ''api_key'' SECRET False False ''full''),
      (''token'', field_policy_of ''token'' SECRET False False ''full'')]"

definition get_field_policy :: "string \<Rightarrow> field_policy" where
  "get_field_policy n = dict_get_or DEFAULT_FIELD_POLICIES n (field_policy_of n INTERNAL True False ''full'')"

section \<open>Redacting a dictionary\<close>

definition redacted :: json where
  "redacted = JStr ''[REDACTED]''"

definition redact_value :: "(string \<Rightarrow> string) \<Rightarrow> string \<Rightarrow> json \<Rightarrow> json" where
  "redact_value sha key v =
     (let p = get_field_policy key in
      if fp_classification p \<in> {SECRET, RESTRICTED_PII} then redacted
      else case v of
        JStr s \<Rightarrow>
          if fp_redaction_rule p = ''last4''
          then (if 4 < length s then JStr (''...'' @ last_slice 4 s) else JStr s)
          else if fp_redaction_rule p = ''hash'' then JStr (take 16 (sha s))
          else if \<not> fp_can_enter_log p then redacted else v
      | _ \<Rightarrow> if \<not> fp_can_enter_log p then redacted else v)"

definition redact_dict :: "(string \<Rightarrow> string) \<Rightarrow> kwargs \<Rightarrow> kwargs" where
  "redact_dict sha d = map (\<lambda>(k, v). (k, redact_value sha k v)) d"

definition sensitive_keys :: "string list" where
  "sensitive_keys = [''api_key'', ''token'', ''authorization'', ''x-api-key'', ''password'', ''secret'',
     ''full_account_number'', ''ssn'']"

definition sensitive_fragment :: "string \<Rightarrow> bool" where
  "sensitive_fragment key = list_ex (\<lambda>s. str_in s (lower key)) [''token'', ''secret'', ''password'']"

definition safe_log_data :: "kwargs \<Rightarrow> kwargs" where
  "safe_log_data d = map (\<lambda>(k, v). (k, if lower k \<in> set sensitive_keys \<or> sensitive_fragment k then redacted else v)) d"

definition safe_log :: "kwargs \<Rightarrow> kwargs" where
  "safe_log args = safe_log_data (filter (\<lambda>(k, v). v \<noteq> JNull) args)"

definition REDACT_FIELDS :: "string list" where
  "REDACT_FIELDS = [''api_key'', ''token'', ''authorization'', ''x-api-key'', ''password'', ''secret'',
     ''account_number'', ''full_account'', ''ssn'', ''credit_card'']"

definition redact_attributes :: "kwargs \<Rightarrow> kwargs" where
  "redact_attributes d = map (\<lambda>(k, v). (k, if lower k \<in> set REDACT_FIELDS \<or> sensitive_fragment k then redacted else v)) d"

section \<open>Spans\<close>

datatype span_kind =
    SP_HTTP_REQUEST | SP_AGENT_RUN | SP_PROMPT_BUILD | SP_LLM_CALL | SP_RETRIEVAL | SP_AUTHORIZATION | SP_TOOL_CALL
  | SP_APPROVAL_WAIT | SP_HITL_RESUME | SP_FINAL_RESPONSE

record span =
  sp_span_id :: string
  sp_parent_span_id :: string
  sp_trace_id :: string
  sp_kind :: span_kind
  sp_start_time :: string
  sp_end_time :: string
  sp_attributes :: kwargs
  sp_status :: string

text \<open>\<open>(t1 - t0).total_seconds() * 1000\<close>, from microseconds; a time that cannot be read and a pair of
  times that cannot be subtracted both give 0.\<close>

definition duration_ms :: "(string \<Rightarrow> iso_time) \<Rightarrow> span \<Rightarrow> pyfloat" where
  "duration_ms parse s =
     (let ms = (\<lambda>t0 t1. fmul (round_double (of_int (t1 - t0) / 1000000)) (Fin 1000)) in
      if sp_start_time s \<noteq> [] \<and> sp_end_time s \<noteq> []
      then (case (parse (sp_start_time s), parse (sp_end_time s)) of
          (NaiveTime t0, NaiveTime t1) \<Rightarrow> ms t0 t1
        | (AwareTime t0, AwareTime t1) \<Rightarrow> ms t0 t1
        | _ \<Rightarrow> Fin 0)
      else Fin 0)"

section \<open>Retention\<close>

record retention_policy =
  rp_data_category :: string
  rp_retention_days :: int
  rp_auto_delete :: bool
  rp_legal_hold_supported :: bool
  rp_exportable :: bool

definition retention_of :: "string \<Rightarrow> int \<Rightarrow> bool \<Rightarrow> retention_policy" where
  "retention_of category days auto_delete = \<lparr>rp_data_category = category, rp_retention_days = days,
     rp_auto_delete = auto_delete, rp_legal_hold_supported = False, rp_exportable = True\<rparr>"

definition DEFAULT_RETENTION_POLICIES :: "retention_policy list" where
  "DEFAULT_RETENTION_POLICIES =
     [retention_of ''conversation_history'' 90 True, retention_of ''audit_events'' 2555 True,
      retention_of ''approval_grants'' 365 True, retention_of ''idempotency_records'' 90 True,
      retention_of ''user_preferences'' 365 True, retention_of ''rag_indices'' 0 False]"

text \<open>The audit events outlive what they are about; only the indices are kept without a term.\<close>

lemma audit_outlives:
  "list_all (\<lambda>p. rp_retention_days p \<le> 7 * 365) DEFAULT_RETENTION_POLICIES"
  "map rp_data_category (filter (\<lambda>p. rp_retention_days p = 7 * 365) DEFAULT_RETENTION_POLICIES) = [''audit_events'']"
  "map rp_data_category (filter (\<lambda>p. \<not> rp_auto_delete p) DEFAULT_RETENTION_POLICIES) = [''rag_indices'']"
  by (simp_all add: DEFAULT_RETENTION_POLICIES_def retention_of_def)

text \<open>A span that ended no earlier than it began has no negative duration.\<close>

lemma duration_not_negative:
  assumes "\<And>t0 t1. parse (sp_start_time s) = NaiveTime t0 \<Longrightarrow> parse (sp_end_time s) = NaiveTime t1 \<Longrightarrow> t0 \<le> t1"
    and "\<And>t0 t1. parse (sp_start_time s) = AwareTime t0 \<Longrightarrow> parse (sp_end_time s) = AwareTime t1 \<Longrightarrow> t0 \<le> t1"
  shows "\<not> fless (duration_ms parse s) (Fin 0)"
proof -
  have nn: "\<not> fless (round_double q) (Fin 0)" if "0 \<le> q" for q :: rat
    using round_double_nonneg [OF that] round_double_not_neg_inf [OF that]
    by (cases "round_double q") (auto split: if_splits)
  have pos: "\<not> fless (fmul (round_double q) (Fin 1000)) (Fin 0)" if "0 \<le> q" for q :: rat
    using round_double_nonneg [OF that] round_double_not_neg_inf [OF that] nn
    by (cases "round_double q") (auto split: if_splits)
  show ?thesis
    using assms pos by (auto simp: duration_ms_def Let_def split: iso_time.splits)
qed

section \<open>What is disclosed\<close>

lemmas policy_defs = get_field_policy_def DEFAULT_FIELD_POLICIES_def dict_get_or_def field_policy_of_def

lemma closed_policy:
  assumes "n \<notin> {''user_id'', ''account_id'', ''transaction_id''}"
  shows "\<not> fp_can_enter_log (get_field_policy n)" "fp_redaction_rule (get_field_policy n) = ''full''"
  using assms by (simp_all add: policy_defs)

lemma redact_value_exact:
  "redact_value sha key v =
     (if key \<in> {''user_id'', ''transaction_id''} then v
      else if key = ''account_id'' then
        (case v of JStr s \<Rightarrow> JStr (if 4 < length s then ''...'' @ last_slice 4 s else s) | _ \<Rightarrow> redacted)
      else redacted)"
proof (cases "key \<in> {''user_id'', ''account_id'', ''transaction_id''}")
  case True
  then show ?thesis by (cases v) (auto simp: redact_value_def policy_defs)
next
  case False
  then show ?thesis using closed_policy [OF False] by (cases v) (auto simp: redact_value_def Let_def)
qed

lemma map_of_mapped: "map_of (map (\<lambda>(k, v). (k, f k v)) d) k = map_option (f k) (map_of d k)"
  by (induction d) auto

lemma redactors_agree_on_fragments:
  assumes "sensitive_fragment k" "map_of d k = Some v"
  shows "map_of (safe_log_data d) k = Some redacted" "map_of (redact_attributes d) k = Some redacted"
  using assms by (simp_all add: safe_log_data_def redact_attributes_def map_of_mapped)

lemma account_number_is_logged:
  "map_of d ''account_number'' = Some v \<Longrightarrow> map_of (safe_log_data d) ''account_number'' = Some v"
  by (simp add: safe_log_data_def map_of_mapped sensitive_keys_def sensitive_fragment_def lower_def lower_char_def)

section \<open>Properties\<close>

text \<open>
  Exactly what the redacted logger discloses: of a dictionary it passes on the user and
  transaction identifiers as they are, of an account identifier the last four characters
  (the whole of it when it has at most four), and nothing at all of any other field,
  known or unknown.
\<close>

theorem redacted_log_discloses:
  "map_of (redact_dict sha d) key = map_option (\<lambda>v.
     if key \<in> {''user_id'', ''transaction_id''} then v
     else if key = ''account_id'' then
       (case v of JStr s \<Rightarrow> JStr (if 4 < length s then ''...'' @ last_slice 4 s else s) | _ \<Rightarrow> redacted)
     else redacted) (map_of d key)"
  by (simp add: redact_dict_def map_of_mapped redact_value_exact [abs_def])

text \<open>What reaches the log through \<open>safe_log\<close>: nothing empty and nothing under a sensitive key.\<close>

lemma safe_log_fields:
  assumes "(k, v) \<in> set (safe_log args)"
  shows "(lower k \<in> set sensitive_keys \<or> sensitive_fragment k \<longrightarrow> v = redacted) \<and>
    (lower k \<notin> set sensitive_keys \<and> \<not> sensitive_fragment k \<longrightarrow> (k, v) \<in> set args \<and> v \<noteq> JNull)"
  using assms by (auto simp: safe_log_def safe_log_data_def split: if_splits)

end
