(* ===== verification/Memory.thy ===== *)
theory Memory
  imports Json
begin

text \<open>
  The memory layers, \<open>memory/models.py\<close> and \<open>memory/store.py\<close>: user preferences under the key
  \<open>tenant:user\<close>, task episodes under the tenant. The dictionaries are association lists.
\<close>

record user_preference =
  up_key :: string
  up_value :: string
  up_user_id :: string
  up_tenant_id :: string
  up_created_at :: string
  up_ttl_days :: int

definition is_sensitive_key :: "user_preference \<Rightarrow> bool" where
  "is_sensitive_key p = (lower (up_key p) \<in> {''account_number'', ''password'', ''pin'', ''ssn'', ''token'', ''secret''})"

record episode_record =
  er_episode_id :: string
  er_tenant_id :: string
  er_intent :: string
  er_outcome :: string
  er_tool_count :: int
  er_duration_ms :: pyfloat
  er_anonymized_summary :: string
  er_created_at :: string
  er_ttl_days :: int

record memory_policy =
  mp_allow_pii :: bool
  mp_allow_account_numbers :: bool
  mp_max_summary_length :: int
  mp_max_preferences_per_user :: int
  mp_default_ttl_days :: int

record memory_store =
  ms_preferences :: "(string \<times> user_preference list) list"
  ms_episodes :: "(string \<times> episode_record list) list"
  ms_policy :: memory_policy

definition pref_key :: "string \<Rightarrow> string \<Rightarrow> string" where
  "pref_key user_id tenant_id = tenant_id @ '':'' @ user_id"

text \<open>\<open>existing.pop(0)\<close> of an empty list raises.\<close>

definition save_preference :: "user_preference \<Rightarrow> memory_store \<Rightarrow> (pyexn + bool) \<times> memory_store" where
  "save_preference p m =
     (if is_sensitive_key p then (Inr False, m)
      else
        (let key = pref_key (up_user_id p) (up_tenant_id p);
             ps = (if dict_has (ms_preferences m) key then ms_preferences m else dict_set key [] (ms_preferences m));
             existing = dict_get_or ps key []
         in if mp_max_preferences_per_user (ms_policy m) \<le> int (length existing)
            then (case existing of
                    [] \<Rightarrow> (Inl (OtherError ''pop from empty list''), m\<lparr>ms_preferences := ps\<rparr>)
                  | e # es \<Rightarrow> (Inr True, m\<lparr>ms_preferences := dict_set key (es @ [p]) ps\<rparr>))
            else (Inr True, m\<lparr>ms_preferences := dict_set key (existing @ [p]) ps\<rparr>)))"

definition get_preferences :: "string \<Rightarrow> string \<Rightarrow> memory_store \<Rightarrow> user_preference list" where
  "get_preferences user_id tenant_id m = dict_get_or (ms_preferences m) (pref_key user_id tenant_id) []"

definition delete_preferences :: "string \<Rightarrow> string \<Rightarrow> memory_store \<Rightarrow> memory_store" where
  "delete_preferences user_id tenant_id m =
     m\<lparr>ms_preferences := filter (\<lambda>(k, v). k \<noteq> pref_key user_id tenant_id) (ms_preferences m)\<rparr>"

definition save_episode :: "episode_record \<Rightarrow> memory_store \<Rightarrow> memory_store" where
  "save_episode e m =
     m\<lparr>ms_episodes := dict_set (er_tenant_id e) (dict_get_or (ms_episodes m) (er_tenant_id e) [] @ [e]) (ms_episodes m)\<rparr>"

definition get_episodes :: "string \<Rightarrow> int \<Rightarrow> memory_store \<Rightarrow> episode_record list" where
  "get_episodes tenant_id limit m = last_slice limit (dict_get_or (ms_episodes m) tenant_id [])"

section \<open>A store per user\<close>

text \<open>The calls on the preferences and, for one user, what they should see: the last \<open>n\<close>
  preferences saved for that user since the last deletion.\<close>

datatype memory_call =
    SavePref user_preference
  | DeletePrefs string string
  | SaveEpisode episode_record

fun memory_step :: "memory_call \<Rightarrow> memory_store \<Rightarrow> memory_store" where
  "memory_step (SavePref p) m = snd (save_preference p m)"
| "memory_step (DeletePrefs u t) m = delete_preferences u t m"
| "memory_step (SaveEpisode e) m = save_episode e m"

fun own_history :: "string \<Rightarrow> string \<Rightarrow> memory_call list \<Rightarrow> user_preference list \<Rightarrow> user_preference list" where
  "own_history u t [] acc = acc"
| "own_history u t (SavePref p # cs) acc =
     own_history u t cs (if up_user_id p = u \<and> up_tenant_id p = t \<and> \<not> is_sensitive_key p then acc @ [p] else acc)"
| "own_history u t (DeletePrefs v s # cs) acc = own_history u t cs (if v = u \<and> s = t then [] else acc)"
| "own_history u t (SaveEpisode e # cs) acc = own_history u t cs acc"

definition new_memory_store :: "memory_policy \<Rightarrow> memory_store" where
  "new_memory_store p = \<lparr>ms_preferences = [], ms_episodes = [], ms_policy = p\<rparr>"

text \<open>The calls name tenants without a colon, so that keys of different users differ.\<close>

fun plain_call :: "memory_call \<Rightarrow> bool" where
  "plain_call (SavePref p) = (CHR '':'' \<notin> set (up_tenant_id p))"
| "plain_call (DeletePrefs u t) = (CHR '':'' \<notin> set t)"
| "plain_call (SaveEpisode e) = True"

lemma pref_key_inj:
  assumes "pref_key u t = pref_key u' t'" "CHR '':'' \<notin> set t" "CHR '':'' \<notin> set t'"
  shows "u = u' \<and> t = t'"
  using assms unfolding pref_key_def
proof (induction t arbitrary: t')
  case Nil
  then show ?case by (cases t') auto
next
  case (Cons c t)
  then show ?case by (cases t') auto
qed

lemma pref_key_eq:
  assumes "CHR '':'' \<notin> set t" "CHR '':'' \<notin> set t'"
  shows "pref_key u t = pref_key u' t' \<longleftrightarrow> u' = u \<and> t' = t"
  using pref_key_inj [OF _ assms] by blast

lemma pref_keys_collide: "pref_key ''b:c'' ''a'' = pref_key ''c'' ''a:b''"
  by (simp add: pref_key_def)

lemma save_preference_get:
  assumes "0 < mp_max_preferences_per_user (ms_policy m)"
  shows "dict_get_or (ms_preferences (snd (save_preference p m))) k [] =
    (if k = pref_key (up_user_id p) (up_tenant_id p) \<and> \<not> is_sensitive_key p
     then (let old = dict_get_or (ms_preferences m) k [] in
       (if mp_max_preferences_per_user (ms_policy m) \<le> int (length old) then tl old else old) @ [p])
     else dict_get_or (ms_preferences m) k [])"
  using assms
  by (auto simp: save_preference_def Let_def dict_get_or_def dict_has_def map_of_dict_set split: list.splits option.splits)

lemma save_preference_policy [simp]: "ms_policy (snd (save_preference p m)) = ms_policy m"
  by (auto simp: save_preference_def Let_def split: list.splits)

lemma memory_policy_kept [simp]: "ms_policy (memory_step c m) = ms_policy m"
  by (cases c) (simp_all add: delete_preferences_def save_episode_def)

lemma delete_preferences_get:
  "dict_get_or (ms_preferences (delete_preferences u t m)) k [] =
     (if k = pref_key u t then [] else dict_get_or (ms_preferences m) k [])"
  by (simp add: delete_preferences_def dict_get_or_def map_of_filter_key)

text \<open>Keeping the last \<open>n\<close>: dropping the oldest of a full list and appending is the slice of the
  whole history.\<close>

lemma last_slice_snoc:
  assumes "0 < n"
  shows "last_slice n (xs @ [x]) =
    (let old = last_slice n xs in if n \<le> int (length old) then tl old @ [x] else old @ [x])"
proof (cases "n \<le> int (length xs)")
  case True
  then have "length (last_slice n xs) = nat n" using assms by (simp add: last_slice_length)
  moreover have "drop (Suc (length xs) - nat n) xs = tl (drop (length xs - nat n) xs)"
    using True assms by (simp add: drop_Suc [symmetric] tl_drop Suc_diff_le)
  ultimately show ?thesis using assms True by (simp add: last_slice_def)
next
  case False
  with assms show ?thesis by (simp add: last_slice_def)
qed

text \<open>One call moves the list under a user's key to the slice of that user's longer history, and
  leaves the lists of all other users alone.\<close>

lemma memory_step_slice:
  assumes pos: "0 < n" and n: "mp_max_preferences_per_user (ms_policy m) = n"
    and plain: "plain_call c" "CHR '':'' \<notin> set t"
    and now: "get_preferences u t m = last_slice n acc"
  shows "get_preferences u t (memory_step c m) = last_slice n (own_history u t [c] acc)"
proof (cases c)
  case (SavePref p)
  have key: "pref_key u t = pref_key (up_user_id p) (up_tenant_id p) \<longleftrightarrow> up_user_id p = u \<and> up_tenant_id p = t"
    by (rule pref_key_eq) (use plain in \<open>simp_all add: SavePref\<close>)
  show ?thesis
    using now pos n by (auto simp: SavePref get_preferences_def save_preference_get key last_slice_snoc Let_def)
next
  case (DeletePrefs v s)
  have key: "pref_key u t = pref_key v s \<longleftrightarrow> v = u \<and> s = t"
    by (rule pref_key_eq) (use plain in \<open>simp_all add: DeletePrefs\<close>)
  show ?thesis
    using now pos by (auto simp: DeletePrefs get_preferences_def delete_preferences_get key last_slice_def)
next
  case (SaveEpisode e)
  then show ?thesis using now by (simp add: get_preferences_def save_episode_def)
qed

lemma own_history_Cons: "own_history u t (c # cs) acc = own_history u t cs (own_history u t [c] acc)"
  by (cases c) simp_all

lemma memory_run_slice:
  assumes "0 < n" "mp_max_preferences_per_user (ms_policy m) = n"
    "list_all plain_call cs" "CHR '':'' \<notin> set t" "get_preferences u t m = last_slice n acc"
  shows "get_preferences u t (fold memory_step cs m) = last_slice n (own_history u t cs acc)"
  using assms
proof (induction cs arbitrary: m acc)
  case (Cons c cs)
  then show ?case
    unfolding own_history_Cons [of u t c cs] by (simp add: memory_step_slice)
qed simp

lemma last_slice_bounded: "0 < n \<Longrightarrow> int (length (last_slice n xs)) \<le> n"
  by (simp add: last_slice_def)



text \<open>Episodes are kept per tenant, the newest last; a limit keeps the newest of them.\<close>

lemma episodes_of_tenant:
  "get_episodes tenant limit (save_episode e m) =
     (if tenant = er_tenant_id e
      then last_slice limit (dict_get_or (ms_episodes m) tenant [] @ [e]) else get_episodes tenant limit m)"
  by (simp add: get_episodes_def save_episode_def dict_get_or_def map_of_dict_set)

lemma newest_episode_is_kept: "0 < limit \<Longrightarrow> last (get_episodes (er_tenant_id e) limit (save_episode e m)) = e"
  by (simp add: episodes_of_tenant last_slice_def)

end
