(* ===== verification/Database.thy ===== *)
theory Database
  imports Json
begin

text \<open>
  Schema creation and migration, \<open>db.py\<close>. The migrations are the lists of SQL statements of
  the source; \<open>exec_sql\<close> gives the statements they use the meaning SQLite gives them: tables with
  \<open>NOT NULL\<close>, \<open>CHECK ... IN\<close> and uniqueness constraints, a disk state and, while a transaction is
  open, its working state. Through Python's \<open>sqlite3\<close> an \<open>INSERT\<close> opens a transaction, while a
  data-definition statement outside one takes effect on the disk at once; a lost or closed
  connection leaves the disk state. Non-unique indexes have no observable effect.
\<close>

section \<open>Tables\<close>

datatype sqlval = SNull | SInt int | SText string

record column =
  co_name :: string
  co_notnull :: bool
  co_default :: sqlval
  co_allowed :: "string list option"

type_synonym sqlrow = "sqlval list"

record sqltable =
  tb_columns :: "column list"
  tb_uniques :: "string list list"
  tb_rows :: "sqlrow list"

type_synonym schema = "string \<Rightarrow> sqltable option"

record database =
  db_disk :: schema
  db_tx :: "schema option"

definition row_cells :: "column list \<Rightarrow> string list \<Rightarrow> sqlrow \<Rightarrow> sqlval list" where
  "row_cells cols names row = map (\<lambda>n. case map_of (zip (map co_name cols) row) n of None \<Rightarrow> SNull | Some v \<Rightarrow> v) names"

definition column_accepts :: "column \<Rightarrow> sqlval \<Rightarrow> bool" where
  "column_accepts c v = ((co_notnull c \<longrightarrow> v \<noteq> SNull)
     \<and> (case co_allowed c of None \<Rightarrow> True | Some ws \<Rightarrow> v = SNull \<or> v \<in> SText ` set ws))"

text \<open>Two rows clash on a group of unique columns when all the cells are equal and not null.\<close>

definition rows_clash :: "column list \<Rightarrow> string list \<Rightarrow> sqlrow \<Rightarrow> sqlrow \<Rightarrow> bool" where
  "rows_clash cols names r r' = (SNull \<notin> set (row_cells cols names r)
     \<and> row_cells cols names r = row_cells cols names r')"

definition row_accepted :: "column list \<Rightarrow> string list list \<Rightarrow> sqlrow list \<Rightarrow> sqlrow \<Rightarrow> bool" where
  "row_accepted cols uniques rows r = (list_all2 column_accepts cols r
     \<and> list_all (\<lambda>names. list_all (\<lambda>r'. \<not> rows_clash cols names r r') rows) uniques)"

fun insert_rows :: "column list \<Rightarrow> string list list \<Rightarrow> sqlrow list \<Rightarrow> sqlrow list \<Rightarrow> sqlrow list option" where
  "insert_rows cols uniques rows [] = Some rows"
| "insert_rows cols uniques rows (r # rs) =
     (if row_accepted cols uniques rows r then insert_rows cols uniques (rows @ [r]) rs else None)"

section \<open>Statements\<close>

datatype sql =
    Create_Table bool string "column list" "string list list"
  | Create_Index bool string "string list"
  | Copy_Rows string string
  | Drop_Table string
  | Rename_Table string string
  | Add_Column string column
  | Require_Distinct string string bool string
  | Insert_Version int
  | Commit

definition sql_error :: "string \<Rightarrow> pyexn" where
  "sql_error s = OtherError s"

definition view :: "database \<Rightarrow> schema" where
  "view d = (case db_tx d of None \<Rightarrow> db_disk d | Some s \<Rightarrow> s)"

definition put_ddl :: "schema \<Rightarrow> database \<Rightarrow> database" where
  "put_ddl s d = (case db_tx d of None \<Rightarrow> d\<lparr>db_disk := s\<rparr> | Some _ \<Rightarrow> d\<lparr>db_tx := Some s\<rparr>)"

definition put_dml :: "schema \<Rightarrow> database \<Rightarrow> database" where
  "put_dml s d = d\<lparr>db_tx := Some s\<rparr>"

definition column_values :: "sqltable \<Rightarrow> string \<Rightarrow> sqlval list" where
  "column_values t n = concat (map (row_cells (tb_columns t) [n]) (tb_rows t))"

definition version_table :: string where "version_table = ''_schema_version''"

definition with_table :: "string \<Rightarrow> database \<Rightarrow> (sqltable \<Rightarrow> pyexn + database) \<Rightarrow> pyexn + database" where
  "with_table n d f = (case view d n of None \<Rightarrow> Inl (sql_error (''no such table: '' @ n)) | Some t \<Rightarrow> f t)"

fun exec_sql :: "sql \<Rightarrow> database \<Rightarrow> pyexn + database" where
  "exec_sql (Create_Table if_absent n cols uniques) d = (case view d n of
     None \<Rightarrow> Inr (put_ddl ((view d)(n := Some \<lparr>tb_columns = cols, tb_uniques = uniques, tb_rows = []\<rparr>)) d)
   | Some t \<Rightarrow> if if_absent then Inr d else Inl (sql_error (''table '' @ n @ '' already exists'')))"
| "exec_sql (Create_Index unique n names) d = with_table n d (\<lambda>t.
     if unique \<and> insert_rows (tb_columns t) [names] [] (tb_rows t) = None
     then Inl (sql_error ''UNIQUE constraint failed'') else Inr d)"
| "exec_sql (Copy_Rows dst src) d = with_table src d (\<lambda>s. with_table dst d (\<lambda>t.
     case insert_rows (tb_columns t) (tb_uniques t) (tb_rows t) (tb_rows s) of
       None \<Rightarrow> Inl (sql_error ''constraint failed'')
     | Some rows \<Rightarrow> Inr (put_dml ((view d)(dst := Some (t\<lparr>tb_rows := rows\<rparr>))) d)))"
| "exec_sql (Drop_Table n) d = with_table n d (\<lambda>t. Inr (put_ddl ((view d)(n := None)) d))"
| "exec_sql (Rename_Table a b) d = with_table a d (\<lambda>t.
     if view d b \<noteq> None then Inl (sql_error (''there is already another table or index with this name: '' @ b))
     else Inr (put_ddl ((view d)(a := None, b := Some t)) d))"
| "exec_sql (Add_Column n c) d = with_table n d (\<lambda>t.
     if co_name c \<in> co_name ` set (tb_columns t) then Inl (sql_error (''duplicate column name: '' @ co_name c))
     else Inr (put_ddl ((view d)(n := Some (t\<lparr>tb_columns := tb_columns t @ [c],
            tb_rows := map (\<lambda>r. r @ [co_default c]) (tb_rows t)\<rparr>))) d))"
| "exec_sql (Require_Distinct n c skip_empty message) d = with_table n d (\<lambda>t.
     if distinct (filter (\<lambda>v. \<not> (skip_empty \<and> v \<in> {SNull, SText []})) (column_values t c))
     then Inr d else Inl (RuntimeError message))"
| "exec_sql (Insert_Version v) d = with_table version_table d (\<lambda>t.
     Inr (put_dml ((view d)(version_table := Some (t\<lparr>tb_rows := filter (\<lambda>r. r \<noteq> [SInt v]) (tb_rows t) @ [[SInt v]]\<rparr>))) d))"
| "exec_sql Commit d = Inr \<lparr>db_disk = view d, db_tx = None\<rparr>"

text \<open>A script runs up to its first error; the connection is then closed.\<close>

definition rollback :: "database \<Rightarrow> database" where
  "rollback d = d\<lparr>db_tx := None\<rparr>"

fun run_script :: "sql list \<Rightarrow> database \<Rightarrow> (pyexn + unit) \<times> database" where
  "run_script [] d = (Inr (), d)"
| "run_script (q # qs) d = (case exec_sql q d of Inl e \<Rightarrow> (Inl e, rollback d) | Inr d1 \<Rightarrow> run_script qs d1)"

section \<open>The migrations\<close>

definition col :: "string \<Rightarrow> column" where
  "col n = \<lparr>co_name = n, co_notnull = False, co_default = SNull, co_allowed = None\<rparr>"

definition req :: "string \<Rightarrow> column" where
  "req n = (col n)\<lparr>co_notnull := True\<rparr>"

definition dflt :: "sqlval \<Rightarrow> column \<Rightarrow> column" where
  "dflt v c = c\<lparr>co_default := v\<rparr>"

definition check_in :: "string list \<Rightarrow> column \<Rightarrow> column" where
  "check_in ws c = c\<lparr>co_allowed := Some ws\<rparr>"

definition session_columns :: "column list" where
  "session_columns =
     [col ''session_id'', dflt (SText ''unknown'') (req ''user_id''), req ''thread_id'',
      dflt (SText ''PENDING'') (req ''status''), req ''tool_name'', req ''tool_args'', col ''authorization_decision'',
      col ''approval_requirement'', col ''idempotency_key'', dflt (SInt 1) (req ''version''), req ''created_at'',
      req ''updated_at'', col ''expires_at'']"

definition session_uniques :: "string list list" where
  "session_uniques = [[''session_id''], [''idempotency_key'']]"

definition event_columns :: "column list" where
  "event_columns = [col ''id'', req ''run_id'', req ''seq'', req ''kind'', req ''payload'', req ''timestamp'']"

definition event_uniques :: "string list list" where
  "event_uniques = [[''id''], [''run_id'', ''seq'']]"

definition idem_columns :: "column list" where
  "idem_columns =
     [col ''idempotency_key'', dflt (SText ''RESERVED'') (req ''status''), req ''tool_name'', col ''tool_args'',
      col ''result'', col ''error'', req ''created_at'', col ''completed_at'']"

definition migrate_v1 :: "sql list" where
  "migrate_v1 =
   [Create_Table True ''events'' event_columns event_uniques,
    Create_Index False ''events'' [''run_id''], Create_Index False ''events'' [''kind''],
    Create_Table True ''checkpoints''
      [req ''thread_id'', dflt (SText []) (req ''checkpoint_ns''), req ''checkpoint_id'', col ''parent_checkpoint_id'',
       req ''type'', req ''checkpoint'', col ''metadata'', req ''created_at'']
      [[''thread_id'', ''checkpoint_ns'', ''checkpoint_id'']],
    Create_Table True ''hitl_sessions''
      session_columns session_uniques,
    Create_Index False ''hitl_sessions'' [''status''], Create_Index False ''hitl_sessions'' [''thread_id''],
    Create_Table True ''idempotency_records'' idem_columns [[''idempotency_key'']],
    Create_Index False ''idempotency_records'' [''status''],
    Commit]"

definition grants :: string where "grants = ''approved_operation_grants''"
definition grants_v3 :: string where "grants_v3 = ''approved_operation_grants_v3''"
definition grants_v5 :: string where "grants_v5 = ''approved_operation_grants_v5''"

text \<open>The columns of the grant table, by its two constrained columns.\<close>

definition grant_columns :: "column \<Rightarrow> column \<Rightarrow> column list" where
  "grant_columns decision status =
     [req ''session_id'', req ''requesting_user_id'', req ''approving_actor_id'', req ''thread_id'', col ''run_id'',
      col ''checkpoint_id'', req ''tool_call_id'', req ''tool_name'', req ''canonical_tool_args'',
      req ''argument_digest'', req ''idempotency_key'', decision, status, req ''created_at'', col ''approved_at'',
      col ''expires_at'', col ''consuming_at'', col ''consumed_at'', col ''failed_at'', dflt (SInt 1) (req ''version'')]"

definition columns_v2 :: "column list" where
  "columns_v2 = grant_columns (dflt (SText ''PENDING'') (req ''decision'')) (dflt (SText ''PENDING'') (req ''status''))"

definition decision_column :: column where
  "decision_column = check_in [''PENDING'', ''approved'', ''rejected''] (req ''decision'')"

definition statuses_v3 :: "string list" where
  "statuses_v3 = [''PENDING'', ''APPROVED'', ''CONSUMING'', ''CONSUMED'', ''REJECTED'', ''EXPIRED'', ''FAILED'', ''UNKNOWN'']"

definition columns_v3 :: "column list" where
  "columns_v3 = grant_columns decision_column (check_in statuses_v3 (dflt (SText ''PENDING'') (req ''status'')))"

definition columns_v5 :: "column list" where
  "columns_v5 = grant_columns decision_column
     (check_in (statuses_v3 @ [''RECONCILIATION_REQUIRED'']) (dflt (SText ''PENDING'') (req ''status'')))"

definition grant_uniques :: "string list list" where
  "grant_uniques = [[''session_id''], [''idempotency_key'']]"

definition migrate_v2 :: "sql list" where
  "migrate_v2 = [Create_Table True grants columns_v2 [],
     Create_Index False grants [''session_id''], Create_Index False grants [''status''], Commit]"

definition rebuild_grants :: "string \<Rightarrow> column list \<Rightarrow> sql list" where
  "rebuild_grants tmp cols =
     [Create_Table False tmp cols grant_uniques, Copy_Rows tmp grants, Drop_Table grants, Rename_Table tmp grants,
      Create_Index False grants [''session_id''], Create_Index False grants [''status''],
      Create_Index False grants [''expires_at''], Create_Index True grants [''idempotency_key''], Commit]"

definition migrate_v3 :: "sql list" where
  "migrate_v3 =
     [Require_Distinct grants ''session_id'' False ''Cannot migrate to v3: duplicate session_id rows found'',
      Require_Distinct grants ''idempotency_key'' True ''Cannot migrate to v3: duplicate idempotency_key rows found'']
     @ rebuild_grants grants_v3 columns_v3"

definition migrate_v4 :: "sql list" where
  "migrate_v4 = [Add_Column ''hitl_sessions'' (dflt (SText []) (req ''tool_call_id'')), Commit]"

definition migrate_v5 :: "sql list" where
  "migrate_v5 = rebuild_grants grants_v5 columns_v5"

definition migrate_v6 :: "sql list" where
  "migrate_v6 =
   [Create_Table True ''channel_writes''
      [req ''thread_id'', dflt (SText []) (req ''checkpoint_ns''), req ''checkpoint_id'', req ''task_id'',
       dflt (SText []) (req ''task_path''), req ''idx'', req ''channel'', req ''value'', req ''created_at'']
      [[''thread_id'', ''checkpoint_ns'', ''checkpoint_id'', ''task_id'', ''idx'']],
    Create_Index False ''channel_writes'' [''thread_id''], Commit]"

definition migrations :: "(int \<times> sql list) list" where
  "migrations = [(1, migrate_v1), (2, migrate_v2), (3, migrate_v3), (4, migrate_v4), (5, migrate_v5), (6, migrate_v6)]"

definition CURRENT_SCHEMA_VERSION :: int where
  "CURRENT_SCHEMA_VERSION = 6"

definition upgrade_script :: "int \<Rightarrow> int \<Rightarrow> sql list" where
  "upgrade_script current target =
     concat (map snd (filter (\<lambda>(v, qs). current < v \<and> v \<le> target) migrations))
     @ (if current < target then [Insert_Version target, Commit] else [])"

definition create_version_table :: sql where
  "create_version_table = Create_Table True version_table [col ''version''] [[''version'']]"

fun row_version :: "sqlrow \<Rightarrow> int" where
  "row_version [SInt v] = v"
| "row_version r = 0"

definition current_version :: "schema \<Rightarrow> int" where
  "current_version s = (case s version_table of
     None \<Rightarrow> 0 | Some t \<Rightarrow> if tb_rows t = [] then 0 else Max (row_version ` set (tb_rows t)))"

definition init_database :: "int \<Rightarrow> database \<Rightarrow> (pyexn + unit) \<times> database" where
  "init_database target d =
     (case exec_sql create_version_table d of
        Inl e \<Rightarrow> (Inl e, rollback d)
      | Inr d1 \<Rightarrow>
          (let current = current_version (view d1) in
           if target < current
           then (Inl (RuntimeError ''Database schema version is newer than expected. Cannot downgrade.''), rollback d1)
           else run_script (upgrade_script current target) d1))"

definition empty_database :: database where
  "empty_database = \<lparr>db_disk = (\<lambda>n. None), db_tx = None\<rparr>"

section \<open>Evaluating the scripts\<close>

lemma table_names:
  "grants \<noteq> grants_v3" "grants \<noteq> grants_v5" "grants_v3 \<noteq> grants_v5"
  "version_table \<noteq> grants" "version_table \<noteq> grants_v3" "version_table \<noteq> grants_v5"
  "''hitl_sessions'' \<noteq> grants" "''hitl_sessions'' \<noteq> grants_v3" "''hitl_sessions'' \<noteq> grants_v5"
  "''hitl_sessions'' \<noteq> version_table" "''channel_writes'' \<noteq> ''hitl_sessions''"
  "''channel_writes'' \<noteq> version_table" "''channel_writes'' \<noteq> grants"
  "''channel_writes'' \<noteq> grants_v3" "''channel_writes'' \<noteq> grants_v5"
  "''events'' \<noteq> version_table" "''idempotency_records'' \<noteq> version_table"
  "''events'' \<noteq> grants" "''idempotency_records'' \<noteq> grants"
  by (simp_all add: grants_def grants_v3_def grants_v5_def version_table_def)

lemmas table_names_distinct [simp] = table_names table_names [symmetric]

lemma view_simps [simp]:
  "view \<lparr>db_disk = s, db_tx = None\<rparr> = s" "view \<lparr>db_disk = s, db_tx = Some t\<rparr> = t"
  "view (put_ddl s d) = s" "view (put_dml s d) = s" "view (rollback d) = db_disk d"
  "db_tx (rollback d) = None" "db_disk (rollback d) = db_disk d" "db_disk (put_dml s d) = db_disk d"
  by (simp_all add: view_def put_ddl_def put_dml_def rollback_def split: option.splits)

lemma run_script_append:
  "run_script (qs @ rs) d = (case run_script qs d of (Inl e, d1) \<Rightarrow> (Inl e, d1) | (Inr u, d1) \<Rightarrow> run_script rs d1)"
  by (induction qs arbitrary: d) (auto split: sum.splits)

text \<open>A column, once there, stays through every statement that does not remove its table.\<close>

definition has_column :: "string \<Rightarrow> string \<Rightarrow> schema \<Rightarrow> bool" where
  "has_column n c s = (case s n of None \<Rightarrow> False | Some t \<Rightarrow> c \<in> co_name ` set (tb_columns t))"

fun removes_table :: "string \<Rightarrow> sql \<Rightarrow> bool" where
  "removes_table n (Drop_Table m) = (m = n)"
| "removes_table n (Rename_Table a b) = (a = n)"
| "removes_table n q = False"

lemma has_column_step:
  assumes "exec_sql q d = Inr d1" "has_column n c (view d)" "\<not> removes_table n q"
  shows "has_column n c (view d1)"
proof (cases q)
  case (Add_Column m k)
  with assms show ?thesis
    by (auto simp: with_table_def has_column_def split: option.splits if_splits)
qed (use assms in \<open>auto simp: with_table_def has_column_def split: option.splits if_splits\<close>)

lemma script_stops_at_column:
  assumes "has_column n (co_name k) (view d)" "list_all (\<lambda>q. \<not> removes_table n q) qs"
  shows "isl (fst (run_script (qs @ Add_Column n k # rs) d))"
  using assms
proof (induction qs arbitrary: d)
  case Nil
  then show ?case by (auto simp: with_table_def has_column_def split: option.splits)
next
  case (Cons q qs)
  then show ?case
    by (cases "exec_sql q d") (auto intro: has_column_step)
qed

lemma table_step:
  assumes "exec_sql q d = Inr d1" "view d n \<noteq> None" "\<not> removes_table n q"
  shows "view d1 n \<noteq> None"
  using assms by (cases q) (auto simp: with_table_def split: option.splits if_splits)

lemma script_stops_at_table:
  assumes "view d n \<noteq> None" "list_all (\<lambda>q. \<not> removes_table n q) qs"
  shows "isl (fst (run_script (qs @ Create_Table False n cols us # rs) d))"
  using assms
proof (induction qs arbitrary: d)
  case (Cons q qs)
  then show ?case
    by (cases "exec_sql q d") (use table_step in \<open>force+\<close>)
qed auto

section \<open>What a complete migration leaves\<close>

lemma run_create_absent [simp]:
  "db_tx d = None \<Longrightarrow> db_disk d n = None \<Longrightarrow> run_script (Create_Table b n cols us # qs) d =
     run_script qs (d\<lparr>db_disk := (db_disk d)(n := Some \<lparr>tb_columns = cols, tb_uniques = us, tb_rows = []\<rparr>)\<rparr>)"
  by (simp add: view_def put_ddl_def)

lemma run_create_present [simp]:
  "view d n = Some t \<Longrightarrow> run_script (Create_Table True n cols us # qs) d = run_script qs d"
  by simp

lemma run_index [simp]:
  "view d n = Some t \<Longrightarrow> run_script (Create_Index False n names # qs) d = run_script qs d"
  by (simp add: with_table_def)

text \<open>Rows that satisfy a table's constraints are accepted one after the other.\<close>

definition rows_ok :: "column list \<Rightarrow> string list list \<Rightarrow> sqlrow list \<Rightarrow> bool" where
  "rows_ok cols us rows = (list_all (list_all2 column_accepts cols) rows
     \<and> list_all (\<lambda>names. distinct (map (row_cells cols names) rows)) us)"

lemma insert_rows_ok: "rows_ok cols us (rows @ rs) \<Longrightarrow> insert_rows cols us rows rs = Some (rows @ rs)"
proof (induction rs arbitrary: rows)
  case (Cons r rs)
  have "row_accepted cols us rows r"
    using Cons.prems unfolding rows_ok_def row_accepted_def rows_clash_def
    by (auto simp: list_all_iff)
  with Cons.IH [of "rows @ [r]"] Cons.prems show ?case by simp
qed simp

lemma rebuild_grants_ok:
  assumes "db_tx d = None" "db_disk d grants = Some t" "db_disk d tmp = None" "tmp \<noteq> grants"
    and "rows_ok cols grant_uniques (tb_rows t)"
  shows "run_script (rebuild_grants tmp cols) d =
    (Inr (), d\<lparr>db_disk := (db_disk d)(grants := Some \<lparr>tb_columns = cols, tb_uniques = grant_uniques, tb_rows = tb_rows t\<rparr>)\<rparr>)"
proof -
  have "insert_rows cols grant_uniques [] (tb_rows t) = Some (tb_rows t)"
    using insert_rows_ok [of cols grant_uniques "[]" "tb_rows t"] assms(5) by simp
  moreover have "insert_rows cols [[''idempotency_key'']] [] (tb_rows t) = Some (tb_rows t)"
    using insert_rows_ok [of cols "[[''idempotency_key'']]" "[]" "tb_rows t"] assms(5)
    by (simp add: rows_ok_def grant_uniques_def)
  moreover have "(db_disk d)(tmp := None, grants := x) = (db_disk d)(grants := x)" for x
    using assms(3) by (auto simp: fun_eq_iff)
  ultimately show ?thesis using assms(1-4)
    by (simp add: rebuild_grants_def with_table_def view_def put_dml_def put_ddl_def)
qed

text \<open>The constraints of version 5 are those of version 3 with one more status; both read the
  same column names as version 2.\<close>

lemma grant_column_names [simp]:
  "map co_name columns_v3 = map co_name columns_v2" "map co_name columns_v5 = map co_name columns_v2"
  by (simp_all add: columns_v2_def columns_v3_def columns_v5_def grant_columns_def decision_column_def
      check_in_def dflt_def req_def col_def)

lemma row_cells_names: "map co_name cols = map co_name cols' \<Longrightarrow> row_cells cols = row_cells cols'"
  by (simp add: row_cells_def fun_eq_iff)

lemma column_accepts_more: "column_accepts (check_in ws c) v \<Longrightarrow> column_accepts (check_in (ws @ xs) c) v"
  by (auto simp: column_accepts_def check_in_def)

lemma rows_ok_v5: "rows_ok columns_v3 grant_uniques rows \<Longrightarrow> rows_ok columns_v5 grant_uniques rows"
proof -
  have "list_all2 column_accepts columns_v3 r \<Longrightarrow> list_all2 column_accepts columns_v5 r" for r
    unfolding columns_v3_def columns_v5_def grant_columns_def
    by (auto simp: list_all2_Cons1 intro: column_accepts_more)
  then show "rows_ok columns_v3 grant_uniques rows \<Longrightarrow> rows_ok columns_v5 grant_uniques rows"
    by (auto simp: rows_ok_def row_cells_names [of columns_v5 columns_v2] row_cells_names [of columns_v3 columns_v2]
        list_all_iff)
qed

lemma distinct_column_values:
  assumes "distinct (map (row_cells (tb_columns t) [n]) (tb_rows t))"
  shows "distinct (column_values t n)"
proof -
  have "column_values t n = map (\<lambda>r. hd (row_cells (tb_columns t) [n] r)) (tb_rows t)"
    unfolding column_values_def by (induction "tb_rows t") (auto simp: row_cells_def)
  moreover have "inj_on hd (row_cells (tb_columns t) [n] ` set (tb_rows t))"
    by (auto simp: inj_on_def row_cells_def)
  ultimately show ?thesis using assms by (simp add: distinct_map comp_inj_on_iff inj_on_def row_cells_def)
qed

lemma migrate_v3_ok:
  assumes "db_tx d = None" "db_disk d grants = Some t" "db_disk d grants_v3 = None"
    "tb_columns t = columns_v2" "rows_ok columns_v3 grant_uniques (tb_rows t)"
  shows "run_script migrate_v3 d =
    (Inr (), d\<lparr>db_disk := (db_disk d)(grants := Some \<lparr>tb_columns = columns_v3, tb_uniques = grant_uniques, tb_rows = tb_rows t\<rparr>)\<rparr>)"
proof -
  have "distinct (column_values t ''session_id'')" "distinct (column_values t ''idempotency_key'')"
    using assms(4,5) row_cells_names [of columns_v3 columns_v2]
    by (auto intro!: distinct_column_values simp: rows_ok_def grant_uniques_def)
  then show ?thesis using rebuild_grants_ok [OF assms(1,2,3) _ assms(5)] assms(1,2)
    by (simp add: migrate_v3_def with_table_def view_def)
qed

definition tool_call_column :: column where
  "tool_call_column = dflt (SText []) (req ''tool_call_id'')"

lemma tool_call_column_name [simp]: "co_name tool_call_column = ''tool_call_id''"
  by (simp add: tool_call_column_def dflt_def req_def col_def)

lemma migrate_v4_ok:
  assumes "db_tx d = None" "db_disk d ''hitl_sessions'' = Some h" "\<not> has_column ''hitl_sessions'' ''tool_call_id'' (db_disk d)"
  shows "run_script migrate_v4 d = (Inr (), d\<lparr>db_disk := (db_disk d)(''hitl_sessions'' :=
    Some (h\<lparr>tb_columns := tb_columns h @ [tool_call_column], tb_rows := map (\<lambda>r. r @ [SText []]) (tb_rows h)\<rparr>))\<rparr>)"
  using assms by (simp add: migrate_v4_def with_table_def view_def put_ddl_def has_column_def
      flip: tool_call_column_def) (simp add: tool_call_column_def dflt_def)

definition writes_table :: sqltable where
  "writes_table = \<lparr>tb_columns = [req ''thread_id'', dflt (SText []) (req ''checkpoint_ns''), req ''checkpoint_id'',
       req ''task_id'', dflt (SText []) (req ''task_path''), req ''idx'', req ''channel'', req ''value'', req ''created_at''],
     tb_uniques = [[''thread_id'', ''checkpoint_ns'', ''checkpoint_id'', ''task_id'', ''idx'']], tb_rows = []\<rparr>"

lemma migrate_v6_ok:
  assumes "db_tx d = None"
  shows "run_script migrate_v6 d = (Inr (), d\<lparr>db_disk := (db_disk d)(''channel_writes'' :=
    Some (case db_disk d ''channel_writes'' of None \<Rightarrow> writes_table | Some t \<Rightarrow> t))\<rparr>)"
  using assms
  by (cases "db_disk d ''channel_writes''")
    (auto simp: migrate_v6_def writes_table_def with_table_def view_def put_ddl_def fun_upd_idem)

text \<open>The schema after migrations 3 to 6.\<close>

definition with_tool_call :: "sqltable \<Rightarrow> sqltable" where
  "with_tool_call h = h\<lparr>tb_columns := tb_columns h @ [tool_call_column], tb_rows := map (\<lambda>r. r @ [SText []]) (tb_rows h)\<rparr>"

definition migrated :: "sqlrow list \<Rightarrow> sqltable \<Rightarrow> schema \<Rightarrow> schema" where
  "migrated rows h s = s(''hitl_sessions'' := Some (with_tool_call h),
     grants := Some \<lparr>tb_columns = columns_v5, tb_uniques = grant_uniques, tb_rows = rows\<rparr>,
     ''channel_writes'' := Some (case s ''channel_writes'' of None \<Rightarrow> writes_table | Some t \<Rightarrow> t))"

lemma later_migrations_ok:
  assumes "db_tx d = None"
    and "db_disk d grants = Some t" "tb_columns t = columns_v2" "rows_ok columns_v3 grant_uniques (tb_rows t)"
    and "db_disk d grants_v3 = None" "db_disk d grants_v5 = None"
    and "db_disk d ''hitl_sessions'' = Some h" "\<not> has_column ''hitl_sessions'' ''tool_call_id'' (db_disk d)"
  shows "run_script (migrate_v3 @ migrate_v4 @ migrate_v5 @ migrate_v6) d =
    (Inr (), d\<lparr>db_disk := migrated (tb_rows t) h (db_disk d)\<rparr>)"
proof -
  let ?g = "\<lambda>cols. \<lparr>tb_columns = cols, tb_uniques = grant_uniques, tb_rows = tb_rows t\<rparr>"
  let ?s3 = "(db_disk d)(grants := Some (?g columns_v3))"
  let ?s4 = "?s3(''hitl_sessions'' := Some (with_tool_call h))"
  let ?s5 = "(db_disk d)(''hitl_sessions'' := Some (with_tool_call h), grants := Some (?g columns_v5))"
  have 3: "run_script migrate_v3 d = (Inr (), d\<lparr>db_disk := ?s3\<rparr>)"
    by (rule migrate_v3_ok [OF assms(1,2,5,3,4)])
  have 4: "run_script migrate_v4 (d\<lparr>db_disk := ?s3\<rparr>) = (Inr (), d\<lparr>db_disk := ?s4\<rparr>)"
    using migrate_v4_ok [of "d\<lparr>db_disk := ?s3\<rparr>" h] assms by (simp add: has_column_def with_tool_call_def)
  have 5: "run_script migrate_v5 (d\<lparr>db_disk := ?s4\<rparr>) = (Inr (), d\<lparr>db_disk := ?s5\<rparr>)"
    unfolding migrate_v5_def
    by (subst rebuild_grants_ok [where t = "?g columns_v3"]) (use assms rows_ok_v5 in simp_all)
  have "run_script migrate_v6 (d\<lparr>db_disk := ?s5\<rparr>) = (Inr (), d\<lparr>db_disk := migrated (tb_rows t) h (db_disk d)\<rparr>)"
    using migrate_v6_ok [of "d\<lparr>db_disk := ?s5\<rparr>"] assms(1) by (simp add: migrated_def)
  then show ?thesis by (simp add: run_script_append 3 4 5)
qed

lemma migrated_other [simp]:
  "n \<notin> {grants, ''hitl_sessions'', ''channel_writes''} \<Longrightarrow> migrated rows h s n = s n"
  by (simp add: migrated_def)

lemma migrated_grants [simp]:
  "migrated rows h s grants = Some \<lparr>tb_columns = columns_v5, tb_uniques = grant_uniques, tb_rows = rows\<rparr>"
  by (simp add: migrated_def)

lemma current_version_cong: "s version_table = s' version_table \<Longrightarrow> current_version s = current_version s'"
  by (simp add: current_version_def)

text \<open>Recording the version, at the end of every upgrade.\<close>

lemma record_version:
  assumes "db_tx d = None" "db_disk d version_table = Some vt" "list_all (\<lambda>r. row_version r \<le> v) (tb_rows vt)"
  obtains s where "run_script [Insert_Version v, Commit] d = (Inr (), \<lparr>db_disk = s, db_tx = None\<rparr>)"
    "current_version s = v" "\<And>n. n \<noteq> version_table \<Longrightarrow> s n = db_disk d n"
proof -
  let ?s = "(db_disk d)(version_table := Some (vt\<lparr>tb_rows := filter (\<lambda>r. r \<noteq> [SInt v]) (tb_rows vt) @ [[SInt v]]\<rparr>))"
  have "run_script [Insert_Version v, Commit] d = (Inr (), \<lparr>db_disk = ?s, db_tx = None\<rparr>)"
    using assms(1,2) by (simp add: with_table_def view_def put_dml_def)
  moreover have "current_version ?s = v"
    using assms(3) unfolding current_version_def by (simp add: list_all_iff, intro Max_eqI) auto
  ultimately show thesis by (rule that) simp
qed

lemma init_at_version:
  assumes "db_tx d = None" "db_disk d version_table = Some t"
  shows "init_database target d = (if target < current_version (db_disk d)
    then (Inl (RuntimeError ''Database schema version is newer than expected. Cannot downgrade.''), d)
    else run_script (upgrade_script (current_version (db_disk d)) target) d)"
  using assms by (simp add: init_database_def create_version_table_def view_def rollback_def)

lemma reopening_changes_nothing:
  "db_tx d = None \<Longrightarrow> db_disk d version_table = Some t \<Longrightarrow> current_version (db_disk d) = CURRENT_SCHEMA_VERSION \<Longrightarrow>
     init_database CURRENT_SCHEMA_VERSION d = (Inr (), d)"
  by (simp add: init_at_version upgrade_script_def migrations_def CURRENT_SCHEMA_VERSION_def)

lemma init_runs:
  assumes "db_tx d = None" "current_version (db_disk d) \<le> target"
  obtains d1 where "init_database target d = run_script (upgrade_script (current_version (db_disk d)) target) d1"
    "db_tx d1 = None" "\<And>n. n \<noteq> version_table \<Longrightarrow> db_disk d1 n = db_disk d n"
proof (cases "db_disk d version_table")
  case None
  let ?d1 = "d\<lparr>db_disk := (db_disk d)(version_table :=
    Some \<lparr>tb_columns = [col ''version''], tb_uniques = [[''version'']], tb_rows = []\<rparr>)\<rparr>"
  have "exec_sql create_version_table d = Inr ?d1"
    using assms(1) None by (simp add: create_version_table_def view_def put_ddl_def)
  with that [of ?d1] assms None show ?thesis
    by (simp add: init_database_def current_version_def view_def)
next
  case (Some t)
  with that [of d] assms show ?thesis by (simp add: init_at_version)
qed

text \<open>The statements before migration \<open>v\<close> in any upgrade through it.\<close>

lemma upgrade_through:
  assumes "(v, qs) \<in> set migrations" "current < v" "v \<le> target"
  obtains pre post where "upgrade_script current target = pre @ qs @ post"
    "set pre \<subseteq> set (concat (map snd (filter (\<lambda>(u, qs). u < v) migrations)))"
proof -
  let ?P = "\<lambda>(u, qs). current < u \<and> u \<le> target"
  from split_list [OF assms(1)] obtain xs ys where m: "migrations = xs @ (v, qs) # ys" by blast
  have u: "u < v" if "(u, rs) \<in> set xs" for u rs
    using that assms(1) m by (auto simp: migrations_def Cons_eq_append_conv)
  then have "set (concat (map snd (filter ?P xs))) \<subseteq> set (concat (map snd (filter (\<lambda>(u, qs). u < v) migrations)))"
    by (auto simp: m)
  moreover have "upgrade_script current target = concat (map snd (filter ?P xs)) @ qs @
      concat (map snd (filter ?P ys)) @ (if current < target then [Insert_Version target, Commit] else [])"
    using assms(2,3) by (simp add: upgrade_script_def m)
  ultimately show thesis by (rule that [rotated])
qed

lemma early_migrations_keep:
  "list_all (\<lambda>q. \<not> removes_table ''hitl_sessions'' q) (migrate_v1 @ migrate_v2 @ migrate_v3)"
  "list_all (\<lambda>q. \<not> removes_table grants_v3 q) (migrate_v1 @ migrate_v2)"
  by (simp_all add: migrate_v1_def migrate_v2_def migrate_v3_def rebuild_grants_def)

text \<open>A new file: the tables of migrations 1 and 2, then the later ones on an empty grant table.\<close>

fun created :: "sql list \<Rightarrow> schema \<Rightarrow> schema" where
  "created [] s = s"
| "created (Create_Table b n cols us # qs) s = created qs (s(n := Some \<lparr>tb_columns = cols, tb_uniques = us, tb_rows = []\<rparr>))"
| "created (q # qs) s = created qs s"

fun only_creates :: "sql list \<Rightarrow> schema \<Rightarrow> bool" where
  "only_creates [] s = True"
| "only_creates (Create_Table b n cols us # qs) s =
     (s n = None \<and> only_creates qs (s(n := Some \<lparr>tb_columns = cols, tb_uniques = us, tb_rows = []\<rparr>)))"
| "only_creates (Create_Index u n names # qs) s = (\<not> u \<and> s n \<noteq> None \<and> only_creates qs s)"
| "only_creates (Commit # qs) s = only_creates qs s"
| "only_creates (q # qs) s = False"

lemma creation_runs:
  "only_creates qs s \<Longrightarrow> run_script qs \<lparr>db_disk = s, db_tx = None\<rparr> = (Inr (), \<lparr>db_disk = created qs s, db_tx = None\<rparr>)"
  by (induction qs s rule: only_creates.induct) (auto simp: with_table_def put_ddl_def)

lemma first_tables:
  fixes vt :: sqltable
  defines "s \<equiv> created (migrate_v1 @ migrate_v2) (Map.empty(version_table := Some vt))"
  shows "only_creates (migrate_v1 @ migrate_v2) (Map.empty(version_table := Some vt))"
    and "s version_table = Some vt" "\<not> has_column ''hitl_sessions'' ''tool_call_id'' s"
      "s ''hitl_sessions'' = Some \<lparr>tb_columns = session_columns, tb_uniques = session_uniques, tb_rows = []\<rparr>"
    and "s grants = Some \<lparr>tb_columns = columns_v2, tb_uniques = [], tb_rows = []\<rparr>" "s grants_v3 = None" "s grants_v5 = None"
    and "s ''events'' = Some \<lparr>tb_columns = event_columns, tb_uniques = event_uniques, tb_rows = []\<rparr>"
      "s ''idempotency_records'' = Some \<lparr>tb_columns = idem_columns, tb_uniques = [[''idempotency_key'']], tb_rows = []\<rparr>"
  unfolding s_def
  by (simp_all add: migrate_v1_def migrate_v2_def has_column_def)
    (simp_all add: version_table_def grants_def grants_v3_def grants_v5_def dflt_def req_def col_def session_columns_def)

lemma fresh_database:
  obtains d' where "init_database CURRENT_SCHEMA_VERSION empty_database = (Inr (), d')"
    "init_database CURRENT_SCHEMA_VERSION d' = (Inr (), d')"
    "db_disk d' grants = Some \<lparr>tb_columns = columns_v5, tb_uniques = grant_uniques, tb_rows = []\<rparr>"
    "db_disk d' ''hitl_sessions'' =
       Some \<lparr>tb_columns = session_columns @ [tool_call_column], tb_uniques = session_uniques, tb_rows = []\<rparr>"
    "db_disk d' ''channel_writes'' \<noteq> None"
    "db_disk d' ''events'' = Some \<lparr>tb_columns = event_columns, tb_uniques = event_uniques, tb_rows = []\<rparr>"
    "db_disk d' ''idempotency_records'' =
       Some \<lparr>tb_columns = idem_columns, tb_uniques = [[''idempotency_key'']], tb_rows = []\<rparr>"
proof -
  let ?vt = "\<lparr>tb_columns = [col ''version''], tb_uniques = [[''version'']], tb_rows = []\<rparr> :: sqltable"
  let ?s0 = "Map.empty(version_table := Some ?vt)"
  let ?s2 = "created (migrate_v1 @ migrate_v2) ?s0"
  let ?later = "migrate_v3 @ migrate_v4 @ migrate_v5 @ migrate_v6"
  note first = first_tables [of ?vt]
  let ?h = "\<lparr>tb_columns = session_columns, tb_uniques = session_uniques, tb_rows = []\<rparr>"
  let ?d6 = "\<lparr>db_disk = migrated [] ?h ?s2, db_tx = None\<rparr>"
  have r: "rows_ok columns_v3 grant_uniques []" by (simp add: rows_ok_def list_all_iff)
  have later: "run_script ?later \<lparr>db_disk = ?s2, db_tx = None\<rparr> = (Inr (), ?d6)"
    using later_migrations_ok [of "\<lparr>db_disk = ?s2, db_tx = None\<rparr>" _ ?h] first r by simp
  obtain s where s: "run_script [Insert_Version 6, Commit] ?d6 = (Inr (), \<lparr>db_disk = s, db_tx = None\<rparr>)"
    "current_version s = 6" "\<And>n. n \<noteq> version_table \<Longrightarrow> s n = db_disk ?d6 n"
    using record_version [of ?d6 ?vt 6] first(2) by auto
  have "upgrade_script 0 6 = (migrate_v1 @ migrate_v2) @ ?later @ [Insert_Version 6, Commit]"
    by (simp add: upgrade_script_def migrations_def)
  then have "run_script (upgrade_script 0 6) \<lparr>db_disk = ?s0, db_tx = None\<rparr> = (Inr (), \<lparr>db_disk = s, db_tx = None\<rparr>)"
    using creation_runs [OF first(1)] later s(1) by (simp only: run_script_append) simp
  moreover have "exec_sql create_version_table empty_database = Inr \<lparr>db_disk = ?s0, db_tx = None\<rparr>"
    by (simp add: create_version_table_def empty_database_def put_ddl_def)
  ultimately have "init_database CURRENT_SCHEMA_VERSION empty_database = (Inr (), \<lparr>db_disk = s, db_tx = None\<rparr>)"
    by (simp add: init_database_def CURRENT_SCHEMA_VERSION_def current_version_def)
  moreover from s(2) obtain t where "s version_table = Some t"
    by (auto simp: current_version_def split: option.splits)
  ultimately show thesis
    using that [of "\<lparr>db_disk = s, db_tx = None\<rparr>"] s(2,3) reopening_changes_nothing [of "\<lparr>db_disk = s, db_tx = None\<rparr>" t]
    by (auto simp: CURRENT_SCHEMA_VERSION_def migrated_def with_tool_call_def tool_call_column_def first)
qed

section \<open>Properties\<close>

text \<open>
  A new database file is brought to the current version with all its tables, the
  grant table empty and with the constraints of version 5, and opening the file again
  changes nothing.
\<close>

theorem fresh_database_initialized:
  "\<exists>d'. init_database CURRENT_SCHEMA_VERSION empty_database = (Inr (), d')
    \<and> init_database CURRENT_SCHEMA_VERSION d' = (Inr (), d')
    \<and> db_disk d' grants = Some \<lparr>tb_columns = columns_v5, tb_uniques = grant_uniques, tb_rows = []\<rparr>
    \<and> db_disk d' ''hitl_sessions'' =
        Some \<lparr>tb_columns = session_columns @ [tool_call_column], tb_uniques = session_uniques, tb_rows = []\<rparr>
    \<and> db_disk d' ''channel_writes'' \<noteq> None"
  using fresh_database by metis

text \<open>
  C31. Upgrading a database of version 2 to the current version keeps every approval
  grant: if the stored grants satisfy the constraints that version 3 introduces, the
  upgrade succeeds, the rebuilt grant table has exactly the stored rows and the
  constraints of version 5, and no table but the four the migrations name is touched.
\<close>

theorem upgrade_keeps_grants:
  assumes "db_tx d = None" "current_version (db_disk d) = 2"
    and "db_disk d grants = Some t" "tb_columns t = columns_v2" "rows_ok columns_v3 grant_uniques (tb_rows t)"
    and "db_disk d grants_v3 = None" "db_disk d grants_v5 = None"
    and "db_disk d ''hitl_sessions'' = Some h" "\<not> has_column ''hitl_sessions'' ''tool_call_id'' (db_disk d)"
  shows "\<exists>d'. init_database CURRENT_SCHEMA_VERSION d = (Inr (), d')
    \<and> current_version (db_disk d') = CURRENT_SCHEMA_VERSION
    \<and> db_disk d' grants = Some \<lparr>tb_columns = columns_v5, tb_uniques = grant_uniques, tb_rows = tb_rows t\<rparr>
    \<and> (\<forall>n. n \<notin> {grants, ''hitl_sessions'', ''channel_writes'', version_table} \<longrightarrow> db_disk d' n = db_disk d n)"
proof -
  from assms(2) obtain vt where vt: "db_disk d version_table = Some vt" "tb_rows vt \<noteq> []"
    by (auto simp: current_version_def split: option.splits if_splits)
  let ?d6 = "d\<lparr>db_disk := migrated (tb_rows t) h (db_disk d)\<rparr>"
  have "row_version r \<le> 6" if "r \<in> set (tb_rows vt)" for r
    using that vt assms(2) Max_ge [of "row_version ` set (tb_rows vt)" "row_version r"] by (auto simp: current_version_def)
  then obtain s where s: "run_script [Insert_Version 6, Commit] ?d6 = (Inr (), \<lparr>db_disk = s, db_tx = None\<rparr>)"
    "current_version s = 6" "\<And>n. n \<noteq> version_table \<Longrightarrow> s n = db_disk ?d6 n"
    using record_version [of ?d6 vt 6] vt assms(1) by (auto simp: list_all_iff)
  have "upgrade_script 2 6 = (migrate_v3 @ migrate_v4 @ migrate_v5 @ migrate_v6) @ [Insert_Version 6, Commit]"
    by (simp add: upgrade_script_def migrations_def)
  then have "run_script (upgrade_script 2 6) d = (Inr (), \<lparr>db_disk = s, db_tx = None\<rparr>)"
    using later_migrations_ok [OF assms(1,3-9)] s(1) by (simp only: run_script_append) simp
  with s(2,3) vt assms(1,2) show ?thesis
    by (simp add: init_at_version CURRENT_SCHEMA_VERSION_def)
qed

text \<open>A version-2 database with one grant and one pending session.\<close>

definition demo_grant_row :: sqlrow where
  "demo_grant_row = map SText [''s1'', ''alice'', ''op'', ''t1''] @ [SNull, SNull]
     @ map SText [''c1'', ''submit_transfer'', ''{}'', ''d'', ''k1'', ''approved'', ''APPROVED'', ''2026'']
     @ [SNull, SNull, SNull, SNull, SNull, SInt 1]"

definition demo_v2_schema :: schema where
  "demo_v2_schema = Map.empty(
     version_table := Some \<lparr>tb_columns = [col ''version''], tb_uniques = [[''version'']], tb_rows = [[SInt 2]]\<rparr>,
     grants := Some \<lparr>tb_columns = columns_v2, tb_uniques = [], tb_rows = [demo_grant_row]\<rparr>,
     ''hitl_sessions'' := Some \<lparr>tb_columns = [col ''session_id''], tb_uniques = [[''session_id'']], tb_rows = [[SText ''s1'']]\<rparr>)"

lemma demo_row_ok: "rows_ok columns_v3 grant_uniques [demo_grant_row]"
  by (simp add: rows_ok_def demo_grant_row_def columns_v3_def grant_columns_def decision_column_def statuses_v3_def
      check_in_def dflt_def req_def col_def column_accepts_def grant_uniques_def)

theorem upgrade_keeps_grants_witness:
  "\<exists>d'. init_database CURRENT_SCHEMA_VERSION \<lparr>db_disk = demo_v2_schema, db_tx = None\<rparr> = (Inr (), d')
    \<and> map_option tb_rows (db_disk d' grants) = Some [demo_grant_row]"
proof -
  let ?d = "\<lparr>db_disk = demo_v2_schema, db_tx = None\<rparr>"
  have "current_version demo_v2_schema = 2" "\<not> has_column ''hitl_sessions'' ''tool_call_id'' demo_v2_schema"
    by (simp_all add: current_version_def has_column_def demo_v2_schema_def col_def)
  then show ?thesis
    using upgrade_keeps_grants [of ?d "\<lparr>tb_columns = columns_v2, tb_uniques = [], tb_rows = [demo_grant_row]\<rparr>"
        "\<lparr>tb_columns = [col ''session_id''], tb_uniques = [[''session_id'']], tb_rows = [[SText ''s1'']]\<rparr>"] demo_row_ok
    by (force simp: demo_v2_schema_def)
qed

text \<open>
  A half-migrated database never opens again. Each migration commits on its own, but
  the version is recorded only after the last one; a process that dies in between
  leaves the column of migration 4 (or the temporary table of migration 3) on a disk
  whose recorded version still asks for that migration, and every later initialization
  fails at it.
\<close>

theorem half_migrated_never_opens:
  assumes "db_tx d = None"
    and "current_version (db_disk d) < 4 \<and> has_column ''hitl_sessions'' ''tool_call_id'' (db_disk d)
      \<or> current_version (db_disk d) < 3 \<and> db_disk d grants_v3 \<noteq> None"
  shows "isl (fst (init_database CURRENT_SCHEMA_VERSION d))"
proof -
  let ?v = "current_version (db_disk d)"
  have "?v \<le> 6" using assms(2) by auto
  then obtain d1 where d1: "init_database 6 d = run_script (upgrade_script ?v 6) d1" "db_tx d1 = None"
    "\<And>n. n \<noteq> version_table \<Longrightarrow> db_disk d1 n = db_disk d n" using init_runs [OF assms(1)] by blast
  show ?thesis
  proof (cases "?v < 4 \<and> has_column ''hitl_sessions'' ''tool_call_id'' (db_disk d)")
    case True
    then obtain pre post where s: "upgrade_script ?v 6 = pre @ migrate_v4 @ post"
      "set pre \<subseteq> set (concat (map snd (filter (\<lambda>(u, qs). u < 4) migrations)))"
      using upgrade_through [of 4 migrate_v4 ?v 6] by (auto simp: migrations_def)
    then have "list_all (\<lambda>q. \<not> removes_table ''hitl_sessions'' q) pre"
      using early_migrations_keep(1) by (auto simp: migrations_def list_all_iff)
    moreover have "has_column ''hitl_sessions'' (co_name tool_call_column) (view d1)"
      using True d1(2,3) by (simp add: has_column_def view_def)
    ultimately show ?thesis
      using script_stops_at_column [of "''hitl_sessions''" tool_call_column d1 pre "Commit # post"] s(1) d1(1)
      by (simp add: migrate_v4_def CURRENT_SCHEMA_VERSION_def flip: tool_call_column_def)
  next
    case False
    with assms(2) have v: "?v < 3" "db_disk d grants_v3 \<noteq> None" by auto
    then obtain pre post where s: "upgrade_script ?v 6 = pre @ migrate_v3 @ post"
      "set pre \<subseteq> set (concat (map snd (filter (\<lambda>(u, qs). u < 3) migrations)))"
      using upgrade_through [of 3 migrate_v3 ?v 6] by (auto simp: migrations_def)
    let ?check = "take 2 migrate_v3" and ?qs = "drop 3 migrate_v3"
    have m: "migrate_v3 = ?check @ Create_Table False grants_v3 columns_v3 grant_uniques # ?qs"
      "list_all (\<lambda>q. \<not> removes_table grants_v3 q) ?check"
      by (simp_all add: migrate_v3_def rebuild_grants_def)
    from s(2) m(2) have "list_all (\<lambda>q. \<not> removes_table grants_v3 q) (pre @ ?check)"
      using early_migrations_keep(2) by (auto simp: migrations_def list_all_iff)
    moreover have "view d1 grants_v3 \<noteq> None" using v d1(2,3) by (simp add: view_def)
    ultimately show ?thesis
      using script_stops_at_table [of d1 grants_v3 "pre @ ?check" columns_v3 grant_uniques "?qs @ post"] s(1) d1(1)
      by (subst (asm) m(1)) (simp add: CURRENT_SCHEMA_VERSION_def)
  qed
qed

text \<open>The upgrade of the version-2 database above, cut off after migration 4.\<close>

definition cut_off_upgrade :: database where
  "cut_off_upgrade = rollback (snd (run_script (migrate_v3 @ migrate_v4) \<lparr>db_disk = demo_v2_schema, db_tx = None\<rparr>))"

lemma cut_off_upgrade_disk:
  "db_disk cut_off_upgrade version_table = demo_v2_schema version_table
    \<and> has_column ''hitl_sessions'' ''tool_call_id'' (db_disk cut_off_upgrade)"
proof -
  let ?g = "\<lparr>tb_columns = columns_v2, tb_uniques = [], tb_rows = [demo_grant_row]\<rparr>"
  let ?h = "\<lparr>tb_columns = [col ''session_id''], tb_uniques = [[''session_id'']], tb_rows = [[SText ''s1'']]\<rparr>"
  let ?d3 = "\<lparr>db_disk = demo_v2_schema(grants := Some \<lparr>tb_columns = columns_v3, tb_uniques = grant_uniques,
    tb_rows = [demo_grant_row]\<rparr>), db_tx = None\<rparr>"
  have "run_script migrate_v3 \<lparr>db_disk = demo_v2_schema, db_tx = None\<rparr> = (Inr (), ?d3)"
    using migrate_v3_ok [of "\<lparr>db_disk = demo_v2_schema, db_tx = None\<rparr>" ?g] demo_row_ok by (simp add: demo_v2_schema_def)
  moreover have "db_disk ?d3 ''hitl_sessions'' = Some ?h" "\<not> has_column ''hitl_sessions'' ''tool_call_id'' (db_disk ?d3)"
    by (simp_all add: demo_v2_schema_def has_column_def col_def)
  ultimately show ?thesis
    using migrate_v4_ok [of ?d3 ?h] by (simp add: cut_off_upgrade_def run_script_append has_column_def)
qed

end
