(* ===== verification/Schema_Link.thy ===== *)
theory Schema_Link
  imports Database Approval
begin

text \<open>
  The repositories and the schema. \<open>Grant_Repo\<close> and \<open>Hitl_Store\<close> state the constraints of their tables
  as relations between records; here the records are written out as the rows their \<open>INSERT\<close>
  statements store, and the tables that \<open>init_database\<close> creates are shown to accept exactly the
  rows those relations admit.
\<close>

section \<open>Rows\<close>

definition opt_text :: "string option \<Rightarrow> sqlval" where
  "opt_text x = (case x of None \<Rightarrow> SNull | Some s \<Rightarrow> SText s)"

definition opt_time :: "pylib \<Rightarrow> timestamp option \<Rightarrow> sqlval" where
  "opt_time L t = opt_text (map_option (pl_iso L) t)"

fun grant_status_value :: "grant_status \<Rightarrow> string" where
  "grant_status_value G_PENDING = ''PENDING''"
| "grant_status_value G_APPROVED = ''APPROVED''"
| "grant_status_value G_CONSUMING = ''CONSUMING''"
| "grant_status_value G_CONSUMED = ''CONSUMED''"
| "grant_status_value G_REJECTED = ''REJECTED''"
| "grant_status_value G_EXPIRED = ''EXPIRED''"
| "grant_status_value G_FAILED = ''FAILED''"
| "grant_status_value G_UNKNOWN = ''UNKNOWN''"
| "grant_status_value G_RECONCILIATION_REQUIRED = ''RECONCILIATION_REQUIRED''"

definition grant_row :: "pylib \<Rightarrow> grant_record \<Rightarrow> sqlrow" where
  "grant_row L g =
     [SText (gt_session_id g), SText (gt_requesting_user_id g), SText (gt_approving_actor_id g), SText (gt_thread_id g),
      opt_text (gt_run_id g), opt_text (gt_checkpoint_id g), SText (gt_tool_call_id g), SText (gt_tool_name g),
      SText (pl_dumps L (gt_canonical_tool_args g)), SText (gt_argument_digest g), SText (gt_idempotency_key g),
      SText (gt_decision g), SText (grant_status_value (gt_status g)), SText (pl_iso L (gt_created_at g)),
      opt_time L (gt_approved_at g), opt_time L (gt_expires_at g), opt_time L (gt_consuming_at g),
      opt_time L (gt_consumed_at g), opt_time L (gt_failed_at g), SInt (gt_version g)]"

definition session_row :: "pylib \<Rightarrow> hitl_session \<Rightarrow> sqlrow" where
  "session_row L s =
     [SText (hs_session_id s), SText (hs_user_id s), SText (hs_thread_id s), SText (hitl_status_value (hs_status s)),
      SText (hs_tool_name s), SText (pl_dumps L (JObj (hs_tool_args s))), opt_text (hs_authorization_decision s),
      opt_text (hs_approval_requirement s), opt_text (hs_idempotency_key s), SInt (hs_version s),
      SText (pl_iso L (hs_created_at s)), SText (pl_iso L (hs_updated_at s)), opt_time L (hs_expires_at s),
      SText (hs_tool_call_id s)]"

section \<open>A repository over a table\<close>

text \<open>
  The contract between a repository and its table: \<open>row\<close> writes a record out, \<open>valid\<close> are the
  records that pass the column constraints, and the uniqueness constraints clash exactly on
  records in \<open>conflict\<close>. Then inserting into the table of rows is inserting into the table of
  records.
\<close>

locale stored_records =
  fixes row :: "'r \<Rightarrow> sqlrow" and valid :: "'r \<Rightarrow> bool" and conflict :: "'r \<Rightarrow> 'r \<Rightarrow> bool"
    and cols :: "column list" and uniques :: "string list list"
  assumes columns: "list_all2 column_accepts cols (row r) \<longleftrightarrow> valid r"
    and clashes: "list_ex (\<lambda>names. rows_clash cols names (row r) (row r')) uniques \<longleftrightarrow> conflict r r'"
begin

lemma accepted: "row_accepted cols uniques (map row t) (row r) \<longleftrightarrow> valid r \<and> \<not> list_ex (conflict r) t"
  using clashes unfolding row_accepted_def columns
  by (simp add: list_all_iff list_ex_iff) blast

lemma inserts:
  "insert_rows cols uniques (map row t) [row r] =
     (if valid r then map_option (map row) (sql_insert conflict r t) else None)"
  by (simp add: accepted sql_insert_def)

lemma updates_accepted: "valid r \<Longrightarrow> list_all2 column_accepts cols (row r)"
  by (simp add: columns)

end

lemmas column_defs = col_def req_def dflt_def check_in_def column_accepts_def

lemma opt_text_eq [simp]:
  "opt_text x = SNull \<longleftrightarrow> x = None" "SNull = opt_text x \<longleftrightarrow> x = None" "opt_text x = opt_text y \<longleftrightarrow> x = y"
  by (auto simp: opt_text_def split: option.splits)

lemma status_allowed:
  "grant_status_value s \<in> set (statuses_v3 @ [''RECONCILIATION_REQUIRED''])"
  "grant_status_value s \<in> set statuses_v3 \<longleftrightarrow> s \<noteq> G_RECONCILIATION_REQUIRED"
  by (cases s; simp add: statuses_v3_def)+

lemma grant_names:
  "map co_name columns_v2 =
     [''session_id'', ''requesting_user_id'', ''approving_actor_id'', ''thread_id'', ''run_id'', ''checkpoint_id'',
      ''tool_call_id'', ''tool_name'', ''canonical_tool_args'', ''argument_digest'', ''idempotency_key'', ''decision'',
      ''status'', ''created_at'', ''approved_at'', ''expires_at'', ''consuming_at'', ''consumed_at'', ''failed_at'', ''version'']"
  by (simp add: columns_v2_def grant_columns_def col_def req_def dflt_def)

lemma grant_keys:
  "row_cells columns_v5 [''session_id''] (grant_row L g) = [SText (gt_session_id g)]"
  "row_cells columns_v5 [''idempotency_key''] (grant_row L g) = [SText (gt_idempotency_key g)]"
  by (simp_all add: row_cells_def grant_names grant_row_def)

definition decision_ok :: "grant_record \<Rightarrow> bool" where
  "decision_ok g = (gt_decision g \<in> {''PENDING'', ''approved'', ''rejected''})"

interpretation grant_rows: stored_records "grant_row L" decision_ok grant_conflict columns_v5 grant_uniques
  for L
proof
  fix g g' :: grant_record
  have "SText (grant_status_value (gt_status g)) \<in> SText ` set (statuses_v3 @ [''RECONCILIATION_REQUIRED''])"
    using status_allowed(1) by (rule imageI)
  then show "list_all2 column_accepts columns_v5 (grant_row L g) \<longleftrightarrow> decision_ok g"
    by (simp add: columns_v5_def grant_columns_def decision_column_def grant_row_def column_defs decision_ok_def)
  show "list_ex (\<lambda>names. rows_clash columns_v5 names (grant_row L g) (grant_row L g')) grant_uniques \<longleftrightarrow> grant_conflict g g'"
    by (simp add: rows_clash_def grant_keys grant_uniques_def grant_conflict_def)
qed

interpretation session_rows: stored_records "session_row L" "\<lambda>s. True" hitl_conflict
    "session_columns @ [tool_call_column]" session_uniques
  for L
proof
  fix s s' :: hitl_session
  show "list_all2 column_accepts (session_columns @ [tool_call_column]) (session_row L s) \<longleftrightarrow> True"
    by (simp add: session_columns_def tool_call_column_def session_row_def column_defs)
  show "list_ex (\<lambda>names. rows_clash (session_columns @ [tool_call_column]) names (session_row L s) (session_row L s'))
      session_uniques \<longleftrightarrow> hitl_conflict s s'"
    by (auto simp: session_columns_def tool_call_column_def session_row_def column_defs rows_clash_def
        row_cells_def session_uniques_def hitl_conflict_def)
qed

text \<open>The status that the reconciliation gate writes is the one the tables of versions 3 and 4 refuse.\<close>

lemma reconciliation_needs_v5:
  assumes "decision_ok g"
  shows "list_all2 column_accepts columns_v3 (grant_row L g) \<longleftrightarrow> gt_status g \<noteq> G_RECONCILIATION_REQUIRED"
proof -
  have "SText (grant_status_value (gt_status g)) \<in> SText ` set statuses_v3 \<longleftrightarrow> gt_status g \<noteq> G_RECONCILIATION_REQUIRED"
    using status_allowed(2) [of "gt_status g"] by auto
  with assms show ?thesis
    by (auto simp: columns_v3_def grant_columns_def decision_column_def grant_row_def column_defs decision_ok_def)
qed

section \<open>Properties\<close>

text \<open>
  C40. The schema enforces what the repositories rely on. In a database that \<open>init_database\<close> has just
  created, inserting the row of a pending grant or of an approval session succeeds exactly when
  the repository's insertion does, and leaves exactly the rows of its new table; and every state
  a grant can be in passes the constraints of its table as long as its decision is one of the
  three known words.
\<close>

theorem repositories_fit_schema:
  "\<exists>d' T S. init_database CURRENT_SCHEMA_VERSION empty_database = (Inr (), d')
    \<and> db_disk d' grants = Some T \<and> db_disk d' ''hitl_sessions'' = Some S
    \<and> (\<forall>g t. map_option (map (grant_row L)) (grant_insert_pending g t) =
         insert_rows (tb_columns T) (tb_uniques T) (map (grant_row L) t)
           [grant_row L (g\<lparr>gt_status := G_PENDING, gt_version := 1, gt_approved_at := None, gt_consuming_at := None,
              gt_consumed_at := None, gt_failed_at := None\<rparr>)])
    \<and> (\<forall>s t. map_option (map (session_row L)) (hitl_insert s t) =
         insert_rows (tb_columns S) (tb_uniques S) (map (session_row L) t) [session_row L s])
    \<and> (\<forall>g. list_all2 column_accepts (tb_columns T) (grant_row L g) = decision_ok g)"
proof -
  obtain d' where d: "init_database CURRENT_SCHEMA_VERSION empty_database = (Inr (), d')"
    "db_disk d' grants = Some \<lparr>tb_columns = columns_v5, tb_uniques = grant_uniques, tb_rows = []\<rparr>"
    "db_disk d' ''hitl_sessions'' =
       Some \<lparr>tb_columns = session_columns @ [tool_call_column], tb_uniques = session_uniques, tb_rows = []\<rparr>"
    by (rule fresh_database)
  show ?thesis
    by (intro exI conjI allI, rule d(1), rule d(2), rule d(3))
      (simp_all add: grant_rows.inserts session_rows.inserts grant_rows.columns grant_insert_pending_def hitl_insert_def
        decision_ok_def del: insert_rows.simps)
qed

end
