(* ===== verification/Resume_Service.thy ===== *)
theory Resume_Service
  imports Approval Graph
begin

text \<open>
  \<open>resume_service.py\<close>: after an approval or a rejection, the graph is run once more on the outcome
  so that the model can answer. The service builds a graph of its own, without checkpointer,
  registry and idempotency store, with the auto-approve policy and five steps; LangGraph's
  recursion limit is its default of 25 supersteps.
\<close>

section \<open>The service\<close>

definition resume_text :: "approval_result \<Rightarrow> hitl_session \<Rightarrow> string" where
  "resume_text r session =
     (if ar_decision r = ''approved''
      then ''Tool '' @ quoted (hs_tool_name session) @ '' executed successfully.'' @ [CHR 0x0A]
             @ ''Result: '' @ str_or (opt_str (ar_answer r)) ''done''
      else ''Tool '' @ quoted (hs_tool_name session) @ '' was rejected by human operator.'' @ [CHR 0x0A]
             @ ''Reason: '' @ str_or (opt_str (ar_answer r)) ''Operation rejected'')"

definition build_resume_state :: "approval_result \<Rightarrow> hitl_table \<Rightarrow> agent_state option" where
  "build_resume_state r t =
     (if ar_decision r \<notin> {''approved'', ''rejected''} then None
      else (case hitl_get (ar_session_id r) t of
         None \<Rightarrow> None
       | Some session \<Rightarrow>
           Some \<lparr>gs_messages = [ToolMsg (resume_text r session) (hs_tool_call_id session) (hs_tool_name session)],
                 gs_final_answer = None, gs_step_count = 0, gs_session_id = Some (ar_session_id r),
                 gs_executed = (if hs_tool_call_id session = [] then [] else [hs_tool_call_id session])\<rparr>))"

definition resume_deps :: "('b, 'l) deps \<Rightarrow> ('b, 'l) deps" where
  "resume_deps D = D\<lparr>dp_registry := None, dp_max_steps := 5\<rparr>"

definition resume_world :: "('b, 'l) world \<Rightarrow> ('b, 'l) world" where
  "resume_world w = w\<lparr>w_gateway := \<lparr>gw_policy = AutoApprovePolicy, gw_decisions = []\<rparr>, w_idem := None\<rparr>"

definition RECURSION_LIMIT :: nat where
  "RECURSION_LIMIT = 25"

definition ai_content :: "message \<Rightarrow> string option" where
  "ai_content m = (case m of AIMsg c tcs \<Rightarrow> if c = [] then None else Some c | _ \<Rightarrow> None)"

text \<open>The answer, and the world with the service's own gateway taken away again.\<close>

definition resume_and_respond :: "('b, 'l) deps \<Rightarrow> agent_state \<Rightarrow> ('b, 'l) world \<Rightarrow> string option \<times> ('b, 'l) world" where
  "resume_and_respond D st w =
     (let (out, w1) = graph_invoke (resume_deps D) RECURSION_LIMIT st (resume_world w) in
      (case out of
         GraphDone st1 \<Rightarrow>
           (if opt_str (gs_final_answer st1) \<noteq> [] then gs_final_answer st1
            else List.find (\<lambda>_. True) (List.map_filter ai_content (rev (gs_messages st1))))
       | GraphInterrupted payload st1 \<Rightarrow>
           List.find (\<lambda>_. True) (List.map_filter ai_content (rev (gs_messages st1)))
       | _ \<Rightarrow> None,
       w1\<lparr>w_gateway := w_gateway w, w_idem := w_idem w\<rparr>))"

section \<open>It always returns\<close>

lemma auto_approved:
  "gw_policy (w_gateway w) = AutoApprovePolicy \<Longrightarrow> ask_auth D x w = (d, w1) \<Longrightarrow>
     ad_decision d = APPROVED \<and> gw_policy (w_gateway w1) = AutoApprovePolicy"
  by (auto simp: ask_auth_def gateway_authorize_def auto_approve_def decide_def Let_def)

lemma tool_loop_auto:
  assumes "gw_policy (w_gateway w) = AutoApprovePolicy" "tool_loop D st tcs rs acc ids w = (out, w')"
  shows "gw_policy (w_gateway w') = AutoApprovePolicy \<and> (\<forall>p. out \<noteq> NodeInterrupt p)"
  using assms
proof (induction tcs arbitrary: rs acc ids w)
  case (Cons tc tcs)
  obtain d w1 where a: "ask_auth D (call_operation D tc) w = (d, w1)" by fastforce
  then have ap: "ad_decision d = APPROVED" "gw_policy (w_gateway w1) = AutoApprovePolicy"
    using auto_approved Cons.prems(1) by blast+
  have g: "decision_gate (dp_lib D) st tc d rs = Proceed (lc_args tc) rs"
    by (simp add: decision_gate_def ap(1))
  obtain r w2 where e: "execute_call D st tc (lc_args tc) w1 = (r, w2)" by fastforce
  have "gw_policy (w_gateway w2) = AutoApprovePolicy"
    using execute_call_gateway [of D st tc "lc_args tc" w1] ap(2) by (simp add: e)
  with Cons a g e show ?case
    by (cases r) (auto split: option.splits if_splits)
qed auto

lemma agent_node_gateway: "w_gateway (snd (agent_node D st w)) = w_gateway w"
  by (auto simp: agent_node_def case_prod_beta Let_def split: sum.splits)

lemma graph_auto_not_interrupted:
  assumes "gw_policy (w_gateway w) = AutoApprovePolicy"
  shows "fst (graph_loop D n nd rs st w) \<noteq> GraphInterrupted p s"
  using assms
proof (induction n arbitrary: nd rs st w)
  case (Suc n)
  show ?case
  proof (cases nd)
    case AgentNode
    obtain r w1 where a: "agent_node D st w = (r, w1)" by fastforce
    have "gw_policy (w_gateway w1) = AutoApprovePolicy"
      using agent_node_gateway [of D st w] Suc.prems by (simp add: a)
    with Suc.IH [of w1] show ?thesis by (cases r) (auto simp: AgentNode a)
  next
    case ToolNode
    obtain r w1 where a: "tool_node D rs st w = (r, w1)" by fastforce
    have "gw_policy (w_gateway w1) = AutoApprovePolicy \<and> (\<forall>p. r \<noteq> NodeInterrupt p)"
      using tool_loop_auto [OF Suc.prems, of D st "last_tool_calls st" rs "[]" "gs_executed st" r w1] a Suc.prems
      by (auto simp: tool_node_def split: if_splits)
    with Suc.IH [of w1] show ?thesis by (cases r) (auto simp: ToolNode a)
  qed
qed simp

text \<open>The resumed run ends by itself, in an answer or an error: it reaches neither the recursion limit
  nor another suspension.\<close>

theorem resume_ends:
  assumes "build_resume_state r t = Some st"
  shows "(\<exists>st1. fst (graph_invoke (resume_deps D) RECURSION_LIMIT st (resume_world w)) = GraphDone st1)
    \<or> (\<exists>e. fst (graph_invoke (resume_deps D) RECURSION_LIMIT st (resume_world w)) = GraphRaised e)"
proof -
  have "steps_left (resume_deps D) st = 5"
    using assms by (auto simp: build_resume_state_def steps_left_def resume_deps_def split: if_splits option.splits)
  then have "fst (graph_invoke (resume_deps D) RECURSION_LIMIT st (resume_world w)) \<noteq> GraphRecursionError"
    using graph_loop_limit [of "resume_deps D" st AgentNode RECURSION_LIMIT "[]" "resume_world w"]
    by (simp add: graph_invoke_def RECURSION_LIMIT_def)
  moreover have "fst (graph_invoke (resume_deps D) RECURSION_LIMIT st (resume_world w)) \<noteq> GraphInterrupted p s" for p s
    unfolding graph_invoke_def by (rule graph_auto_not_interrupted) (simp add: resume_world_def)
  ultimately show ?thesis
    by (cases "fst (graph_invoke (resume_deps D) RECURSION_LIMIT st (resume_world w))") auto
qed

section \<open>It approves whatever the model asks for\<close>

text \<open>
  After a rejection as after an approval, the first tool the model proposes under another call id
  is dispatched to the backend, with no human and no validation in between, even if it is the
  rejected call itself.
\<close>

theorem resume_dispatches_unapproved:
  assumes "build_resume_state r t = Some st"
    and "dp_invoke D (gs_messages st) None (w_llm w) = (Inr (AIMsg c [tc]), l)" "lc_id tc \<notin> set (gs_executed st)"
  shows "prefix (w_dispatched w @ [\<lparr>tc_name = lc_name tc, tc_arguments = lc_args tc\<rparr>])
    (w_dispatched (snd (resume_and_respond D st w)))"
proof -
  let ?D = "resume_deps D" and ?w = "resume_world w"
  let ?call = "\<lparr>tc_name = lc_name tc, tc_arguments = lc_args tc\<rparr>"
  let ?st = "st\<lparr>gs_messages := gs_messages st @ [AIMsg c [tc]], gs_step_count := 1\<rparr>" and ?w1 = "?w\<lparr>w_llm := l\<rparr>"
  have st: "gs_step_count st = 0" "gs_final_answer st = None"
    using assms(1) by (auto simp: build_resume_state_def split: if_splits option.splits)
  have st': "st\<lparr>gs_messages := ms, gs_step_count := n, gs_final_answer := None\<rparr> = st\<lparr>gs_messages := ms, gs_step_count := n\<rparr>"
    for ms n using st(2) by simp
  have an: "agent_node ?D st ?w = (Inr ?st, ?w1)"
    using assms(2) st by (simp add: agent_node_def resume_deps_def resume_world_def visible_tools_def st')
  obtain d w2 where a: "ask_auth ?D (call_operation ?D tc) ?w1 = (d, w2)" by fastforce
  then have ap: "ad_decision d = APPROVED"
    using auto_approved [OF _ a] by (simp add: resume_world_def)
  have w2: "w_dispatched w2 = w_dispatched w" "w_idem w2 = None"
    using a by (auto simp: ask_auth_def case_prod_beta Let_def resume_world_def)
  have e: "w_dispatched (snd (execute_call ?D ?st tc (lc_args tc) w2)) = w_dispatched w @ [?call]"
    using w2 by (auto simp: execute_call_def dispatch_world Let_def split: option.splits)
  obtain x w3 where x: "execute_call ?D ?st tc (lc_args tc) w2 = (x, w3)" by fastforce
  have tn: "w_dispatched (snd (tool_node ?D [] ?st ?w1)) = w_dispatched w @ [?call]"
    using assms(3) a ap e x
    by (cases x) (simp_all add: tool_node_def last_tool_calls_def call_rejection_def resume_deps_def decision_gate_def)
  obtain r1 w4 where t: "tool_node ?D [] ?st ?w1 = (r1, w4)" by fastforce
  have "prefix (w_dispatched w @ [?call]) (w_dispatched (snd (graph_loop ?D (Suc n) ToolNode [] ?st ?w1)))" for n
  proof (cases r1)
    case (NodeOk ms ids)
    then show ?thesis using tn t graph_dispatched_grows [of "w_dispatched w @ [?call]" w4]
      by simp
  qed (use tn t in simp_all)
  moreover have "graph_invoke ?D RECURSION_LIMIT st ?w = graph_loop ?D (Suc 23) ToolNode [] ?st ?w1"
  proof -
    have lim: "RECURSION_LIMIT = Suc (Suc 23)" by (simp add: RECURSION_LIMIT_def)
    have tools: "has_tool_calls ?st" by (simp add: has_tool_calls_def last_tool_calls_def)
    show ?thesis unfolding graph_invoke_def lim graph_loop.simps(2) [of _ "Suc 23"] an using tools by simp
  qed
  ultimately have "prefix (w_dispatched w @ [?call]) (w_dispatched (snd (graph_invoke ?D RECURSION_LIMIT st ?w)))"
    by (simp only:)
  then show ?thesis by (simp add: resume_and_respond_def case_prod_beta Let_def)
qed

end
