(* ===== verification/Sandbox.thy ===== *)
theory Sandbox
  imports Json
begin

text \<open>
  The core-banking ports, \<open>adapters/banking_ports.py\<close>, and their sandbox implementation,
  \<open>adapters/sandbox_banking.py\<close>. The transfer port is a locale; the sandbox interprets it.
  \<open>hex\<close> is the upper-case hexadecimal text a new transaction id is made of.
\<close>

record transfer_request =
  tr_source_account_id :: string
  tr_beneficiary_id :: string
  tr_amount :: pyfloat
  tr_currency :: string
  tr_reference :: string
  tr_idempotency_key :: string
  tr_correlation_id :: string

record transfer_response =
  ts_success :: bool
  ts_transaction_id :: string
  ts_status :: string
  ts_failure_reason :: string
  ts_upstream_reference :: string

record account_info =
  ai_account_id :: string
  ai_owner_id :: string
  ai_balance :: pyfloat
  ai_currency :: string
  ai_account_type :: string
  ai_active :: bool

record sandbox =
  sb_accounts :: "(string \<times> account_info) list"
  sb_transfers :: "(string \<times> transfer_response) list"

definition refused :: "string \<Rightarrow> transfer_response" where
  "refused why = \<lparr>ts_success = False, ts_transaction_id = [], ts_status = [], ts_failure_reason = why,
     ts_upstream_reference = []\<rparr>"

definition seed_account :: "string \<Rightarrow> string \<Rightarrow> rat \<Rightarrow> string \<Rightarrow> string \<times> account_info" where
  "seed_account i owner balance kind = (i, \<lparr>ai_account_id = i, ai_owner_id = owner, ai_balance = Fin balance,
     ai_currency = ''USD'', ai_account_type = kind, ai_active = True\<rparr>)"

definition seed_data :: "(string \<times> account_info) list" where
  "seed_data = [seed_account ''ACC-1001'' ''user-alice'' 15000 ''checking'',
     seed_account ''ACC-1002'' ''user-bob'' 8500 ''savings'', seed_account ''ACC-1003'' ''user-carol'' 25000 ''checking'']"

definition new_sandbox :: "(string \<times> account_info) list \<Rightarrow> sandbox" where
  "new_sandbox accounts = \<lparr>sb_accounts = (if accounts = [] then seed_data else accounts), sb_transfers = []\<rparr>"

definition sandbox_get_balance :: "string \<Rightarrow> string \<Rightarrow> sandbox \<Rightarrow> account_info option" where
  "sandbox_get_balance account_id tenant_id s = map_of (sb_accounts s) account_id"

definition sandbox_submit_transfer ::
    "string \<Rightarrow> transfer_request \<Rightarrow> string \<Rightarrow> sandbox \<Rightarrow> transfer_response \<times> sandbox" where
  "sandbox_submit_transfer hex q tenant_id s =
     (case map_of (sb_accounts s) (tr_source_account_id q) of
        None \<Rightarrow> (refused ''Source account not found'', s)
      | Some source \<Rightarrow>
          if fless (ai_balance source) (tr_amount q) then (refused ''Insufficient funds'', s)
          else
            (let txn = ''TXN-'' @ hex;
                 resp = \<lparr>ts_success = True, ts_transaction_id = txn, ts_status = ''completed'', ts_failure_reason = [],
                         ts_upstream_reference = ''SAND-'' @ txn\<rparr>
             in (resp, s\<lparr>sb_transfers := dict_set txn resp (sb_transfers s),
                        sb_accounts := dict_set (tr_source_account_id q)
                          (source\<lparr>ai_balance := fsub (ai_balance source) (tr_amount q)\<rparr>) (sb_accounts s)\<rparr>)))"

definition sandbox_get_transfer_status :: "string \<Rightarrow> string \<Rightarrow> sandbox \<Rightarrow> transfer_response" where
  "sandbox_get_transfer_status transaction_id tenant_id s =
     dict_get_or (sb_transfers s) transaction_id (refused ''Transaction not found'')"

definition sandbox_initiate_payment ::
    "string \<Rightarrow> transfer_request \<Rightarrow> string \<Rightarrow> sandbox \<Rightarrow> transfer_response \<times> sandbox" where
  "sandbox_initiate_payment hex q tenant_id s = sandbox_submit_transfer hex q tenant_id s"

definition sandbox_check_payment_status :: "string \<Rightarrow> string \<Rightarrow> sandbox \<Rightarrow> transfer_response" where
  "sandbox_check_payment_status payment_id tenant_id s = sandbox_get_transfer_status payment_id tenant_id s"

section \<open>The transfer port\<close>

text \<open>
  What the agent relies on: a refused transfer changes no account, an executed one can be looked up
  under its id and debits its source account by exactly the amount, and no other account changes.
\<close>

locale transfer_port =
  fixes submit :: "string \<Rightarrow> transfer_request \<Rightarrow> string \<Rightarrow> 's \<Rightarrow> transfer_response \<times> 's"
    and status :: "string \<Rightarrow> string \<Rightarrow> 's \<Rightarrow> transfer_response"
    and account :: "string \<Rightarrow> string \<Rightarrow> 's \<Rightarrow> account_info option"
  assumes refused_keeps: "\<not> ts_success (fst (submit hex q t s)) \<Longrightarrow> account k u (snd (submit hex q t s)) = account k u s"
    and executed_debits: "ts_success (fst (submit hex q t s)) \<Longrightarrow>
      \<exists>a. account (tr_source_account_id q) u s = Some a \<and> \<not> fless (ai_balance a) (tr_amount q)
        \<and> account (tr_source_account_id q) u (snd (submit hex q t s)) =
            Some (a\<lparr>ai_balance := fsub (ai_balance a) (tr_amount q)\<rparr>)"
    and others_kept: "k \<noteq> tr_source_account_id q \<Longrightarrow> account k u (snd (submit hex q t s)) = account k u s"
    and executed_found: "ts_success (fst (submit hex q t s)) \<Longrightarrow>
      status (ts_transaction_id (fst (submit hex q t s))) u (snd (submit hex q t s)) = fst (submit hex q t s)"
begin

fun submit_all :: "(string \<times> transfer_request) list \<Rightarrow> string \<Rightarrow> 's \<Rightarrow> transfer_response list \<times> 's" where
  "submit_all [] t s = ([], s)"
| "submit_all ((hex, q) # qs) t s =
     (let (r, s1) = submit hex q t s; (rs, s2) = submit_all qs t s1 in (r # rs, s2))"

text \<open>The amounts executed from one account, in order.\<close>

fun debits :: "string \<Rightarrow> (string \<times> transfer_request) list \<Rightarrow> transfer_response list \<Rightarrow> pyfloat list" where
  "debits k ((hex, q) # qs) (r # rs) =
     (if ts_success r \<and> tr_source_account_id q = k then tr_amount q # debits k qs rs else debits k qs rs)"
| "debits k qs rs = []"

lemma balance_is_debited:
  assumes "account k u s = Some a"
  shows "account k u (snd (submit_all qs t s)) =
    Some (a\<lparr>ai_balance := fold (\<lambda>x b. fsub b x) (debits k qs (fst (submit_all qs t s))) (ai_balance a)\<rparr>)"
  using assms
proof (induction qs arbitrary: s a)
  case (Cons hq qs)
  obtain hex q where hq: "hq = (hex, q)" by force
  obtain r s1 where sub: "submit hex q t s = (r, s1)" by force
  show ?case
  proof (cases "ts_success r \<and> tr_source_account_id q = k")
    case True
    then have "account k u s1 = Some (a\<lparr>ai_balance := fsub (ai_balance a) (tr_amount q)\<rparr>)"
      using executed_debits [of hex q t s u] Cons.prems by (auto simp: sub)
    with Cons.IH [of s1] True show ?thesis by (simp add: hq sub case_prod_beta)
  next
    case False
    then have "account k u s1 = Some a"
      using refused_keeps [of hex q t s k u] others_kept [of k q u hex t s] Cons.prems by (auto simp: sub)
    with Cons.IH [of s1] False show ?thesis by (auto simp: hq sub case_prod_beta)
  qed
qed simp

end

interpretation sandbox_port: transfer_port sandbox_submit_transfer sandbox_get_transfer_status sandbox_get_balance
  by unfold_locales (auto simp: sandbox_submit_transfer_def sandbox_get_balance_def sandbox_get_transfer_status_def
      dict_get_or_def refused_def Let_def split: option.splits if_splits)

section \<open>What the sandbox does not check\<close>

text \<open>The idempotency key is ignored: the same request submitted twice debits twice.\<close>

lemma sandbox_repeats_transfer:
  assumes "map_of (sb_accounts s) (tr_source_account_id q) = Some a" "ai_balance a = Fin 100" "tr_amount q = Fin 40"
  shows "map_option ai_balance (sandbox_get_balance (tr_source_account_id q) t
    (snd (sandbox_submit_transfer h2 q t (snd (sandbox_submit_transfer h1 q t s))))) = Some (Fin 20)"
  using assms by (simp add: sandbox_submit_transfer_def sandbox_get_balance_def Let_def round_double_numeral)

text \<open>A negative amount is credited.\<close>

lemma sandbox_negative_amount:
  assumes "map_of (sb_accounts s) (tr_source_account_id q) = Some a" "ai_balance a = Fin 100" "tr_amount q = Fin (- 50)"
  shows "map_option ai_balance (sandbox_get_balance (tr_source_account_id q) t (snd (sandbox_submit_transfer h q t s))) = Some (Fin 150)"
  using assms by (simp add: sandbox_submit_transfer_def sandbox_get_balance_def Let_def round_double_numeral)

text \<open>
  The sandbox keeps exact books: after any sequence of submissions the balance of an account is its
  first balance less the amounts of the executed transfers from it, in order, each subtraction
  rounded to a double.
\<close>

theorem sandbox_books:
  assumes "sandbox_get_balance k u s = Some a"
  shows "sandbox_get_balance k u (snd (sandbox_port.submit_all qs t s)) =
    Some (a\<lparr>ai_balance := fold (\<lambda>x b. fsub b x) (sandbox_port.debits k qs (fst (sandbox_port.submit_all qs t s))) (ai_balance a)\<rparr>)"
  using assms by (rule sandbox_port.balance_is_debited)

end
