(* ===== verification/Operations.thy ===== *)
theory Operations
  imports Json
begin

text \<open>
  The operational helpers: run metrics (\<open>metrics.py\<close>), the write kill switch and the drift
  thresholds (\<open>agentops.py\<close>), the model router (\<open>model_router.py\<close>), the client-facing error
  messages (\<open>errors.py\<close>) and the in-memory key-value store (\<open>storage.py\<close>).
\<close>

section \<open>Rollout, cost and incidents\<close>

datatype traffic_mode = TM_OFFLINE | TM_SHADOW | TM_INTERNAL_PILOT | TM_CANARY | TM_FULL_ROLLOUT

record traffic_policy =
  tp_mode :: traffic_mode
  tp_candidate_percent :: pyfloat
  tp_tenant_allowlist :: "string list"
  tp_write_kill_switch :: bool

record cost_report =
  cr_task_id :: string
  cr_model :: string
  cr_input_tokens :: int
  cr_output_tokens :: int
  cr_tool_calls :: int
  cr_duration_ms :: pyfloat
  cr_estimated_cost_usd :: pyfloat
  cr_cache_hit :: bool

record incident_record =
  ic_incident_id :: string
  ic_severity :: string
  ic_title :: string
  ic_timeline :: "string list"
  ic_kill_switch_activated :: bool
  ic_rollback_target :: string
  ic_resolved :: bool
  ic_postmortem_url :: string

datatype storage_backend = SB_SQLITE | SB_POSTGRESQL | SB_REDIS

record storage_config =
  sg_backend :: storage_backend
  sg_url :: string
  sg_pool_size :: int
  sg_pool_timeout_seconds :: int
  sg_echo :: bool

section \<open>Run metrics\<close>

record step_metrics =
  sm_step_index :: int
  sm_duration_ms :: pyfloat
  sm_input_tokens :: int
  sm_output_tokens :: int
  sm_tool_call_count :: int
  sm_tool_duration_ms :: pyfloat

record run_metrics =
  rn_run_id :: string
  rn_steps :: "step_metrics list"
  rn_total_duration_ms :: pyfloat
  rn_total_input_tokens :: int
  rn_total_output_tokens :: int
  rn_total_tool_calls :: int
  rn_started_at :: string
  rn_completed_at :: string

record metrics_collector =
  mx_current :: "run_metrics option"
  mx_start_time :: pyfloat

definition new_collector :: metrics_collector where
  "new_collector = \<lparr>mx_current = None, mx_start_time = Fin 0\<rparr>"

definition no_active_run :: pyexn where
  "no_active_run = RuntimeError ''No active run -- call start_run first''"

definition start_run :: "string \<Rightarrow> pyfloat \<Rightarrow> string \<Rightarrow> metrics_collector \<Rightarrow> metrics_collector" where
  "start_run now t run_id m =
     m\<lparr>mx_current := Some \<lparr>rn_run_id = run_id, rn_steps = [], rn_total_duration_ms = Fin 0, rn_total_input_tokens = 0,
         rn_total_output_tokens = 0, rn_total_tool_calls = 0, rn_started_at = now, rn_completed_at = []\<rparr>,
       mx_start_time := t\<rparr>"

definition add_step :: "step_metrics \<Rightarrow> run_metrics \<Rightarrow> run_metrics" where
  "add_step s r = r\<lparr>rn_steps := rn_steps r @ [s],
     rn_total_input_tokens := rn_total_input_tokens r + sm_input_tokens s,
     rn_total_output_tokens := rn_total_output_tokens r + sm_output_tokens s,
     rn_total_tool_calls := rn_total_tool_calls r + sm_tool_call_count s,
     rn_total_duration_ms := fadd (rn_total_duration_ms r) (sm_duration_ms s)\<rparr>"

definition record_step :: "step_metrics \<Rightarrow> metrics_collector \<Rightarrow> (pyexn + unit) \<times> metrics_collector" where
  "record_step s m = (case mx_current m of
     None \<Rightarrow> (Inl no_active_run, m)
   | Some r \<Rightarrow> (Inr (), m\<lparr>mx_current := Some (add_step s r)\<rparr>))"

definition finish_run :: "string \<Rightarrow> pyfloat \<Rightarrow> metrics_collector \<Rightarrow> (pyexn + run_metrics) \<times> metrics_collector" where
  "finish_run now t m = (case mx_current m of
     None \<Rightarrow> (Inl no_active_run, m)
   | Some r \<Rightarrow> (Inr (r\<lparr>rn_total_duration_ms := fmul (fsub t (mx_start_time m)) (Fin 1000), rn_completed_at := now\<rparr>),
                m\<lparr>mx_current := None\<rparr>))"

text \<open>What a graph step reports, to the collector of the configuration when it has one; a collector that
  refuses is ignored.\<close>

fun record_step_metrics :: "int \<Rightarrow> pyfloat \<Rightarrow> int \<Rightarrow> int \<Rightarrow> int \<Rightarrow> pyfloat \<Rightarrow> metrics_collector option
    \<Rightarrow> metrics_collector option" where
  "record_step_metrics step_index duration input_tokens output_tokens tool_call_count tool_duration None = None"
| "record_step_metrics step_index duration input_tokens output_tokens tool_call_count tool_duration (Some m) =
     Some (snd (record_step \<lparr>sm_step_index = step_index, sm_duration_ms = duration, sm_input_tokens = input_tokens,
       sm_output_tokens = output_tokens, sm_tool_call_count = tool_call_count, sm_tool_duration_ms = tool_duration\<rparr> m))"

text \<open>The call the agent node makes after each answer of the model, over the steps of a run.\<close>

definition agent_node_metrics :: "int \<Rightarrow> pyfloat \<Rightarrow> metrics_collector option \<Rightarrow> metrics_collector option" where
  "agent_node_metrics step llm_duration = record_step_metrics step llm_duration 0 0 0 (Fin 0)"

fun agent_nodes_metrics :: "(int \<times> pyfloat) list \<Rightarrow> metrics_collector option \<Rightarrow> metrics_collector option" where
  "agent_nodes_metrics [] c = c"
| "agent_nodes_metrics ((step, d) # steps) c = agent_nodes_metrics steps (agent_node_metrics step d c)"

section \<open>The write kill switch\<close>

record kill_switch =
  ks_active :: bool
  ks_activated_at :: string
  ks_reason :: string

definition new_kill_switch :: kill_switch where
  "new_kill_switch = \<lparr>ks_active = False, ks_activated_at = [], ks_reason = []\<rparr>"

definition activate :: "string \<Rightarrow> string \<Rightarrow> kill_switch \<Rightarrow> kill_switch" where
  "activate now reason k = k\<lparr>ks_active := True, ks_reason := reason, ks_activated_at := now\<rparr>"

definition deactivate :: "kill_switch \<Rightarrow> kill_switch" where
  "deactivate k = k\<lparr>ks_active := False, ks_reason := []\<rparr>"

definition switch_check :: "string \<Rightarrow> bool \<Rightarrow> kill_switch \<Rightarrow> bool" where
  "switch_check tool_name side_effect k = (if \<not> ks_active k then True else if \<not> side_effect then True else False)"

section \<open>Drift\<close>

text \<open>Division by a non-zero float, and \<open>abs\<close>.\<close>

fun fdiv :: "pyfloat \<Rightarrow> pyfloat \<Rightarrow> pyfloat" where
  "fdiv (Fin a) (Fin b) = round_double (a / b)"
| "fdiv NaN y = NaN"
| "fdiv x NaN = NaN"
| "fdiv (PInf s) (PInf t) = NaN"
| "fdiv (PInf s) (Fin b) = PInf (s \<noteq> (b < 0))"
| "fdiv (Fin a) (PInf t) = Fin 0"

fun fabs :: "pyfloat \<Rightarrow> pyfloat" where
  "fabs (Fin a) = Fin \<bar>a\<bar>"
| "fabs (PInf s) = PInf False"
| "fabs NaN = NaN"

record drift_threshold =
  dt_metric_name :: string
  dt_warning :: pyfloat
  dt_critical :: pyfloat
  dt_baseline :: pyfloat
  dt_value :: pyfloat

definition deviation :: "drift_threshold \<Rightarrow> pyfloat" where
  "deviation d = (if dt_baseline d = Fin 0 then Fin 0
     else fdiv (fabs (fsub (dt_value d) (dt_baseline d))) (dt_baseline d))"

definition drift_status :: "drift_threshold \<Rightarrow> string" where
  "drift_status d =
     (if fle (dt_critical d) (deviation d) then ''critical''
      else if fle (dt_warning d) (deviation d) then ''warning'' else ''ok'')"

section \<open>The model router\<close>

datatype model_tier = LIGHTWEIGHT | STANDARD | REASONING

record model_route =
  mr_tier :: model_tier
  mr_model :: string
  mr_reason :: string
  mr_max_tokens :: int
  mr_temperature :: pyfloat

definition model_route_of :: "(model_tier \<Rightarrow> string) \<Rightarrow> model_tier \<Rightarrow> string \<Rightarrow> int \<Rightarrow> model_route" where
  "model_route_of models tier reason max_tokens =
     \<lparr>mr_tier = tier, mr_model = models tier, mr_reason = reason, mr_max_tokens = max_tokens, mr_temperature = Fin 0\<rparr>"

definition route_for_intent :: "(model_tier \<Rightarrow> string) \<Rightarrow> string \<Rightarrow> string \<Rightarrow> model_route" where
  "route_for_intent models intent risk =
     (if intent \<in> {''account_query'', ''transaction_query'', ''beneficiary_query''}
      then model_route_of models LIGHTWEIGHT ''Simple read query -- lightweight model sufficient'' 2048
      else if intent \<in> {''policy_question'', ''form_assistance'', ''product_question''}
      then model_route_of models STANDARD ''Knowledge question -- standard model for RAG'' 4096
      else if risk \<in> {''high'', ''critical''} \<or> intent \<in> {''suspicious_activity_report'', ''complex_task'', ''multi_account_task''}
      then model_route_of models REASONING
        (''High-risk or complex intent ('' @ intent @ '') -- reasoning model required'') 8192
      else model_route_of models STANDARD ''Default routing -- standard model'' 4096)"

section \<open>Error messages\<close>

datatype agent_error_code =
    PROVIDER_TIMEOUT | PROVIDER_AUTHENTICATION_FAILED | PROVIDER_RATE_LIMITED | PROVIDER_INTERNAL_ERROR
  | UNKNOWN_TOOL | INVALID_TOOL_ARGUMENTS | TOOL_EXECUTION_FAILED | TOOL_OUTCOME_UNKNOWN | TOOL_TIMEOUT
  | AUTHORIZATION_DENIED | APPROVAL_REQUIRED | APPROVAL_EXPIRED | APPROVAL_ALREADY_CONSUMED
  | AUTHENTICATION_REQUIRED | INSUFFICIENT_PERMISSIONS | CROSS_TENANT_ACCESS_DENIED | CROSS_ACCOUNT_ACCESS_DENIED
  | CHECKPOINT_CONFLICT | THREAD_NOT_FOUND | THREAD_ALREADY_EXISTS | RECONCILIATION_REQUIRED
  | AGENT_STEP_LIMIT_EXCEEDED | CONFIGURATION_ERROR | INTERNAL_ERROR

definition ERROR_MESSAGES :: "(agent_error_code \<times> string) list" where
  "ERROR_MESSAGES =
     [(PROVIDER_TIMEOUT, ''The AI service timed out. Please try again.''),
      (PROVIDER_AUTHENTICATION_FAILED, ''AI service configuration error.''),
      (PROVIDER_RATE_LIMITED, ''The service is busy. Please try again shortly.''),
      (PROVIDER_INTERNAL_ERROR, ''The AI service encountered an error. Please try again.''),
      (UNKNOWN_TOOL, ''The requested operation is not available.''),
      (INVALID_TOOL_ARGUMENTS, ''Invalid operation parameters.''),
      (TOOL_EXECUTION_FAILED, ''The operation could not be completed.''),
      (TOOL_OUTCOME_UNKNOWN, ''The operation outcome is uncertain. Please contact support.''),
      (TOOL_TIMEOUT, ''The operation timed out. Please try again.''),
      (AUTHORIZATION_DENIED, ''You are not authorized to perform this operation.''),
      (APPROVAL_REQUIRED, ''This operation requires human approval.''),
      (APPROVAL_EXPIRED, ''The approval window has expired. Please request again.''),
      (APPROVAL_ALREADY_CONSUMED, ''This approval has already been used.''),
      (AUTHENTICATION_REQUIRED, ''Authentication is required.''),
      (INSUFFICIENT_PERMISSIONS, ''You do not have sufficient permissions.''),
      (CROSS_TENANT_ACCESS_DENIED, ''Access denied.''),
      (CROSS_ACCOUNT_ACCESS_DENIED, ''Access denied.''),
      (CHECKPOINT_CONFLICT, ''A conflict occurred. Please retry.''),
      (THREAD_NOT_FOUND, ''Conversation not found.''),
      (THREAD_ALREADY_EXISTS, ''A conversation with this ID already exists.''),
      (RECONCILIATION_REQUIRED, ''This operation requires manual review.''),
      (AGENT_STEP_LIMIT_EXCEEDED, ''The request was too complex. Please simplify and try again.''),
      (CONFIGURATION_ERROR, ''Service configuration error.''),
      (INTERNAL_ERROR, ''An unexpected error occurred. Please try again.'')]"

definition safe_error_message :: "agent_error_code \<Rightarrow> string" where
  "safe_error_message code = dict_get_or ERROR_MESSAGES code ''An unexpected error occurred.''"

section \<open>The key-value store\<close>

type_synonym kv_store = "(string \<times> string) list"

definition kv_get :: "kv_store \<Rightarrow> string \<Rightarrow> string option" where
  "kv_get s key = map_of s key"

text \<open>The lifetime of an entry is accepted and ignored.\<close>

definition kv_set :: "string \<Rightarrow> string \<times> int \<Rightarrow> kv_store \<Rightarrow> kv_store" where
  "kv_set key vt s = dict_set key (fst vt) s"

definition kv_delete :: "string \<Rightarrow> kv_store \<Rightarrow> bool \<times> kv_store" where
  "kv_delete key s = (if dict_has s key then (True, filter (\<lambda>(k, v). k \<noteq> key) s) else (False, s))"

definition kv_exists :: "string \<Rightarrow> kv_store \<Rightarrow> bool" where
  "kv_exists key s = dict_has s key"

section \<open>Metrics of a run\<close>

fun record_steps :: "step_metrics list \<Rightarrow> metrics_collector \<Rightarrow> metrics_collector" where
  "record_steps [] m = m"
| "record_steps (s # ss) m = record_steps ss (snd (record_step s m))"

lemma record_steps_current:
  "mx_current m = Some r \<Longrightarrow> record_steps ss m = m\<lparr>mx_current := Some (fold add_step ss r)\<rparr>"
  by (induction ss arbitrary: m r) (simp_all add: record_step_def)

lemma fold_add_step:
  "rn_steps (fold add_step ss r) = rn_steps r @ ss"
  "rn_total_input_tokens (fold add_step ss r) = rn_total_input_tokens r + (\<Sum>s\<leftarrow>ss. sm_input_tokens s)"
  "rn_total_output_tokens (fold add_step ss r) = rn_total_output_tokens r + (\<Sum>s\<leftarrow>ss. sm_output_tokens s)"
  "rn_total_tool_calls (fold add_step ss r) = rn_total_tool_calls r + (\<Sum>s\<leftarrow>ss. sm_tool_call_count s)"
  "rn_run_id (fold add_step ss r) = rn_run_id r"
  by (induction ss arbitrary: r) (simp_all add: add_step_def)

text \<open>The metrics of a run are the sums over its steps, its duration is the wall-clock time between its
  start and its end, not the sum of the step durations.\<close>

theorem run_metrics_are_sums:
  assumes "finish_run later t1 (record_steps ss (start_run now t0 run_id m)) = (Inr r, m')"
  shows "rn_run_id r = run_id \<and> rn_steps r = ss
    \<and> rn_total_input_tokens r = (\<Sum>s\<leftarrow>ss. sm_input_tokens s)
    \<and> rn_total_output_tokens r = (\<Sum>s\<leftarrow>ss. sm_output_tokens s)
    \<and> rn_total_tool_calls r = (\<Sum>s\<leftarrow>ss. sm_tool_call_count s)
    \<and> rn_total_duration_ms r = fmul (fsub t1 t0) (Fin 1000) \<and> mx_current m' = None"
proof -
  let ?m = "start_run now t0 run_id m"
  obtain r0 where r0: "mx_current ?m = Some r0" "rn_steps r0 = []" "rn_total_input_tokens r0 = 0"
    "rn_total_output_tokens r0 = 0" "rn_total_tool_calls r0 = 0" "rn_run_id r0 = run_id" "mx_start_time ?m = t0"
    by (simp add: start_run_def)
  from assms have "r = (fold add_step ss r0)\<lparr>rn_total_duration_ms := fmul (fsub t1 t0) (Fin 1000), rn_completed_at := later\<rparr>"
    "mx_current m' = None"
    using r0(7) by (auto simp: record_steps_current [OF r0(1)] finish_run_def)
  with r0 show ?thesis by (simp add: fold_add_step)
qed

text \<open>A run of the graph reports one step per answer of the model, in order, and no tokens and no tool
  calls, however many the answers had.\<close>

definition llm_step :: "int \<times> pyfloat \<Rightarrow> step_metrics" where
  "llm_step s = \<lparr>sm_step_index = fst s, sm_duration_ms = snd s, sm_input_tokens = 0, sm_output_tokens = 0,
     sm_tool_call_count = 0, sm_tool_duration_ms = Fin 0\<rparr>"

lemma agent_nodes_metrics_steps: "agent_nodes_metrics steps (Some m) = Some (record_steps (map llm_step steps) m)"
  by (induction steps arbitrary: m) (auto simp: agent_node_metrics_def llm_step_def)

theorem graph_reports_no_tokens:
  assumes "agent_nodes_metrics steps (Some (start_run now t0 run_id m)) = Some m1"
    and "finish_run later t1 m1 = (Inr r, m2)"
  shows "map sm_step_index (rn_steps r) = map fst steps \<and> map sm_duration_ms (rn_steps r) = map snd steps
    \<and> rn_total_input_tokens r = 0 \<and> rn_total_output_tokens r = 0 \<and> rn_total_tool_calls r = 0"
proof -
  from assms have "finish_run later t1 (record_steps (map llm_step steps) (start_run now t0 run_id m)) = (Inr r, m2)"
    by (simp add: agent_nodes_metrics_steps)
  from run_metrics_are_sums [OF this] show ?thesis
    by (simp add: llm_step_def comp_def sum_list_0)
qed

text \<open>So when a run starts the collector and no other run does in between, its \<open>finish_run\<close> returns: the
  calls on the collector never change what such a run answers.\<close>

theorem own_collector_never_fails:
  "\<exists>m1 r m2. agent_nodes_metrics steps (Some (start_run now t0 run_id m)) = Some m1
     \<and> finish_run later t1 m1 = (Inr r, m2) \<and> rn_run_id r = run_id \<and> length (rn_steps r) = length steps"
  by (simp add: agent_nodes_metrics_steps start_run_def record_steps_current finish_run_def fold_add_step)

text \<open>Reporting never fails: without a started run, or without a collector, nothing changes.\<close>

lemma metrics_are_best_effort:
  "mx_current m = None \<Longrightarrow> agent_nodes_metrics steps (Some m) = Some m"
  "agent_nodes_metrics steps None = None"
  by (induction steps) (auto simp: agent_node_metrics_def record_step_def)

text \<open>A collector serves one run at a time: when two runs share it, starting the second drops the first
  one's steps, the first to finish is given the second one's metrics, and the other one's
  \<open>finish_run\<close> raises.\<close>

lemma shared_collector:
  assumes "m1 = start_run n1 t1 ''a'' m" "m2 = start_run n2 t2 ''b'' m1" "finish_run n3 t3 m2 = (x, m3)"
  shows "\<exists>r. x = Inr r \<and> rn_run_id r = ''b''" and "fst (finish_run n4 t4 m3) = Inl no_active_run"
  using assms by (auto simp: start_run_def finish_run_def)

section \<open>Switch, drift, router, messages and store\<close>

text \<open>While the switch is on, exactly the calls with side effects are refused.\<close>

lemma kill_switch_checks:
  "switch_check tool side_effect (activate now reason k) \<longleftrightarrow> \<not> side_effect"
  "switch_check tool side_effect (deactivate k)"
  "switch_check tool side_effect new_kill_switch"
  by (simp_all add: switch_check_def activate_def deactivate_def new_kill_switch_def)

lemma round_double_nonpos:
  assumes "q \<le> 0"
  shows "fle (round_double q) (Fin 0)"
proof (cases "q = 0")
  case False
  let ?s = "max (dbl_exp q - 52) (-1074)" and ?v = "dbl_value q"
  have "half_even (q / 2 powi ?s) \<le> 0"
    using assms half_even_mono_bound [of "q / 2 powi ?s" 0] by (simp add: divide_nonpos_pos)
  then have v: "?v \<le> 0" unfolding dbl_value_def Let_def by (intro mult_nonpos_nonneg) simp_all
  have "?v \<noteq> 0" if "2 ^ 1024 \<le> \<bar>?v\<bar>"
  proof
    assume "?v = 0"
    with that have "(2 :: rat) ^ 1024 \<le> 0" by (simp only: abs_zero)
    moreover have "(0 :: rat) < 2 ^ 1024" by (rule zero_less_power) simp
    ultimately show False by (rule leD [THEN notE])
  qed
  with v show ?thesis by (simp add: round_double_value [OF False] less_le)
qed (simp add: round_double_def)

text \<open>A metric with a negative baseline never raises an alert, however far it drifts.\<close>

lemma negative_baseline_never_alerts:
  assumes "dt_baseline d = Fin b" "b < 0" "dt_value d = Fin v"
    and "fless (Fin 0) (dt_warning d)" "fless (Fin 0) (dt_critical d)"
  shows "drift_status d = ''ok''"
proof -
  have "fle (deviation d) (Fin 0)"
  proof (cases "fabs (fsub (dt_value d) (dt_baseline d))")
    case (Fin a)
    then have "0 \<le> a" by (cases "round_double (v - b)") (auto simp: assms)
    then have "a / b \<le> 0" using assms(2) by (simp add: divide_nonneg_neg)
    then show ?thesis using assms Fin round_double_nonpos [of "a / b"] by (simp add: deviation_def)
  next
    case (PInf s)
    then have "\<not> s" by (cases "round_double (v - b)") (auto simp: assms)
    then show ?thesis using assms PInf by (simp add: deviation_def)
  next
    case NaN
    then show ?thesis by (cases "round_double (v - b)") (auto simp: assms)
  qed
  then have "\<not> fle t (deviation d)" if "fless (Fin 0) t" for t
    using that by (cases t; cases "deviation d") auto
  with assms(4,5) show ?thesis by (simp add: drift_status_def)
qed

text \<open>The reasoning model is chosen for complex intents, and for high risk only when the intent is not
  one of the simple ones.\<close>

lemma reasoning_tier_iff:
  "mr_tier (route_for_intent models intent risk) = REASONING \<longleftrightarrow>
     intent \<notin> {''account_query'', ''transaction_query'', ''beneficiary_query'', ''policy_question'', ''form_assistance'', ''product_question''}
     \<and> (risk \<in> {''high'', ''critical''} \<or> intent \<in> {''suspicious_activity_report'', ''complex_task'', ''multi_account_task''})"
  by (simp add: route_for_intent_def model_route_of_def)

text \<open>Every error code has a message of its own: the fallback is never used.\<close>

lemma every_code_has_message: "\<exists>m. map_of ERROR_MESSAGES code = Some m \<and> safe_error_message code = m"
  by (cases code) (simp_all add: ERROR_MESSAGES_def safe_error_message_def dict_get_or_def)

interpretation kv: dictionary kv_get "\<lambda>k v. kv_set k (v, ttl)" dict_ok for ttl
  by unfold_locales (simp_all add: kv_get_def [abs_def] kv_set_def dict_ok_set)

lemma kv_delete_get: "kv_get (snd (kv_delete key s)) k = (if k = key then None else kv_get s k)"
  by (auto simp: kv_delete_def kv_get_def dict_has_def map_of_filter_key)

text \<open>A collector without a run refuses steps; a key exists exactly when it has a value.\<close>

lemma fresh_collector_refuses: "record_step m new_collector = (Inl no_active_run, new_collector)"
  by (simp add: record_step_def new_collector_def)

lemma kv_exists_iff: "kv_exists k s \<longleftrightarrow> kv_get s k \<noteq> None"
  by (simp add: kv_exists_def kv_get_def dict_has_def)

end
