(* ===== verification/Http_Service.thy ===== *)
theory Http_Service
  imports Api
begin

text \<open>
  The service as its clients meet it: the routes of \<open>create_app\<close>, the schemas of the request
  bodies, and the three middlewares of the repository around them. Starlette runs the
  middleware added last first, so a request passes the rate limiter (\<open>api.py\<close>), the telemetry
  (\<open>telemetry.py\<close>) and the authentication (\<open>auth_middleware.py\<close>) before it reaches a route.

  A middleware is a function of the rest of the stack (\<open>call_next\<close>). An \<open>HTTPException\<close> of a
  handler is made a response inside the stack; any other exception, and an \<open>HTTPException\<close> of
  a middleware, leaves the stack (\<open>Left_Http\<close>, \<open>Left_Exn\<close>). \<open>http_app\<close> is what is fixed when
  the application is built, \<open>service_env\<close> what the outside world supplies while one request is
  handled. The framework's own answers (no such route, invalid body) are arguments.
  \<open>CORSMiddleware\<close>, which is not in the repository, is outside the model.
\<close>

section \<open>Requests and responses\<close>

record http_request =
  hq_method :: string
  hq_path :: string
  hq_headers :: headers
  hq_query :: "(string \<times> string) list"
  hq_body :: "json option"
  hq_correlation_id :: "string option"
  hq_trusted_context :: "trusted_request_context option"

record http_response =
  hp_status :: nat
  hp_body :: json
  hp_headers :: headers

datatype http_result = Answered http_response | Left_Http nat string | Left_Exn pyexn

record ('b, 'l) http_app =
  ap_runtime :: "('b, 'l) runtime"
  ap_deps :: app_deps
  ap_resolve :: actor_resolver
  ap_sha :: "json \<Rightarrow> string"
  ap_event_store :: bool
  ap_mcp_tools :: "nat option"
  ap_llm :: bool
  ap_version :: string
  ap_unrouted :: "string \<Rightarrow> string \<Rightarrow> api_out"
  ap_invalid :: "json option \<Rightarrow> json"
  ap_is_int :: "string \<Rightarrow> bool"
  ap_show_ms :: "pyfloat \<Rightarrow> string"

record service_env =
  se_now :: pyfloat
  se_random :: pyfloat
  se_uuid :: string
  se_started :: pyfloat
  se_finished :: pyfloat
  se_clock :: "nat \<Rightarrow> timestamp"
  se_new_id :: string
  se_plan_id :: string
  se_time :: string
  se_threads :: "string \<Rightarrow> (agent_state \<times> json list) option"

record ('b, 'l) service =
  sv_system :: "('b, 'l) system"
  sv_limiter :: rate_limiter

abbreviation world_of :: "('b, 'l) service \<Rightarrow> ('b, 'l) world" where
  "world_of s \<equiv> rs_world (sy_run (sv_system s))"

section \<open>Request bodies\<close>

text \<open>\<open>AgentRequest\<close>: a message of 1 to 10000 characters and an optional session.\<close>

definition agent_request :: "json option \<Rightarrow> (string \<times> string option) option" where
  "agent_request body = (case body of
     Some (JObj kvs) \<Rightarrow>
       (case (map_of kvs ''message'', dict_get_or kvs ''session_id'' JNull) of
          (Some (JStr m), JNull) \<Rightarrow> if 1 \<le> length m \<and> length m \<le> 10000 then Some (m, None) else None
        | (Some (JStr m), JStr i) \<Rightarrow> if 1 \<le> length m \<and> length m \<le> 10000 then Some (m, Some i) else None
        | _ \<Rightarrow> None)
   | _ \<Rightarrow> None)"

text \<open>\<open>ApprovalRequest\<close>: a session, a decision, and a note that is not used.\<close>

definition approval_request :: "json option \<Rightarrow> (string \<times> string) option" where
  "approval_request body = (case body of
     Some (JObj kvs) \<Rightarrow>
       (case (map_of kvs ''session_id'', map_of kvs ''decision'', dict_get_or kvs ''approver'' (JStr ''human-operator'')) of
          (Some (JStr i), Some (JStr d), JStr note) \<Rightarrow>
            if 1 \<le> length i \<and> d \<in> {''approve'', ''reject''} then Some (i, d) else None
        | _ \<Rightarrow> None)
   | _ \<Rightarrow> None)"

section \<open>Routes\<close>

datatype endpoint =
    Live | Ready | Health | Deep_Health | Agent | Approve_Call | Create_Thread | Get_Thread string
  | Delete_Thread string | Audit_Events

definition HTTP_ROUTES :: "((string \<times> string) \<times> endpoint) list" where
  "HTTP_ROUTES = [((''GET'', ''/live''), Live), ((''GET'', ''/ready''), Ready), ((''GET'', ''/health''), Health),
     ((''GET'', ''/health/deep''), Deep_Health), ((''POST'', ''/agent''), Agent), ((''POST'', ''/agent/approve''), Approve_Call),
     ((''GET'', ''/v1/health''), Health), ((''POST'', ''/v1/agent''), Agent), ((''POST'', ''/v1/agent/approve''), Approve_Call),
     ((''POST'', ''/v1/threads''), Create_Thread), ((''GET'', ''/v1/audit/events''), Audit_Events)]"

text \<open>\<open>/v1/threads/{thread_id}\<close>: one non-empty segment.\<close>

definition thread_param :: "string \<Rightarrow> string option" where
  "thread_param path =
     (let t = drop (length ''/v1/threads/'') path
      in if starts_with path ''/v1/threads/'' \<and> t \<noteq> [] \<and> CHR ''/'' \<notin> set t then Some t else None)"

definition find_route :: "string \<Rightarrow> string \<Rightarrow> endpoint option" where
  "find_route method path = (case map_of HTTP_ROUTES (method, path) of
     Some e \<Rightarrow> Some e
   | None \<Rightarrow>
       (case thread_param path of
          None \<Rightarrow> None
        | Some t \<Rightarrow> if method = ''GET'' then Some (Get_Thread t)
            else if method = ''DELETE'' then Some (Delete_Thread t) else None))"

definition liveness :: api_out where
  "liveness = Api_Ok (JObj [(''status'', JStr ''alive'')])"

definition health :: "string \<Rightarrow> api_out" where
  "health version = Api_Ok (JObj [(''status'', JStr ''ok''), (''version'', JStr version)])"

definition approval_response :: "http_out \<Rightarrow> api_out" where
  "approval_response h = (case h of
     Http_Ok r \<Rightarrow> Api_Ok (JObj [(''session_id'', JStr (ht_session_id r)), (''decision'', JStr (ht_decision r)),
       (''result'', case ht_result r of None \<Rightarrow> JNull
          | Some (a, n) \<Rightarrow> JObj [(''answer'', JStr a), (''step_count'', JInt n)])])
   | Http_Error n e \<Rightarrow> Api_Error n (JStr e)
   | Http_Raised e \<Rightarrow> Api_Raised e)"

definition invalid_body :: "('b, 'l) http_app \<Rightarrow> http_request \<Rightarrow> api_out" where
  "invalid_body A q = Api_Json 422 (ap_invalid A (hq_body q))"

definition agent_route ::
    "('b, 'l) http_app \<Rightarrow> service_env \<Rightarrow> http_request \<Rightarrow> ('b, 'l) system \<Rightarrow> api_out \<times> ('b, 'l) system" where
  "agent_route A v q sy = (case agent_request (hq_body q) of
     None \<Rightarrow> (invalid_body A q, sy)
   | Some (message, session_id) \<Rightarrow>
       agent_endpoint (ap_runtime A) (ap_deps A) (ap_sha A) (se_clock v) (se_new_id v) (se_plan_id v) (se_threads v)
         (get_trusted_context (hq_trusted_context q)) session_id message sy)"

definition approve_route ::
    "('b, 'l) http_app \<Rightarrow> service_env \<Rightarrow> http_request \<Rightarrow> ('b, 'l) system \<Rightarrow> api_out \<times> ('b, 'l) system" where
  "approve_route A v q sy = (case approval_request (hq_body q) of
     None \<Rightarrow> (invalid_body A q, sy)
   | Some (session_id, decision) \<Rightarrow>
       if \<not> ad_executor (ap_deps A) then (Api_Error 501 (JStr ''HITL approval executor not configured''), sy)
       else (let (h, sy1) = approve_endpoint (ap_runtime A) (ap_resolve A) (ap_sha A) (se_clock v) (se_new_id v)
                   decision session_id sy
             in (approval_response h, sy1)))"

definition audit_route :: "('b, 'l) http_app \<Rightarrow> http_request \<Rightarrow> api_out" where
  "audit_route A q =
     (if \<not> ap_is_int A (dict_get_or (hq_query q) ''limit'' ''50'') then invalid_body A q
      else list_audit_events (ap_event_store A) (dict_get_or (hq_query q) ''run_id'' []))"

fun run_endpoint ::
    "('b, 'l) http_app \<Rightarrow> service_env \<Rightarrow> http_request \<Rightarrow> endpoint \<Rightarrow> ('b, 'l) system \<Rightarrow> api_out \<times> ('b, 'l) system" where
  "run_endpoint A v q Live sy = (liveness, sy)"
| "run_endpoint A v q Ready sy = (readiness (ap_mcp_tools A) (ap_llm A), sy)"
| "run_endpoint A v q Health sy = (health (ap_version A), sy)"
| "run_endpoint A v q Deep_Health sy = (deep_health (ap_version A) (ap_mcp_tools A) (ap_llm A), sy)"
| "run_endpoint A v q Agent sy = agent_route A v q sy"
| "run_endpoint A v q Approve_Call sy = approve_route A v q sy"
| "run_endpoint A v q Create_Thread sy = (create_thread_endpoint (se_time v) (se_uuid v), sy)"
| "run_endpoint A v q (Get_Thread t) sy = (get_thread_endpoint t, sy)"
| "run_endpoint A v q (Delete_Thread t) sy = (delete_thread_endpoint t, sy)"
| "run_endpoint A v q Audit_Events sy = (audit_route A q, sy)"

text \<open>What the framework makes of a handler's outcome.\<close>

definition render_response :: "api_out \<Rightarrow> http_result" where
  "render_response out = (case out of
     Api_Ok j \<Rightarrow> Answered \<lparr>hp_status = 200, hp_body = j, hp_headers = []\<rparr>
   | Api_Json n j \<Rightarrow> Answered \<lparr>hp_status = n, hp_body = j, hp_headers = []\<rparr>
   | Api_Error n j \<Rightarrow> Answered \<lparr>hp_status = n, hp_body = JObj [(''detail'', j)], hp_headers = []\<rparr>
   | Api_Raised e \<Rightarrow> Left_Exn e)"

definition dispatch_route ::
    "('b, 'l) http_app \<Rightarrow> service_env \<Rightarrow> http_request \<Rightarrow> ('b, 'l) service \<Rightarrow> http_result \<times> ('b, 'l) service" where
  "dispatch_route A v q s = (case find_route (hq_method q) (hq_path q) of
     None \<Rightarrow> (render_response (ap_unrouted A (hq_method q) (hq_path q)), s)
   | Some e \<Rightarrow> (let (out, sy) = run_endpoint A v q e (sv_system s) in (render_response out, s\<lparr>sv_system := sy\<rparr>)))"

section \<open>Middleware\<close>

type_synonym ('b, 'l) handler = "http_request \<Rightarrow> ('b, 'l) service \<Rightarrow> http_result \<times> ('b, 'l) service"

definition rate_limit_dispatch :: "service_env \<Rightarrow> ('b, 'l) handler \<Rightarrow> ('b, 'l) handler" where
  "rate_limit_dispatch v call_next q s =
     (let (ok, rl) = rate_limit (rate_key (hq_headers q) (hq_path q)) (se_now v) (sv_limiter s);
          s1 = s\<lparr>sv_limiter := rl\<rparr>
      in if \<not> ok then (Left_Http 429 ''Rate limit exceeded'', s1) else call_next q s1)"

text \<open>The response headers are set after the rest of the stack has answered; an exception
  passes by.\<close>

definition set_headers :: "headers \<Rightarrow> http_result \<Rightarrow> http_result" where
  "set_headers hs r = (case r of
     Answered p \<Rightarrow> Answered (p\<lparr>hp_headers := fold (\<lambda>(k, x). dict_set k x) hs (hp_headers p)\<rparr>) | _ \<Rightarrow> r)"

definition telemetry_dispatch :: "pyfloat \<Rightarrow> (pyfloat \<Rightarrow> string) \<Rightarrow> service_env \<Rightarrow> ('b, 'l) handler \<Rightarrow> ('b, 'l) handler" where
  "telemetry_dispatch sample_rate show_ms v call_next q s =
     (if fless sample_rate (se_random v) then call_next q s
      else (let correlation_id = dict_get_or (hq_headers q) ''x-correlation-id'' (se_uuid v);
                (r, s1) = call_next (q\<lparr>hq_correlation_id := Some correlation_id\<rparr>) s;
                duration_ms = fmul (fsub (se_finished v) (se_started v)) (Fin 1000)
            in (set_headers [(''x-correlation-id'', correlation_id), (''x-response-time-ms'', show_ms duration_ms)] r, s1)))"

definition auth_dispatch :: "bool \<Rightarrow> ('b, 'l) handler \<Rightarrow> ('b, 'l) handler" where
  "auth_dispatch production call_next q s =
     call_next (q\<lparr>hq_trusted_context :=
       Some (middleware_context production (opt_str (hq_correlation_id q)) (hq_headers q))\<rparr>) s"

text \<open>The stack \<open>create_app\<close> mounts; a request comes without state.\<close>

definition receive :: "http_request \<Rightarrow> http_request" where
  "receive q = q\<lparr>hq_correlation_id := None, hq_trusted_context := None\<rparr>"

definition serve_http ::
    "('b, 'l) http_app \<Rightarrow> service_env \<Rightarrow> http_request \<Rightarrow> ('b, 'l) service \<Rightarrow> http_result \<times> ('b, 'l) service" where
  "serve_http A v q s =
     rate_limit_dispatch v
       (telemetry_dispatch (Fin 1) (ap_show_ms A) v (auth_dispatch False (dispatch_route A v))) (receive q) s"

definition new_service :: "('b, 'l) system \<Rightarrow> ('b, 'l) service" where
  "new_service sy = \<lparr>sv_system = sy, sv_limiter = new_rate_limiter 60 60\<rparr>"

fun serve_all ::
    "('b, 'l) http_app \<Rightarrow> (service_env \<times> http_request) list \<Rightarrow> ('b, 'l) service \<Rightarrow> http_result list \<times> ('b, 'l) service" where
  "serve_all A [] s = ([], s)"
| "serve_all A ((v, q) # vqs) s =
     (let (r, s1) = serve_http A v q s; (rs, s2) = serve_all A vqs s1 in (r # rs, s2))"

section \<open>The contract of a middleware\<close>

text \<open>
  A middleware calls the rest of the stack or answers itself, and besides that changes the state
  only in its \<open>own\<close> part. So what the rest of the stack keeps, and what does not depend on that
  part, the whole stack keeps.
\<close>

locale middleware =
  fixes dispatch :: "('q \<Rightarrow> 's \<Rightarrow> 'r \<times> 's) \<Rightarrow> 'q \<Rightarrow> 's \<Rightarrow> 'r \<times> 's" and own :: "'s \<Rightarrow> 's \<Rightarrow> bool"
  assumes keeps: "(\<And>q s. I s \<Longrightarrow> I (snd (call_next q s))) \<Longrightarrow> (\<And>s s'. own s s' \<Longrightarrow> I s \<Longrightarrow> I s') \<Longrightarrow>
    I s \<Longrightarrow> I (snd (dispatch call_next q s))"
begin

lemma keeps_runs:
  assumes "\<And>q s. I s \<Longrightarrow> I (snd (call_next q s))" "\<And>s s'. own s s' \<Longrightarrow> I s \<Longrightarrow> I s'" "I s"
  shows "I (fold (\<lambda>q s. snd (dispatch call_next q s)) qs s)"
  using assms(3) by (induction qs arbitrary: s) (auto intro: keeps assms(1,2))

end

definition same_system :: "('b, 'l) service \<Rightarrow> ('b, 'l) service \<Rightarrow> bool" where
  "same_system s s' = (sv_system s' = sv_system s)"

interpretation limiter: middleware "rate_limit_dispatch v" same_system for v
  by unfold_locales (simp add: rate_limit_dispatch_def same_system_def case_prod_beta Let_def)

interpretation telemetry: middleware "telemetry_dispatch rate show_ms v" "(=)" for rate show_ms v
  by unfold_locales (simp add: telemetry_dispatch_def case_prod_beta Let_def)

interpretation authentication: middleware "auth_dispatch production" "(=)" for production
  by unfold_locales (simp add: auth_dispatch_def)

lemma serve_http_keeps:
  assumes "\<And>q s. I s \<Longrightarrow> I (snd (dispatch_route A v q s))" and "\<And>s s'. same_system s s' \<Longrightarrow> I s \<Longrightarrow> I s'"
    and "I s"
  shows "I (snd (serve_http A v q s))"
  unfolding serve_http_def
  by (rule limiter.keeps [where I = I, OF telemetry.keeps [where I = I, OF authentication.keeps [where I = I]]])
    (use assms in blast)+

lemma serve_all_keeps:
  assumes "\<And>v q s. I s \<Longrightarrow> I (snd (dispatch_route A v q s))" and "\<And>s s'. same_system s s' \<Longrightarrow> I s \<Longrightarrow> I s'"
    and "I s"
  shows "I (snd (serve_all A vqs s))"
  using assms(3)
proof (induction vqs arbitrary: s)
  case (Cons vq vqs)
  obtain v q where vq: "vq = (v, q)" by fastforce
  have "I (snd (serve_http A v q s))" using assms(1,2) Cons.prems by (rule serve_http_keeps)
  with Cons.IH show ?case by (simp add: vq case_prod_beta Let_def)
qed simp

section \<open>The deployed service\<close>

text \<open>Under the read-only policy no run is suspended, so nothing is ever stored for approval.\<close>

lemma run_graph_no_interrupt:
  "read_only_world (rs_world s) \<Longrightarrow> fst (run_graph R i st s) = Inr rep \<Longrightarrow> rr_interrupt rep = None"
  using graph_loop_no_interrupt [of "rs_world s" "rt_deps R" "rt_limit R" AgentNode "[]" st]
  by (auto simp: run_graph_def graph_invoke_def reply_of_state_def Let_def case_prod_beta split: graph_out.splits)

lemma routes_no_interrupt:
  "fst (execute_planner R rt i pid msg s) = Inr rep \<Longrightarrow> rr_interrupt rep = None"
  "fst (execute_rag R i msg s) = Inr rep \<Longrightarrow> rr_interrupt rep = None"
  "fst (execute_transfer_workflow R i msg s) = Inr rep \<Longrightarrow> rr_interrupt rep = None"
  "execute_direct R rt i msg trusted s = (Inr (Some rep), s1) \<Longrightarrow> rr_interrupt rep = None"
  subgoal by (auto simp: execute_planner_def reply_def Let_def case_prod_beta split: if_splits sum.splits plan_outcome.splits)
  subgoal by (auto simp: execute_rag_def rag_fallback_def reply_def split: option.splits sum.splits prod.splits if_splits)
  subgoal by (auto simp: execute_transfer_workflow_def reply_def Let_def case_prod_beta split: sum.splits graph_out.splits prod.splits)
  subgoal by (auto simp: execute_direct_def reply_def auth_required_def error_recovery_def Let_def case_prod_beta
      split: option.splits list.splits if_splits sum.splits prod.splits)
  done

lemma direct_keeps_policy:
  "read_only_world (rs_world s) \<Longrightarrow> read_only_world (rs_world (snd (execute_direct R rt i msg trusted s)))"
proof -
  obtain r s1 where r: "execute_direct R rt i msg trusted s = (r, s1)" by fastforce
  then have "w_gateway (rs_world s1) = w_gateway (rs_world s)" by (cases rule: execute_direct_world) simp_all
  with r show "read_only_world (rs_world s) \<Longrightarrow> ?thesis" by simp
qed

lemma run_no_interrupt:
  assumes "read_only_world (rs_world s)" "fst (run R msg i pid resume_st trusted s) = Inr rep"
  shows "rr_interrupt rep = None"
proof -
  have routed: "rr_interrupt rep = None"
    if "read_only_world (rs_world s')" "fst (run_routed R rt i pid msg resumed trusted st s') = Inr rep" for rt resumed st s'
    using that direct_keeps_policy [OF that(1), of R rt i msg trusted]
    by (auto simp: run_routed_def reject_reply_def reply_def
        dest: run_graph_no_interrupt [rotated] arg_cong [where f = fst] intro: routes_no_interrupt
        split: route_kind.splits if_splits prod.splits sum.splits option.splits)
  show ?thesis
    using assms by (auto simp: run_def Let_def dest!: routed [rotated] run_graph_no_interrupt [rotated] split: option.splits)
qed

text \<open>An approval cannot get anywhere: there is no session, or no actor is resolved.\<close>

definition approvals_closed :: "actor_resolver \<Rightarrow> ('b, 'l) system \<Rightarrow> bool" where
  "approvals_closed resolve sy = (resolve None = None \<or> sy_hitl sy = [])"

lemma closed_approve:
  assumes "resolve None = None \<or> ax_hitl s = []"
  shows "ax_backend (snd (approve resolve sha call clk sid None s)) = ax_backend s"
    and "ax_dispatched (snd (approve resolve sha call clk sid None s)) = ax_dispatched s"
    and "ax_hitl s = [] \<Longrightarrow> ax_hitl (snd (approve resolve sha call clk sid None s)) = []"
  using assms
  by (auto simp: approve_def approve_checks_def hitl_get_def find_row_def ax_update_def ax_persist_def Let_def case_prod_beta
      split: option.splits)

lemma closed_reject:
  assumes "resolve None = None \<or> ax_hitl s = []"
  shows "snd (reject_session resolve clk sid None s) = s"
  using assms by (auto simp: reject_session_def hitl_get_def find_row_def split: option.splits)

lemma approve_endpoint_reads:
  assumes D: "rt_deps R = deployed L loads clk' envs invoke m" and c: "approvals_closed resolve sy"
    and u: "untouched b cs (rs_world (sy_run sy))"
  shows "untouched b cs (rs_world (sy_run (snd (approve_endpoint R resolve sha clk i d sid sy))))"
    and "approvals_closed resolve (snd (approve_endpoint R resolve sha clk i d sid sy))"
proof -
  let ?s = "approval_view sy"
  have c': "resolve None = None \<or> ax_hitl ?s = []" using c by (simp add: approvals_closed_def approval_view_def)
  have put: "untouched b cs (rs_world (sy_run (approval_put ax sy))) \<and> approvals_closed resolve (approval_put ax sy)"
    if "ax_backend ax = ax_backend ?s" "ax_dispatched ax = ax_dispatched ?s" "ax_hitl ?s = [] \<Longrightarrow> ax_hitl ax = []" for ax
    using that u c by (auto simp: approvals_closed_def approval_put_def approval_view_def untouched_def)
  have res: "untouched b cs (rs_world (sy_run (snd (resume R t v i sy')))) \<and> approvals_closed resolve (snd (resume R t v i sy'))"
    if "untouched b cs (rs_world (sy_run sy')) \<and> approvals_closed resolve sy'" for t v sy'
  proof (cases "sy_threads sy' t")
    case (Some a)
    obtain st answers where a: "a = (st, answers)" by fastforce
    have "untouched b cs (rs_world (sy_run (snd (resume R t v i sy'))))"
      using that by (simp add: resume_world [OF Some [unfolded a]] D graph_resume_def graph_untouched)
    moreover have "sy_hitl (snd (resume R t v i sy')) = sy_hitl sy'"
      by (simp add: resume_def set_thread_def Some a case_prod_beta Let_def split: graph_out.splits)
    ultimately show ?thesis using that by (simp add: approvals_closed_def)
  qed (use that in \<open>simp add: resume_def\<close>)
  let ?P = "\<lambda>sy'. untouched b cs (rs_world (sy_run sy')) \<and> approvals_closed resolve sy'"
  have "?P (approval_put (snd (reject_session resolve clk sid None ?s)) sy)"
    using put closed_reject [where resolve = resolve, OF c'] by metis
  moreover have "?P (approval_put (snd (approve resolve sha (dp_call (rt_deps R)) clk sid None ?s)) sy)"
    using put closed_approve [where resolve = resolve, OF c'] by metis
  ultimately have "?P (snd (approve_endpoint R resolve sha clk i d sid sy))"
    using res by (auto simp: approve_endpoint_def case_prod_beta Let_def split: option.splits)
  then show "untouched b cs (rs_world (sy_run (snd (approve_endpoint R resolve sha clk i d sid sy))))"
    "approvals_closed resolve (snd (approve_endpoint R resolve sha clk i d sid sy))" by simp_all
qed

lemma agent_endpoint_reads:
  assumes D: "rt_deps R = deployed L loads clk' envs invoke m" and u: "untouched b cs (rs_world (sy_run sy))"
  shows "untouched b cs (rs_world (sy_run (snd (agent_endpoint R a sha clk i pid th c sid msg sy))))"
    and "sy_hitl (snd (agent_endpoint R a sha clk i pid th c sid msg sy)) = sy_hitl sy"
proof -
  let ?w = "rs_world (sy_run sy)"
  obtain d gw where g: "gateway_authorize (dp_lib (rt_deps R)) (clk 0) (clk 1) (agent_operation sid msg c) (w_gateway ?w) = (d, gw)"
    by fastforce
  have gw: "gw_policy gw = ReadOnlyPolicy" using g u by (auto simp: gateway_authorize_def untouched_def case_prod_beta Let_def)
  let ?s1 = "(sy_run sy)\<lparr>rs_world := ?w\<lparr>w_gateway := gw\<rparr>\<rparr>"
  have u1: "untouched b cs (rs_world ?s1)" using u gw by (simp add: untouched_def)
  obtain r s2 where r: "run R msg (str_or (opt_str sid) i) pid None (Some c) ?s1 = (r, s2)" by fastforce
  have u2: "untouched b cs (rs_world s2)"
    using run_untouched [OF D u1, of msg "str_or (opt_str sid) i" pid None "Some c"] r by simp
  have ni: "rr_interrupt rep = None" if "r = Inr rep" for rep
    using run_no_interrupt [of ?s1 R msg "str_or (opt_str sid) i" pid None "Some c" rep] u1 r that
    by (simp add: untouched_def)
  have "untouched b cs (rs_world (sy_run (snd (agent_endpoint R a sha clk i pid th c sid msg sy)))) \<and>
      sy_hitl (snd (agent_endpoint R a sha clk i pid th c sid msg sy)) = sy_hitl sy"
  proof (cases r)
    case (Inl e)
    with u u1 u2 show ?thesis by (simp add: agent_endpoint_def g r Let_def del: One_nat_def)
  next
    case (Inr rep)
    with u u1 u2 ni [OF Inr] show ?thesis by (simp add: agent_endpoint_def g r Let_def del: One_nat_def)
  qed
  then show "untouched b cs (rs_world (sy_run (snd (agent_endpoint R a sha clk i pid th c sid msg sy))))"
    "sy_hitl (snd (agent_endpoint R a sha clk i pid th c sid msg sy)) = sy_hitl sy" by simp_all
qed

definition only_reading :: "('b, 'l) http_app \<Rightarrow> bank \<Rightarrow> tool_call list \<Rightarrow> (bank_backend, 'l) service \<Rightarrow> bool" where
  "only_reading A b cs s = (untouched b cs (world_of s) \<and> approvals_closed (ap_resolve A) (sv_system s))"

lemma dispatch_route_reads:
  assumes D: "rt_deps (ap_runtime A) = deployed L loads clk envs invoke m" and r: "only_reading A b cs s"
  shows "only_reading A b cs (snd (dispatch_route A v q s))"
proof -
  let ?P = "\<lambda>sy. untouched b cs (rs_world (sy_run sy)) \<and> approvals_closed (ap_resolve A) sy"
  have P: "?P (sv_system s)" using r by (simp add: only_reading_def)
  have "?P (snd (run_endpoint A v q e (sv_system s)))" for e
  proof (cases e)
    case Agent
    with P agent_endpoint_reads [OF D] show ?thesis
      by (auto simp: agent_route_def approvals_closed_def split: option.split)
  next
    case Approve_Call
    with P approve_endpoint_reads [OF D, of "ap_resolve A"] show ?thesis
      by (auto simp: approve_route_def case_prod_beta Let_def split: option.split)
  qed (use P in simp_all)
  with r show ?thesis
    by (auto simp: dispatch_route_def only_reading_def case_prod_beta Let_def split: option.split)
qed

lemma serve_all_reads:
  assumes "rt_deps (ap_runtime A) = deployed L loads clk envs invoke m" "only_reading A b cs s"
  shows "only_reading A b cs (snd (serve_all A vqs s))"
  using dispatch_route_reads [OF assms(1)] _ assms(2)
  by (rule serve_all_keeps) (simp_all add: only_reading_def same_system_def)

section \<open>The rate limit of the service\<close>

lemma dispatch_route_answers:
  "fst (dispatch_route A v q s) \<noteq> Left_Http n m" "sv_limiter (snd (dispatch_route A v q s)) = sv_limiter s"
  by (auto simp: dispatch_route_def render_response_def case_prod_beta Let_def split: option.splits api_out.splits)

lemma serve_http_limited:
  assumes "rate_limit (rate_key (hq_headers q) (hq_path q)) (se_now v) (sv_limiter s) = (ok, rl)"
  shows "sv_limiter (snd (serve_http A v q s)) = rl"
    and "fst (serve_http A v q s) = Left_Http 429 ''Rate limit exceeded'' \<longleftrightarrow> \<not> ok"
  using assms dispatch_route_answers [of A v]
  by (auto simp: serve_http_def rate_limit_dispatch_def telemetry_dispatch_def auth_dispatch_def set_headers_def receive_def
      case_prod_beta Let_def split: http_result.splits)

text \<open>A request as the limiter sees it, and the times of those of one key that it let through.\<close>

definition rate_event :: "service_env \<times> http_request \<Rightarrow> rat \<Rightarrow> string \<times> rat" where
  "rate_event vq t = (rate_key (hq_headers (snd vq)) (hq_path (snd vq)), t)"

fun let_through :: "string \<Rightarrow> (service_env \<times> http_request) list \<Rightarrow> rat list \<Rightarrow> http_result list \<Rightarrow> rat list" where
  "let_through key (vq # vqs) (t # ts) (r # rs) =
     (if rate_key (hq_headers (snd vq)) (hq_path (snd vq)) = key \<and> r \<noteq> Left_Http 429 ''Rate limit exceeded''
      then t # let_through key vqs ts rs else let_through key vqs ts rs)"
| "let_through key vqs ts rs = []"

lemma let_through_admitted:
  "map (\<lambda>vq. se_now (fst vq)) vqs = map Fin ts \<Longrightarrow>
     let_through key vqs ts (fst (serve_all A vqs s)) = admitted key (fst (rate_run (map2 rate_event vqs ts) (sv_limiter s)))"
proof (induction vqs arbitrary: ts s)
  case (Cons vq vqs)
  obtain v q where vq: "vq = (v, q)" by fastforce
  obtain t ts' where ts: "ts = t # ts'" "se_now v = Fin t" "map (\<lambda>vq. se_now (fst vq)) vqs = map Fin ts'"
    using Cons.prems vq by (cases ts) auto
  let ?key = "rate_key (hq_headers q) (hq_path q)"
  obtain ok rl where l: "rate_limit ?key (Fin t) (sv_limiter s) = (ok, rl)" by fastforce
  obtain r s1 where r: "serve_http A v q s = (r, s1)" by fastforce
  have "sv_limiter s1 = rl" "(r = Left_Http 429 ''Rate limit exceeded'') = (\<not> ok)"
    using serve_http_limited [of q v s ok rl A] l ts(2) r by simp_all
  with Cons.IH [OF ts(3), of s1] show ?case
    by (auto simp: vq ts(1) r l rate_event_def case_prod_beta Let_def)
qed simp

section \<open>Identity\<close>

lemma telemetry_context:
  "serve_http A v q s =
     (let (ok, rl) = rate_limit (rate_key (hq_headers q) (hq_path q)) (se_now v) (sv_limiter s); s1 = s\<lparr>sv_limiter := rl\<rparr>;
          sampled = (\<not> fless (Fin 1) (se_random v)); cid = dict_get_or (hq_headers q) ''x-correlation-id'' (se_uuid v);
          (r, s2) = dispatch_route A v (q\<lparr>hq_correlation_id := if sampled then Some cid else None,
            hq_trusted_context := Some (resolve_development (if sampled then cid else []) (hq_headers q))\<rparr>) s1
      in if \<not> ok then (Left_Http 429 ''Rate limit exceeded'', s1)
         else (if sampled then set_headers [(''x-correlation-id'', cid),
                 (''x-response-time-ms'', ap_show_ms A (fmul (fsub (se_finished v) (se_started v)) (Fin 1000)))] r else r, s2))"
  by (simp add: serve_http_def rate_limit_dispatch_def telemetry_dispatch_def auth_dispatch_def receive_def
      middleware_context_def opt_str_def case_prod_beta Let_def)

text \<open>The agent endpoint either stops at once, having at most asked the gateway, or it is a run.\<close>

lemma agent_endpoint_cases:
  assumes "agent_endpoint R a sha clk i pid th c sid msg sy = (out, sy')"
  obtains (stopped) gw where "rs_world (sy_run sy') = (rs_world (sy_run sy))\<lparr>w_gateway := gw\<rparr>"
  | (ran) gw s1 r s2 where "tx_subject_id c \<notin> {''anonymous'', []}"
      "rs_world s1 = (rs_world (sy_run sy))\<lparr>w_gateway := gw\<rparr>"
      "run R msg (str_or (opt_str sid) i) pid None (Some c) s1 = (r, s2)" "sy_run sy' = s2"
proof -
  let ?w = "rs_world (sy_run sy)"
  obtain d gw where g: "gateway_authorize (dp_lib (rt_deps R)) (clk 0) (clk 1) (agent_operation sid msg c) (w_gateway ?w) = (d, gw)"
    by fastforce
  let ?s1 = "(sy_run sy)\<lparr>rs_world := ?w\<lparr>w_gateway := gw\<rparr>\<rparr>"
  obtain r s2 where r: "run R msg (str_or (opt_str sid) i) pid None (Some c) ?s1 = (r, s2)" by fastforce
  have "sy_run sy' = s2 \<or> sy_run sy' = sy_run sy \<or> sy_run sy' = ?s1"
    using assms g r
    by (auto simp: agent_endpoint_def Let_def case_prod_beta split: if_splits sum.splits option.splits list.splits
        simp del: One_nat_def)
  moreover have "sy_run sy' = sy_run sy" if "tx_subject_id c \<in> {''anonymous'', []}"
    using assms that by (auto simp: agent_endpoint_def)
  ultimately consider "sy_run sy' = sy_run sy" | "sy_run sy' = ?s1"
    | "tx_subject_id c \<notin> {''anonymous'', []}" "sy_run sy' = s2" by blast
  then show ?thesis
  proof cases
    case 1
    with stopped [of "w_gateway ?w"] show ?thesis by simp
  next
    case 2
    with stopped [of gw] show ?thesis by simp
  next
    case 3
    with ran [of ?s1 gw] r show ?thesis by simp
  qed
qed

text \<open>A rejected message is answered without the model and without a tool.\<close>

lemma rejected_run:
  assumes "rt_router R = Some llm" "rt_kind (router_route llm msg) = R_REJECT"
  shows "rs_world (snd (run R msg i pid None trusted s)) = rs_world s"
  using assms by (simp add: run_def run_routed_def Let_def)

lemma agent_request_served:
  assumes "find_route (hq_method q) (hq_path q) = Some Agent"
  obtains (refused) "agent_request (hq_body q) = None \<or> fst (serve_http A v q s) = Left_Http 429 ''Rate limit exceeded''"
      "sv_system (snd (serve_http A v q s)) = sv_system s"
  | (handled) msg sid cid out where "agent_request (hq_body q) = Some (msg, sid)"
      "agent_endpoint (ap_runtime A) (ap_deps A) (ap_sha A) (se_clock v) (se_new_id v) (se_plan_id v) (se_threads v)
         (resolve_development cid (hq_headers q)) sid msg (sv_system s) = (out, sv_system (snd (serve_http A v q s)))"
proof -
  obtain ok rl where l: "rate_limit (rate_key (hq_headers q) (hq_path q)) (se_now v) (sv_limiter s) = (ok, rl)" by fastforce
  let ?cid = "if \<not> fless (Fin 1) (se_random v) then dict_get_or (hq_headers q) ''x-correlation-id'' (se_uuid v) else []"
  let ?e = "\<lambda>sid msg. agent_endpoint (ap_runtime A) (ap_deps A) (ap_sha A) (se_clock v) (se_new_id v) (se_plan_id v)
    (se_threads v) (resolve_development ?cid (hq_headers q)) sid msg (sv_system s)"
  have sys: "sv_system (snd (serve_http A v q s)) = (if ok then (case agent_request (hq_body q) of
      None \<Rightarrow> sv_system s | Some (msg, sid) \<Rightarrow> snd (?e sid msg)) else sv_system s)"
    using assms by (auto simp: telemetry_context l Let_def case_prod_beta dispatch_route_def agent_route_def
        get_trusted_context_def split: option.split)
  show ?thesis
  proof (cases "ok \<and> agent_request (hq_body q) \<noteq> None")
    case True
    then obtain msg sid where "agent_request (hq_body q) = Some (msg, sid)" by fastforce
    with sys True show ?thesis by (intro handled [of msg sid ?cid "fst (?e sid msg)"]) simp_all
  next
    case False
    then have "agent_request (hq_body q) = None \<or> \<not> ok" by blast
    with sys serve_http_limited(2) [OF l, of A] show ?thesis by (intro refused) auto
  qed
qed

text \<open>
  The request's own headers decide who it is, and nothing else does; a request without any is
  the user \<open>default\<close>, which counts as authenticated. The context carries no correlation id: the
  one of the response header is only its request id, and the error details of the agent
  endpoint, which read the other field, report none.
\<close>

lemma development_identity:
  "tx_subject_id (resolve_development cid hs) = dict_get_or hs ''x-user-id'' ''default''"
  "tx_tenant_id (resolve_development cid hs) = dict_get_or hs ''x-tenant-id'' ''default''"
  "tx_request_id (resolve_development cid hs) = cid" "tx_correlation_id (resolve_development cid hs) = []"
  by (simp_all add: resolve_development_def mk_context_def)

lemma headerless_request_is_default_user:
  "tx_subject_id (resolve_development cid []) = ''default''" "tx_subject_id (resolve_development cid []) \<notin> {''anonymous'', []}"
  by (simp_all add: development_identity dict_get_or_def)

lemma error_detail_has_no_correlation:
  "error_detail code m (resolve_development cid hs) =
     JObj [(''error_code'', JStr code), (''message'', JStr m), (''correlation_id'', JStr [])]"
  by (simp add: error_detail_def development_identity)

lemma answered_is_correlated:
  assumes "serve_http A v q s = (Answered p, s')" "\<not> fless (Fin 1) (se_random v)"
  shows "map_of (hp_headers p) ''x-correlation-id'' = Some (dict_get_or (hq_headers q) ''x-correlation-id'' (se_uuid v))"
  using assms
  by (auto simp: telemetry_context Let_def case_prod_beta set_headers_def map_of_dict_set split: if_splits http_result.splits)

text \<open>An approval is not tied to anyone: who sends it makes no difference to what it does.\<close>

lemma approval_ignores_identity:
  "run_endpoint A v (q\<lparr>hq_trusted_context := c\<rparr>) Approve_Call sy = run_endpoint A v q Approve_Call sy"
  by (simp add: approve_route_def invalid_body_def split: option.split)

text \<open>The limiter counts by a header the client chooses: under a name not used before, a request
  always passes.\<close>

lemma fresh_tenant_passes:
  assumes "\<not> dict_has (rl_counters (sv_limiter s)) (rate_key (hq_headers q) (hq_path q))" "0 < rl_max (sv_limiter s)"
  shows "fst (serve_http A v q s) \<noteq> Left_Http 429 ''Rate limit exceeded''"
proof -
  obtain ok rl where l: "rate_limit (rate_key (hq_headers q) (hq_path q)) (se_now v) (sv_limiter s) = (ok, rl)" by fastforce
  have "dict_get_or (rl_counters (sv_limiter s)) (rate_key (hq_headers q) (hq_path q)) [] = []"
    using assms(1) by (simp add: dict_has_def dict_get_or_def)
  with rate_limit_key(1) [OF l] assms(2) have ok by simp
  with serve_http_limited(2) [OF l] show ?thesis by simp
qed

section \<open>Properties\<close>


definition demo_application :: "('b, 'l) runtime \<Rightarrow> ('b, 'l) http_app" where
  "demo_application R = \<lparr>ap_runtime = R, ap_deps = \<lparr>ad_gateway = True, ad_hitl_store = True, ad_grant_repo = True,
     ad_executor = True, ad_db_path = ''agent.db''\<rparr>, ap_resolve = (\<lambda>c. None), ap_sha = (\<lambda>j. ''d''), ap_event_store = True,
     ap_mcp_tools = Some 9, ap_llm = True, ap_version = ''1'', ap_unrouted = (\<lambda>m p. Api_Error 404 (JStr ''Not Found'')),
     ap_invalid = (\<lambda>b. JNull), ap_is_int = (\<lambda>t. True), ap_show_ms = (\<lambda>x. ''0.0'')\<rparr>"

definition demo_service_env :: "rat \<Rightarrow> service_env" where
  "demo_service_env t = \<lparr>se_now = Fin t, se_random = Fin 0, se_uuid = ''u1'', se_started = Fin t, se_finished = Fin t,
     se_clock = int, se_new_id = ''r1'', se_plan_id = ''p1'', se_time = ''now'', se_threads = (\<lambda>t. None)\<rparr>"

definition demo_post :: "string \<Rightarrow> json \<Rightarrow> http_request" where
  "demo_post path body = \<lparr>hq_method = ''POST'', hq_path = path, hq_headers = [(''x-user-id'', ''user-alice'')], hq_query = [],
     hq_body = Some body, hq_correlation_id = None, hq_trusted_context = None\<rparr>"

definition demo_service :: "('b, 'l) world \<Rightarrow> ('b, 'l) service" where
  "demo_service w = new_service \<lparr>sy_run = demo_run_state w, sy_hitl = [], sy_grants = [], sy_threads = (\<lambda>t. None)\<rparr>"




text \<open>
  C32. The service keeps its rate limit: whatever requests arrive, as long as the clock does
  not run backwards, no request that gets past the limiter has more than 60 such requests of
  its tenant header and path in the 60 seconds before it, itself included, although only
  pruned time stamps are kept and their differences are rounded to doubles.
\<close>

theorem service_rate_limited:
  assumes "map (\<lambda>vq. se_now (fst vq)) vqs = map Fin ts" "sorted ts"
  shows "within_rate 60 60 [] (let_through key vqs ts (fst (serve_all A vqs (new_service sy))))"
proof -
  have "map snd (map2 rate_event vqs ts) = ts"
    using assms(1) by (auto simp: rate_event_def comp_def case_prod_beta' intro: nth_equalityI dest: map_eq_imp_length_eq)
  then show ?thesis
    using assms rate_limit_holds [of "map2 rate_event vqs ts" 60 60 key] by (simp add: let_through_admitted new_service_def)
qed

theorem service_rate_limited_witness:
  "within_rate 60 60 [] (let_through ''default:/live'' [(demo_service_env 1, demo_post ''/live'' JNull), (demo_service_env 2, demo_post ''/live'' JNull)]
    [1, 2] (fst (serve_all (demo_application (demo_runtime demo_deps)) [(demo_service_env 1, demo_post ''/live'' JNull),
      (demo_service_env 2, demo_post ''/live'' JNull)] (new_service demo_system))))"
  by (rule service_rate_limited) (simp_all add: demo_service_env_def)

end
