(* ===== verification/Upstream.thy ===== *)
theory Upstream
  imports Json
begin

text \<open>
  The upstream pin, \<open>upstream.py\<close>: parsing \<open>UPSTREAM.lock\<close> and comparing the checked-out commit.
  The file's text is what \<open>read_text\<close> returns, \<open>None\<close> when there is no file; the directory test and
  the output of \<open>git rev-parse\<close> are arguments.
\<close>

section \<open>Lines\<close>

text \<open>\<open>str.splitlines\<close> on ASCII text.\<close>

definition is_break :: "char \<Rightarrow> bool" where
  "is_break c = (c \<in> {CHR 0x0A, CHR 0x0B, CHR 0x0C, CHR 0x0D, CHR 0x1C, CHR 0x1D, CHR 0x1E})"

fun split_lines :: "string \<Rightarrow> string \<Rightarrow> string list" where
  "split_lines acc [] = (if acc = [] then [] else [rev acc])"
| "split_lines acc [c] = (if is_break c then [rev acc] else [rev (c # acc)])"
| "split_lines acc (c # d # s) =
     (if c = CHR 0x0D \<and> d = CHR 0x0A then rev acc # split_lines [] s
      else if is_break c then rev acc # split_lines [] (d # s)
      else split_lines (c # acc) (d # s))"

definition newline :: string where
  "newline = [CHR 0x0A]"

section \<open>The lock file\<close>

record upstream_lock =
  ul_repository :: string
  ul_commit :: string
  ul_branch :: string
  ul_domain :: string
  ul_integration_mode :: string
  ul_upstream_path :: string
  ul_official_evaluation_mode :: string
  ul_python_requires :: string

definition required_keys :: "string list" where
  "required_keys = [''repository'', ''commit'', ''branch'', ''domain'', ''integration_mode'', ''upstream_path'',
     ''official_evaluation_mode'', ''python_requires'']"

text \<open>\<open>line.partition("=")\<close>.\<close>

definition partition_eq :: "string \<Rightarrow> string \<times> string" where
  "partition_eq s = (takeWhile (\<lambda>c. c \<noteq> CHR ''='') s, tl (dropWhile (\<lambda>c. c \<noteq> CHR ''='') s))"

fun parse_lines :: "string list \<Rightarrow> (string \<times> string) list \<Rightarrow> pyexn + (string \<times> string) list" where
  "parse_lines [] raw = Inr raw"
| "parse_lines (l # ls) raw =
     (let line = strip l in
      if line = [] \<or> starts_with line ''#'' then parse_lines ls raw
      else if \<not> str_in ''='' line then Inl (ValueError (''Invalid lock line (missing = sign): '' @ quoted line))
      else (let (key, val) = partition_eq line in parse_lines ls (dict_set key val raw)))"

definition lock_of :: "(string \<times> string) list \<Rightarrow> pyexn + upstream_lock" where
  "lock_of raw =
     (case List.find (\<lambda>k. \<not> dict_has raw k) required_keys of
        Some k \<Rightarrow> Inl (ValueError (''Missing required key in UPSTREAM.lock: '' @ quoted k))
      | None \<Rightarrow>
          (let v = (\<lambda>k. dict_get_or raw k []) in
           Inr \<lparr>ul_repository = v ''repository'', ul_commit = v ''commit'', ul_branch = v ''branch'',
                ul_domain = v ''domain'', ul_integration_mode = v ''integration_mode'',
                ul_upstream_path = v ''upstream_path'',
                ul_official_evaluation_mode = v ''official_evaluation_mode'',
                ul_python_requires = v ''python_requires''\<rparr>))"

definition from_lock_file :: "string option \<Rightarrow> pyexn + upstream_lock" where
  "from_lock_file file =
     (case file of
        None \<Rightarrow> Inl (OtherError ''UPSTREAM.lock not found'')
      | Some content \<Rightarrow> bindE (parse_lines (split_lines [] (strip content)) []) lock_of)"

definition verify_upstream_commit ::
    "(string \<Rightarrow> bool) \<Rightarrow> (string \<Rightarrow> pyexn + string) \<Rightarrow> upstream_lock \<Rightarrow> pyexn + bool" where
  "verify_upstream_commit is_dir rev_parse lock =
     (if \<not> is_dir (ul_upstream_path lock) then Inl (OtherError ''Upstream directory not found'')
      else bindE (rev_parse (ul_upstream_path lock)) (\<lambda>out. Inr (strip out = ul_commit lock)))"

section \<open>Printing a lock\<close>

text \<open>The file the parser is for: one line per field. A value may hold anything but a line break, and
  must not end in white space.\<close>

definition lock_fields :: "upstream_lock \<Rightarrow> (string \<times> string) list" where
  "lock_fields l =
     [(''repository'', ul_repository l), (''commit'', ul_commit l), (''branch'', ul_branch l),
      (''domain'', ul_domain l), (''integration_mode'', ul_integration_mode l),
      (''upstream_path'', ul_upstream_path l),
      (''official_evaluation_mode'', ul_official_evaluation_mode l), (''python_requires'', ul_python_requires l)]"

definition lock_line :: "string \<times> string \<Rightarrow> string" where
  "lock_line kv = fst kv @ ''='' @ snd kv"

definition print_lock :: "(string \<times> string) list \<Rightarrow> string" where
  "print_lock kvs = join newline (map lock_line kvs)"

definition entry_ok :: "string \<times> string \<Rightarrow> bool" where
  "entry_ok kv = (fst kv \<noteq> [] \<and> hd (fst kv) \<noteq> CHR ''#'' \<and> \<not> is_space (hd (fst kv)) \<and> CHR ''='' \<notin> set (fst kv)
     \<and> list_all (\<lambda>c. \<not> is_break c) (fst kv @ snd kv) \<and> (snd kv = [] \<or> \<not> is_space (last (snd kv))))"

lemma strip_id: "s = [] \<or> \<not> is_space (hd s) \<and> \<not> is_space (last s) \<Longrightarrow> strip s = s"
  unfolding strip_def
proof (cases s)
  case (Cons c s')
  assume "s = [] \<or> \<not> is_space (hd s) \<and> \<not> is_space (last s)"
  then have "dropWhile is_space s = s" "dropWhile is_space (rev s) = rev s"
    by (simp_all add: Cons dropWhile_eq_self_iff hd_rev del: rev.simps)
  then show "rev (dropWhile is_space (rev (dropWhile is_space s))) = s" by simp
qed simp

lemma split_lines_plain: "list_all (\<lambda>c. \<not> is_break c) s \<Longrightarrow> split_lines acc s = (if s = [] \<and> acc = [] then [] else [rev acc @ s])"
  by (induction acc s rule: split_lines.induct) (auto simp: is_break_def)

lemma split_lines_newline:
  assumes "list_all (\<lambda>c. \<not> is_break c) s"
  shows "split_lines acc (s @ CHR 0x0A # t) = (rev acc @ s) # split_lines [] t"
  using assms
proof (induction s arbitrary: acc)
  case Nil
  then show ?case by (cases t) (simp_all add: is_break_def)
next
  case (Cons c s)
  have "c \<noteq> CHR 0x0D" using Cons.prems by (auto simp: is_break_def)
  moreover obtain d r where "s @ CHR 0x0A # t = d # r" by (cases s) auto
  ultimately show ?case using Cons.IH [of "c # acc"] Cons.prems by simp
qed

lemma split_lines_join:
  assumes "ls \<noteq> []" "list_all (\<lambda>l. l \<noteq> [] \<and> list_all (\<lambda>c. \<not> is_break c) l) ls"
  shows "split_lines [] (join newline ls) = ls"
  using assms
proof (induction "newline" ls rule: join.induct)
  case (3 x y xs)
  then show ?case by (simp add: newline_def split_lines_newline)
qed (simp_all add: split_lines_plain)

lemma lock_line_ok:
  assumes "entry_ok kv"
  shows "lock_line kv \<noteq> []" "\<not> is_space (hd (lock_line kv))" "\<not> is_space (last (lock_line kv))"
    "list_all (\<lambda>c. \<not> is_break c) (lock_line kv)" "\<not> starts_with (lock_line kv) ''#''" "str_in ''='' (lock_line kv)"
    "partition_eq (lock_line kv) = kv"
proof -
  obtain c k v where kv: "kv = (c # k, v)"
    using assms by (cases kv; cases "fst kv") (auto simp: entry_ok_def)
  show "lock_line kv \<noteq> []" "\<not> is_space (hd (lock_line kv))" "\<not> starts_with (lock_line kv) ''#''"
    using assms by (auto simp: kv lock_line_def entry_ok_def starts_with_iff)
  show "\<not> is_space (last (lock_line kv))" "list_all (\<lambda>c. \<not> is_break c) (lock_line kv)"
    using assms by (auto simp: kv lock_line_def entry_ok_def is_break_def is_space_def)
  show "str_in ''='' (lock_line kv)" unfolding str_in_iff lock_line_def by blast
  have "takeWhile (\<lambda>c. c \<noteq> CHR ''='') ((c # k) @ CHR ''='' # v) = c # k"
    "dropWhile (\<lambda>c. c \<noteq> CHR ''='') ((c # k) @ CHR ''='' # v) = CHR ''='' # v"
    using assms by (subst takeWhile_append2 dropWhile_append2; auto simp: kv entry_ok_def)+
  then show "partition_eq (lock_line kv) = kv" by (simp add: partition_eq_def lock_line_def kv)
qed

lemma parse_printed:
  assumes "list_all entry_ok kvs"
  shows "parse_lines (map lock_line kvs) raw = Inr (fold (\<lambda>(k, v). dict_set k v) kvs raw)"
  using assms
proof (induction kvs arbitrary: raw)
  case (Cons kv kvs)
  then show ?case
    using lock_line_ok [of kv] by (cases kv) (simp add: strip_id)
qed simp

lemma join_ends:
  assumes "ls \<noteq> []" "list_all (\<lambda>l. l \<noteq> []) ls"
  shows "join sep ls \<noteq> []" "hd (join sep ls) = hd (hd ls)" "last (join sep ls) = last (last ls)"
proof -
  show ne: "join sep ls \<noteq> []" using assms by (induction sep ls rule: join.induct) auto
  show "hd (join sep ls) = hd (hd ls)" using assms by (cases "(sep, ls)" rule: join.cases) auto
  show "last (join sep ls) = last (last ls)"
    using assms
  proof (induction sep ls rule: join.induct)
    case (3 sep x y xs)
    then have "join sep (y # xs) \<noteq> []" by (cases xs) auto
    with 3 show ?case by simp
  qed simp_all
qed

lemma read_printed:
  assumes "kvs \<noteq> []" "list_all entry_ok kvs"
  shows "from_lock_file (Some (print_lock kvs)) = lock_of (fold (\<lambda>(k, v). dict_set k v) kvs [])"
proof -
  let ?ls = "map lock_line kvs"
  have ok: "list_all (\<lambda>l. l \<noteq> [] \<and> list_all (\<lambda>c. \<not> is_break c) l) ?ls" "list_all (\<lambda>l. l \<noteq> []) ?ls"
    using assms(2) lock_line_ok(1,4) by (auto simp: list_all_iff)
  have "\<not> is_space (hd (hd ?ls))" "\<not> is_space (last (last ?ls))"
    using assms lock_line_ok(2,3) by (simp_all add: list_all_iff hd_map last_map)
  then have "strip (print_lock kvs) = print_lock kvs"
    using join_ends [of ?ls newline] assms(1) ok(2) by (intro strip_id) (simp add: print_lock_def)
  then show ?thesis
    using split_lines_join [OF _ ok(1)] parse_printed [OF assms(2)] assms(1)
    by (simp add: from_lock_file_def print_lock_def)
qed

section \<open>Properties\<close>

text \<open>
  Reading back a printed lock gives the lock: for fields without line breaks and without
  trailing white space (a value may hold further equals signs, or be empty), parsing the file
  with one \<open>key=value\<close> line per field returns exactly those fields.
\<close>

theorem lock_roundtrip:
  assumes "list_all entry_ok (lock_fields l)"
  shows "from_lock_file (Some (print_lock (lock_fields l))) = Inr l"
proof -
  have "lock_fields l \<noteq> []" by (simp add: lock_fields_def)
  from read_printed [OF this assms] show ?thesis
    by (simp add: lock_fields_def lock_of_def required_keys_def dict_has_def dict_get_or_def)
qed

end
