(* ===== verification/Benchmark.thy ===== *)
theory Benchmark
  imports Upstream Eval_Runner
begin

text \<open>
  The benchmark script, \<open>scripts/run_benchmark.py\<close>, with the run types of \<open>evaluation.py\<close>. The
  command line is a record of the parsed options; the lock file, the file system and git are the
  parameters of the theory \<open>Upstream\<close>; what is printed is left out. The profiles are a
  variable of the module \<open>evaluation\<close>, which the script changes in place.
\<close>

record bench_args =
  ba_model :: string
  ba_profile :: string
  ba_tasks :: "string list"
  ba_max_steps :: "int option"
  ba_temperature :: pyfloat
  ba_output_dir :: "string option"
  ba_notes :: string

text \<open>The defaults of the parser, and the one option with a fixed set of values.\<close>

definition default_bench_args :: bench_args where
  "default_bench_args = \<lparr>ba_model = ''claude-sonnet-4-6'', ba_profile = ''default'', ba_tasks = [], ba_max_steps = None,
     ba_temperature = Fin 0, ba_output_dir = None, ba_notes = []\<rparr>"

definition PROFILE_CHOICES :: "string list" where
  "PROFILE_CHOICES = [''default'', ''long-reasoning'', ''fast'']"

definition accepted_args :: "bench_args \<Rightarrow> bool" where
  "accepted_args a = (ba_profile a \<in> set PROFILE_CHOICES)"

record eval_run_config =
  rc_model :: string
  rc_agent_config_profile :: string
  rc_task_ids :: "string list"
  rc_max_steps :: "int option"
  rc_temperature :: pyfloat
  rc_notes :: string

record eval_run_result =
  re_run_id :: string
  re_config :: eval_run_config
  re_total_tasks :: int
  re_completed_tasks :: int
  re_total_steps :: int
  re_total_duration_s :: pyfloat
  re_results_path :: string
  re_timestamp :: string

definition results_dir :: string where
  "results_dir = ''artifacts/eval-results''"

definition set_llm :: "string \<Rightarrow> json \<Rightarrow> kwargs \<Rightarrow> kwargs" where
  "set_llm k v profile = (case dict_get_or profile ''llm'' (JObj []) of
     JObj llm \<Rightarrow> dict_set ''llm'' (JObj (dict_set k v llm)) profile
   | _ \<Rightarrow> profile)"

definition configure_profile :: "bench_args \<Rightarrow> kwargs \<Rightarrow> kwargs" where
  "configure_profile a profile =
     (let p1 = (case ba_max_steps a of Some n \<Rightarrow> if n \<noteq> 0 then dict_set ''max_agent_steps'' (JInt n) profile else profile
                  | None \<Rightarrow> profile)
      in set_llm ''temperature'' (JFloat (ba_temperature a)) (set_llm ''model'' (JStr (ba_model a)) p1))"

definition result_json :: "eval_run_result \<Rightarrow> json" where
  "result_json r = JObj
     [(''run_id'', JStr (re_run_id r)),
      (''config'', JObj [(''model'', JStr (rc_model (re_config r))), (''profile'', JStr (rc_agent_config_profile (re_config r))),
         (''task_ids'', JArr (map JStr (rc_task_ids (re_config r)))),
         (''max_steps'', case rc_max_steps (re_config r) of None \<Rightarrow> JNull | Some n \<Rightarrow> JInt n),
         (''temperature'', JFloat (rc_temperature (re_config r)))]),
      (''total_tasks'', JInt (re_total_tasks r)), (''completed_tasks'', JInt (re_completed_tasks r)),
      (''total_steps'', JInt (re_total_steps r)), (''total_duration_s'', JFloat (re_total_duration_s r)),
      (''timestamp'', JStr (re_timestamp r))]"

datatype bench_outcome = Refused | Written string json

definition bench_main ::
    "string option \<Rightarrow> (string \<Rightarrow> bool) \<Rightarrow> (string \<Rightarrow> pyexn + string) \<Rightarrow> string \<Rightarrow> pyfloat \<Rightarrow> pyfloat \<Rightarrow> string \<Rightarrow> bench_args \<Rightarrow>
     (string \<times> kwargs) list \<Rightarrow> (pyexn + bench_outcome) \<times> (string \<times> kwargs) list" where
  "bench_main lock_file is_dir rev_parse run_id t0 t1 now a profiles =
     (case bindE (from_lock_file lock_file) (verify_upstream_commit is_dir rev_parse) of
        Inl e \<Rightarrow> (Inl e, profiles)
      | Inr False \<Rightarrow> (Inr Refused, profiles)
      | Inr True \<Rightarrow>
          (case get_profile profiles (ba_profile a) of
             Inl e \<Rightarrow> (Inl e, profiles)
           | Inr profile \<Rightarrow>
               (let out_dir = str_or (opt_str (ba_output_dir a)) results_dir;
                    path = out_dir @ ''/'' @ run_id @ ''.json'';
                    config = \<lparr>rc_model = ba_model a, rc_agent_config_profile = ba_profile a, rc_task_ids = ba_tasks a,
                      rc_max_steps = ba_max_steps a, rc_temperature = ba_temperature a, rc_notes = ba_notes a\<rparr>;
                    result = \<lparr>re_run_id = run_id, re_config = config, re_total_tasks = 0, re_completed_tasks = 0,
                      re_total_steps = 0, re_total_duration_s = fsub t1 t0, re_results_path = path, re_timestamp = now\<rparr>
                in (Inr (Written path (result_json result)),
                    dict_set (ba_profile a) (configure_profile a profile) profiles))))"

section \<open>What a run does\<close>

text \<open>Nothing is written, and no profile changed, unless git reports exactly the pinned commit.\<close>

lemma benchmark_needs_pinned_commit:
  assumes "bench_main lock_file is_dir rev_parse run_id t0 t1 now a profiles = (Inr (Written path j), profiles')"
  obtains lock out where "from_lock_file lock_file = Inr lock" "is_dir (ul_upstream_path lock)"
    "rev_parse (ul_upstream_path lock) = Inr out" "strip out = ul_commit lock"
  using assms
  by (auto simp: bench_main_def verify_upstream_commit_def bindE_def Let_def split: sum.splits if_splits bool.splits)

lemma benchmark_refused_changes_nothing:
  assumes "bench_main lock_file is_dir rev_parse run_id t0 t1 now a profiles = (r, profiles')"
    "\<And>path j. r \<noteq> Inr (Written path j)"
  shows "profiles' = profiles"
  using assms by (auto simp: bench_main_def Let_def split: sum.splits bool.splits)

text \<open>With an accepted profile the script gets through, given the pinned commit.\<close>

lemma accepted_profiles_exist: "accepted_args a \<Longrightarrow> \<exists>p. get_profile EVAL_PROFILES (ba_profile a) = Inr p"
  by (auto simp: accepted_args_def PROFILE_CHOICES_def get_profile_def EVAL_PROFILES_def)

text \<open>The options overwrite the shared profile: the temperature of the profile is lost even when the
  option is not given, and a later run that asks for the profile gets the earlier run's model.\<close>

lemma set_llm_get:
  "dict_get_or profile ''llm'' (JObj []) = JObj llm \<Longrightarrow>
     dict_get_or (set_llm k v profile) ''llm'' (JObj []) = JObj (dict_set k v llm)"
  by (simp add: set_llm_def dict_get_or_def map_of_dict_set)

lemma configured_llm:
  assumes "dict_get_or profile ''llm'' (JObj []) = JObj llm"
  shows "dict_get_or (configure_profile a profile) ''llm'' (JObj []) =
    JObj (dict_set ''temperature'' (JFloat (ba_temperature a)) (dict_set ''model'' (JStr (ba_model a)) llm))"
  using assms unfolding configure_profile_def Let_def
  by (intro set_llm_get) (auto simp: dict_set_get_or split: option.split)

lemma next_run_sees_changed_profile:
  assumes "bench_main lock_file is_dir rev_parse run_id t0 t1 now a profiles = (Inr (Written path j), profiles')"
    "get_profile profiles (ba_profile a) = Inr profile"
  shows "get_profile profiles' (ba_profile a) = Inr (configure_profile a profile)"
    "name \<noteq> ba_profile a \<Longrightarrow> get_profile profiles' name = get_profile profiles name"
  using assms
  by (auto simp: bench_main_def Let_def get_profile_def map_of_dict_set split: sum.splits bool.splits)

end
