(* ===== verification/Postgres.thy ===== *)
theory Postgres
  imports Json
begin

text \<open>
  The PostgreSQL backend, \<open>postgres_backend.py\<close>. The driver \<open>asyncpg\<close> is a parameter: a record of
  the four things the backend does with a pool, each on the state \<open>'s\<close> of the outside world.
  \<open>No_Driver\<close> is the \<open>ImportError\<close> of a missing driver, which \<open>connect\<close> swallows.
\<close>

record postgres_config =
  pg_dsn :: string
  pg_pool_min_size :: int
  pg_pool_max_size :: int
  pg_command_timeout_seconds :: int
  pg_ssl_mode :: string

record 'p postgres_backend =
  pb_config :: postgres_config
  pb_pool :: "'p option"
  pb_connected :: bool

datatype 'p pool_result = No_Driver | Pool_Failed pyexn | Pool_Opened 'p

record ('p, 's, 'r) asyncpg =
  as_create_pool :: "postgres_config \<Rightarrow> 's \<Rightarrow> 'p pool_result \<times> 's"
  as_close :: "'p \<Rightarrow> 's \<Rightarrow> (pyexn + unit) \<times> 's"
  as_select_1 :: "'p \<Rightarrow> 's \<Rightarrow> (pyexn + unit) \<times> 's"
  as_fetch :: "'p \<Rightarrow> string \<Rightarrow> json list \<Rightarrow> 's \<Rightarrow> (pyexn + 'r list) \<times> 's"

definition new_postgres :: "postgres_config \<Rightarrow> 'p postgres_backend" where
  "new_postgres c = \<lparr>pb_config = c, pb_pool = None, pb_connected = False\<rparr>"

definition pg_connect ::
    "('p, 's, 'r) asyncpg \<Rightarrow> 'p postgres_backend \<Rightarrow> 's \<Rightarrow> (pyexn + unit) \<times> 'p postgres_backend \<times> 's" where
  "pg_connect D b s =
     (if pg_dsn (pb_config b) = [] \<or> pb_connected b then (Inr (), b, s)
      else (case as_create_pool D (pb_config b) s of
          (No_Driver, s1) \<Rightarrow> (Inr (), b, s1)
        | (Pool_Failed e, s1) \<Rightarrow> (Inl e, b\<lparr>pb_connected := False\<rparr>, s1)
        | (Pool_Opened p, s1) \<Rightarrow> (Inr (), b\<lparr>pb_pool := Some p, pb_connected := True\<rparr>, s1)))"

definition pg_close ::
    "('p, 's, 'r) asyncpg \<Rightarrow> 'p postgres_backend \<Rightarrow> 's \<Rightarrow> (pyexn + unit) \<times> 'p postgres_backend \<times> 's" where
  "pg_close D b s = (case pb_pool b of
     None \<Rightarrow> (Inr (), b, s)
   | Some p \<Rightarrow>
       (case as_close D p s of
          (Inl e, s1) \<Rightarrow> (Inl e, b, s1)
        | (Inr _, s1) \<Rightarrow> (Inr (), b\<lparr>pb_connected := False\<rparr>, s1)))"

definition pg_health :: "('p, 's, 'r) asyncpg \<Rightarrow> 'p postgres_backend \<Rightarrow> 's \<Rightarrow> bool \<times> 's" where
  "pg_health D b s = (case pb_pool b of
     None \<Rightarrow> (False, s)
   | Some p \<Rightarrow>
       if \<not> pb_connected b then (False, s)
       else (case as_select_1 D p s of (Inl e, s1) \<Rightarrow> (False, s1) | (Inr _, s1) \<Rightarrow> (True, s1)))"

definition pg_execute ::
    "('p, 's, 'r) asyncpg \<Rightarrow> string \<Rightarrow> json list \<Rightarrow> 'p postgres_backend \<Rightarrow> 's \<Rightarrow> (pyexn + 'r list) \<times> 's" where
  "pg_execute D query args b s = (case pb_pool b of
     None \<Rightarrow> (Inl (RuntimeError ''PostgreSQL backend not connected''), s)
   | Some p \<Rightarrow> as_fetch D p query args s)"

section \<open>Connections\<close>

text \<open>A connected backend has a pool and was given an address.\<close>

definition pg_ok :: "'p postgres_backend \<Rightarrow> bool" where
  "pg_ok b = (pb_connected b \<longrightarrow> pb_pool b \<noteq> None \<and> pg_dsn (pb_config b) \<noteq> [])"

lemma pg_ok_kept:
  "pg_ok (new_postgres c)"
  "pg_ok b \<Longrightarrow> pg_ok (fst (snd (pg_connect D b s)))" "pg_ok b \<Longrightarrow> pg_ok (fst (snd (pg_close D b s)))"
  by (auto simp: pg_ok_def new_postgres_def pg_connect_def pg_close_def
      split: option.splits prod.splits pool_result.splits sum.splits)

text \<open>Without an address, or without the driver, \<open>connect\<close> succeeds and the backend stays unusable.\<close>

lemma connect_may_not_connect:
  assumes "pg_dsn c = [] \<or> fst (as_create_pool D c s) = No_Driver"
  shows "fst (pg_connect D (new_postgres c) s) = Inr ()" "\<not> pb_connected (fst (snd (pg_connect D (new_postgres c) s)))"
    "fst (pg_execute D q args (fst (snd (pg_connect D (new_postgres c) s))) s') =
       Inl (RuntimeError ''PostgreSQL backend not connected'')"
  using assms by (auto simp: pg_connect_def new_postgres_def pg_execute_def split: prod.splits pool_result.splits)

text \<open>\<open>close\<close> keeps the pool it closed: later queries still go to it, and it is closed again by the
  next \<open>close\<close>; only \<open>health\<close> notices.\<close>

lemma closed_backend_still_executes:
  assumes "pb_pool b = Some p" "pg_close D b s = (Inr (), b', s1)"
  shows "pg_execute D q args b' s' = as_fetch D p q args s'" "pg_health D b' s' = (False, s')"
    "as_close D p s' = (Inr (), s2) \<Longrightarrow> pg_close D b' s' = (Inr (), b', s2)"
  using assms by (auto simp: pg_close_def pg_execute_def pg_health_def split: prod.splits sum.splits)

section \<open>No pool is lost\<close>

text \<open>The pools opened and the pools closed in a history of \<open>connect\<close> and \<open>close\<close>.\<close>

datatype pg_call = PG_Connect | PG_Close

definition pool_opened :: "'p postgres_backend \<Rightarrow> 'p postgres_backend \<Rightarrow> 'p list" where
  "pool_opened b b' = (if \<not> pb_connected b \<and> pb_connected b' then (case pb_pool b' of None \<Rightarrow> [] | Some p \<Rightarrow> [p]) else [])"

definition pool_closed :: "pyexn + unit \<Rightarrow> 'p postgres_backend \<Rightarrow> 'p list" where
  "pool_closed r b = (case (r, pb_pool b) of (Inr _, Some p) \<Rightarrow> [p] | _ \<Rightarrow> [])"

fun pg_run :: "('p, 's, 'r) asyncpg \<Rightarrow> pg_call list \<Rightarrow> 'p postgres_backend \<Rightarrow> 's \<Rightarrow> 'p list \<times> 'p list \<times> 'p postgres_backend" where
  "pg_run D [] b s = ([], [], b)"
| "pg_run D (PG_Connect # cs) b s =
     (let (r, b1, s1) = pg_connect D b s; (os, xs, b2) = pg_run D cs b1 s1 in (pool_opened b b1 @ os, xs, b2))"
| "pg_run D (PG_Close # cs) b s =
     (let (r, b1, s1) = pg_close D b s; (os, xs, b2) = pg_run D cs b1 s1 in (os, pool_closed r b @ xs, b2))"

definition current_pool :: "'p postgres_backend \<Rightarrow> 'p set" where
  "current_pool b = (if pb_connected b then set_option (pb_pool b) else {})"

lemma connect_accounts:
  assumes "pg_connect D b s = (r, b1, s1)"
  shows "current_pool b \<union> set (pool_opened b b1) \<subseteq> current_pool b1"
proof (cases "pg_dsn (pb_config b) = [] \<or> pb_connected b")
  case True
  then show ?thesis using assms by (simp add: pg_connect_def pool_opened_def split: if_splits)
next
  case False
  obtain r' s' where "as_create_pool D (pb_config b) s = (r', s')" by fastforce
  with False assms have "(b1 = b \<or> b1 = b\<lparr>pb_connected := False\<rparr>) \<or> (\<exists>p. b1 = b\<lparr>pb_pool := Some p, pb_connected := True\<rparr>)"
    by (simp add: pg_connect_def split: pool_result.splits) blast+
  with False show ?thesis by (elim disjE exE) (simp_all add: current_pool_def pool_opened_def)
qed

lemma close_accounts:
  "current_pool b \<subseteq> set (pool_closed (fst (pg_close D b s)) b) \<union> current_pool (fst (snd (pg_close D b s)))"
  by (auto simp: pg_close_def current_pool_def pool_closed_def split: option.splits prod.splits sum.splits)

text \<open>Every pool that was ever opened has been closed or is the current one of a connected backend,
  for every behaviour of the driver.\<close>

lemma opened_pools_accounted:
  "pg_run D cs b s = (opens, closes, b') \<Longrightarrow> current_pool b \<union> set opens \<subseteq> set closes \<union> current_pool b'"
proof (induction cs arbitrary: b s opens closes b')
  case (Cons c cs)
  show ?case
  proof (cases c)
    case PG_Connect
    obtain r b1 s1 where s1: "pg_connect D b s = (r, b1, s1)" using prod_cases3 by blast
    obtain os xs b2 where os: "pg_run D cs b1 s1 = (os, xs, b2)" using prod_cases3 by blast
    have "opens = pool_opened b b1 @ os" "closes = xs" "b' = b2" using Cons.prems PG_Connect s1 os by simp_all
    with Cons.IH [OF os] connect_accounts [OF s1] show ?thesis by (auto simp: subset_iff)
  next
    case PG_Close
    obtain r b1 s1 where s1: "pg_close D b s = (r, b1, s1)" using prod_cases3 by blast
    obtain os xs b2 where os: "pg_run D cs b1 s1 = (os, xs, b2)" using prod_cases3 by blast
    have "opens = os" "closes = pool_closed r b @ xs" "b' = b2" using Cons.prems PG_Close s1 os by simp_all
    with Cons.IH [OF os] close_accounts [of b D s, unfolded s1 fst_conv snd_conv] show ?thesis by (auto simp: subset_iff)
  qed
qed simp

end
