(* ===== verification/Evidence.thy ===== *)
theory Evidence
  imports Json
begin

text \<open>
  The evidence records of the development phases, \<open>evidence.py\<close>. A path is the list of its parts;
  \<open>cwd\<close> is the resolved working directory, \<open>now\<close> the ISO time.
\<close>

datatype evidence_status = EV_PASS | EV_FAIL | EV_SKIPPED | EV_ERROR

datatype phase_status = PH_IN_PROGRESS | PH_COMPLETE | PH_BLOCKED

record evidence_result =
  vr_name :: string
  vr_status :: evidence_status
  vr_detail :: "string option"
  vr_duration_ms :: pyfloat

record command_record =
  co_command :: string
  co_exit_code :: int
  co_stdout :: string
  co_stderr :: string
  co_duration_ms :: pyfloat

type_synonym path = "string list"

record phase_evidence =
  pe_phase :: string
  pe_status :: phase_status
  pe_verifications :: "evidence_result list"
  pe_commands :: "command_record list"
  pe_artifacts :: "path list"
  pe_started_at :: string
  pe_completed_at :: "string option"

definition new_phase_evidence :: "string \<Rightarrow> string \<Rightarrow> phase_evidence" where
  "new_phase_evidence now phase = \<lparr>pe_phase = phase, pe_status = PH_IN_PROGRESS, pe_verifications = [],
     pe_commands = [], pe_artifacts = [], pe_started_at = now, pe_completed_at = None\<rparr>"

definition add_verification :: "evidence_result \<Rightarrow> phase_evidence \<Rightarrow> phase_evidence" where
  "add_verification r e = e\<lparr>pe_verifications := pe_verifications e @ [r]\<rparr>"

definition add_command :: "command_record \<Rightarrow> phase_evidence \<Rightarrow> phase_evidence" where
  "add_command r e = e\<lparr>pe_commands := pe_commands e @ [r]\<rparr>"

definition add_artifact :: "path \<Rightarrow> phase_evidence \<Rightarrow> phase_evidence" where
  "add_artifact p e = e\<lparr>pe_artifacts := pe_artifacts e @ [p]\<rparr>"

definition mark_complete :: "string \<Rightarrow> phase_evidence \<Rightarrow> phase_evidence" where
  "mark_complete now e = e\<lparr>pe_status := PH_COMPLETE, pe_completed_at := Some now\<rparr>"

text \<open>Joining an absolute path discards what is before it.\<close>

definition evidence_dir :: "path \<Rightarrow> path \<Rightarrow> bool \<Rightarrow> path" where
  "evidence_dir cwd phase absolute = (if absolute then phase else cwd @ [''reports'', ''phases''] @ phase)"

section \<open>Histories of a phase\<close>

datatype evidence_call =
  Add_Verification evidence_result | Add_Command command_record | Add_Artifact path | Mark_Complete string

fun evidence_step :: "evidence_call \<Rightarrow> phase_evidence \<Rightarrow> phase_evidence" where
  "evidence_step (Add_Verification r) e = add_verification r e"
| "evidence_step (Add_Command r) e = add_command r e"
| "evidence_step (Add_Artifact p) e = add_artifact p e"
| "evidence_step (Mark_Complete now) e = mark_complete now e"

lemmas evidence_defs = add_verification_def add_command_def add_artifact_def mark_complete_def

text \<open>The record keeps everything in the order it was added; the phase is complete exactly when it
  was once marked, with the time of the last mark, whatever the verifications say and whatever is
  added afterwards.\<close>

fun added_verification :: "evidence_call \<Rightarrow> evidence_result list" where
  "added_verification (Add_Verification r) = [r]"
| "added_verification c = []"

fun marked :: "evidence_call \<Rightarrow> string list" where
  "marked (Mark_Complete now) = [now]"
| "marked c = []"

lemma evidence_keeps_verifications:
  "pe_verifications (fold evidence_step cs e) = pe_verifications e @ concat (map added_verification cs)"
proof (induction cs arbitrary: e)
  case (Cons c cs)
  then show ?case by (cases c) (simp_all add: evidence_defs)
qed simp

lemma evidence_completed:
  "pe_completed_at (fold evidence_step cs e) =
     (if concat (map marked cs) = [] then pe_completed_at e else Some (last (concat (map marked cs))))"
  "pe_status (fold evidence_step cs e) = (if concat (map marked cs) = [] then pe_status e else PH_COMPLETE)"
proof (induction cs arbitrary: e)
  case (Cons c cs)
  { case 1 show ?case using Cons(1) by (cases c) (auto simp: evidence_defs) }
  { case 2 show ?case using Cons(2) by (cases c) (auto simp: evidence_defs) }
qed simp_all

lemma failed_phase_is_completed:
  "pe_status (fold evidence_step [Add_Verification r, Mark_Complete now] (new_phase_evidence t p)) = PH_COMPLETE"
  by (simp add: evidence_defs)

lemma evidence_dir_below: "evidence_dir cwd [phase] False = cwd @ [''reports'', ''phases'', phase]"
  by (simp add: evidence_dir_def)

end
