(* ===== verification/Status_Machines.thy ===== *)
theory Status_Machines
  imports Approval
begin

text \<open>
  The life of a durable record. Transfer drafts, grants, idempotency records and approval sessions each
  have a status; the rules \<open>draft_move\<close>, \<open>grant_move\<close>, \<open>idem_move\<close> and \<open>session_move\<close> say which changes the
  program makes. The session store itself would write any status over any other; what restricts
  the sessions is the approval executor, so their machine is that of the executor. The locale
  \<open>status_machine\<close> is the contract of a store whose operations make no others: then every history,
  however its calls interleave, moves each record along the rules, records start in one status,
  and a status without a rule is final. The closure of the rules is an order on the statuses,
  which makes it executable.
\<close>

section \<open>Stores with a status machine\<close>

fun all_allowed :: "('op \<Rightarrow> 's \<Rightarrow> bool) \<Rightarrow> ('op \<Rightarrow> 's \<Rightarrow> 'r \<times> 's) \<Rightarrow> 'op list \<Rightarrow> 's \<Rightarrow> bool" where
  "all_allowed allowed step [] s = True"
| "all_allowed allowed step (c # cs) s = (allowed c s \<and> all_allowed allowed step cs (snd (step c s)))"

lemma all_allowed_True: "all_allowed (\<lambda>c s. True) step cs s"
  by (induction cs arbitrary: s) simp_all

lemma run_steps_Cons: "snd (run_steps step (c # cs) s) = snd (run_steps step cs (snd (step c s)))"
  by (simp add: case_prod_beta Let_def)

locale status_machine =
  fixes step :: "'op \<Rightarrow> 's \<Rightarrow> 'r \<times> 's" and allowed :: "'op \<Rightarrow> 's \<Rightarrow> bool" and inv :: "'s \<Rightarrow> bool"
    and status :: "'k \<Rightarrow> 's \<Rightarrow> 'x option" and move :: "'x \<Rightarrow> 'x \<Rightarrow> bool" and start :: 'x
  assumes inv_step: "inv s \<Longrightarrow> allowed c s \<Longrightarrow> inv (snd (step c s))"
    and moves: "inv s \<Longrightarrow> allowed c s \<Longrightarrow> status k s = Some x \<Longrightarrow>
      (case status k (snd (step c s)) of None \<Rightarrow> False | Some y \<Rightarrow> y = x \<or> move x y)"
    and starts: "inv s \<Longrightarrow> allowed c s \<Longrightarrow> status k s = None \<Longrightarrow> status k (snd (step c s)) \<in> {None, Some start}"
begin

lemma follows:
  assumes "inv s" "all_allowed allowed step cs s" "status k s = Some x"
  shows "\<exists>y. status k (snd (run_steps step cs s)) = Some y \<and> move\<^sup>*\<^sup>* x y"
  using assms
proof (induction cs arbitrary: s x)
  case (Cons c cs)
  then obtain y where y: "status k (snd (step c s)) = Some y" "y = x \<or> move x y"
    using moves [of s c k x] by (auto split: option.splits)
  with Cons obtain z where "status k (snd (run_steps step cs (snd (step c s)))) = Some z" "move\<^sup>*\<^sup>* y z"
    using inv_step [of s c] by fastforce
  with y(2) show ?case
    unfolding run_steps_Cons by (auto intro: converse_rtranclp_into_rtranclp)
qed auto

lemma started:
  assumes "inv s" "all_allowed allowed step cs s" "status k s = None"
    and "status k (snd (run_steps step cs s)) = Some x"
  shows "move\<^sup>*\<^sup>* start x"
  using assms
proof (induction cs arbitrary: s)
  case (Cons c cs)
  let ?s = "snd (step c s)"
  from Cons.prems have ok: "inv ?s" "all_allowed allowed step cs ?s" "status k (snd (run_steps step cs ?s)) = Some x"
    using inv_step [of s c] by (simp_all add: run_steps_Cons del: run_steps.simps)
  from Cons.prems consider "status k ?s = None" | "status k ?s = Some start" using starts [of s c k] by auto
  then show ?case
  proof cases
    case 1
    with Cons.IH ok show ?thesis by blast
  next
    case 2
    with follows [OF ok(1,2) 2] ok(3) show ?thesis by auto
  qed
qed simp

lemma life:
  assumes "inv s" "all_allowed allowed step cs s"
  shows "case status k (snd (run_steps step cs s)) of
      None \<Rightarrow> status k s = None
    | Some y \<Rightarrow> move\<^sup>*\<^sup>* (case status k s of None \<Rightarrow> start | Some x \<Rightarrow> x) y"
  using follows [OF assms, of k] started [OF assms, of k] by (auto split: option.splits)

lemma final_kept:
  assumes "inv s" "all_allowed allowed step cs s" "status k s = Some x" "\<And>y. \<not> move x y"
  shows "status k (snd (run_steps step cs s)) = Some x"
  using follows [OF assms(1-3)] assms(4) by (metis converse_rtranclpE)

end

section \<open>The rules\<close>

inductive draft_move :: "transfer_status \<Rightarrow> transfer_status \<Rightarrow> bool" where
  submit: "draft_move T_DRAFT T_COMPLETED"
| expire: "draft_move T_DRAFT T_FAILED"
| cancel: "draft_move T_DRAFT T_CANCELLED"
| cancel_pending: "draft_move T_PENDING T_CANCELLED"

inductive grant_move :: "grant_status \<Rightarrow> grant_status \<Rightarrow> bool" where
  approve_pending: "grant_move G_PENDING G_APPROVED"
| reject_pending: "grant_move G_PENDING G_REJECTED"
| reconcile: "grant_move G_PENDING G_RECONCILIATION_REQUIRED"
| reject_approved: "grant_move G_APPROVED G_REJECTED"
| consume: "grant_move G_APPROVED G_CONSUMING"
| consumed: "grant_move G_CONSUMING G_CONSUMED"
| fail: "grant_move G_CONSUMING G_FAILED"
| lose: "grant_move G_CONSUMING G_UNKNOWN"

inductive idem_move :: "idempotency_status \<Rightarrow> idempotency_status \<Rightarrow> bool" where
  execute: "idem_move I_RESERVED I_EXECUTING"
| succeed: "idem_move I_EXECUTING I_SUCCEEDED"
| lose_reserved: "idem_move I_RESERVED I_UNKNOWN"
| lose_executing: "idem_move I_EXECUTING I_UNKNOWN"
| fail_any: "s \<noteq> I_FAILED \<Longrightarrow> idem_move s I_FAILED"

inductive session_move :: "hitl_status \<Rightarrow> hitl_status \<Rightarrow> bool" where
  decide: "t \<noteq> H_PENDING \<Longrightarrow> session_move H_PENDING t"
| revisit: "t \<noteq> H_PENDING \<Longrightarrow> session_move H_RESUMED t"

code_pred draft_move .
code_pred grant_move .

inductive_simps draft_move_simps: "draft_move s t"
inductive_simps grant_move_simps: "grant_move s t"
inductive_simps idem_move_simps: "idem_move s t"
inductive_simps session_move_simps: "session_move s t"

inductive_cases draft_moveE: "draft_move s t"
inductive_cases grant_moveE: "grant_move s t"
inductive_cases idem_moveE: "idem_move s t"

section \<open>The orders\<close>

text \<open>The statuses that come after one, and the order they give.\<close>

fun draft_later :: "transfer_status \<Rightarrow> transfer_status list" where
  "draft_later T_DRAFT = [T_COMPLETED, T_FAILED, T_CANCELLED]"
| "draft_later T_PENDING = [T_CANCELLED]"
| "draft_later s = []"

fun grant_later :: "grant_status \<Rightarrow> grant_status list" where
  "grant_later G_PENDING = [G_APPROVED, G_REJECTED, G_RECONCILIATION_REQUIRED, G_CONSUMING, G_CONSUMED, G_FAILED, G_UNKNOWN]"
| "grant_later G_APPROVED = [G_REJECTED, G_CONSUMING, G_CONSUMED, G_FAILED, G_UNKNOWN]"
| "grant_later G_CONSUMING = [G_CONSUMED, G_FAILED, G_UNKNOWN]"
| "grant_later s = []"

fun idem_later :: "idempotency_status \<Rightarrow> idempotency_status list" where
  "idem_later I_RESERVED = [I_EXECUTING, I_SUCCEEDED, I_UNKNOWN, I_FAILED]"
| "idem_later I_EXECUTING = [I_SUCCEEDED, I_UNKNOWN, I_FAILED]"
| "idem_later I_SUCCEEDED = [I_FAILED]"
| "idem_later I_UNKNOWN = [I_FAILED]"
| "idem_later I_FAILED = []"

text \<open>Strictly after: never itself, and transitive.\<close>

lemma draft_later_trans: "t \<in> set (draft_later s) \<Longrightarrow> u \<in> set (draft_later t) \<Longrightarrow> u \<in> set (draft_later s)"
  by (cases s; cases t) auto

lemma grant_later_trans: "t \<in> set (grant_later s) \<Longrightarrow> u \<in> set (grant_later t) \<Longrightarrow> u \<in> set (grant_later s)"
  by (cases s; cases t) auto

lemma idem_later_trans: "t \<in> set (idem_later s) \<Longrightarrow> u \<in> set (idem_later t) \<Longrightarrow> u \<in> set (idem_later s)"
  by (cases s; cases t) auto

lemma later_irrefl [simp]: "s \<notin> set (draft_later s)" "g \<notin> set (grant_later g)" "r \<notin> set (idem_later r)"
proof -
  show "s \<notin> set (draft_later s)" by (cases s) simp_all
  show "g \<notin> set (grant_later g)" by (cases g) simp_all
  show "r \<notin> set (idem_later r)" by (cases r) simp_all
qed

instantiation transfer_status :: order
begin

definition less_transfer_status :: "transfer_status \<Rightarrow> transfer_status \<Rightarrow> bool" where
  "less_transfer_status s t = (t \<in> set (draft_later s))"

definition less_eq_transfer_status :: "transfer_status \<Rightarrow> transfer_status \<Rightarrow> bool" where
  "less_eq_transfer_status s t = (s = t \<or> t \<in> set (draft_later s))"

instance
  by standard (auto simp: less_transfer_status_def less_eq_transfer_status_def dest: draft_later_trans)

end

instantiation grant_status :: order
begin

definition less_grant_status :: "grant_status \<Rightarrow> grant_status \<Rightarrow> bool" where
  "less_grant_status s t = (t \<in> set (grant_later s))"

definition less_eq_grant_status :: "grant_status \<Rightarrow> grant_status \<Rightarrow> bool" where
  "less_eq_grant_status s t = (s = t \<or> t \<in> set (grant_later s))"

instance
  by standard (auto simp: less_grant_status_def less_eq_grant_status_def dest: grant_later_trans)

end

instantiation idempotency_status :: order
begin

definition less_idempotency_status :: "idempotency_status \<Rightarrow> idempotency_status \<Rightarrow> bool" where
  "less_idempotency_status s t = (t \<in> set (idem_later s))"

definition less_eq_idempotency_status :: "idempotency_status \<Rightarrow> idempotency_status \<Rightarrow> bool" where
  "less_eq_idempotency_status s t = (s = t \<or> t \<in> set (idem_later s))"

instance
  by standard (auto simp: less_idempotency_status_def less_eq_idempotency_status_def dest: idem_later_trans)

end

text \<open>A relation inside an order, from which each pair of the order can be stepped together, generates it.\<close>

lemma closure_is_order:
  fixes move :: "'x::order \<Rightarrow> 'x \<Rightarrow> bool"
  assumes "\<And>s t. move s t \<Longrightarrow> s \<le> t" and "\<And>s t. s < t \<Longrightarrow> move\<^sup>*\<^sup>* s t"
  shows "move\<^sup>*\<^sup>* s t \<longleftrightarrow> s \<le> t"
proof
  show "move\<^sup>*\<^sup>* s t \<Longrightarrow> s \<le> t" by (induction rule: rtranclp_induct) (auto dest: assms(1) intro: order_trans)
  show "s \<le> t \<Longrightarrow> move\<^sup>*\<^sup>* s t" using assms(2) by (cases "s = t") (auto simp: order_le_less)
qed

lemma draft_order: "draft_move\<^sup>*\<^sup>* s t \<longleftrightarrow> s \<le> t"
proof (rule closure_is_order)
  show "draft_move s t \<Longrightarrow> s \<le> t" for s t
    by (erule draft_moveE) (simp_all add: less_eq_transfer_status_def)
  show "s < t \<Longrightarrow> draft_move\<^sup>*\<^sup>* s t" for s t
    by (cases s) (auto simp: less_transfer_status_def draft_move_simps intro!: r_into_rtranclp)
qed

lemma idem_order: "idem_move\<^sup>*\<^sup>* s t \<longleftrightarrow> s \<le> t"
proof (rule closure_is_order)
  show "idem_move s t \<Longrightarrow> s \<le> t" for s t
    by (erule idem_moveE; cases s) (simp_all add: less_eq_idempotency_status_def)
  have "idem_move\<^sup>*\<^sup>* I_RESERVED I_SUCCEEDED"
    by (meson idem_move.intros converse_rtranclp_into_rtranclp rtranclp.rtrancl_refl)
  then show "s < t \<Longrightarrow> idem_move\<^sup>*\<^sup>* s t" for s t
    by (cases s) (auto simp: less_idempotency_status_def idem_move_simps intro: r_into_rtranclp)
qed

lemma grant_order: "grant_move\<^sup>*\<^sup>* s t \<longleftrightarrow> s \<le> t"
proof (rule closure_is_order)
  show "grant_move s t \<Longrightarrow> s \<le> t" for s t
    by (erule grant_moveE) (simp_all add: less_eq_grant_status_def)
  have c: "grant_move\<^sup>*\<^sup>* G_CONSUMING t" if "t \<in> {G_CONSUMED, G_FAILED, G_UNKNOWN}" for t
    using that by (auto simp: grant_move_simps intro: r_into_rtranclp)
  then have a: "grant_move\<^sup>*\<^sup>* G_APPROVED t" if "t \<in> {G_CONSUMED, G_FAILED, G_UNKNOWN, G_CONSUMING}" for t
    using that by (auto intro: converse_rtranclp_into_rtranclp [where r = grant_move, OF grant_move.consume])
  then have p: "grant_move\<^sup>*\<^sup>* G_PENDING t" if "t \<in> {G_CONSUMED, G_FAILED, G_UNKNOWN, G_CONSUMING}" for t
    using that by (auto intro: converse_rtranclp_into_rtranclp [where r = grant_move, OF grant_move.approve_pending])
  show "s < t \<Longrightarrow> grant_move\<^sup>*\<^sup>* s t" for s t
    by (cases s; cases t) (simp_all add: less_grant_status_def a c p r_into_rtranclp grant_move.intros)
qed

section \<open>The three stores\<close>

definition draft_status :: "string \<Rightarrow> bank \<Rightarrow> transfer_status option" where
  "draft_status s b = map_option td_status (map_of (transfer_drafts b) s)"

definition grant_status_of :: "string \<Rightarrow> grant_table \<Rightarrow> grant_status option" where
  "grant_status_of sid t = map_option gt_status (grant_get_by_session sid t)"

text \<open>What one operation does to the drafts: it adds one in status DRAFT, moves one, or does nothing.\<close>

lemma bank_step_drafts:
  obtains (new) d where "td_status d = T_DRAFT" "op_fresh op b \<Longrightarrow> map_of (transfer_drafts b) (td_id d) = None"
      "transfer_drafts (snd (bank_step L op b)) = dict_set (td_id d) d (transfer_drafts b)"
  | (moved) s d t where "map_of (transfer_drafts b) s = Some d" "draft_move (td_status d) t"
      "transfer_drafts (snd (bank_step L op b)) = dict_set s (d\<lparr>td_status := t\<rparr>) (transfer_drafts b)"
  | (same) "transfer_drafts (snd (bank_step L op b)) = transfer_drafts b"
proof (cases op)
  case (OpCreate src ben amount cur user key descr now i)
  obtain r b' where c: "create_transfer_draft src ben amount cur user key descr now i b = (r, b')" by fastforce
  then show ?thesis
  proof (cases rule: create_transfer_draft_cases)
    case (created d)
    from created(1) have "td_status d = T_DRAFT" "td_id d = i" by (blast elim: validate_draft_ok)+
    with OpCreate c created show ?thesis by (intro new [of d]) simp_all
  qed (rule same, use OpCreate c in simp)
next
  case (OpSubmit di u n1 n2 i)
  obtain r b' where c: "submit_transfer L di u n1 n2 i b = (r, b')" by fastforce
  note st = bank_step_submit_snd [of L di u n1 n2 i b, unfolded c snd_conv]
  from c show ?thesis
  proof (cases rule: submit_transfer_cases)
    case (expired s d)
    then show ?thesis using OpSubmit st
      by (intro moved [of s d T_FAILED]) (simp_all add: draft_move.expire del: bank_step.simps)
  next
    case (completed s d a)
    then show ?thesis using OpSubmit st
      by (intro moved [of s d T_COMPLETED]) (simp_all add: draft_move.submit del: bank_step.simps)
  qed (rule same, use OpSubmit st in \<open>simp del: bank_step.simps\<close>)
next
  case (OpCancel di u)
  obtain r b' where c: "cancel_transfer di u b = (r, b')" by fastforce
  then show ?thesis
  proof (cases rule: cancel_transfer_cases)
    case (cancelled s d)
    then show ?thesis using OpCancel c
      by (intro moved [of s d T_CANCELLED]) (auto simp: draft_move_simps)
  qed (rule same, use OpCancel c in simp)
qed

interpretation drafts: status_machine "bank_step L" op_fresh "\<lambda>b. True" draft_status draft_move T_DRAFT for L
proof
  fix b op s x
  assume fresh: "op_fresh op b"
  show "case draft_status s (snd (bank_step L op b)) of None \<Rightarrow> False | Some y \<Rightarrow> y = x \<or> draft_move x y"
    if "draft_status s b = Some x"
    by (rule bank_step_drafts [of op b L]) (use fresh that in \<open>auto simp: draft_status_def\<close>)
  show "draft_status s (snd (bank_step L op b)) \<in> {None, Some T_DRAFT}" if "draft_status s b = None"
    by (rule bank_step_drafts [of op b L]) (use that in \<open>auto simp: draft_status_def\<close>)
qed simp

lemma grant_insert_status:
  "grant_status_of sid (snd (grant_step sha (InsertGrant g) t)) =
     (if grant_insert_pending g t \<noteq> None \<and> sid = gt_session_id g then Some G_PENDING else grant_status_of sid t)"
proof (cases "grant_insert_pending g t")
  case (Some t')
  with grant_insert_get [OF Some, of sid] show ?thesis by (auto simp: grant_status_of_def)
qed simp

lemma grant_insert_fresh: "grant_insert_pending g t = Some t' \<Longrightarrow> grant_status_of (gt_session_id g) t = None"
  by (auto simp: grant_status_of_def elim: grant_insert_some)

lemma grant_update_status:
  "grant_status_of k (snd (grant_approve_pending now sid actor v t)) = (case grant_get_by_session k t of
     None \<Rightarrow> None | Some g \<Rightarrow> Some (if k = sid \<and> gt_status g = G_PENDING \<and> gt_version g = v then G_APPROVED else gt_status g))"
  "grant_status_of k (snd (grant_atomic_consume sha now q t)) = (case grant_get_by_session k t of
     None \<Rightarrow> None | Some g \<Rightarrow> Some (if is_consumable_row sha now q g then G_CONSUMING else gt_status g))"
  by (simp_all add: grant_status_of_def grant_approve_get consume_get split: option.splits)

lemma grant_mark_status:
  "grant_status_of k (grant_mark_consumed now sid t) =
     map_option (\<lambda>x. if k = sid \<and> x = G_CONSUMING then G_CONSUMED else x) (grant_status_of k t)"
  "grant_status_of k (grant_mark_failed now sid t) =
     map_option (\<lambda>x. if k = sid \<and> x = G_CONSUMING then G_FAILED else x) (grant_status_of k t)"
  "grant_status_of k (grant_mark_unknown now sid t) =
     map_option (\<lambda>x. if k = sid \<and> x = G_CONSUMING then G_UNKNOWN else x) (grant_status_of k t)"
  "grant_status_of k (grant_mark_rejected now sid t) =
     map_option (\<lambda>x. if k = sid \<and> x \<in> {G_PENDING, G_APPROVED} then G_REJECTED else x) (grant_status_of k t)"
  "grant_status_of k (grant_mark_reconciliation_required now sid t) =
     map_option (\<lambda>x. if k = sid \<and> x = G_PENDING then G_RECONCILIATION_REQUIRED else x) (grant_status_of k t)"
  by (cases "grant_get_by_session k t"; auto simp: grant_status_of_def grant_marks grant_settle_get)+

lemmas grant_statuses = grant_insert_status grant_update_status grant_mark_status

interpretation grants: status_machine "grant_step sha" "\<lambda>c t. True" grants_ok grant_status_of grant_move G_PENDING for sha
proof
  fix t c sid x
  show "grants_ok t \<Longrightarrow> grants_ok (snd (grant_step sha c t))" by (rule grant_history.inv_step)
  show "case grant_status_of sid (snd (grant_step sha c t)) of None \<Rightarrow> False | Some y \<Rightarrow> y = x \<or> grant_move x y"
    if h: "grant_status_of sid t = Some x"
  proof -
    obtain g where "grant_get_by_session sid t = Some g" "x = gt_status g" using h by (auto simp: grant_status_of_def)
    with h show ?thesis
      by (cases c) (auto simp: grant_statuses case_prod_beta is_consumable_row_def grant_move_simps
          dest: grant_insert_fresh simp del: grant_step.simps(1))
  qed
  show "grant_status_of sid (snd (grant_step sha c t)) \<in> {None, Some G_PENDING}" if h: "grant_status_of sid t = None"
  proof -
    have "grant_get_by_session sid t = None" using h by (simp add: grant_status_of_def)
    with h show ?thesis
      by (cases c) (auto simp: grant_statuses case_prod_beta simp del: grant_step.simps(1))
  qed
qed

interpretation idem: status_machine idem_step "\<lambda>c t. True" idem_ok idem_status idem_move I_RESERVED
proof
  fix t c k x
  show "idem_ok t \<Longrightarrow> idem_ok (snd (idem_step c t))" by (rule idem_store.inv_step)
  show "case idem_status k (snd (idem_step c t)) of None \<Rightarrow> False | Some y \<Rightarrow> y = x \<or> idem_move x y"
    if "idem_status k t = Some x"
    using that by (cases c) (auto simp: idem_status_def store_simps idem_move_simps)
  show "idem_status k (snd (idem_step c t)) \<in> {None, Some I_RESERVED}" if "idem_status k t = None"
    using that by (cases c) (auto simp: idem_status_def store_simps)
qed

text \<open>What a request of the executor does to the sessions: it touches only the session it is about, and
  never makes it pending again.\<close>

definition session_status :: "string \<Rightarrow> hitl_table \<Rightarrow> hitl_status option" where
  "session_status sid t = map_option hs_status (hitl_get sid t)"

definition settles :: "string \<Rightarrow> hitl_table \<Rightarrow> hitl_table \<Rightarrow> bool" where
  "settles sid t t' = (\<forall>k. session_status k t' = session_status k t
     \<or> k = sid \<and> session_status k t \<noteq> None \<and> session_status k t' \<notin> {None, Some H_PENDING})"

lemma settles_refl [simp]: "settles sid t t"
  by (simp add: settles_def)

lemma update_session_status:
  "session_status k (snd (hitl_update_status now sid st v u)) =
     (if k = sid \<and> session_status k u \<noteq> None \<and> hs_version (the (hitl_get k u)) = v then Some st else session_status k u)"
proof (cases "k = sid")
  case True
  then show ?thesis by (cases "hitl_get sid u") (simp_all add: session_status_def update_get)
qed (simp add: session_status_def update_get)

lemma settles_update:
  assumes "settles sid t u" "st \<noteq> H_PENDING"
  shows "settles sid t (snd (hitl_update_status now sid st v u))"
proof -
  have "session_status sid t \<noteq> None" if "session_status sid u \<noteq> None"
    using assms(1) that unfolding settles_def by metis
  with assms show ?thesis unfolding settles_def update_session_status by auto
qed

lemma settles_trans: "settles sid t u \<Longrightarrow> settles sid u w \<Longrightarrow> settles sid t w"
  unfolding settles_def by (metis insertCI)

lemma settles_None: "settles sid t u \<Longrightarrow> session_status k t = None \<Longrightarrow> session_status k u = None"
  unfolding settles_def by metis

lemma dispatch_settles: "settles sid (ax_hitl s) (ax_hitl (snd (approve_dispatch call clk sid session k claimed s)))"
  by (auto simp: approve_dispatch_def Let_def case_prod_beta intro!: settles_update split: sum.splits)

lemma execute_settles: "settles sid (ax_hitl s) (ax_hitl (snd (approve_execute call clk sid session claimed s)))"
  by (auto simp: approve_execute_def Let_def dispatch_settles intro!: settles_update split: option.splits)

lemma claim_settles: "settles sid (ax_hitl s) (ax_hitl (snd (approve_claim sha clk sid session actor s)))"
  by (auto simp: approve_claim_def Let_def case_prod_beta intro!: settles_update split: option.splits)

lemma approve_settles: "settles sid (ax_hitl s) (ax_hitl (snd (approve resolve sha call clk sid ctx s)))"
proof (cases "approve_checks resolve clk sid ctx s")
  case (Inl r)
  then show ?thesis
    by (auto simp: approve_def approve_checks_def Let_def intro!: settles_update split: option.splits if_splits)
next
  case (Inr sa)
  obtain session actor where sa: "sa = (session, actor)" by fastforce
  obtain c s1 where c: "approve_claim sha clk sid session actor s = (c, s1)" by fastforce
  with claim_settles [of sid s sha clk session actor] have "settles sid (ax_hitl s) (ax_hitl s1)" by simp
  with Inr sa c show ?thesis
    by (cases c) (auto simp: approve_def intro: settles_trans execute_settles)
qed

lemma reject_settles: "settles sid (ax_hitl s) (ax_hitl (snd (reject_session resolve clk sid ctx s)))"
  by (auto simp: reject_session_def Let_def case_prod_beta intro!: settles_update split: option.splits)

text \<open>A session in a terminal status is left alone.\<close>

lemma terminal_untouched:
  assumes "hitl_get sid (ax_hitl s) = Some h" "hitl_is_terminal h"
  shows "snd (approve resolve sha call clk sid ctx s) = s" "snd (reject_session resolve clk sid ctx s) = s"
  using assms by (simp_all add: approve_def approve_checks_def reject_session_def)

lemma nonterminal_move:
  "\<not> hitl_is_terminal h \<Longrightarrow> y \<noteq> H_PENDING \<Longrightarrow> session_move (hs_status h) y"
  by (cases "hs_status h") (auto simp: hitl_is_terminal_def session_move_simps)

lemma request_moves:
  assumes "session_status k (ax_hitl s) = Some x"
    and "settles sid (ax_hitl s) (ax_hitl s')" and "\<And>h. hitl_get sid (ax_hitl s) = Some h \<Longrightarrow> hitl_is_terminal h \<Longrightarrow> s' = s"
  shows "case session_status k (ax_hitl s') of None \<Rightarrow> False | Some y \<Rightarrow> y = x \<or> session_move x y"
proof (cases "session_status k (ax_hitl s') = Some x")
  case False
  then obtain y where y: "k = sid" "session_status k (ax_hitl s') = Some y" "y \<noteq> H_PENDING"
    using assms(1,2) unfolding settles_def by (metis insertCI not_None_eq)
  obtain h where h: "hitl_get sid (ax_hitl s) = Some h" "hs_status h = x"
    using assms(1) y(1) by (auto simp: session_status_def)
  with False assms(1,3) have "\<not> hitl_is_terminal h" by auto
  with h(2) y show ?thesis using nonterminal_move [of h y] by simp
qed simp

lemma open_status:
  "session_status k (ax_hitl (snd (open_session L sha now sid subj info s))) \<in>
     {session_status k (ax_hitl s), Some H_PENDING}"
  "session_status k (ax_hitl s) = Some x \<Longrightarrow> session_status k (ax_hitl (snd (open_session L sha now sid subj info s))) = Some x"
  by (auto simp: open_session_def session_status_def insert_get new_hitl_session_def Let_def
      dest: insert_some(2) split: option.splits)

interpretation sessions: status_machine "approval_step resolve sha call L" "\<lambda>c s. True" ax_ok
    "\<lambda>sid s. session_status sid (ax_hitl s)" session_move H_PENDING for resolve sha call L
proof
  fix s :: "'a approval_state" and c k x
  show "ax_ok s \<Longrightarrow> ax_ok (snd (approval_step resolve sha call L c s))" by (rule workflow.inv_step)
  show "case session_status k (ax_hitl (snd (approval_step resolve sha call L c s))) of
      None \<Rightarrow> False | Some y \<Rightarrow> y = x \<or> session_move x y" if h: "session_status k (ax_hitl s) = Some x"
  proof (cases c)
    case (DoOpen now sid subj info)
    with h show ?thesis by (simp add: approval_step_def Let_def open_status(2))
  qed (auto simp: approval_step_def Let_def
      intro!: request_moves [OF h approve_settles] request_moves [OF h reject_settles] terminal_untouched)
  show "session_status k (ax_hitl (snd (approval_step resolve sha call L c s))) \<in> {None, Some H_PENDING}"
    if h: "session_status k (ax_hitl s) = None"
  proof (cases c)
    case (DoApprove clk sid ctx)
    then show ?thesis by (simp add: approval_step_def Let_def settles_None [OF approve_settles h])
  next
    case (DoReject clk sid ctx)
    then show ?thesis by (simp add: approval_step_def Let_def settles_None [OF reject_settles h])
  next
    case (DoOpen now sid subj info)
    with h show ?thesis
      using open_status(1) [of k L sha now sid subj info s] by (simp add: approval_step_def Let_def)
  qed
qed

lemma bank_run_state: "snd (run_steps (bank_step L) ops b) = snd (bank_run L ops b)"
  by (induction ops arbitrary: b) (simp_all add: case_prod_beta Let_def)

lemma run_fresh_allowed: "all_allowed op_fresh (bank_step L) ops b = run_fresh L ops b"
  by (induction ops arbitrary: b) simp_all

text \<open>A failed, unknown or consumed grant, an expired draft: statuses no rule leads away from.\<close>

lemma final_statuses:
  "(\<forall>y. \<not> draft_move s y) \<longleftrightarrow> is_terminal_status s"
  "(\<forall>y. \<not> grant_move g y) \<longleftrightarrow> g \<notin> {G_PENDING, G_APPROVED, G_CONSUMING}"
  "(\<forall>y. \<not> idem_move r y) \<longleftrightarrow> r = I_FAILED"
proof -
  show "(\<forall>y. \<not> draft_move s y) \<longleftrightarrow> is_terminal_status s"
    by (cases s) (auto simp: draft_move_simps is_terminal_status_def)
  show "(\<forall>y. \<not> grant_move g y) \<longleftrightarrow> g \<notin> {G_PENDING, G_APPROVED, G_CONSUMING}"
    by (cases g) (auto simp: grant_move_simps)
  show "(\<forall>y. \<not> idem_move r y) \<longleftrightarrow> r = I_FAILED"
    by (auto simp: idem_move_simps)
qed

text \<open>A grant once consumed, rejected or lost keeps that status through every history.\<close>

lemma settled_grant_kept:
  assumes "grants_ok t" "grant_status_of sid t = Some x" "x \<notin> {G_PENDING, G_APPROVED, G_CONSUMING}"
  shows "grant_status_of sid (snd (run_steps (grant_step sha) cs t)) = Some x"
  by (rule grants.final_kept [OF assms(1) all_allowed_True assms(2)]) (use assms(3) final_statuses(2) in blast)

section \<open>Properties\<close>



end
