(* ===== verification/Store_Rows.thy ===== *)
theory Store_Rows
  imports Schema_Link
begin

text \<open>
  What the SQLite repositories read back. The functions \<open>_row_to_grant\<close>, \<open>_row_to_hitl_session\<close>,
  \<open>_row_to_record\<close> and \<open>_row_to_event\<close> look each column up by its name in the row SQLite returns and put
  the cell into the field as it is, except for the enumerations and the JSON texts they convert: the
  records \<open>grant_cells\<close>, \<open>session_cells\<close>, \<open>record_cells\<close> and \<open>event_cells\<close> are what they return. The models of
  the repositories speak of records whose times are numbers and whose statuses are enumerations;
  \<open>grant_value\<close>, \<open>session_value\<close>, \<open>record_value\<close> and \<open>event_value\<close> give the record that cells stand for, and an
  error where they stand for none.

  The locale \<open>stored_codec\<close> extends the contract of \<open>stored_records\<close> by the reading side: over the tables
  \<open>init_database\<close> creates, the rows of a list of records are read back as that list. \<open>json.loads\<close> and
  the reading of a time text are the fields of \<open>row_env\<close>.
\<close>

record row_env =
  re_lib :: pylib
  re_loads :: "string \<Rightarrow> json option"
  re_parse :: "string \<Rightarrow> iso_time"

section \<open>Cells\<close>

definition no_item :: pyexn where
  "no_item = OtherError ''No item with that key''"

definition has_column_named :: "column list \<Rightarrow> string \<Rightarrow> bool" where
  "has_column_named cols n = (n \<in> co_name ` set cols)"

text \<open>\<open>row[n]\<close>.\<close>

definition item :: "column list \<Rightarrow> sqlrow \<Rightarrow> string \<Rightarrow> pyexn + sqlval" where
  "item cols row n = (case map_of (zip (map co_name cols) row) n of None \<Rightarrow> Inl no_item | Some v \<Rightarrow> Inr v)"

fun cell_truthy :: "sqlval \<Rightarrow> bool" where
  "cell_truthy SNull = False"
| "cell_truthy (SInt n) = (n \<noteq> 0)"
| "cell_truthy (SText s) = (s \<noteq> [])"

text \<open>\<open>json.loads\<close> takes texts only.\<close>

fun loads :: "row_env \<Rightarrow> sqlval \<Rightarrow> pyexn + json" where
  "loads E (SText s) = (case re_loads E s of None \<Rightarrow> Inl (ValueError ''Expecting value'') | Some j \<Rightarrow> Inr j)"
| "loads E v = Inl (TypeError ''the JSON object must be str, bytes or bytearray'')"

text \<open>\<open>Enum(value)\<close>, given the name of the class and its members.\<close>

fun cell_repr :: "pylib \<Rightarrow> sqlval \<Rightarrow> string" where
  "cell_repr L SNull = ''None''"
| "cell_repr L (SInt n) = pl_str L (JInt n)"
| "cell_repr L (SText s) = quoted s"

definition enum_member :: "row_env \<Rightarrow> string \<Rightarrow> ('e \<Rightarrow> string) \<Rightarrow> 'e list \<Rightarrow> sqlval \<Rightarrow> pyexn + 'e" where
  "enum_member E cls val es v = (case List.find (\<lambda>e. SText (val e) = v) es of
     None \<Rightarrow> Inl (ValueError (cell_repr (re_lib E) v @ '' is not a valid '' @ cls)) | Some e \<Rightarrow> Inr e)"

definition GRANT_STATUSES :: "grant_status list" where
  "GRANT_STATUSES = [G_PENDING, G_APPROVED, G_CONSUMING, G_CONSUMED, G_REJECTED, G_EXPIRED, G_FAILED, G_UNKNOWN,
     G_RECONCILIATION_REQUIRED]"

definition HITL_STATUSES :: "hitl_status list" where
  "HITL_STATUSES = [H_PENDING, H_APPROVED, H_REJECTED, H_EXPIRED, H_RESUMED, H_FAILED, H_RECONCILIATION_REQUIRED]"

definition IDEM_STATUSES :: "idempotency_status list" where
  "IDEM_STATUSES = [I_RESERVED, I_EXECUTING, I_SUCCEEDED, I_FAILED, I_UNKNOWN]"

fun event_kind_value :: "event_kind \<Rightarrow> string" where
  "event_kind_value E_USER_MESSAGE = ''user_message''"
| "event_kind_value E_AGENT_MESSAGE = ''agent_message''"
| "event_kind_value E_TOOL_CALL = ''tool_call''"
| "event_kind_value E_TOOL_RESULT = ''tool_result''"
| "event_kind_value E_ERROR = ''error''"
| "event_kind_value E_CHECKPOINT = ''checkpoint''"
| "event_kind_value E_RECONCILIATION_REQUIRED = ''reconciliation_required''"

definition EVENT_KINDS :: "event_kind list" where
  "EVENT_KINDS = [E_USER_MESSAGE, E_AGENT_MESSAGE, E_TOOL_CALL, E_TOOL_RESULT, E_ERROR, E_CHECKPOINT,
     E_RECONCILIATION_REQUIRED]"

section \<open>Rows to cells\<close>

record grant_cells =
  gc_session_id :: sqlval
  gc_requesting_user_id :: sqlval
  gc_approving_actor_id :: sqlval
  gc_thread_id :: sqlval
  gc_run_id :: sqlval
  gc_checkpoint_id :: sqlval
  gc_tool_call_id :: sqlval
  gc_tool_name :: sqlval
  gc_canonical_tool_args :: sqlval
  gc_argument_digest :: sqlval
  gc_idempotency_key :: sqlval
  gc_decision :: sqlval
  gc_status :: sqlval
  gc_created_at :: sqlval
  gc_approved_at :: sqlval
  gc_expires_at :: sqlval
  gc_consuming_at :: sqlval
  gc_consumed_at :: sqlval
  gc_failed_at :: sqlval
  gc_version :: sqlval

definition row_to_grant :: "column list \<Rightarrow> sqlrow \<Rightarrow> pyexn + grant_cells" where
  "row_to_grant cols row =
     bindE (item cols row ''session_id'') (\<lambda>x1.
     bindE (item cols row ''requesting_user_id'') (\<lambda>x2.
     bindE (item cols row ''approving_actor_id'') (\<lambda>x3.
     bindE (item cols row ''thread_id'') (\<lambda>x4.
     bindE (item cols row ''run_id'') (\<lambda>x5.
     bindE (item cols row ''checkpoint_id'') (\<lambda>x6.
     bindE (item cols row ''tool_call_id'') (\<lambda>x7.
     bindE (item cols row ''tool_name'') (\<lambda>x8.
     bindE (item cols row ''canonical_tool_args'') (\<lambda>x9.
     bindE (item cols row ''argument_digest'') (\<lambda>x10.
     bindE (item cols row ''idempotency_key'') (\<lambda>x11.
     bindE (item cols row ''decision'') (\<lambda>x12.
     bindE (item cols row ''status'') (\<lambda>x13.
     bindE (item cols row ''created_at'') (\<lambda>x14.
     bindE (item cols row ''approved_at'') (\<lambda>x15.
     bindE (item cols row ''expires_at'') (\<lambda>x16.
     bindE (item cols row ''consuming_at'') (\<lambda>x17.
     bindE (item cols row ''consumed_at'') (\<lambda>x18.
     bindE (item cols row ''failed_at'') (\<lambda>x19.
     bindE (item cols row ''version'') (\<lambda>x20.
     Inr \<lparr>gc_session_id = x1, gc_requesting_user_id = x2, gc_approving_actor_id = x3,
         gc_thread_id = x4, gc_run_id = x5, gc_checkpoint_id = x6, gc_tool_call_id = x7,
         gc_tool_name = x8, gc_canonical_tool_args = x9, gc_argument_digest = x10,
         gc_idempotency_key = x11, gc_decision = x12, gc_status = x13, gc_created_at = x14,
         gc_approved_at = x15, gc_expires_at = x16, gc_consuming_at = x17, gc_consumed_at = x18,
         gc_failed_at = x19, gc_version = x20\<rparr>))))))))))))))))))))"

record session_cells =
  sc_session_id :: sqlval
  sc_user_id :: sqlval
  sc_thread_id :: sqlval
  sc_status :: hitl_status
  sc_tool_name :: sqlval
  sc_tool_args :: json
  sc_tool_call_id :: sqlval
  sc_authorization_decision :: sqlval
  sc_approval_requirement :: sqlval
  sc_idempotency_key :: sqlval
  sc_version :: sqlval
  sc_created_at :: sqlval
  sc_updated_at :: sqlval
  sc_expires_at :: sqlval

definition row_to_hitl_session :: "row_env \<Rightarrow> column list \<Rightarrow> sqlrow \<Rightarrow> pyexn + session_cells" where
  "row_to_hitl_session E cols row =
     bindE (item cols row ''session_id'') (\<lambda>x1.
     bindE (item cols row ''user_id'') (\<lambda>x2.
     bindE (item cols row ''thread_id'') (\<lambda>x3.
     bindE (bindE (item cols row ''status'') (enum_member E ''HITLSessionStatus'' hitl_status_value HITL_STATUSES)) (\<lambda>x4.
     bindE (item cols row ''tool_name'') (\<lambda>x5.
     bindE (bindE (item cols row ''tool_args'') (loads E)) (\<lambda>x6.
     bindE (if has_column_named cols ''tool_call_id'' then item cols row ''tool_call_id'' else Inr (SText [])) (\<lambda>x7.
     bindE (item cols row ''authorization_decision'') (\<lambda>x8.
     bindE (item cols row ''approval_requirement'') (\<lambda>x9.
     bindE (item cols row ''idempotency_key'') (\<lambda>x10.
     bindE (item cols row ''version'') (\<lambda>x11.
     bindE (item cols row ''created_at'') (\<lambda>x12.
     bindE (item cols row ''updated_at'') (\<lambda>x13.
     bindE (item cols row ''expires_at'') (\<lambda>x14.
     Inr \<lparr>sc_session_id = x1, sc_user_id = x2, sc_thread_id = x3, sc_status = x4,
         sc_tool_name = x5, sc_tool_args = x6, sc_tool_call_id = x7, sc_authorization_decision = x8,
         sc_approval_requirement = x9, sc_idempotency_key = x10, sc_version = x11, sc_created_at = x12,
         sc_updated_at = x13, sc_expires_at = x14\<rparr>))))))))))))))"

record record_cells =
  rc_idempotency_key :: sqlval
  rc_status :: idempotency_status
  rc_tool_name :: sqlval
  rc_tool_args :: "json option"
  rc_result :: sqlval
  rc_error :: sqlval
  rc_created_at :: sqlval
  rc_completed_at :: sqlval

definition row_to_record :: "row_env \<Rightarrow> column list \<Rightarrow> sqlrow \<Rightarrow> pyexn + record_cells" where
  "row_to_record E cols row =
     bindE (item cols row ''idempotency_key'') (\<lambda>x1.
     bindE (bindE (item cols row ''status'') (enum_member E ''IdempotencyStatus'' idem_status_value IDEM_STATUSES)) (\<lambda>x2.
     bindE (item cols row ''tool_name'') (\<lambda>x3.
     bindE (bindE (item cols row ''tool_args'') (\<lambda>v. if cell_truthy v then bindE (loads E v) (\<lambda>j. Inr (Some j)) else Inr None)) (\<lambda>x4.
     bindE (item cols row ''result'') (\<lambda>x5.
     bindE (item cols row ''error'') (\<lambda>x6.
     bindE (item cols row ''created_at'') (\<lambda>x7.
     bindE (item cols row ''completed_at'') (\<lambda>x8.
     Inr \<lparr>rc_idempotency_key = x1, rc_status = x2, rc_tool_name = x3, rc_tool_args = x4,
         rc_result = x5, rc_error = x6, rc_created_at = x7, rc_completed_at = x8\<rparr>))))))))"

record event_cells =
  ec_run_id :: sqlval
  ec_seq :: sqlval
  ec_kind :: event_kind
  ec_payload :: json
  ec_timestamp :: sqlval

definition row_to_event :: "row_env \<Rightarrow> column list \<Rightarrow> sqlrow \<Rightarrow> pyexn + event_cells" where
  "row_to_event E cols row =
     bindE (item cols row ''run_id'') (\<lambda>x1.
     bindE (item cols row ''seq'') (\<lambda>x2.
     bindE (bindE (item cols row ''kind'') (enum_member E ''EventKind'' event_kind_value EVENT_KINDS)) (\<lambda>x3.
     bindE (bindE (item cols row ''payload'') (loads E)) (\<lambda>x4.
     bindE (item cols row ''timestamp'') (\<lambda>x5.
     Inr \<lparr>ec_run_id = x1, ec_seq = x2, ec_kind = x3, ec_payload = x4,
         ec_timestamp = x5\<rparr>)))))"

section \<open>Cells to records\<close>

definition wrong_cell :: pyexn where
  "wrong_cell = TypeError ''cell of another type''"

fun text_value :: "sqlval \<Rightarrow> pyexn + string" where
  "text_value (SText s) = Inr s"
| "text_value v = Inl wrong_cell"

fun opt_value :: "sqlval \<Rightarrow> pyexn + string option" where
  "opt_value SNull = Inr None"
| "opt_value v = bindE (text_value v) (\<lambda>s. Inr (Some s))"

fun int_value :: "sqlval \<Rightarrow> pyexn + int" where
  "int_value (SInt n) = Inr n"
| "int_value v = Inl wrong_cell"

definition time_value :: "row_env \<Rightarrow> sqlval \<Rightarrow> pyexn + timestamp" where
  "time_value E v = bindE (text_value v) (\<lambda>s. case re_parse E s of AwareTime t \<Rightarrow> Inr t | _ \<Rightarrow> Inl wrong_cell)"

fun opt_time_value :: "row_env \<Rightarrow> sqlval \<Rightarrow> pyexn + timestamp option" where
  "opt_time_value E SNull = Inr None"
| "opt_time_value E v = bindE (time_value E v) (\<lambda>t. Inr (Some t))"

definition json_value :: "row_env \<Rightarrow> sqlval \<Rightarrow> pyexn + json" where
  "json_value E v = loads E v"

definition status_value :: "row_env \<Rightarrow> sqlval \<Rightarrow> pyexn + grant_status" where
  "status_value E v = enum_member E ''GrantStatus'' grant_status_value GRANT_STATUSES v"

fun obj_value :: "json \<Rightarrow> pyexn + kwargs" where
  "obj_value (JObj kvs) = Inr kvs"
| "obj_value j = Inl wrong_cell"

fun opt_obj_value :: "json option \<Rightarrow> pyexn + kwargs option" where
  "opt_obj_value None = Inr None"
| "opt_obj_value (Some j) = bindE (obj_value j) (\<lambda>x. Inr (Some x))"

definition grant_value :: "row_env \<Rightarrow> grant_cells \<Rightarrow> pyexn + grant_record" where
  "grant_value E c =
     bindE (text_value (gc_session_id c)) (\<lambda>x1.
     bindE (text_value (gc_requesting_user_id c)) (\<lambda>x2.
     bindE (text_value (gc_approving_actor_id c)) (\<lambda>x3.
     bindE (text_value (gc_thread_id c)) (\<lambda>x4.
     bindE (opt_value (gc_run_id c)) (\<lambda>x5.
     bindE (opt_value (gc_checkpoint_id c)) (\<lambda>x6.
     bindE (text_value (gc_tool_call_id c)) (\<lambda>x7.
     bindE (text_value (gc_tool_name c)) (\<lambda>x8.
     bindE (json_value E (gc_canonical_tool_args c)) (\<lambda>x9.
     bindE (text_value (gc_argument_digest c)) (\<lambda>x10.
     bindE (text_value (gc_idempotency_key c)) (\<lambda>x11.
     bindE (text_value (gc_decision c)) (\<lambda>x12.
     bindE (status_value E (gc_status c)) (\<lambda>x13.
     bindE (time_value E (gc_created_at c)) (\<lambda>x14.
     bindE (opt_time_value E (gc_approved_at c)) (\<lambda>x15.
     bindE (opt_time_value E (gc_expires_at c)) (\<lambda>x16.
     bindE (opt_time_value E (gc_consuming_at c)) (\<lambda>x17.
     bindE (opt_time_value E (gc_consumed_at c)) (\<lambda>x18.
     bindE (opt_time_value E (gc_failed_at c)) (\<lambda>x19.
     bindE (int_value (gc_version c)) (\<lambda>x20.
     Inr \<lparr>gt_session_id = x1, gt_requesting_user_id = x2, gt_approving_actor_id = x3,
         gt_thread_id = x4, gt_run_id = x5, gt_checkpoint_id = x6, gt_tool_call_id = x7,
         gt_tool_name = x8, gt_canonical_tool_args = x9, gt_argument_digest = x10,
         gt_idempotency_key = x11, gt_decision = x12, gt_status = x13, gt_created_at = x14,
         gt_approved_at = x15, gt_expires_at = x16, gt_consuming_at = x17, gt_consumed_at = x18,
         gt_failed_at = x19, gt_version = x20\<rparr>))))))))))))))))))))"

definition session_value :: "row_env \<Rightarrow> session_cells \<Rightarrow> pyexn + hitl_session" where
  "session_value E c =
     bindE (text_value (sc_session_id c)) (\<lambda>x1.
     bindE (text_value (sc_user_id c)) (\<lambda>x2.
     bindE (text_value (sc_thread_id c)) (\<lambda>x3.
     bindE (text_value (sc_tool_name c)) (\<lambda>x5.
     bindE (obj_value (sc_tool_args c)) (\<lambda>x6.
     bindE (text_value (sc_tool_call_id c)) (\<lambda>x7.
     bindE (opt_value (sc_authorization_decision c)) (\<lambda>x8.
     bindE (opt_value (sc_approval_requirement c)) (\<lambda>x9.
     bindE (opt_value (sc_idempotency_key c)) (\<lambda>x10.
     bindE (int_value (sc_version c)) (\<lambda>x11.
     bindE (time_value E (sc_created_at c)) (\<lambda>x12.
     bindE (time_value E (sc_updated_at c)) (\<lambda>x13.
     bindE (opt_time_value E (sc_expires_at c)) (\<lambda>x14.
     Inr \<lparr>hs_session_id = x1, hs_user_id = x2, hs_thread_id = x3, hs_status = sc_status c,
         hs_tool_name = x5, hs_tool_args = x6, hs_authorization_decision = x8,
         hs_approval_requirement = x9, hs_idempotency_key = x10, hs_version = x11, hs_created_at = x12,
         hs_updated_at = x13, hs_expires_at = x14, hs_tool_call_id = x7\<rparr>)))))))))))))"

definition record_value :: "row_env \<Rightarrow> record_cells \<Rightarrow> pyexn + idempotency_record" where
  "record_value E c =
     bindE (text_value (rc_idempotency_key c)) (\<lambda>x1.
     bindE (text_value (rc_tool_name c)) (\<lambda>x3.
     bindE (opt_obj_value (rc_tool_args c)) (\<lambda>x4.
     bindE (opt_value (rc_result c)) (\<lambda>x5.
     bindE (opt_value (rc_error c)) (\<lambda>x6.
     bindE (time_value E (rc_created_at c)) (\<lambda>x7.
     bindE (opt_time_value E (rc_completed_at c)) (\<lambda>x8.
     Inr \<lparr>ir_key = x1, ir_status = rc_status c, ir_tool_name = x3, ir_tool_args = x4,
         ir_result = x5, ir_error = x6, ir_created_at = x7, ir_completed_at = x8\<rparr>)))))))"

definition event_value :: "row_env \<Rightarrow> event_cells \<Rightarrow> pyexn + agent_event" where
  "event_value E c =
     bindE (text_value (ec_run_id c)) (\<lambda>x1.
     bindE (int_value (ec_seq c)) (\<lambda>x2.
     bindE (obj_value (ec_payload c)) (\<lambda>x4.
     bindE (time_value E (ec_timestamp c)) (\<lambda>x5.
     Inr \<lparr>ev_run_id = x1, ev_seq = x2, ev_kind = ec_kind c, ev_payload = x4,
         ev_timestamp = x5\<rparr>))))"

text \<open>A row, read as the record of the model.\<close>

definition read_grant :: "row_env \<Rightarrow> column list \<Rightarrow> sqlrow \<Rightarrow> pyexn + grant_record" where
  "read_grant E cols row = bindE (row_to_grant cols row) (grant_value E)"

definition read_session :: "row_env \<Rightarrow> column list \<Rightarrow> sqlrow \<Rightarrow> pyexn + hitl_session" where
  "read_session E cols row = bindE (row_to_hitl_session E cols row) (session_value E)"

definition read_record :: "row_env \<Rightarrow> column list \<Rightarrow> sqlrow \<Rightarrow> pyexn + idempotency_record" where
  "read_record E cols row = bindE (row_to_record E cols row) (record_value E)"

definition read_event :: "row_env \<Rightarrow> column list \<Rightarrow> sqlrow \<Rightarrow> pyexn + agent_event" where
  "read_event E cols row = bindE (row_to_event E cols row) (event_value E)"

lemmas read_defs = read_grant_def read_session_def read_record_def read_event_def
  row_to_grant_def row_to_hitl_session_def row_to_record_def row_to_event_def
  grant_value_def session_value_def record_value_def event_value_def

section \<open>The rows of the other two tables\<close>

definition idem_row :: "pylib \<Rightarrow> idempotency_record \<Rightarrow> sqlrow" where
  "idem_row L r =
     [SText (ir_key r), SText (idem_status_value (ir_status r)), SText (ir_tool_name r),
      opt_text (map_option (\<lambda>a. pl_dumps L (JObj a)) (ir_tool_args r)), opt_text (ir_result r), opt_text (ir_error r),
      SText (pl_iso L (ir_created_at r)), opt_time L (ir_completed_at r)]"

text \<open>The first column of an event is the number SQLite gives its row.\<close>

definition event_row :: "pylib \<Rightarrow> nat \<times> agent_event \<Rightarrow> sqlrow" where
  "event_row L ie = (case ie of (i, e) \<Rightarrow>
     [SInt (int i), SText (ev_run_id e), SInt (ev_seq e), SText (event_kind_value (ev_kind e)),
      SText (pl_dumps L (JObj (ev_payload e))), SText (pl_iso L (ev_timestamp e))])"

section \<open>The statements that read\<close>

definition where_cell :: "column list \<Rightarrow> string \<Rightarrow> sqlval \<Rightarrow> sqlrow \<Rightarrow> bool" where
  "where_cell cols n v r = (row_cells cols [n] r = [v])"

text \<open>\<open>SELECT * FROM t WHERE n=?\<close>, one row of it.\<close>

definition fetch_one ::
    "(sqlrow \<Rightarrow> pyexn + 'r) \<Rightarrow> column list \<Rightarrow> string \<Rightarrow> string \<Rightarrow> sqlrow list \<Rightarrow> pyexn + 'r option" where
  "fetch_one decode cols n k rows = (case filter (where_cell cols n (SText k)) rows of
     [] \<Rightarrow> Inr None
   | r # _ \<Rightarrow> bindE (decode r) (\<lambda>x. Inr (Some x)))"

definition select_pending :: "row_env \<Rightarrow> column list \<Rightarrow> string option \<Rightarrow> sqlrow list \<Rightarrow> pyexn + hitl_session list" where
  "select_pending E cols user_id rows =
     (let pending = filter (where_cell cols ''status'' (SText ''PENDING'')) rows
      in all_of (read_session E cols)
           (if opt_str user_id \<noteq> [] then filter (where_cell cols ''user_id'' (SText (opt_str user_id))) pending else pending))"

text \<open>\<open>ORDER BY seq\<close>: a column of integers.\<close>

definition seq_cell :: "column list \<Rightarrow> sqlrow \<Rightarrow> int" where
  "seq_cell cols r = (case row_cells cols [''seq''] r of [SInt n] \<Rightarrow> n | _ \<Rightarrow> 0)"

definition select_run :: "row_env \<Rightarrow> column list \<Rightarrow> string \<Rightarrow> sqlrow list \<Rightarrow> pyexn + agent_event list" where
  "select_run E cols run_id rows =
     all_of (read_event E cols) (sort_key (seq_cell cols) (filter (where_cell cols ''run_id'' (SText run_id)) rows))"

section \<open>Reading what was written\<close>

lemma all_of_map: "(\<And>x. x \<in> set xs \<Longrightarrow> f (g x) = Inr (h x)) \<Longrightarrow> all_of f (map g xs) = Inr (map h xs)"
  by (induction xs) simp_all

lemma sort_key_map: "sort_key f (map g xs) = map g (sort_key (\<lambda>x. f (g x)) xs)"
proof -
  have insort: "insort_key f (g x) (map g ys) = map g (insort_key (\<lambda>x. f (g x)) x ys)" for x ys
    by (induction ys) auto
  show ?thesis by (induction xs) (simp_all add: insort)
qed

locale stored_codec = stored_records +
  fixes decode :: "sqlrow \<Rightarrow> pyexn + 'a" and readable :: "'a \<Rightarrow> bool" and key :: "'a \<Rightarrow> string" and key_column :: string
  assumes decode_row: "readable r \<Longrightarrow> decode (row r) = Inr r"
    and key_cell: "row_cells cols [key_column] (row r) = [SText (key r)]"
    and key_unique: "key r = key r' \<Longrightarrow> conflict r r'"
begin

lemma where_key: "filter (where_cell cols key_column (SText k)) (map row t) = map row (filter (\<lambda>r. key r = k) t)"
  by (simp add: filter_map comp_def where_cell_def key_cell)

lemma fetches: "list_all readable t \<Longrightarrow> fetch_one decode cols key_column k (map row t) = Inr (find_row key k t)"
  unfolding fetch_one_def where_key by (induction t) (simp_all add: table_laws decode_row)

lemma inserted_is_fetched:
  assumes "list_all readable t" "readable r" "insert_rows cols uniques (map row t) [row r] = Some rows"
  shows "fetch_one decode cols key_column (key r) rows = Inr (Some r)"
proof -
  have "\<not> list_ex (conflict r) t" and rows: "rows = map row (t @ [r])"
    using assms(3) by (auto simp: accepted split: if_splits)
  then have "key r \<notin> key ` set t" by (auto simp: list_ex_iff dest: key_unique)
  then have "find_row key (key r) (t @ [r]) = Some r"
    by (simp add: find_row_append find_row_None [THEN iffD2] table_laws)
  with fetches [of "t @ [r]" "key r"] assms(1,2) show ?thesis by (simp add: rows)
qed

end

section \<open>Readable records\<close>

text \<open>The documented round trips of the texts a record is stored as: of its times, and of its JSON.\<close>

definition time_ok :: "row_env \<Rightarrow> timestamp \<Rightarrow> bool" where
  "time_ok E t = (re_parse E (pl_iso (re_lib E) t) = AwareTime t)"

definition times_ok :: "row_env \<Rightarrow> timestamp option list \<Rightarrow> bool" where
  "times_ok E ts = list_all (pred_option (time_ok E)) ts"

definition json_ok :: "row_env \<Rightarrow> json \<Rightarrow> bool" where
  "json_ok E j = (re_loads E (pl_dumps (re_lib E) j) = Some j)"

definition grant_readable :: "row_env \<Rightarrow> grant_record \<Rightarrow> bool" where
  "grant_readable E g = (json_ok E (gt_canonical_tool_args g) \<and> times_ok E [Some (gt_created_at g), gt_approved_at g,
     gt_expires_at g, gt_consuming_at g, gt_consumed_at g, gt_failed_at g])"

definition session_readable :: "row_env \<Rightarrow> hitl_session \<Rightarrow> bool" where
  "session_readable E s = (json_ok E (JObj (hs_tool_args s))
     \<and> times_ok E [Some (hs_created_at s), Some (hs_updated_at s), hs_expires_at s])"

text \<open>The text of a dictionary is not empty, which the reader of an idempotency record relies on.\<close>

definition record_readable :: "row_env \<Rightarrow> idempotency_record \<Rightarrow> bool" where
  "record_readable E r = (pred_option (\<lambda>a. json_ok E (JObj a) \<and> pl_dumps (re_lib E) (JObj a) \<noteq> []) (ir_tool_args r)
     \<and> times_ok E [Some (ir_created_at r), ir_completed_at r])"

definition event_readable :: "row_env \<Rightarrow> agent_event \<Rightarrow> bool" where
  "event_readable E e = (json_ok E (JObj (ev_payload e)) \<and> time_ok E (ev_timestamp e))"

lemma time_written: "time_ok E t \<Longrightarrow> time_value E (SText (pl_iso (re_lib E) t)) = Inr t"
  by (simp add: time_value_def time_ok_def)

lemma opt_time_written: "pred_option (time_ok E) t \<Longrightarrow> opt_time_value E (opt_time (re_lib E) t) = Inr t"
  by (cases t) (simp_all add: opt_time_def opt_text_def time_written)

lemma opt_written: "opt_value (opt_text x) = Inr x"
  by (cases x) (simp_all add: opt_text_def)

lemma json_written: "json_ok E j \<Longrightarrow> loads E (SText (pl_dumps (re_lib E) j)) = Inr j"
  by (simp add: json_ok_def)

lemma opt_json_written:
  "pred_option (\<lambda>a. json_ok E (JObj a) \<and> pl_dumps (re_lib E) (JObj a) \<noteq> []) x \<Longrightarrow>
     (if cell_truthy (opt_text (map_option (\<lambda>a. pl_dumps (re_lib E) (JObj a)) x))
      then bindE (loads E (opt_text (map_option (\<lambda>a. pl_dumps (re_lib E) (JObj a)) x))) (\<lambda>j. Inr (Some j))
      else Inr None) = Inr (map_option JObj x)"
  by (cases x) (simp_all add: opt_text_def json_written del: loads.simps)

lemma opt_obj_written: "opt_obj_value (map_option JObj x) = Inr x"
  by (cases x) simp_all

lemma enum_written:
  "enum_member E cls grant_status_value GRANT_STATUSES (SText (grant_status_value g)) = Inr g"
  "enum_member E cls hitl_status_value HITL_STATUSES (SText (hitl_status_value h)) = Inr h"
  "enum_member E cls idem_status_value IDEM_STATUSES (SText (idem_status_value i)) = Inr i"
  "enum_member E cls event_kind_value EVENT_KINDS (SText (event_kind_value k)) = Inr k"
proof -
  show "enum_member E cls grant_status_value GRANT_STATUSES (SText (grant_status_value g)) = Inr g"
    by (cases g) (simp_all add: enum_member_def GRANT_STATUSES_def)
  show "enum_member E cls hitl_status_value HITL_STATUSES (SText (hitl_status_value h)) = Inr h"
    by (cases h) (simp_all add: enum_member_def HITL_STATUSES_def)
  show "enum_member E cls idem_status_value IDEM_STATUSES (SText (idem_status_value i)) = Inr i"
    by (cases i) (simp_all add: enum_member_def IDEM_STATUSES_def)
  show "enum_member E cls event_kind_value EVENT_KINDS (SText (event_kind_value k)) = Inr k"
    by (cases k) (simp_all add: enum_member_def EVENT_KINDS_def)
qed

lemmas read_written = time_written opt_time_written opt_written json_written opt_json_written opt_obj_written
  enum_written json_value_def status_value_def

text \<open>A word outside an enumeration is a \<open>ValueError\<close>; the grant repository, which does not convert the
  status, would read any.\<close>

lemma unknown_status_raises:
  "enum_member E ''HITLSessionStatus'' hitl_status_value HITL_STATUSES (SText ''DONE'') =
     Inl (ValueError (quoted ''DONE'' @ '' is not a valid HITLSessionStatus''))"
  "enum_member E ''EventKind'' event_kind_value EVENT_KINDS SNull = Inl (ValueError ''None is not a valid EventKind'')"
  by (simp_all add: enum_member_def HITL_STATUSES_def EVENT_KINDS_def)

section \<open>The four tables\<close>

definition hitl_columns :: "column list" where
  "hitl_columns = session_columns @ [tool_call_column]"

lemma column_names:
  "map co_name hitl_columns =
     [''session_id'', ''user_id'', ''thread_id'', ''status'', ''tool_name'', ''tool_args'', ''authorization_decision'',
      ''approval_requirement'', ''idempotency_key'', ''version'', ''created_at'', ''updated_at'', ''expires_at'', ''tool_call_id'']"
  "map co_name idem_columns =
     [''idempotency_key'', ''status'', ''tool_name'', ''tool_args'', ''result'', ''error'', ''created_at'', ''completed_at'']"
  "map co_name event_columns = [''id'', ''run_id'', ''seq'', ''kind'', ''payload'', ''timestamp'']"
  by (simp_all add: hitl_columns_def session_columns_def
      tool_call_column_def idem_columns_def event_columns_def dflt_def req_def col_def)

lemma grant_written: "grant_readable E g \<Longrightarrow> read_grant E columns_v5 (grant_row (re_lib E) g) = Inr g"
  by (simp add: read_defs item_def grant_names grant_row_def grant_readable_def times_ok_def read_written del: loads.simps)

lemma session_written: "session_readable E s \<Longrightarrow> read_session E hitl_columns (session_row (re_lib E) s) = Inr s"
proof -
  have "has_column_named hitl_columns ''tool_call_id''"
    unfolding has_column_named_def by (simp add: column_names flip: set_map)
  then show "session_readable E s \<Longrightarrow> read_session E hitl_columns (session_row (re_lib E) s) = Inr s"
    by (simp add: read_defs item_def column_names session_row_def session_readable_def times_ok_def read_written del: loads.simps)
qed

lemma record_written: "record_readable E r \<Longrightarrow> read_record E idem_columns (idem_row (re_lib E) r) = Inr r"
  by (simp add: read_defs item_def column_names idem_row_def record_readable_def times_ok_def read_written del: loads.simps)

lemma event_written: "event_readable E e \<Longrightarrow> read_event E event_columns (event_row (re_lib E) (i, e)) = Inr e"
  by (simp add: read_defs item_def column_names event_row_def event_readable_def read_written del: loads.simps)

interpretation grant_store: stored_codec "grant_row (re_lib E)" decision_ok grant_conflict columns_v5 grant_uniques
    "read_grant E columns_v5" "grant_readable E" gt_session_id "''session_id''" for E
  by unfold_locales (simp_all add: grant_written grant_keys grant_conflict_def)

lemma row_keys:
  "row_cells hitl_columns [''session_id''] (session_row L s) = [SText (hs_session_id s)]"
  "row_cells idem_columns [''idempotency_key''] (idem_row L r) = [SText (ir_key r)]"
  by (simp_all add: row_cells_def column_names session_row_def idem_row_def)

interpretation session_store: stored_codec "session_row (re_lib E)" "\<lambda>s. True" hitl_conflict "session_columns @ [tool_call_column]"
    session_uniques "read_session E hitl_columns" "session_readable E" hs_session_id "''session_id''" for E
  by unfold_locales (simp_all add: session_written hitl_conflict_def row_keys flip: hitl_columns_def)

interpretation record_rows: stored_records "idem_row L" "\<lambda>r. True" "\<lambda>a b. ir_key a = ir_key b" idem_columns
    "[[''idempotency_key'']]" for L
proof
  fix r r' :: idempotency_record
  show "list_all2 column_accepts idem_columns (idem_row L r) \<longleftrightarrow> True"
    by (simp add: idem_columns_def idem_row_def column_defs)
  show "list_ex (\<lambda>names. rows_clash idem_columns names (idem_row L r) (idem_row L r')) [[''idempotency_key'']]
      \<longleftrightarrow> ir_key r = ir_key r'"
    by (simp add: rows_clash_def row_cells_def column_names idem_row_def)
qed

interpretation record_store: stored_codec "idem_row (re_lib E)" "\<lambda>r. True" "\<lambda>a b. ir_key a = ir_key b" idem_columns
    "[[''idempotency_key'']]" "read_record E idem_columns" "record_readable E" ir_key "''idempotency_key''" for E
  by unfold_locales (simp_all add: record_written row_keys)

text \<open>The two queries that return lists.\<close>

lemma pending_selected:
  assumes "list_all (session_readable E) t"
  shows "select_pending E hitl_columns user_id (map (session_row (re_lib E)) t) = Inr (hitl_list_pending user_id t)"
proof -
  have user: "where_cell hitl_columns ''user_id'' (SText u) (session_row (re_lib E) s) \<longleftrightarrow> hs_user_id s = u" for s u
    by (simp add: where_cell_def row_cells_def column_names session_row_def)
  have status: "where_cell hitl_columns ''status'' (SText ''PENDING'') (session_row (re_lib E) s) \<longleftrightarrow> hs_status s = H_PENDING" for s
    by (cases "hs_status s") (simp_all add: where_cell_def row_cells_def column_names session_row_def)
  have "all_of (read_session E hitl_columns) (map (session_row (re_lib E)) (filter P t)) = Inr (map id (filter P t))" for P
    using assms by (intro all_of_map) (auto simp: list_all_iff session_written)
  then show ?thesis
    by (cases user_id) (simp_all add: select_pending_def hitl_list_pending_def filter_map comp_def status user opt_str_def
        conj_commute)
qed

text \<open>The log, its rows numbered from 1.\<close>

definition log_rows :: "pylib \<Rightarrow> event_table \<Rightarrow> sqlrow list" where
  "log_rows L t = map (event_row L) (enumerate 1 t)"

lemma run_selected:
  assumes "list_all (event_readable E) t"
  shows "select_run E event_columns run_id (log_rows (re_lib E) t) = event_query_run run_id (Some t)"
proof -
  have run: "where_cell event_columns ''run_id'' (SText k) (event_row (re_lib E) x) \<longleftrightarrow> ev_run_id (snd x) = k"
    and seq: "seq_cell event_columns (event_row (re_lib E) x) = ev_seq (snd x)" for k x
    by (simp_all add: where_cell_def seq_cell_def row_cells_def column_names event_row_def split: prod.split)
  let ?xs = "sort_key (\<lambda>x. ev_seq (snd x)) (filter (\<lambda>x. ev_run_id (snd x) = run_id) (enumerate 1 t))"
  have "all_of (read_event E event_columns) (map (event_row (re_lib E)) ?xs) = Inr (map snd ?xs)"
  proof (rule all_of_map)
    fix x assume "x \<in> set ?xs"
    then have "x \<in> set (enumerate 1 t)" by simp
    then have "snd x \<in> set (map snd (enumerate 1 t))" unfolding set_map by (rule imageI)
    then have "snd x \<in> set t" by (simp only: map_snd_enumerate)
    with assms have "event_readable E (snd x)" by (simp add: list_all_iff)
    then show "read_event E event_columns (event_row (re_lib E) x) = Inr (snd x)"
      using event_written [of E "snd x" "fst x"] by simp
  qed
  moreover have "map snd ?xs = sort_key ev_seq (filter (\<lambda>e. ev_run_id e = run_id) t)"
  proof -
    have "map snd (filter (\<lambda>x. ev_run_id (snd x) = run_id) (enumerate 1 t)) = filter (\<lambda>e. ev_run_id e = run_id) (map snd (enumerate 1 t))"
      by (simp only: filter_map comp_def)
    then show ?thesis by (simp only: sort_key_map [symmetric] map_snd_enumerate)
  qed
  ultimately show ?thesis
    by (simp add: select_run_def log_rows_def event_query_run_def filter_map comp_def run sort_key_map seq)
qed

section \<open>Properties\<close>


definition demo_row_env :: row_env where
  "demo_row_env = \<lparr>re_lib = demo_lib\<lparr>pl_iso := \<lambda>t. replicate (nat t) CHR ''0''\<rparr>, re_loads = (\<lambda>s. Some (JObj [])),
     re_parse = (\<lambda>s. AwareTime (int (length s)))\<rparr>"

definition demo_record :: idempotency_record where
  "demo_record = \<lparr>ir_key = ''k1'', ir_status = I_RESERVED, ir_tool_name = ''submit_transfer'', ir_tool_args = Some [],
     ir_result = None, ir_error = None, ir_created_at = 3, ir_completed_at = None\<rparr>"


end
