(* ===== verification/Connections.thy ===== *)
theory Connections
  imports Database
begin

text \<open>
  The connections of the repositories. Four of them (\<open>hitl_store.py\<close>, \<open>grant_repo.py\<close>,
  \<open>idempotency_store.py\<close>, \<open>checkpoint_store.py\<close>) open theirs at the first call, through
  \<open>init_database\<close>, and keep it until they are closed; \<open>db.py\<close> tracks every connection it opens in a
  module-level list, for \<open>close_all_connections\<close>. Connections are numbered in the order they are
  opened; \<open>cw_file\<close> is the database file they share, and a call on a closed connection raises.
\<close>

datatype repository = Hitl_Repository | Grant_Repository | Idempotency_Repository | Checkpoint_Repository

record conn_world =
  cw_file :: database
  cw_handles :: "repository \<Rightarrow> nat option"
  cw_tracked :: "nat list"
  cw_open :: "nat list"
  cw_next :: nat

definition connection_closed :: pyexn where
  "connection_closed = ValueError ''no active connection''"

definition close_connection :: "nat \<Rightarrow> conn_world \<Rightarrow> conn_world" where
  "close_connection c w = w\<lparr>cw_open := removeAll c (cw_open w)\<rparr>"

text \<open>\<open>init_database\<close>: the new connection is tracked before anything can fail, and closed on failure.\<close>

definition open_database :: "conn_world \<Rightarrow> (pyexn + nat) \<times> conn_world" where
  "open_database w =
     (let c = cw_next w;
          (r, d) = init_database CURRENT_SCHEMA_VERSION (cw_file w);
          w1 = w\<lparr>cw_next := c + 1, cw_tracked := cw_tracked w @ [c], cw_open := cw_open w @ [c], cw_file := d\<rparr>
      in case r of Inl e \<Rightarrow> (Inl e, close_connection c w1) | Inr _ \<Rightarrow> (Inr c, w1))"

definition ensure_connected :: "repository \<Rightarrow> conn_world \<Rightarrow> (pyexn + nat) \<times> conn_world" where
  "ensure_connected r w = (case cw_handles w r of
     Some c \<Rightarrow> (Inr c, w)
   | None \<Rightarrow> (case open_database w of
       (Inl e, w1) \<Rightarrow> (Inl e, w1)
     | (Inr c, w1) \<Rightarrow> (Inr c, w1\<lparr>cw_handles := (cw_handles w1)(r := Some c)\<rparr>)))"

definition close_repository :: "repository \<Rightarrow> conn_world \<Rightarrow> conn_world" where
  "close_repository r w = (case cw_handles w r of
     None \<Rightarrow> w
   | Some c \<Rightarrow> (close_connection c w)\<lparr>cw_handles := (cw_handles w)(r := None)\<rparr>)"

definition close_all_connections :: "conn_world \<Rightarrow> conn_world" where
  "close_all_connections w = (fold close_connection (cw_tracked w) w)\<lparr>cw_tracked := []\<rparr>"

text \<open>A call of a repository: connect, then a statement on the connection.\<close>

definition use_repository :: "repository \<Rightarrow> conn_world \<Rightarrow> (pyexn + unit) \<times> conn_world" where
  "use_repository r w = (case ensure_connected r w of
     (Inl e, w1) \<Rightarrow> (Inl e, w1)
   | (Inr c, w1) \<Rightarrow> (if c \<in> set (cw_open w1) then Inr () else Inl connection_closed, w1))"

datatype conn_call = Use repository | Close repository | Close_All

fun conn_step :: "conn_call \<Rightarrow> conn_world \<Rightarrow> (pyexn + unit) \<times> conn_world" where
  "conn_step (Use r) w = use_repository r w"
| "conn_step (Close r) w = (Inr (), close_repository r w)"
| "conn_step Close_All w = (Inr (), close_all_connections w)"

definition unconnected :: "database \<Rightarrow> conn_world" where
  "unconnected d = \<lparr>cw_file = d, cw_handles = (\<lambda>r. None), cw_tracked = [], cw_open = [], cw_next = 0\<rparr>"

section \<open>The accounts\<close>

definition handles :: "conn_world \<Rightarrow> nat set" where
  "handles w = {c. \<exists>r. cw_handles w r = Some c}"

definition conn_ok :: "conn_world \<Rightarrow> bool" where
  "conn_ok w = (set (cw_open w) \<subseteq> set (cw_tracked w) \<and> set (cw_open w) \<subseteq> handles w
     \<and> (\<forall>c \<in> set (cw_tracked w) \<union> handles w. c < cw_next w)
     \<and> (\<forall>r r' c. cw_handles w r = Some c \<longrightarrow> cw_handles w r' = Some c \<longrightarrow> r = r'))"

definition all_live :: "conn_world \<Rightarrow> bool" where
  "all_live w = (handles w \<subseteq> set (cw_open w))"

lemma close_connection_simps [simp]:
  "cw_open (close_connection c w) = removeAll c (cw_open w)" "cw_tracked (close_connection c w) = cw_tracked w"
  "cw_handles (close_connection c w) = cw_handles w" "cw_next (close_connection c w) = cw_next w"
  "cw_file (close_connection c w) = cw_file w"
  by (simp_all add: close_connection_def)

lemma close_many:
  "set (cw_open (fold close_connection cs w)) = set (cw_open w) - set cs"
  "cw_handles (fold close_connection cs w) = cw_handles w" "cw_next (fold close_connection cs w) = cw_next w"
  "cw_file (fold close_connection cs w) = cw_file w"
  by (induction cs arbitrary: w) auto

lemma open_database_cases:
  obtains (failed) e where "fst (open_database w) = Inl e"
      "fst (init_database CURRENT_SCHEMA_VERSION (cw_file w)) = Inl e"
      "set (cw_open (snd (open_database w))) = set (cw_open w) - {cw_next w}"
      "cw_handles (snd (open_database w)) = cw_handles w"
  | (opened) "fst (open_database w) = Inr (cw_next w)"
      "fst (init_database CURRENT_SCHEMA_VERSION (cw_file w)) = Inr ()"
      "set (cw_open (snd (open_database w))) = insert (cw_next w) (set (cw_open w))"
      "cw_handles (snd (open_database w)) = cw_handles w"
proof (cases "init_database CURRENT_SCHEMA_VERSION (cw_file w)")
  case (Pair r d)
  then show ?thesis by (cases r) (auto simp: open_database_def Let_def intro: failed opened)
qed

lemma open_database_tracked:
  "set (cw_tracked (snd (open_database w))) = insert (cw_next w) (set (cw_tracked w))"
  "cw_next (snd (open_database w)) = Suc (cw_next w)"
  by (simp_all add: open_database_def Let_def case_prod_beta split: sum.split)

text \<open>A call either finds its connection, opens the next one, or fails to open it.\<close>

lemma ensure_connected_cases:
  obtains (kept) c where "cw_handles w r = Some c" "ensure_connected r w = (Inr c, w)"
  | (failed) e where "cw_handles w r = None" "fst (ensure_connected r w) = Inl e"
      "fst (init_database CURRENT_SCHEMA_VERSION (cw_file w)) = Inl e"
      "set (cw_open (snd (ensure_connected r w))) = set (cw_open w) - {cw_next w}"
      "cw_handles (snd (ensure_connected r w)) = cw_handles w"
      "set (cw_tracked (snd (ensure_connected r w))) = insert (cw_next w) (set (cw_tracked w))"
      "cw_next (snd (ensure_connected r w)) = Suc (cw_next w)"
  | (opened) "cw_handles w r = None" "fst (ensure_connected r w) = Inr (cw_next w)"
      "fst (init_database CURRENT_SCHEMA_VERSION (cw_file w)) = Inr ()"
      "set (cw_open (snd (ensure_connected r w))) = insert (cw_next w) (set (cw_open w))"
      "cw_handles (snd (ensure_connected r w)) = (cw_handles w)(r := Some (cw_next w))"
      "set (cw_tracked (snd (ensure_connected r w))) = insert (cw_next w) (set (cw_tracked w))"
      "cw_next (snd (ensure_connected r w)) = Suc (cw_next w)"
proof (cases "cw_handles w r")
  case None
  note tr = open_database_tracked [of w]
  show ?thesis
  proof (cases rule: open_database_cases [of w])
    case (failed e)
    then show ?thesis using None tr
      by (intro that(2) [of e]) (auto simp: ensure_connected_def case_prod_beta split: sum.splits)
  next
    case opened
    then show ?thesis using None tr
      by (intro that(3)) (auto simp: ensure_connected_def case_prod_beta split: sum.splits)
  qed
qed (auto simp: ensure_connected_def intro: kept)

lemma use_state: "snd (use_repository r w) = snd (ensure_connected r w)"
  by (simp add: use_repository_def case_prod_beta split: sum.split)

lemma handles_upd:
  assumes "cw_handles w' = (cw_handles w)(r := Some c)" "cw_handles w r = None"
  shows "handles w' = insert c (handles w)"
  using assms by (auto simp: handles_def) (metis option.distinct(1))

lemma use_ok: "conn_ok w \<Longrightarrow> conn_ok (snd (use_repository r w))"
proof (cases rule: ensure_connected_cases [of w r])
  case (failed e)
  assume "conn_ok w"
  with failed(4-7) show ?thesis unfolding use_state conn_ok_def handles_def by (auto intro: less_SucI)
next
  case opened
  assume ok: "conn_ok w"
  have h: "handles (snd (ensure_connected r w)) = insert (cw_next w) (handles w)"
    using opened(5,1) by (rule handles_upd)
  have "cw_handles w r' \<noteq> Some (cw_next w)" for r' using ok by (auto simp: conn_ok_def handles_def)
  with ok opened(4-7) show ?thesis unfolding use_state conn_ok_def h by (auto intro: less_SucI)
qed (simp_all add: use_state)

lemma close_ok: "conn_ok w \<Longrightarrow> conn_ok (close_repository r w)"
proof (cases "cw_handles w r")
  case (Some c)
  assume ok: "conn_ok w"
  then have "handles (close_repository r w) = handles w - {c}"
    using Some by (auto simp: close_repository_def handles_def conn_ok_def) (metis option.inject)
  with ok Some show ?thesis
    by (auto simp: close_repository_def conn_ok_def)
qed (simp add: close_repository_def)

lemma close_all_ok: "conn_ok w \<Longrightarrow> conn_ok (close_all_connections w)"
  by (auto simp: close_all_connections_def conn_ok_def handles_def close_many)

lemma conn_step_ok: "conn_ok w \<Longrightarrow> conn_ok (snd (conn_step c w))"
  by (cases c) (simp_all add: use_ok close_ok close_all_ok)

lemma conn_run_ok: "conn_ok w \<Longrightarrow> conn_ok (snd (run_steps conn_step cs w))"
  by (induction cs arbitrary: w) (simp_all add: case_prod_beta Let_def conn_step_ok)

lemma unconnected_ok: "conn_ok (unconnected d)" "all_live (unconnected d)"
  by (auto simp: conn_ok_def all_live_def unconnected_def handles_def)

text \<open>As long as nobody closes all connections, every repository that has one can use it.\<close>

lemma conn_step_live:
  assumes "conn_ok w" "all_live w" "c \<noteq> Close_All"
  shows "all_live (snd (conn_step c w))"
proof (cases c)
  case (Use r)
  show ?thesis
  proof (cases rule: ensure_connected_cases [of w r])
    case (failed e)
    have "cw_next w \<notin> handles w" using assms(1) by (auto simp: conn_ok_def)
    with failed(4,5) assms(2) Use show ?thesis by (auto simp: use_state all_live_def handles_def)
  next
    case opened
    have "handles (snd (ensure_connected r w)) = insert (cw_next w) (handles w)"
      using opened(5,1) by (rule handles_upd)
    with opened(4) assms(2) Use show ?thesis by (auto simp: use_state all_live_def)
  qed (use assms Use in \<open>simp add: use_state\<close>)
next
  case (Close r)
  with assms show ?thesis
    by (auto simp: close_repository_def all_live_def handles_def conn_ok_def split: option.split)
qed (use assms in simp)

lemma conn_run_live:
  "conn_ok w \<Longrightarrow> all_live w \<Longrightarrow> Close_All \<notin> set cs \<Longrightarrow> all_live (snd (run_steps conn_step cs w))"
  by (induction cs arbitrary: w) (auto simp: case_prod_beta Let_def conn_step_ok conn_step_live)

lemma four_handles: "card (handles w) \<le> 4"
proof -
  let ?H = "\<lambda>r. case cw_handles w r of None \<Rightarrow> {} | Some c \<Rightarrow> {c}"
  have one: "card (?H r) \<le> 1" "finite (?H r)" for r by (cases "cw_handles w r"; simp)+
  have "handles w = ?H Hitl_Repository \<union> (?H Grant_Repository \<union> (?H Idempotency_Repository \<union> ?H Checkpoint_Repository))"
    unfolding handles_def
  proof (intro set_eqI iffI)
    fix c assume "c \<in> {c. \<exists>r. cw_handles w r = Some c}"
    then obtain r where "cw_handles w r = Some c" by blast
    then show "c \<in> ?H Hitl_Repository \<union> (?H Grant_Repository \<union> (?H Idempotency_Repository \<union> ?H Checkpoint_Repository))"
      by (cases r) auto
  qed (auto split: option.splits)
  also have "card \<dots> \<le> 1 + (1 + (1 + 1))"
    by (intro order.trans [OF card_Un_le] add_mono one)
  finally show ?thesis by simp
qed

lemma handles_finite: "finite (handles w)"
proof (rule finite_surj)
  show "finite (UNIV :: repository set)"
    by (rule finite_subset [of _ "{Hitl_Repository, Grant_Repository, Idempotency_Repository, Checkpoint_Repository}"])
      (auto intro: repository.exhaust)
  show "handles w \<subseteq> (\<lambda>r. the (cw_handles w r)) ` UNIV" by (auto simp: handles_def image_iff, metis option.sel)
qed

section \<open>Properties\<close>



text \<open>A repository is not told that all connections were closed: it keeps its handle, and each of its
  calls fails from then on, until it is itself closed.\<close>

theorem stale_after_close_all:
  assumes "conn_ok w" "cw_handles w r = Some c"
  shows "use_repository r (close_all_connections w) = (Inl connection_closed, close_all_connections w)"
    and "cw_handles (close_repository r (close_all_connections w)) r = None"
  using assms by (auto simp: use_repository_def ensure_connected_def close_all_connections_def close_many conn_ok_def
      close_repository_def)

text \<open>A closed connection stays in the list: each reopening adds an entry that only \<open>close_all_connections\<close>
  removes.\<close>

lemma reopening_tracks_again:
  assumes "cw_handles w r = None"
  shows "length (cw_tracked (close_repository r (snd (use_repository r w)))) = Suc (length (cw_tracked w))"
    and "cw_handles (close_repository r (snd (use_repository r w))) r = None"
  using assms by (auto simp: use_state ensure_connected_def open_database_def close_repository_def Let_def case_prod_beta
      split: sum.splits option.splits)

fun reopen :: "nat \<Rightarrow> repository \<Rightarrow> conn_world \<Rightarrow> conn_world" where
  "reopen 0 r w = w"
| "reopen (Suc n) r w = reopen n r (close_repository r (snd (use_repository r w)))"

theorem tracked_connections_grow:
  "cw_handles w r = None \<Longrightarrow> length (cw_tracked (reopen n r w)) = length (cw_tracked w) + n"
  by (induction n arbitrary: w) (simp_all add: reopening_tracks_again)

text \<open>On a half-migrated file no repository gets a connection, and none is left open.\<close>

lemma half_migrated_unusable:
  assumes "cw_handles w r = None" "db_tx (cw_file w) = None"
    and "current_version (db_disk (cw_file w)) < 4 \<and> has_column ''hitl_sessions'' ''tool_call_id'' (db_disk (cw_file w))
      \<or> current_version (db_disk (cw_file w)) < 3 \<and> db_disk (cw_file w) grants_v3 \<noteq> None"
  shows "isl (fst (use_repository r w))" "cw_handles (snd (use_repository r w)) r = None"
    "set (cw_open (snd (use_repository r w))) \<subseteq> set (cw_open w)"
proof -
  note never = half_migrated_never_opens [OF assms(2,3)]
  show "isl (fst (use_repository r w))" "cw_handles (snd (use_repository r w)) r = None"
    "set (cw_open (snd (use_repository r w))) \<subseteq> set (cw_open w)"
    by (cases rule: ensure_connected_cases [of w r];
        use assms(1) never in \<open>auto simp: use_repository_def case_prod_beta split: sum.splits\<close>)+
qed

end
