(* ===== verification/Spec2Isabelle.thy ===== *)
theory Spec2Isabelle
  imports Lifecycle Reliability Checkpoint Oidc Audit_Chain Redaction Memory Schema_Link Resume_Service
    Sandbox Operations Red_Team Dev_Eval Benchmark Postgres Evidence Status_Machines Store_Rows Connections
begin

text \<open>
  \<^bold>\<open>A verification development of the enterprise banking agent\<close> (\<open>src/src/fxfill_banking_agent\<close>).

  \<^bold>\<open>The program.\<close> An HTTP service takes a user's message, classifies it and routes it to one of five
  paths: a direct read-only tool call, a retrieval answer, a planned sequence of steps, a transfer
  workflow, or a rejection; the general path is a LangGraph loop in which a language model proposes
  tool calls. Each proposed call is validated against a registry, put to an authorization gateway,
  suspended for a human when the policy says so, guarded by a durable idempotency record, and sent
  through an MCP client to the banking tools, which act on an in-memory bank. An approval executor
  runs a suspended call once a trusted actor approves it. Sessions, grants, idempotency records,
  events and checkpoints are in SQLite tables created by versioned migrations.

  \<^bold>\<open>The theories, from the bottom up.\<close>

  \<^item> \<open>Prelude\<close>: Python strings and dictionaries, table rows with guarded updates, and the shared
    interfaces: \<open>dictionary\<close>, \<open>guarded_update\<close> and \<open>compare_and_set\<close> (a conditional \<open>UPDATE\<close> that
    one of several callers wins), histories with one winner, and \<open>simulates\<close> (a detailed system
    that gives the answers of an abstract one). \<open>Pyfloat\<close>: IEEE doubles with their rounding.
    \<open>Json\<close>: values, exceptions as the sum type \<open>pyexn + 'a\<close>, the parts of the standard library
    in \<open>pylib\<close>.
  \<^item> \<open>Banking\<close> (\<open>banking/repository.py\<close> and its models, policy, fixtures) and \<open>Banking_Tools\<close>
    (\<open>banking/tools.py\<close>, \<open>mcp_server.py\<close>, \<open>mcp/client.py\<close>, \<open>mcp_client.py\<close>): accounts, drafts,
    submission and cancellation; the nine tools. Shown: a key is debited at most once, balances
    stay non-negative under rounding, users are isolated, final drafts stay final, the exact
    condition of a submission, and that the risk classes are sound for what the tools do.
  \<^item> \<open>Auth\<close> (\<open>auth.py\<close>), \<open>Security\<close> (\<open>iam.py\<close>, \<open>security/\<close>, \<open>auth_middleware.py\<close>), \<open>Oidc\<close>
    (\<open>security/oidc.py\<close>): the gateway with its four policies and single-use grants, tenants and
    roles, token verification.
  \<^item> \<open>Idempotency\<close>, \<open>Hitl_Store\<close>, \<open>Grant_Repo\<close>, \<open>Event_Store\<close>: the SQLite repositories, each statement
    an operation on rows; at most one caller wins each transition, in every interleaving.
    \<open>Database\<close> (\<open>db.py\<close>): the migrations as lists of SQL statements with their effect on disk;
    \<open>Schema_Link\<close>: the created tables enforce exactly the constraints the repositories rely on.
    \<open>Store_Rows\<close>: what the repositories read back from the rows SQLite returns, through the locale
    \<open>stored_codec\<close>: over the created tables each reading method gives what its model gives on
    records. \<open>Connections\<close>: the connection each repository keeps and the list \<open>db.py\<close> tracks them in.
    \<open>Status_Machines\<close>: the rules by which drafts, grants, idempotency records and approval sessions
    change status, as step relations whose closures are orders; the locale \<open>status_machine\<close>,
    interpreted on the four stores, gives the life of every record in every history.
    \<open>Checkpoint\<close> with \<open>Base64\<close> (\<open>checkpoint_store.py\<close>): a refinement of a map from threads to
    checkpoints.
  \<^item> \<open>Tool_Registry\<close> (\<open>tools/\<close>), \<open>Graph\<close> (\<open>graph.py\<close>, \<open>state.py\<close>): validation, the two nodes, the
    superstep loop, interrupts. Shown: the loop ends, nothing is written before a human answers,
    settled keys are not dispatched; the locale \<open>read_safe_backend\<close> is the contract with the
    backend, interpreted on the deployed bank.
  \<^item> \<open>Approval\<close> (\<open>approval_executor.py\<close>, \<open>actor_resolver.py\<close>), \<open>Routing\<close> (\<open>routing/\<close>), \<open>Plan\<close>
    (\<open>orchestration/\<close>), \<open>Rag\<close> (\<open>rag/\<close>), and over them \<open>Runtime\<close> (\<open>agent.py\<close>, the approval endpoint):
    whatever is dispatched on approval is the granted call, a session dispatches once, the plan
    validator accepts exactly the acyclic plans, and, for the deployed composition, no route
    changes the bank. \<open>Resume_Service\<close> (\<open>resume_service.py\<close>) runs the graph once more.
  \<^item> \<open>Provider\<close> (\<open>providers/\<close>, \<open>llm.py\<close>): requests, retries, parsing; the number of posts of a run is
    bounded, through the locale \<open>metered_model\<close>. \<open>Reliability\<close>: the circuit breaker refines an
    outage protocol.
  \<^item> \<open>Api\<close> (the endpoints and the rate limiter of \<open>api.py\<close>), \<open>Threads\<close> (\<open>conversation_service.py\<close>),
    \<open>Config\<close>, \<open>Lifecycle\<close> (\<open>bootstrap.py\<close>, \<open>lifecycle.py\<close>, \<open>server.py\<close>, \<open>runtime_factory.py\<close>): start-up with
    rollback and shutdown. \<open>Http_Service\<close>: the routes and request schemas of \<open>create_app\<close> behind the
    stack of rate limiter, telemetry (\<open>telemetry.py\<close>) and authentication, each a function of the rest
    of the stack; the locale \<open>middleware\<close> is their contract. On it rest the properties of the whole
    service: in the deployed composition no history of HTTP requests, approvals included, calls
    anything but read-only tools; a direct call acts for the user of the headers; the rate is kept.
    \<open>Red_Team\<close> (\<open>ai_security.py\<close>) posts the red-team corpus to that service, \<open>Dev_Eval\<close> runs the
    built-in evaluation cases on the runtime.
  \<^item> \<open>Audit_Chain\<close>, \<open>Redaction\<close>, \<open>Memory\<close>, \<open>Assets\<close> (governance and prompts), \<open>Operations\<close> (metrics, kill
    switch, drift, model router, error messages, key-value store), \<open>Eval_Runner\<close>, \<open>Upstream\<close>, \<open>Benchmark\<close>
    (\<open>scripts/run_benchmark.py\<close>), \<open>Postgres\<close>, \<open>Evidence\<close> and \<open>Sandbox\<close> (\<open>src/adapters\<close>): the supporting
    components.

  \<^bold>\<open>State.\<close> An object is a record, an enumeration a datatype, a dictionary that is iterated an
  association list in insertion order, a table the list of its rows. A handler returns its result
  together with the new state; an exception is a value of \<open>pyexn\<close>, and the state at the time of the
  exception is kept. Concurrent clients are sequences of calls: each SQL statement and each
  call on an in-memory object is atomic, as on the single event loop of the program.

  \<^bold>\<open>Bounds.\<close> The graph loop takes LangGraph's recursion limit as its fuel; running out is LangGraph's
  own error and a value of the model, and \<open>graph_run_ends\<close> says which limit excludes it. The
  depth-first search of the plan validator carries Python's recursion limit in the same way. Plan
  and provider retries recurse on the number of attempts left. Everything else is structural
  recursion, so every operation is total.

  \<^bold>\<open>Parameters.\<close> What is not in the repository is an argument: the language model, the clock, fresh
  identifiers, SHA-256, JSON text, the reading of time texts, the order in which Python iterates a
  set, the HTTP transport, PyJWT, asyncpg, git, LangGraph's serializer, the \<open>AIMessage\<close> constructor,
  the framework's own answers to unknown routes and invalid bodies, environment variables.
  Suspended graph states are kept per thread with the answers given so far, as
  LangGraph's in-memory saver does.

  \<^bold>\<open>Limits of the model.\<close> Text is ASCII: letters beyond it are neither lower-cased nor stripped, and a
  dash in a message of the program is written as two hyphens. Times are integers (microseconds).
  Log output is left out, and so are the calls of the runtime on its metrics collector; the
  collector and the steps the graph reports to it are modelled in \<open>Operations\<close>, where a run that has the
  collector to itself is shown to finish and runs that share it are shown to fail.

  \<^bold>\<open>Not modelled.\<close> The frameworks (FastAPI, Starlette with its CORS middleware, uvicorn, httpx, aiosqlite,
  LangGraph beyond the loop); \<open>configure_logging\<close>, which only hands options to structlog; the exception
  class of \<open>hitl_signal.py\<close> and the protocol classes without bodies, which nothing executes; printing
  and the parsing of the command line in \<open>scripts/run_benchmark.py\<close>; PRAGMAs and the file system.
\<close>

end
